(* ===== verification/Prelude.thy ===== *)
theory Prelude
  imports Main "HOL-Library.Char_ord"
begin

text \<open>
  Shared vocabulary of the development.

  \<^item> \<open>act\<close>: a Go method that reads and writes a state and may return an \<open>error\<close> is an action
    \<open>'s \<Rightarrow> ('e + 'a) \<times> 's\<close>; \<open>Inl\<close> is a non-nil error, \<open>Inr\<close> the values returned with a nil error.
    \<open>andThen\<close> is \<open>x, err := m(); if err != nil { return err }; f(x)\<close>.
  \<^item> \<open>preserves\<close> and \<open>yields\<close>: a small proof layer over actions. Rules for the combinators are in
    the collection \<open>act_rules\<close>.
  \<^item> Go strings and byte slices are \<open>string\<close>: a \<open>char\<close> is one byte (0..255), so \<open>length\<close> is Go's
    \<open>len\<close>.
\<close>

named_theorems act_rules \<open>rules that push preserves/yields through the combinators\<close>
named_theorems act_defs \<open>definitions of the combinators, for evaluation\<close>

section \<open>Actions\<close>

type_synonym ('s, 'e, 'a) act = "'s \<Rightarrow> ('e + 'a) \<times> 's"

definition ret :: "'a \<Rightarrow> ('s, 'e, 'a) act" where
  [act_defs]: "ret x = (\<lambda>s. (Inr x, s))"

definition throw :: "'e \<Rightarrow> ('s, 'e, 'a) act" where
  [act_defs]: "throw e = (\<lambda>s. (Inl e, s))"

definition andThen :: "('s, 'e, 'a) act \<Rightarrow> ('a \<Rightarrow> ('s, 'e, 'b) act) \<Rightarrow> ('s, 'e, 'b) act" where
  [act_defs]: "andThen m f = (\<lambda>s. case m s of (Inl e, s') \<Rightarrow> (Inl e, s') | (Inr x, s') \<Rightarrow> f x s')"

text \<open>\<open>attempt m\<close> hands the error to the caller as a value: \<open>x, err := m()\<close> with \<open>err\<close> inspected.\<close>

definition attempt :: "('s, 'e, 'a) act \<Rightarrow> ('s, 'f, 'e + 'a) act" where
  [act_defs]: "attempt m = (\<lambda>s. case m s of (r, s') \<Rightarrow> (Inr r, s'))"

definition mapErr :: "('e \<Rightarrow> 'f) \<Rightarrow> ('s, 'e, 'a) act \<Rightarrow> ('s, 'f, 'a) act" where
  [act_defs]: "mapErr g m = (\<lambda>s. case m s of (Inl e, s') \<Rightarrow> (Inl (g e), s') | (Inr x, s') \<Rightarrow> (Inr x, s'))"

text \<open>An action on a part of the state, run on the whole.\<close>

definition within :: "('w \<Rightarrow> 's) \<Rightarrow> ('s \<Rightarrow> 'w \<Rightarrow> 'w) \<Rightarrow> ('s, 'e, 'a) act \<Rightarrow> ('w, 'e, 'a) act" where
  [act_defs]: "within get put m = (\<lambda>w. case m (get w) of (r, s') \<Rightarrow> (r, put s' w))"

lemma ret_apply [simp]: "ret x s = (Inr x, s)"
  by (simp add: ret_def)

lemma throw_apply [simp]: "throw e s = (Inl e, s)"
  by (simp add: throw_def)

lemma andThen_Inl: "m s = (Inl e, s') \<Longrightarrow> andThen m f s = (Inl e, s')"
  by (simp add: andThen_def)

lemma andThen_Inr: "m s = (Inr x, s') \<Longrightarrow> andThen m f s = f x s'"
  by (simp add: andThen_def)

lemma andThen_Inr_E:
  assumes "andThen m f s = (Inr y, t)"
  obtains x s' where "m s = (Inr x, s')" and "f x s' = (Inr y, t)"
  using assms by (auto simp: andThen_def split: prod.splits sum.splits)

lemma andThen_ret [simp]: "andThen (ret x) f = f x"
  by (simp add: andThen_def fun_eq_iff)

lemma andThen_throw [simp]: "andThen (throw e) f = throw e"
  by (simp add: andThen_def fun_eq_iff)

lemma attempt_apply: "attempt m s = (Inr (fst (m s)), snd (m s))"
  by (simp add: attempt_def split: prod.splits)

subsection \<open>Preservation and results\<close>

definition preserves :: "('s \<Rightarrow> bool) \<Rightarrow> ('s, 'e, 'a) act \<Rightarrow> bool" where
  "preserves I m \<longleftrightarrow> (\<forall>s. I s \<longrightarrow> I (snd (m s)))"

definition yields :: "('s \<Rightarrow> bool) \<Rightarrow> ('s, 'e, 'a) act \<Rightarrow> ('a \<Rightarrow> 's \<Rightarrow> bool) \<Rightarrow> bool" where
  "yields P m Q \<longleftrightarrow> (\<forall>s. P s \<longrightarrow> (case m s of (Inl e, s') \<Rightarrow> True | (Inr x, s') \<Rightarrow> Q x s'))"

lemma preservesI: "(\<And>s r t. I s \<Longrightarrow> m s = (r, t) \<Longrightarrow> I t) \<Longrightarrow> preserves I m"
  by (metis preserves_def prod.collapse)

lemma preservesD: "preserves I m \<Longrightarrow> I s \<Longrightarrow> m s = (r, t) \<Longrightarrow> I t"
  by (metis preserves_def snd_conv)

lemma preserves_snd: "preserves I m \<Longrightarrow> I s \<Longrightarrow> I (snd (m s))"
  by (simp add: preserves_def)

lemma yieldsD: "yields P m Q \<Longrightarrow> P s \<Longrightarrow> m s = (Inr x, t) \<Longrightarrow> Q x t"
  by (force simp: yields_def)

lemma yieldsI: "(\<And>s x t. P s \<Longrightarrow> m s = (Inr x, t) \<Longrightarrow> Q x t) \<Longrightarrow> yields P m Q"
  by (auto simp: yields_def split: prod.splits sum.splits)

lemma yields_pre: "yields P m Q \<Longrightarrow> (\<And>s. P' s \<Longrightarrow> P s) \<Longrightarrow> yields P' m Q"
  by (simp add: yields_def)

lemma preserves_ret [act_rules]: "preserves I (ret x)"
  by (simp add: preserves_def)

lemma preserves_throw [act_rules]: "preserves I (throw e)"
  by (simp add: preserves_def)

lemma preserves_andThen [act_rules]:
  "preserves I m \<Longrightarrow> (\<And>x. preserves I (f x)) \<Longrightarrow> preserves I (andThen m f)"
  unfolding preserves_def andThen_def
  by (auto split: prod.splits sum.splits)

lemma preserves_attempt [act_rules]: "preserves I m \<Longrightarrow> preserves I (attempt m)"
  by (simp add: preserves_def attempt_apply)

lemma preserves_mapErr [act_rules]: "preserves I m \<Longrightarrow> preserves I (mapErr g m)"
  unfolding preserves_def mapErr_def
  by (auto split: prod.splits sum.splits)

lemma preserves_within [act_rules]:
  "preserves I m \<Longrightarrow> (\<And>s w. get (put s w) = s) \<Longrightarrow> preserves (\<lambda>w. I (get w)) (within get put m)"
  by (auto simp: preserves_def within_def split: prod.splits)

lemma preserves_if [act_rules]:
  "(b \<Longrightarrow> preserves I m) \<Longrightarrow> (\<not> b \<Longrightarrow> preserves I n) \<Longrightarrow> preserves I (if b then m else n)"
  by simp

lemma preserves_option [act_rules]:
  "(x = None \<Longrightarrow> preserves I m) \<Longrightarrow> (\<And>y. x = Some y \<Longrightarrow> preserves I (f y)) \<Longrightarrow>
   preserves I (case x of None \<Rightarrow> m | Some y \<Rightarrow> f y)"
  by (cases x) auto

lemma preserves_sum [act_rules]:
  "(\<And>e. x = Inl e \<Longrightarrow> preserves I (f e)) \<Longrightarrow> (\<And>y. x = Inr y \<Longrightarrow> preserves I (g y)) \<Longrightarrow>
   preserves I (case x of Inl e \<Rightarrow> f e | Inr y \<Rightarrow> g y)"
  by (cases x) auto

lemma preserves_prod [act_rules]:
  "(\<And>y z. x = (y, z) \<Longrightarrow> preserves I (f y z)) \<Longrightarrow> preserves I (case x of (y, z) \<Rightarrow> f y z)"
  by (cases x) auto

lemma preserves_Let [act_rules]: "preserves I (f x) \<Longrightarrow> preserves I (let y = x in f y)"
  by simp

section \<open>Go strings\<close>

abbreviation byte :: "char \<Rightarrow> nat" where
  "byte c \<equiv> of_char c"

text \<open>\<open>strings.Split(s, sep)\<close> for a one-byte separator: never empty.\<close>

fun split_on :: "char \<Rightarrow> string \<Rightarrow> string list" where
  "split_on c [] = [[]]"
| "split_on c (x # xs) =
     (if x = c then [] # split_on c xs
      else (case split_on c xs of [] \<Rightarrow> [[x]] | p # ps \<Rightarrow> (x # p) # ps))"

text \<open>\<open>strings.Join\<close> with a one-byte separator.\<close>

fun join_with :: "char \<Rightarrow> string list \<Rightarrow> string" where
  "join_with c [] = []"
| "join_with c [p] = p"
| "join_with c (p # ps) = p @ c # join_with c ps"

lemma split_on_ne [simp]: "split_on c s \<noteq> []"
  by (cases s) (auto split: list.splits)

lemma split_on_no_sep: "c \<notin> set s \<Longrightarrow> split_on c s = [s]"
  by (induction s) auto

lemma split_on_append: "c \<notin> set a \<Longrightarrow> split_on c (a @ c # b) = a # split_on c b"
  by (induction a) auto

lemma split_on_parts: "p \<in> set (split_on c s) \<Longrightarrow> c \<notin> set p"
proof (induction s arbitrary: p)
  case (Cons x xs)
  then show ?case
    by (cases "split_on c xs") (auto split: if_splits)
qed simp

lemma join_split: "join_with c (split_on c s) = s"
proof (induction s)
  case (Cons x xs)
  show ?case
  proof (cases "split_on c xs")
    case (Cons p ps)
    with Cons.IH show ?thesis by (cases ps) auto
  qed simp
qed simp

lemma split_on_two: "split_on c s = [a, b] \<longleftrightarrow> s = a @ c # b \<and> c \<notin> set a \<and> c \<notin> set b"
proof
  assume "split_on c s = [a, b]"
  then show "s = a @ c # b \<and> c \<notin> set a \<and> c \<notin> set b"
    using join_split [of c s] split_on_parts [of _ c s] by auto
qed (simp add: split_on_append split_on_no_sep)

lemma join_with_set: "p \<in> set ps \<Longrightarrow> set p \<subseteq> set (join_with c ps)"
  by (induction c ps rule: join_with.induct) auto

lemma split_on_in_set: "p \<in> set (split_on c s) \<Longrightarrow> set p \<subseteq> set s"
  using join_with_set [of p "split_on c s" c] by (simp add: join_split)

text \<open>\<open>strings.TrimSpace\<close>: the ASCII spaces and the UTF-8 encodings of the other runes with
  Unicode's White\_Space property.\<close>

definition ascii_space :: "char \<Rightarrow> bool" where
  "ascii_space c \<longleftrightarrow> byte c \<in> {9, 10, 11, 12, 13, 32}"

definition wide_space2 :: "char \<Rightarrow> char \<Rightarrow> bool" where
  "wide_space2 a b \<longleftrightarrow> byte a = 0xC2 \<and> byte b \<in> {0x85, 0xA0}"

definition wide_space3 :: "char \<Rightarrow> char \<Rightarrow> char \<Rightarrow> bool" where
  "wide_space3 a b c \<longleftrightarrow>
     (byte a, byte b, byte c) \<in> {(0xE1, 0x9A, 0x80), (0xE2, 0x81, 0x9F), (0xE3, 0x80, 0x80)}
     \<or> byte a = 0xE2 \<and> byte b = 0x80
        \<and> (0x80 \<le> byte c \<and> byte c \<le> 0x8A \<or> byte c \<in> {0xA8, 0xA9, 0xAF})"

fun trim_left :: "string \<Rightarrow> string" where
  "trim_left (a # b # c # s) =
     (if ascii_space a then trim_left (b # c # s)
      else if wide_space2 a b then trim_left (c # s)
      else if wide_space3 a b c then trim_left s else a # b # c # s)"
| "trim_left [a, b] = (if ascii_space a then trim_left [b] else if wide_space2 a b then [] else [a, b])"
| "trim_left [a] = (if ascii_space a then [] else [a])"
| "trim_left [] = []"

text \<open>The same from the right end, on the reversed bytes.\<close>

fun trim_right_rev :: "string \<Rightarrow> string" where
  "trim_right_rev (c # b # a # s) =
     (if ascii_space c then trim_right_rev (b # a # s)
      else if wide_space2 b c then trim_right_rev (a # s)
      else if wide_space3 a b c then trim_right_rev s else c # b # a # s)"
| "trim_right_rev [b, a] = (if ascii_space b then trim_right_rev [a] else if wide_space2 a b then [] else [b, a])"
| "trim_right_rev [a] = (if ascii_space a then [] else [a])"
| "trim_right_rev [] = []"

definition TrimSpace :: "string \<Rightarrow> string" where
  "TrimSpace s = rev (trim_right_rev (rev (trim_left s)))"

lemma TrimSpace_Nil [simp]: "TrimSpace [] = []"
  by (simp add: TrimSpace_def)

lemma trim_left_set: "set (trim_left s) \<subseteq> set s"
  by (induction s rule: trim_left.induct) auto

lemma trim_right_rev_set: "set (trim_right_rev s) \<subseteq> set s"
  by (induction s rule: trim_right_rev.induct) auto

lemma TrimSpace_set: "set (TrimSpace s) \<subseteq> set s"
proof -
  have "set (trim_right_rev (rev (trim_left s))) \<subseteq> set (trim_left s)"
    using trim_right_rev_set [of "rev (trim_left s)"] by simp
  then show ?thesis using trim_left_set [of s] by (auto simp: TrimSpace_def)
qed

text \<open>\<open>strings.TrimSuffix(s, suf)\<close>, \<open>strings.HasPrefix\<close>, \<open>strings.Contains\<close>.\<close>

definition HasSuffix :: "string \<Rightarrow> string \<Rightarrow> bool" where
  "HasSuffix s suf \<longleftrightarrow> length suf \<le> length s \<and> drop (length s - length suf) s = suf"

definition TrimSuffix :: "string \<Rightarrow> string \<Rightarrow> string" where
  "TrimSuffix s suf = (if HasSuffix s suf then take (length s - length suf) s else s)"

definition HasPrefix :: "string \<Rightarrow> string \<Rightarrow> bool" where
  "HasPrefix s p \<longleftrightarrow> take (length p) s = p"

fun Contains :: "string \<Rightarrow> string \<Rightarrow> bool" where
  "Contains [] sub \<longleftrightarrow> sub = []"
| "Contains (x # xs) sub \<longleftrightarrow> HasPrefix (x # xs) sub \<or> Contains xs sub"

text \<open>ASCII case mapping; \<open>strings.ToLower\<close> uses it whenever every byte is ASCII.\<close>

definition is_ascii :: "char \<Rightarrow> bool" where
  "is_ascii c \<longleftrightarrow> byte c < 128"

definition ascii_lower :: "char \<Rightarrow> char" where
  "ascii_lower c = (if 65 \<le> byte c \<and> byte c \<le> 90 then char_of (byte c + 32) else c)"

definition is_digit :: "char \<Rightarrow> bool" where
  "is_digit c \<longleftrightarrow> 48 \<le> byte c \<and> byte c \<le> 57"

definition is_lower :: "char \<Rightarrow> bool" where
  "is_lower c \<longleftrightarrow> 97 \<le> byte c \<and> byte c \<le> 122"

definition is_upper :: "char \<Rightarrow> bool" where
  "is_upper c \<longleftrightarrow> 65 \<le> byte c \<and> byte c \<le> 90"

text \<open>Decimal rendering of an integer: \<open>fmt.Sprint\<close> and the \<open>%d\<close> verb.\<close>

fun show_nat :: "nat \<Rightarrow> string" where
  "show_nat n = (if n < 10 then [char_of (48 + n)] else show_nat (n div 10) @ [char_of (48 + n mod 10)])"

declare show_nat.simps [simp del]

definition show_int :: "int \<Rightarrow> string" where
  "show_int i = (if i < 0 then CHR ''-'' # show_nat (nat (- i)) else show_nat (nat i))"

end
