(* ===== verification/Base64.thy ===== *)
theory Base64
  imports Prelude
begin

text \<open>
  \<open>encoding/base64\<close>, as far as the control plane uses it: \<open>RawURLEncoding\<close> (cookies, tokens,
  sealed settings, the generated workspace password), \<open>RawStdEncoding\<close> (password hashes) and
  \<open>StdEncoding\<close> (Basic credentials, keys from the environment). A decoder skips carriage returns
  and line feeds, as Go's does, and ignores the unused low bits of a final partial quantum.
  \<open>RawEncode\<close>/\<open>RawDecode\<close> take the alphabet; the round trip holds for any alphabet of 64
  distinct characters without line breaks.
\<close>

definition std_alphabet :: string where
  "std_alphabet = ''ABCDEFGHIJKLMNOPQRSTUVWXYZabcdefghijklmnopqrstuvwxyz0123456789+/''"

definition url_alphabet :: string where
  "url_alphabet = ''ABCDEFGHIJKLMNOPQRSTUVWXYZabcdefghijklmnopqrstuvwxyz0123456789-_''"

fun index_of :: "'a \<Rightarrow> 'a list \<Rightarrow> nat option" where
  "index_of x [] = None"
| "index_of x (y # ys) = (if x = y then Some 0 else map_option Suc (index_of x ys))"

definition line_break :: "char \<Rightarrow> bool" where
  "line_break c \<longleftrightarrow> byte c = 10 \<or> byte c = 13"

fun RawEncode :: "string \<Rightarrow> string \<Rightarrow> string" where
  "RawEncode al (a # b # c # r) =
     al ! (byte a div 4) # al ! (byte a mod 4 * 16 + byte b div 16)
     # al ! (byte b mod 16 * 4 + byte c div 64) # al ! (byte c mod 64) # RawEncode al r"
| "RawEncode al [a, b] =
     [al ! (byte a div 4), al ! (byte a mod 4 * 16 + byte b div 16), al ! (byte b mod 16 * 4)]"
| "RawEncode al [a] = [al ! (byte a div 4), al ! (byte a mod 4 * 16)]"
| "RawEncode al [] = []"

definition byte1 :: "nat \<Rightarrow> nat \<Rightarrow> char" where
  "byte1 x y = char_of (x * 4 + y div 16)"

definition byte2 :: "nat \<Rightarrow> nat \<Rightarrow> char" where
  "byte2 y z = char_of (y mod 16 * 16 + z div 4)"

definition byte3 :: "nat \<Rightarrow> nat \<Rightarrow> char" where
  "byte3 z w = char_of (z mod 4 * 64 + w)"

fun decode_quanta :: "string \<Rightarrow> string \<Rightarrow> string option" where
  "decode_quanta al (a # b # c # d # r) =
     (case (index_of a al, index_of b al, index_of c al, index_of d al) of
        (Some x, Some y, Some z, Some w) \<Rightarrow>
          map_option (\<lambda>t. byte1 x y # byte2 y z # byte3 z w # t) (decode_quanta al r)
      | _ \<Rightarrow> None)"
| "decode_quanta al [a, b, c] =
     (case (index_of a al, index_of b al, index_of c al) of
        (Some x, Some y, Some z) \<Rightarrow> Some [byte1 x y, byte2 y z]
      | _ \<Rightarrow> None)"
| "decode_quanta al [a, b] =
     (case (index_of a al, index_of b al) of
        (Some x, Some y) \<Rightarrow> Some [byte1 x y]
      | _ \<Rightarrow> None)"
| "decode_quanta al [a] = None"
| "decode_quanta al [] = Some []"

definition RawDecode :: "string \<Rightarrow> string \<Rightarrow> string option" where
  "RawDecode al s = decode_quanta al (filter (\<lambda>c. \<not> line_break c) s)"

text \<open>The padded variant: \<open>=\<close> completes the last quantum and nothing may follow it.\<close>

fun pad_tail :: "string \<Rightarrow> string" where
  "pad_tail [a, b] = ''==''"
| "pad_tail [a, b, c] = ''=''"
| "pad_tail (a # b # c # d # r) = pad_tail r"
| "pad_tail _ = []"

definition StdEncode :: "string \<Rightarrow> string" where
  "StdEncode s = RawEncode std_alphabet s @ pad_tail (RawEncode std_alphabet s)"

fun decode_padded :: "string \<Rightarrow> string \<Rightarrow> string option" where
  "decode_padded al [] = Some []"
| "decode_padded al (a # b # c # d # r) =
     (if c = CHR ''='' then (if d = CHR ''='' \<and> r = [] then decode_quanta al [a, b] else None)
      else if d = CHR ''='' then (if r = [] then decode_quanta al [a, b, c] else None)
      else (case (decode_quanta al [a, b, c, d], decode_padded al r) of
              (Some p, Some q) \<Rightarrow> Some (p @ q) | _ \<Rightarrow> None))"
| "decode_padded al _ = None"

definition StdDecode :: "string \<Rightarrow> string option" where
  "StdDecode s = decode_padded std_alphabet (filter (\<lambda>c. \<not> line_break c) s)"

section \<open>Round trip\<close>

definition good_alphabet :: "string \<Rightarrow> bool" where
  "good_alphabet al \<longleftrightarrow> length al = 64 \<and> distinct al \<and> (\<forall>c \<in> set al. \<not> line_break c)"

lemma good_std [simp]: "good_alphabet std_alphabet"
  by (simp add: good_alphabet_def std_alphabet_def line_break_def)

lemma good_url [simp]: "good_alphabet url_alphabet"
  by (simp add: good_alphabet_def url_alphabet_def line_break_def)

lemma index_of_nth: "distinct xs \<Longrightarrow> n < length xs \<Longrightarrow> index_of (xs ! n) xs = Some n"
proof (induction xs arbitrary: n)
  case (Cons x xs)
  show ?case
  proof (cases n)
    case (Suc m)
    with Cons.prems have "xs ! m \<in> set xs" and "x \<notin> set xs" by auto
    with Suc Cons show ?thesis by auto
  qed simp
qed simp

lemma byte_lt [simp]: "byte c < 256"
  using of_char_mod_256 [of c, where ?'a = nat] by (metis mod_less_divisor zero_less_numeral)

lemma byte_div4: "byte c div 4 < 64"
  using byte_lt [of c] by linarith

lemma byte_div16: "byte c div 16 < 16"
  using byte_lt [of c] by linarith

lemma byte_div64: "byte c div 64 < 4"
  using byte_lt [of c] by linarith

lemma quantum_bounds:
  "byte a mod 4 * 16 < 64" "byte a mod 4 * 16 + byte b div 16 < 64"
  "byte b mod 16 * 4 < 64" "byte b mod 16 * 4 + byte c div 64 < 64"
  using byte_div16 [of b] byte_div64 [of c]
    mod_less_divisor [of 4 "byte a"] mod_less_divisor [of 16 "byte b"]
  by linarith+

lemma byte1_join: "byte1 (byte a div 4) (byte a mod 4 * 16 + y) = a" if "y < 16"
proof -
  have "byte a div 4 * 4 + (byte a mod 4 * 16 + y) div 16 = byte a"
    using that by simp
  then show ?thesis by (simp only: byte1_def char_of_char)
qed

lemma byte2_join: "byte2 (x * 16 + byte b div 16) (byte b mod 16 * 4 + z) = b" if "z < 4"
proof -
  have "(x * 16 + byte b div 16) mod 16 = byte b div 16"
    using byte_div16 [of b] by simp
  moreover have "(byte b mod 16 * 4 + z) div 4 = byte b mod 16"
    using that by simp
  ultimately show ?thesis by (simp only: byte2_def div_mult_mod_eq char_of_char)
qed

lemma byte3_join: "byte3 (x * 4 + byte c div 64) (byte c mod 64) = c"
proof -
  have "(x * 4 + byte c div 64) mod 4 = byte c div 64"
    using byte_div64 [of c] by simp
  then show ?thesis by (simp only: byte3_def div_mult_mod_eq char_of_char)
qed

lemmas quantum_joins = byte1_join byte2_join byte3_join byte1_join [of 0, simplified]
  byte2_join [of 0, simplified]

lemma decode_encode_quanta:
  assumes "length al = 64" "distinct al"
  shows "decode_quanta al (RawEncode al s) = Some s"
  using assms
  by (induction al s rule: RawEncode.induct)
    (simp_all add: index_of_nth byte_div4 byte_div16 byte_div64 quantum_bounds quantum_joins)

lemma RawEncode_chars: "length al = 64 \<Longrightarrow> set (RawEncode al s) \<subseteq> set al"
  by (induction al s rule: RawEncode.induct)
    (auto simp: byte_div4 quantum_bounds intro!: nth_mem)

lemma RawDecode_RawEncode:
  assumes "good_alphabet al"
  shows "RawDecode al (RawEncode al s) = Some s"
proof -
  have "set (RawEncode al s) \<subseteq> set al"
    using assms RawEncode_chars [of al s] by (simp add: good_alphabet_def)
  then have "filter (\<lambda>c. \<not> line_break c) (RawEncode al s) = RawEncode al s"
    using assms by (auto simp: good_alphabet_def intro!: filter_True)
  then show ?thesis
    using assms by (simp add: RawDecode_def good_alphabet_def decode_encode_quanta)
qed

lemma RawEncode_inj: "good_alphabet al \<Longrightarrow> RawEncode al s = RawEncode al t \<longleftrightarrow> s = t"
  by (metis RawDecode_RawEncode option.inject)

lemma url_chars: "set (RawEncode url_alphabet s) \<subseteq> set url_alphabet"
  by (rule RawEncode_chars) (simp add: url_alphabet_def)

lemma std_chars: "set (RawEncode std_alphabet s) \<subseteq> set std_alphabet"
  by (rule RawEncode_chars) (simp add: std_alphabet_def)

lemma url_no_dot: "CHR ''.'' \<notin> set (RawEncode url_alphabet s)"
  using url_chars [of s] by (auto simp: url_alphabet_def)

lemma std_no_dollar: "CHR ''$'' \<notin> set (RawEncode std_alphabet s)"
  using std_chars [of s] by (auto simp: std_alphabet_def)

lemma alphabet_nth: "length al = 64 \<Longrightarrow> CHR ''='' \<notin> set al \<Longrightarrow> n < 64 \<Longrightarrow> al ! n \<noteq> CHR ''=''"
  by (metis nth_mem)

lemma decode_padded_encode:
  assumes "length al = 64" "distinct al" "CHR ''='' \<notin> set al"
  shows "decode_padded al (RawEncode al s @ pad_tail (RawEncode al s)) = Some s"
  using assms
  by (induction al s rule: RawEncode.induct)
    (simp_all add: alphabet_nth index_of_nth byte_div4 byte_div16 byte_div64 quantum_bounds quantum_joins)

lemma pad_tail_chars: "set (pad_tail s) \<subseteq> {CHR ''=''}"
  by (induction s rule: pad_tail.induct) auto

lemma StdDecode_StdEncode: "StdDecode (StdEncode s) = Some s"
proof -
  have "\<forall>c \<in> set (StdEncode s). \<not> line_break c"
    using std_chars [of s] pad_tail_chars [of "RawEncode std_alphabet s"] good_std
    by (fastforce simp: StdEncode_def good_alphabet_def line_break_def)
  then have "filter (\<lambda>c. \<not> line_break c) (StdEncode s) = StdEncode s"
    by (intro filter_True) auto
  moreover have "decode_padded std_alphabet (StdEncode s) = Some s"
    unfolding StdEncode_def by (rule decode_padded_encode) (simp_all add: std_alphabet_def)
  ultimately show ?thesis by (simp add: StdDecode_def)
qed

end
