(* ===== verification/Model.thy ===== *)
theory Model
  imports Base64
begin

text \<open>
  The data types of \<open>internal/model/model.go\<close>, the error values of the store, and the record \<open>env\<close>
  of everything the control plane calls but does not define:

  \<^item> PostgreSQL: \<open>pg_lower\<close> is SQL's \<open>lower\<close> under the database's collation, \<open>pg_uuid\<close> the text
    input function of type \<open>uuid\<close> (the canonical spelling, or nothing if the text is no UUID);
  \<^item> \<open>crypto/sha256\<close>, \<open>crypto/cipher\<close> and \<open>golang.org/x/crypto/argon2\<close>: a digest, the sealed box
    of \<open>Store.aead\<close>, and \<open>argon2.IDKey\<close> at the fixed cost parameters;
  \<^item> \<open>encoding/json\<close> as a text codec for the value type \<open>json\<close>;
  \<^item> \<open>unicode_lower\<close>, the Unicode tables behind \<open>strings.ToLower\<close> on text that is not ASCII.

  Times are nanoseconds since the Unix epoch.
\<close>

section \<open>Values\<close>

record user =
  user_ID :: string
  user_Username :: string
  user_DisplayName :: string
  user_Email :: string
  user_Role :: string
  user_Disabled :: bool
  user_CreatedAt :: int
  user_LastLoginAt :: int

definition IsAdmin :: "user \<Rightarrow> bool" where
  "IsAdmin u \<longleftrightarrow> user_Role u = ''admin'' \<and> \<not> user_Disabled u"

record workspace =
  ws_UserID :: string
  ws_ResourceName :: string
  ws_DesiredState :: string
  ws_RestartNonce :: int
  ws_LastActivityAt :: int
  ws_CreatedAt :: int
  ws_UpdatedAt :: int
  ws_ConfigRevision :: int

record workspace_configuration =
  wc_OpenCodeJSON :: string
  wc_APIKey :: string
  wc_Revision :: int

record workspace_status =
  st_Exists :: bool
  st_Ready :: bool
  st_Replicas :: int
  st_ReadyReplicas :: int
  st_Phase :: string
  st_Message :: string
  st_PodName :: string
  st_StartedAt :: int

record branding =
  br_Name :: string
  br_LogoURL :: string
  br_Favicon :: string
  br_Accent :: string

record oidc_settings =
  os_Enabled :: bool
  os_Issuer :: string
  os_ClientID :: string
  os_ClientSecret :: string
  os_Scopes :: "string list"
  os_AutoProvision :: bool
  os_LinkByEmail :: bool
  os_AllowedDomains :: "string list"
  os_AdminGroups :: "string list"
  os_HasClientSecret :: bool
  os_Configured :: bool

record audit_event =
  ae_ID :: int
  ae_ActorUserID :: string
  ae_Action :: string
  ae_TargetType :: string
  ae_TargetID :: string
  ae_Details :: string
  ae_RemoteAddr :: string
  ae_CreatedAt :: int

text \<open>Go's zero values: \<open>time.Time{}\<close> is the start of year 1.\<close>

definition zero_time :: int where
  "zero_time = - 62135596800000000000"

definition zero_user :: user where
  "zero_user = \<lparr>user_ID = [], user_Username = [], user_DisplayName = [], user_Email = [],
     user_Role = [], user_Disabled = False, user_CreatedAt = zero_time, user_LastLoginAt = zero_time\<rparr>"

definition zero_workspace :: workspace where
  "zero_workspace = \<lparr>ws_UserID = [], ws_ResourceName = [], ws_DesiredState = [], ws_RestartNonce = 0,
     ws_LastActivityAt = zero_time, ws_CreatedAt = zero_time, ws_UpdatedAt = zero_time,
     ws_ConfigRevision = 0\<rparr>"

definition zero_status :: workspace_status where
  "zero_status = \<lparr>st_Exists = False, st_Ready = False, st_Replicas = 0, st_ReadyReplicas = 0,
     st_Phase = [], st_Message = [], st_PodName = [], st_StartedAt = zero_time\<rparr>"

definition zero_oidc_settings :: oidc_settings where
  "zero_oidc_settings = \<lparr>os_Enabled = False, os_Issuer = [], os_ClientID = [], os_ClientSecret = [],
     os_Scopes = [], os_AutoProvision = False, os_LinkByEmail = False, os_AllowedDomains = [],
     os_AdminGroups = [], os_HasClientSecret = False, os_Configured = False\<rparr>"

section \<open>JSON values\<close>

datatype json =
    JNull
  | JBool bool
  | JNum int
  | JStr string
  | JArr "json list"
  | JObj "(string \<times> json) list"

section \<open>The environment\<close>

record env =
  pg_lower :: "string \<Rightarrow> string"
  pg_uuid :: "string \<Rightarrow> string option"
  unicode_lower :: "string \<Rightarrow> string"
  sha256 :: "string \<Rightarrow> string"
  argon2_IDKey :: "string \<Rightarrow> string \<Rightarrow> string"
  aead_Seal :: "string \<Rightarrow> string \<Rightarrow> string"
  aead_Open :: "string \<Rightarrow> string \<Rightarrow> string option"
  json_text :: "json \<Rightarrow> string"
  json_parse :: "string \<Rightarrow> json option"

text \<open>What the code relies on, each as a named hypothesis. \<open>crypto_ok\<close>: opening a sealed box under
  the same nonce gives the plaintext back, digests and keys are 32 bytes.
  \<open>uuid_canonical E i\<close>: \<open>i\<close> is spelled the way PostgreSQL prints it.\<close>

definition crypto_ok :: "env \<Rightarrow> bool" where
  "crypto_ok E \<longleftrightarrow> (\<forall>n p. aead_Open E n (aead_Seal E n p) = Some p)
     \<and> (\<forall>s. length (sha256 E s) = 32) \<and> (\<forall>p s. length (argon2_IDKey E p s) = 32)"

definition uuid_canonical :: "env \<Rightarrow> string \<Rightarrow> bool" where
  "uuid_canonical E i \<longleftrightarrow> pg_uuid E i = Some i"

text \<open>\<open>strings.ToLower\<close>.\<close>

definition ToLower :: "env \<Rightarrow> string \<Rightarrow> string" where
  "ToLower E s = (if list_all is_ascii s then map ascii_lower s else unicode_lower E s)"

section \<open>HMAC\<close>

text \<open>\<open>crypto/hmac\<close> over SHA-256 (block size 64): keys longer than a block are hashed first.\<close>

definition xor_byte :: "nat \<Rightarrow> char \<Rightarrow> char" where
  "xor_byte n c = char_of (Bit_Operations.xor n (byte c))"

definition hmac_pad :: "env \<Rightarrow> string \<Rightarrow> string" where
  "hmac_pad E k = (let k0 = (if length k > 64 then sha256 E k else k)
                   in k0 @ replicate (64 - length k0) (CHR 0x00))"

definition hmac_sha256 :: "env \<Rightarrow> string \<Rightarrow> string \<Rightarrow> string" where
  "hmac_sha256 E k msg =
     sha256 E (map (xor_byte 0x5C) (hmac_pad E k) @ sha256 E (map (xor_byte 0x36) (hmac_pad E k) @ msg))"

section \<open>Errors of the store\<close>

datatype db_error =
    ErrAlreadyBootstrapped
  | ErrNotFound
  | ErrConflict
  | NoRows
  | DuplicateKey
  | ConstraintViolation
  | InvalidInput
  | OutOfRange
  | Unavailable
  | EntropyFailure
  | DecryptFailed
  | JSONFailed
  | Message string

end
