(* ===== verification/Http.thy ===== *)
theory Http
  imports Model
begin

text \<open>
  The part of \<open>net/http\<close> that the handlers use. A \<open>request\<close> holds what a handler can read: method,
  path, parsed query and form (\<open>r.Form\<close>, body values before query values), header fields under their
  canonical names, cookies, the peer's address and the user that the middleware put into the context.
  A \<open>response\<close> is what the handler wrote: status, header fields, cookies and body.
\<close>

record request =
  rq_Method :: string
  rq_Path :: string
  rq_RequestURI :: string
  rq_Query :: "(string \<times> string) list"
  rq_Form :: "(string \<times> string) list"
  rq_FormError :: bool
  rq_Header :: "(string \<times> string) list"
  rq_Cookies :: "(string \<times> string) list"
  rq_RemoteAddr :: string
  rq_User :: "user option"

text \<open>\<open>url.Values.Get\<close>, \<open>http.Header.Get\<close>: the first value, \<open>""\<close> if there is none.\<close>

definition first_value :: "string \<Rightarrow> (string \<times> string) list \<Rightarrow> string" where
  "first_value k kvs = (case map_of kvs k of None \<Rightarrow> [] | Some v \<Rightarrow> v)"

definition FormValue :: "request \<Rightarrow> string \<Rightarrow> string" where
  "FormValue r k = first_value k (rq_Form r)"

definition QueryGet :: "request \<Rightarrow> string \<Rightarrow> string" where
  "QueryGet r k = first_value k (rq_Query r)"

definition HeaderGet :: "request \<Rightarrow> string \<Rightarrow> string" where
  "HeaderGet r k = first_value k (rq_Header r)"

text \<open>\<open>r.Cookie(name)\<close>: \<open>None\<close> is \<open>http.ErrNoCookie\<close>.\<close>

definition CookieOf :: "request \<Rightarrow> string \<Rightarrow> string option" where
  "CookieOf r name = map_of (rq_Cookies r) name"

text \<open>\<open>http.Header\<close> as an association list: \<open>Set\<close> replaces every field of the name, \<open>Del\<close> removes them.\<close>

definition header_del :: "string \<Rightarrow> (string \<times> string) list \<Rightarrow> (string \<times> string) list" where
  "header_del k hs = filter (\<lambda>(x, _). x \<noteq> k) hs"

definition header_set :: "string \<Rightarrow> string \<Rightarrow> (string \<times> string) list \<Rightarrow> (string \<times> string) list" where
  "header_set k v hs = header_del k hs @ [(k, v)]"

definition header_values :: "string \<Rightarrow> (string \<times> string) list \<Rightarrow> string list" where
  "header_values k hs = map snd (filter (\<lambda>(x, _). x = k) hs)"

lemma header_values_set: "header_values k (header_set k' v hs) = (if k = k' then [v] else header_values k hs)"
  by (induction hs) (auto simp: header_values_def header_set_def header_del_def)

lemma header_values_del: "header_values k (header_del k' hs) = (if k = k' then [] else header_values k hs)"
  by (induction hs) (auto simp: header_values_def header_del_def)

record cookie =
  ck_Name :: string
  ck_Value :: string
  ck_Path :: string
  ck_HttpOnly :: bool
  ck_Secure :: bool
  ck_SameSite :: string
  ck_MaxAge :: int

end
