(* ===== verification/Schema.thy ===== *)
theory Schema
  imports Model
begin

text \<open>
  The PostgreSQL schema of \<open>internal/database/migrations/*.sql\<close> and the SQL statements that the Go
  code sends. A table is the list of its rows in insertion order; a statement is a function on the
  database that fails as PostgreSQL would (text that is no UUID, CHECK, UNIQUE and FOREIGN KEY
  constraints, bigint overflow) or returns its rows and the new database. Lost connections,
  cancelled contexts and every other failure that does not depend on the rows are added by
  \<open>Database.stmt\<close>.
\<close>

section \<open>Rows\<close>

record user_row =
  u_id :: string
  u_username :: string
  u_display_name :: string
  u_email :: "string option"
  u_role :: string
  u_disabled :: bool
  u_created_at :: int
  u_updated_at :: int
  u_last_login_at :: "int option"

record credential_row =
  c_user_id :: string
  c_password_hash :: string
  c_changed_at :: int

record identity_row =
  i_issuer :: string
  i_subject :: string
  i_user_id :: string
  i_email :: "string option"
  i_created_at :: int

record session_row =
  s_id_hash :: string
  s_user_id :: string
  s_csrf_hash :: string
  s_expires_at :: int
  s_created_at :: int
  s_last_seen_at :: int
  s_user_agent :: string
  s_remote_addr :: string

record setting_row =
  k_key :: string
  k_value :: json
  k_encrypted :: bool
  k_updated_at :: int
  k_updated_by :: "string option"

record workspace_row =
  w_user_id :: string
  w_resource_name :: string
  w_desired_state :: string
  w_restart_nonce :: int
  w_last_activity_at :: int
  w_created_at :: int
  w_updated_at :: int

record config_row =
  f_user_id :: string
  f_opencode_json :: string
  f_api_key :: string
  f_revision :: int
  f_created_at :: int
  f_updated_at :: int

record audit_row =
  a_id :: int
  a_actor_user_id :: "string option"
  a_action :: string
  a_target_type :: string
  a_target_id :: "string option"
  a_details :: string
  a_remote_addr :: string
  a_created_at :: int

record db =
  users :: "user_row list"
  credentials :: "credential_row list"
  identities :: "identity_row list"
  sessions :: "session_row list"
  settings :: "setting_row list"
  workspaces :: "workspace_row list"
  configurations :: "config_row list"
  audits :: "audit_row list"

definition empty_db :: db where
  "empty_db = \<lparr>users = [], credentials = [], identities = [], sessions = [], settings = [],
     workspaces = [], configurations = [], audits = []\<rparr>"

section \<open>Tables as lists\<close>

definition update_where :: "('r \<Rightarrow> bool) \<Rightarrow> ('r \<Rightarrow> 'r) \<Rightarrow> 'r list \<Rightarrow> 'r list" where
  "update_where P f rows = map (\<lambda>r. if P r then f r else r) rows"

definition matches :: "('r \<Rightarrow> bool) \<Rightarrow> 'r list \<Rightarrow> bool" where
  "matches P rows \<longleftrightarrow> list_ex P rows"

text \<open>\<open>INSERT ... ON CONFLICT(key) DO UPDATE\<close>.\<close>

definition upsert :: "('r \<Rightarrow> bool) \<Rightarrow> ('r \<Rightarrow> 'r) \<Rightarrow> 'r \<Rightarrow> 'r list \<Rightarrow> 'r list" where
  "upsert P f r rows = (if matches P rows then update_where P f rows else rows @ [r])"

lemma matches_iff: "matches P rows \<longleftrightarrow> (\<exists>r \<in> set rows. P r)"
  by (simp add: matches_def list_ex_iff)

lemma map_update_where: "(\<And>r. key (f r) = key r) \<Longrightarrow> map key (update_where P f rows) = map key rows"
  by (simp add: update_where_def)

lemma set_update_where:
  "set (update_where P f rows) = f ` {r \<in> set rows. P r} \<union> {r \<in> set rows. \<not> P r}"
  by (auto simp: update_where_def)

lemma update_where_none: "\<not> matches P rows \<Longrightarrow> update_where P f rows = rows"
  by (auto simp: update_where_def matches_iff intro!: map_idI)

lemma find_update_where:
  "(\<And>r. P (f r) = P r) \<Longrightarrow> find P (update_where P f rows) = map_option f (find P rows)"
  by (induction rows) (auto simp: update_where_def)

lemma find_update_other:
  "(\<And>r. Q r \<Longrightarrow> \<not> P r) \<Longrightarrow> (\<And>r. P r \<Longrightarrow> \<not> Q (f r)) \<Longrightarrow> find Q (update_where P f rows) = find Q rows"
  by (induction rows) (auto simp: update_where_def)

lemma find_update_const:
  "P y \<Longrightarrow> find P (update_where P (\<lambda>_. y) rows) = (if matches P rows then Some y else None)"
  by (induction rows) (auto simp: update_where_def matches_iff)

lemma find_append: "find P (xs @ ys) = (case find P xs of None \<Rightarrow> find P ys | Some x \<Rightarrow> Some x)"
  by (induction xs) auto

lemma find_None_matches: "find P xs = None \<longleftrightarrow> \<not> matches P xs"
  by (auto simp: find_None_iff matches_iff)

lemma find_Some_in: "find P xs = Some x \<Longrightarrow> x \<in> set xs \<and> P x"
  by (auto simp: find_Some_iff)

lemma find_upsert:
  "(\<And>r. P (f r) = P r) \<Longrightarrow> P r \<Longrightarrow>
   find P (upsert P f r rows) = Some (case find P rows of None \<Rightarrow> r | Some x \<Rightarrow> f x)"
  by (auto simp: upsert_def find_update_where find_append find_None_matches [symmetric] split: option.splits)

lemma map_upsert:
  "(\<And>r. key (f r) = key r) \<Longrightarrow>
   map key (upsert P f r rows) = (if matches P rows then map key rows else map key rows @ [key r])"
  by (simp add: upsert_def map_update_where)

lemma distinct_keys_find:
  "distinct (map key rows) \<Longrightarrow> r \<in> set rows \<Longrightarrow> find (\<lambda>x. key x = key r) rows = Some r"
  by (induction rows) (auto simp: image_iff)

section \<open>Column conversions\<close>

definition uuid_arg :: "env \<Rightarrow> string \<Rightarrow> db_error + string" where
  "uuid_arg E i = (case pg_uuid E i of None \<Rightarrow> Inl InvalidInput | Some u \<Rightarrow> Inr u)"

text \<open>\<open>NULLIF(x, '')\<close> and \<open>COALESCE(x, '')\<close>.\<close>

definition nullif :: "string \<Rightarrow> string option" where
  "nullif s = (if s = [] then None else Some s)"

definition coalesce :: "'a option \<Rightarrow> 'a \<Rightarrow> 'a" where
  "coalesce x d = (case x of None \<Rightarrow> d | Some y \<Rightarrow> y)"

lemma coalesce_simps [simp]: "coalesce None d = d" "coalesce (Some y) d = y"
  by (simp_all add: coalesce_def)

lemma nullif_coalesce [simp]: "coalesce (nullif s) [] = s"
  by (simp add: nullif_def)

definition valid_role :: "string \<Rightarrow> bool" where
  "valid_role r \<longleftrightarrow> r = ''admin'' \<or> r = ''user''"

definition valid_state :: "string \<Rightarrow> bool" where
  "valid_state t \<longleftrightarrow> t = ''running'' \<or> t = ''stopped''"

definition bigint_max :: int where
  "bigint_max = 9223372036854775807"

text \<open>The columns of \<open>userColumns\<close>, scanned into a \<open>model.User\<close>.\<close>

definition scanUser :: "user_row \<Rightarrow> user" where
  "scanUser r = \<lparr>user_ID = u_id r, user_Username = u_username r, user_DisplayName = u_display_name r,
     user_Email = coalesce (u_email r) [], user_Role = u_role r, user_Disabled = u_disabled r,
     user_CreatedAt = u_created_at r, user_LastLoginAt = coalesce (u_last_login_at r) 0\<rparr>"

text \<open>The rows that the two unique indexes on \<open>users\<close> compare.\<close>

definition same_username :: "env \<Rightarrow> string \<Rightarrow> user_row \<Rightarrow> bool" where
  "same_username E n r \<longleftrightarrow> pg_lower E (u_username r) = pg_lower E n"

definition same_email :: "env \<Rightarrow> string \<Rightarrow> user_row \<Rightarrow> bool" where
  "same_email E m r \<longleftrightarrow> (case u_email r of None \<Rightarrow> False | Some x \<Rightarrow> pg_lower E x = pg_lower E m)"

definition email_taken :: "env \<Rightarrow> string option \<Rightarrow> user_row list \<Rightarrow> bool" where
  "email_taken E m rows = (case m of None \<Rightarrow> False | Some x \<Rightarrow> matches (same_email E x) rows)"

end
