(* ===== verification/Database.thy ===== *)
theory Database
  imports Schema
begin

text \<open>
  \<open>internal/database/database.go\<close>: the \<open>Store\<close>. Its state is the database, the sequence behind
  \<open>audit_events.id\<close> (a rollback does not give numbers back) and \<open>faults\<close>, the schedule of failures
  that do not depend on the data: each round trip to PostgreSQL takes one entry, \<open>True\<close> makes it fail
  with \<open>Unavailable\<close>, and the empty list never fails. A theorem over all \<open>faults\<close> is a theorem about
  a connection that may drop at any statement.

  \<open>now\<close> is the time of the call (SQL's \<open>now()\<close> is the start of the transaction); a fresh UUID and
  every block of random bytes is an argument, \<open>None\<close> for a failing \<open>rand.Read\<close>.
\<close>

record store =
  db :: db
  audit_seq :: int
  faults :: "bool list"

type_synonym 'a query = "(store, db_error, 'a) act"

definition stmt :: "(db \<Rightarrow> db_error + ('a \<times> db)) \<Rightarrow> 'a query" where
  "stmt f = (\<lambda>s. let s1 = s\<lparr>faults := tl (faults s)\<rparr> in
     if faults s \<noteq> [] \<and> hd (faults s) then (Inl Unavailable, s1)
     else (case f (db s) of Inl e \<Rightarrow> (Inl e, s1) | Inr (x, d) \<Rightarrow> (Inr x, s1\<lparr>db := d\<rparr>)))"

text \<open>A statement that only reads.\<close>

definition fetch :: "(db \<Rightarrow> db_error + 'a) \<Rightarrow> 'a query" where
  "fetch f = stmt (\<lambda>d. case f d of Inl e \<Rightarrow> Inl e | Inr x \<Rightarrow> Inr (x, d))"

text \<open>\<open>pgx.BeginFunc\<close>, and \<open>Begin\<close>/\<open>defer Rollback\<close>/\<open>Commit\<close>: any error, including one from
  \<open>Commit\<close>, leaves the database as it was.\<close>

definition transaction :: "'a query \<Rightarrow> 'a query" where
  "transaction body = (\<lambda>s.
     case stmt (\<lambda>d. Inr ((), d)) s of
       (Inl e, s1) \<Rightarrow> (Inl e, s1)
     | (Inr _, s1) \<Rightarrow>
         (case body s1 of
            (Inl e, s2) \<Rightarrow> (Inl e, s2\<lparr>db := db s\<rparr>)
          | (Inr x, s2) \<Rightarrow>
              (case stmt (\<lambda>d. Inr ((), d)) s2 of
                 (Inl e, s3) \<Rightarrow> (Inl e, s3\<lparr>db := db s\<rparr>)
               | (Inr _, s3) \<Rightarrow> (Inr x, s3))))"

section \<open>audit, nullUUID, Hash, encrypt, decrypt\<close>

definition nullUUID :: "string \<Rightarrow> string option" where
  "nullUUID v = (if v = [] then None else Some v)"

text \<open>A nullable foreign key to \<open>users(id)\<close>.\<close>

definition user_ref :: "env \<Rightarrow> db \<Rightarrow> string option \<Rightarrow> db_error + string option" where
  "user_ref E d a = (case a of None \<Rightarrow> Inr None
     | Some v \<Rightarrow> (case uuid_arg E v of Inl e \<Rightarrow> Inl e
         | Inr u \<Rightarrow> if matches (\<lambda>r. u_id r = u) (users d) then Inr (Some u) else Inl ConstraintViolation))"

definition nextval :: "int query" where
  "nextval = (\<lambda>s. (Inr (audit_seq s), s\<lparr>audit_seq := audit_seq s + 1\<rparr>))"

definition audit :: "env \<Rightarrow> int \<Rightarrow> string \<Rightarrow> string \<Rightarrow> string \<Rightarrow> string \<Rightarrow> string \<Rightarrow> string \<Rightarrow> unit query" where
  "audit E now actor action targetType targetID details remote =
     andThen nextval (\<lambda>n.
     stmt (\<lambda>d. case user_ref E d (nullUUID actor) of
         Inl e \<Rightarrow> Inl e
       | Inr a \<Rightarrow> Inr ((), d\<lparr>audits := audits d @
           [\<lparr>a_id = n, a_actor_user_id = a, a_action = action, a_target_type = targetType,
             a_target_id = nullif targetID, a_details = details, a_remote_addr = remote,
             a_created_at = now\<rparr>]\<rparr>)))"

definition Hash :: "env \<Rightarrow> string \<Rightarrow> string" where
  "Hash E v = sha256 E v"

definition nonce_size :: nat where
  "nonce_size = 12"

definition encrypt :: "env \<Rightarrow> string option \<Rightarrow> string \<Rightarrow> db_error + string" where
  "encrypt E nonce plain = (case nonce of
       None \<Rightarrow> Inl EntropyFailure
     | Some n \<Rightarrow> Inr (RawEncode url_alphabet (n @ aead_Seal E n plain)))"

definition decrypt :: "env \<Rightarrow> string \<Rightarrow> db_error + string" where
  "decrypt E encoded = (case RawDecode url_alphabet encoded of
       None \<Rightarrow> Inl DecryptFailed
     | Some raw \<Rightarrow>
         if length raw < nonce_size then Inl (Message ''encrypted setting is truncated'')
         else (case aead_Open E (take nonce_size raw) (drop nonce_size raw) of
                 None \<Rightarrow> Inl DecryptFailed | Some p \<Rightarrow> Inr p))"

definition lift :: "'e + 'a \<Rightarrow> ('s, 'e, 'a) act" where
  "lift r = (case r of Inl e \<Rightarrow> throw e | Inr x \<Rightarrow> ret x)"

section \<open>Users\<close>

definition UserCount :: "int query" where
  "UserCount = fetch (\<lambda>d. Inr (int (length (users d))))"

text \<open>The three \<open>INSERT\<close>s of \<open>insertUser\<close>. PostgreSQL checks the CHECK constraint, then the unique
  indexes, then the foreign keys.\<close>

definition sql_insert_user :: "env \<Rightarrow> int \<Rightarrow> string \<Rightarrow> string \<Rightarrow> string \<Rightarrow> string \<Rightarrow> string \<Rightarrow> db
    \<Rightarrow> db_error + (user_row \<times> db)" where
  "sql_insert_user E now uid uname dname mail rol d =
     (case uuid_arg E uid of Inl e \<Rightarrow> Inl e
      | Inr u \<Rightarrow>
          if \<not> valid_role rol then Inl ConstraintViolation
          else if matches (\<lambda>r. u_id r = u) (users d) \<or> matches (same_username E uname) (users d)
                  \<or> email_taken E (nullif mail) (users d) then Inl DuplicateKey
          else let r = \<lparr>u_id = u, u_username = uname, u_display_name = dname, u_email = nullif mail,
                        u_role = rol, u_disabled = False, u_created_at = now, u_updated_at = now,
                        u_last_login_at = None\<rparr>
               in Inr (r, d\<lparr>users := users d @ [r]\<rparr>))"

definition sql_insert_credential :: "env \<Rightarrow> int \<Rightarrow> string \<Rightarrow> string \<Rightarrow> db \<Rightarrow> db_error + (unit \<times> db)" where
  "sql_insert_credential E now uid hash d =
     (case uuid_arg E uid of Inl e \<Rightarrow> Inl e
      | Inr u \<Rightarrow>
          if matches (\<lambda>r. c_user_id r = u) (credentials d) then Inl DuplicateKey
          else if \<not> matches (\<lambda>r. u_id r = u) (users d) then Inl ConstraintViolation
          else Inr ((), d\<lparr>credentials := credentials d @
                 [\<lparr>c_user_id = u, c_password_hash = hash, c_changed_at = now\<rparr>]\<rparr>))"

definition sql_insert_workspace :: "env \<Rightarrow> int \<Rightarrow> string \<Rightarrow> string \<Rightarrow> db \<Rightarrow> db_error + (unit \<times> db)" where
  "sql_insert_workspace E now uid resource d =
     (case uuid_arg E uid of Inl e \<Rightarrow> Inl e
      | Inr u \<Rightarrow>
          if matches (\<lambda>r. w_user_id r = u) (workspaces d)
             \<or> matches (\<lambda>r. w_resource_name r = resource) (workspaces d) then Inl DuplicateKey
          else if \<not> matches (\<lambda>r. u_id r = u) (users d) then Inl ConstraintViolation
          else Inr ((), d\<lparr>workspaces := workspaces d @
                 [\<lparr>w_user_id = u, w_resource_name = resource, w_desired_state = ''stopped'',
                   w_restart_nonce = 0, w_last_activity_at = now, w_created_at = now,
                   w_updated_at = now\<rparr>]\<rparr>))"

text \<open>\<open>"ws-" + strings.ReplaceAll(id[:18], "-", "")\<close>; \<open>uuid.NewString\<close> has 36 characters.\<close>

definition resource_name_of :: "string \<Rightarrow> string" where
  "resource_name_of uid = ''ws-'' @ filter (\<lambda>c. c \<noteq> CHR ''-'') (take 18 uid)"

definition insertUser :: "env \<Rightarrow> int \<Rightarrow> string \<Rightarrow> string \<Rightarrow> string \<Rightarrow> string \<Rightarrow> string \<Rightarrow> string \<Rightarrow> user query" where
  "insertUser E now uid uname dname mail rol passwordHash =
     andThen (mapErr (\<lambda>e. if e = DuplicateKey then ErrConflict else e)
               (stmt (sql_insert_user E now uid uname dname mail rol))) (\<lambda>row.
     andThen (if passwordHash \<noteq> [] then stmt (sql_insert_credential E now uid passwordHash) else ret ()) (\<lambda>_.
     andThen (stmt (sql_insert_workspace E now uid (resource_name_of uid))) (\<lambda>_.
     ret ((scanUser row)\<lparr>user_LastLoginAt := zero_time\<rparr>))))"

text \<open>\<open>LOCK TABLE users IN EXCLUSIVE MODE\<close>: alone in its transaction it changes nothing. It makes
  concurrent bootstraps wait for each other; here one method is atomic for another.\<close>

definition lockUsers :: "unit query" where
  "lockUsers = stmt (\<lambda>d. Inr ((), d))"

definition BootstrapAdmin :: "env \<Rightarrow> int \<Rightarrow> string \<Rightarrow> string \<Rightarrow> string \<Rightarrow> string \<Rightarrow> string \<Rightarrow> user query" where
  "BootstrapAdmin E now uid uname dname mail passwordHash = transaction
     (andThen lockUsers (\<lambda>_.
      andThen (fetch (\<lambda>d. Inr (users d \<noteq> []))) (\<lambda>exists.
      if exists then throw ErrAlreadyBootstrapped
      else andThen (insertUser E now uid uname dname mail ''admin'' passwordHash) (\<lambda>u.
           andThen (audit E now (user_ID u) ''bootstrap.admin'' ''user'' (user_ID u) ''{}'' []) (\<lambda>_.
           ret u)))))"

definition CreateLocalUser :: "env \<Rightarrow> int \<Rightarrow> string \<Rightarrow> string \<Rightarrow> string \<Rightarrow> string \<Rightarrow> string \<Rightarrow> string \<Rightarrow> string
    \<Rightarrow> string \<Rightarrow> user query" where
  "CreateLocalUser E now uid actor uname dname mail rol passwordHash remote = transaction
     (andThen (insertUser E now uid uname dname mail rol passwordHash) (\<lambda>u.
      andThen (audit E now actor ''user.create'' ''user'' (user_ID u) ''{}'' remote) (\<lambda>_.
      ret u)))"

definition AuthenticateLocal :: "env \<Rightarrow> string \<Rightarrow> (user \<times> string) query" where
  "AuthenticateLocal E uname = fetch (\<lambda>d.
     case List.maps (\<lambda>u. map (\<lambda>c. (scanUser u, c_password_hash c))
            (filter (\<lambda>c. c_user_id c = u_id u) (credentials d)))
          (filter (same_username E uname) (users d)) of
       [] \<Rightarrow> Inl ErrNotFound
     | x # _ \<Rightarrow> Inr x)"

definition HasLocalCredential :: "env \<Rightarrow> string \<Rightarrow> bool query" where
  "HasLocalCredential E userID = fetch (\<lambda>d. case uuid_arg E userID of Inl e \<Rightarrow> Inl e
     | Inr u \<Rightarrow> Inr (matches (\<lambda>c. c_user_id c = u) (credentials d)))"

definition RecordLogin :: "env \<Rightarrow> int \<Rightarrow> string \<Rightarrow> unit query" where
  "RecordLogin E now userID = andThen (attempt (stmt (\<lambda>d. case uuid_arg E userID of Inl e \<Rightarrow> Inl e
     | Inr u \<Rightarrow> Inr ((), d\<lparr>users := update_where (\<lambda>r. u_id r = u)
         (\<lambda>r. r\<lparr>u_last_login_at := Some now\<rparr>) (users d)\<rparr>)))) (\<lambda>_. ret ())"

definition UserByID :: "env \<Rightarrow> string \<Rightarrow> user query" where
  "UserByID E uid = fetch (\<lambda>d. case uuid_arg E uid of Inl e \<Rightarrow> Inl e
     | Inr u \<Rightarrow> (case find (\<lambda>r. u_id r = u) (users d) of
                   None \<Rightarrow> Inl ErrNotFound | Some r \<Rightarrow> Inr (scanUser r)))"

definition ListUsers :: "user list query" where
  "ListUsers = fetch (\<lambda>d. Inr (map scanUser (sort_key u_created_at (users d))))"

end
