(* ===== verification/StoreOps.thy ===== *)
theory StoreOps
  imports Database
begin

text \<open>
  Provisioning and updates of users, sessions, and workspaces with their desired state. The rest of
  the \<open>Store\<close> is in \<open>StoreConfig\<close> and \<open>Migrate\<close>.
\<close>

section \<open>ProvisionUser, UpdateUser\<close>

record provision_input =
  pi_Username :: string
  pi_DisplayName :: string
  pi_Email :: string
  pi_Role :: string
  pi_Disabled :: bool

text \<open>\<open>UPDATE users SET username=, display_name=, role=, disabled=, updated_at=now() WHERE id= RETURNING\<close>.\<close>

definition sql_update_profile :: "env \<Rightarrow> int \<Rightarrow> string \<Rightarrow> provision_input \<Rightarrow> db \<Rightarrow> db_error + (user \<times> db)" where
  "sql_update_profile E now uid input d =
     (case uuid_arg E uid of Inl e \<Rightarrow> Inl e
      | Inr u \<Rightarrow>
         (case find (\<lambda>r. u_id r = u) (users d) of
            None \<Rightarrow> Inl NoRows
          | Some r \<Rightarrow>
              if \<not> valid_role (pi_Role input) then Inl ConstraintViolation
              else if matches (\<lambda>x. u_id x \<noteq> u \<and> same_username E (pi_Username input) x) (users d)
              then Inl DuplicateKey
              else let upd = (\<lambda>x. x\<lparr>u_username := pi_Username input, u_display_name := pi_DisplayName input,
                                  u_role := pi_Role input, u_disabled := pi_Disabled input,
                                  u_updated_at := now\<rparr>)
                   in Inr (scanUser (upd r), d\<lparr>users := update_where (\<lambda>x. u_id x = u) upd (users d)\<rparr>)))"

definition sql_disable_user :: "env \<Rightarrow> int \<Rightarrow> string \<Rightarrow> db \<Rightarrow> db_error + (user \<times> db)" where
  "sql_disable_user E now uid d =
     (case uuid_arg E uid of Inl e \<Rightarrow> Inl e
      | Inr u \<Rightarrow>
         (case find (\<lambda>r. u_id r = u) (users d) of
            None \<Rightarrow> Inl NoRows
          | Some r \<Rightarrow>
              let upd = (\<lambda>x. x\<lparr>u_disabled := True, u_updated_at := now\<rparr>)
              in Inr (scanUser (upd r), d\<lparr>users := update_where (\<lambda>x. u_id x = u) upd (users d)\<rparr>)))"

definition user_by_email :: "env \<Rightarrow> string \<Rightarrow> (user option) query" where
  "user_by_email E mail = fetch (\<lambda>d. Inr (map_option scanUser (find (same_email E mail) (users d))))"

definition ProvisionUser :: "env \<Rightarrow> int \<Rightarrow> string \<Rightarrow> string \<Rightarrow> provision_input \<Rightarrow> user query" where
  "ProvisionUser E now uid actor input = transaction
     (andThen (user_by_email E (pi_Email input)) (\<lambda>found.
      andThen
        (case found of
           None \<Rightarrow> andThen (insertUser E now uid (pi_Username input) (pi_DisplayName input)
                             (pi_Email input) (pi_Role input) []) (\<lambda>u. ret (u, input))
         | Some u0 \<Rightarrow>
             let input' = (if user_ID u0 = actor
                           then input\<lparr>pi_Role := ''admin'', pi_Disabled := False\<rparr> else input)
             in andThen (stmt (sql_update_profile E now (user_ID u0) input')) (\<lambda>u. ret (u, input')))
        (\<lambda>(u, input').
      andThen (if pi_Disabled input' \<and> \<not> user_Disabled u
               then stmt (sql_disable_user E now (user_ID u)) else ret u) (\<lambda>u'.
      andThen (audit E now actor ''user.provision'' ''user'' (user_ID u') ''{}'' []) (\<lambda>_.
      ret u')))))"

definition sql_update_user :: "env \<Rightarrow> int \<Rightarrow> string \<Rightarrow> string \<Rightarrow> string \<Rightarrow> string \<Rightarrow> bool \<Rightarrow> db
    \<Rightarrow> db_error + (int \<times> db)" where
  "sql_update_user E now uid dname mail rol dis d =
     (case uuid_arg E uid of Inl e \<Rightarrow> Inl e
      | Inr u \<Rightarrow>
          if \<not> matches (\<lambda>r. u_id r = u) (users d) then Inr (0, d)
          else if \<not> valid_role rol then Inl ConstraintViolation
          else if email_taken E (nullif mail) (filter (\<lambda>x. u_id x \<noteq> u) (users d)) then Inl DuplicateKey
          else Inr (1, d\<lparr>users := update_where (\<lambda>x. u_id x = u)
                 (\<lambda>x. x\<lparr>u_display_name := dname, u_email := nullif mail, u_role := rol,
                        u_disabled := dis, u_updated_at := now\<rparr>) (users d)\<rparr>))"

definition sql_upsert_credential :: "env \<Rightarrow> int \<Rightarrow> string \<Rightarrow> string \<Rightarrow> db \<Rightarrow> db_error + (unit \<times> db)" where
  "sql_upsert_credential E now uid hash d =
     (case uuid_arg E uid of Inl e \<Rightarrow> Inl e
      | Inr u \<Rightarrow>
          if \<not> matches (\<lambda>r. u_id r = u) (users d) then Inl ConstraintViolation
          else Inr ((), d\<lparr>credentials := upsert (\<lambda>c. c_user_id c = u)
                 (\<lambda>c. c\<lparr>c_password_hash := hash, c_changed_at := now\<rparr>)
                 \<lparr>c_user_id = u, c_password_hash = hash, c_changed_at = now\<rparr> (credentials d)\<rparr>))"

definition UpdateUser :: "env \<Rightarrow> int \<Rightarrow> string \<Rightarrow> string \<Rightarrow> string \<Rightarrow> string \<Rightarrow> string \<Rightarrow> bool \<Rightarrow> string \<Rightarrow> string
    \<Rightarrow> unit query" where
  "UpdateUser E now actor uid dname mail rol dis passwordHash remote = transaction
     (andThen (stmt (sql_update_user E now uid dname mail rol dis)) (\<lambda>affected.
      if affected = 0 then throw ErrNotFound
      else andThen (if passwordHash \<noteq> [] then stmt (sql_upsert_credential E now uid passwordHash) else ret ()) (\<lambda>_.
           audit E now actor ''user.update'' ''user'' uid ''{}'' remote)))"

section \<open>Sessions\<close>

definition CreateSession :: "env \<Rightarrow> int \<Rightarrow> string \<Rightarrow> string \<Rightarrow> string \<Rightarrow> string \<Rightarrow> string \<Rightarrow> int \<Rightarrow> unit query" where
  "CreateSession E now tokenHash csrfHash userID userAgent remote expires = stmt (\<lambda>d.
     case uuid_arg E userID of Inl e \<Rightarrow> Inl e
     | Inr u \<Rightarrow>
         if matches (\<lambda>r. s_id_hash r = tokenHash) (sessions d) then Inl DuplicateKey
         else if \<not> matches (\<lambda>r. u_id r = u) (users d) then Inl ConstraintViolation
         else Inr ((), d\<lparr>sessions := sessions d @
                [\<lparr>s_id_hash = tokenHash, s_user_id = u, s_csrf_hash = csrfHash, s_expires_at = expires,
                  s_created_at = now, s_last_seen_at = now, s_user_agent = userAgent,
                  s_remote_addr = remote\<rparr>]\<rparr>))"

definition five_minutes :: int where
  "five_minutes = 300000000000"

text \<open>The join of \<open>sessions\<close> and \<open>users\<close> for one token.\<close>

definition session_join :: "int \<Rightarrow> string \<Rightarrow> db \<Rightarrow> (user \<times> string \<times> int) option" where
  "session_join now tokenHash d =
     (case find (\<lambda>r. s_id_hash r = tokenHash \<and> s_expires_at r > now) (sessions d) of
        None \<Rightarrow> None
      | Some r \<Rightarrow> map_option (\<lambda>u. (scanUser u, s_csrf_hash r, s_expires_at r))
                    (find (\<lambda>u. u_id u = s_user_id r) (users d)))"

definition Session :: "int \<Rightarrow> string \<Rightarrow> (user \<times> string \<times> int) query" where
  "Session now tokenHash =
     andThen (fetch (\<lambda>d. case session_join now tokenHash d of None \<Rightarrow> Inl ErrNotFound
        | Some (u, csrf, expires) \<Rightarrow> if user_Disabled u then Inl ErrNotFound else Inr (u, csrf, expires))) (\<lambda>x.
     andThen (attempt (stmt (\<lambda>d. Inr ((), d\<lparr>sessions := update_where
        (\<lambda>r. s_id_hash r = tokenHash \<and> s_last_seen_at r < now - five_minutes)
        (\<lambda>r. r\<lparr>s_last_seen_at := now\<rparr>) (sessions d)\<rparr>)) :: unit query)) (\<lambda>_.
     ret x))"

definition DeleteSession :: "string \<Rightarrow> unit query" where
  "DeleteSession tokenHash =
     stmt (\<lambda>d. Inr ((), d\<lparr>sessions := filter (\<lambda>r. s_id_hash r \<noteq> tokenHash) (sessions d)\<rparr>))"

section \<open>Workspaces\<close>

definition config_revision :: "db \<Rightarrow> string \<Rightarrow> int" where
  "config_revision d u = (case find (\<lambda>c. f_user_id c = u) (configurations d) of
     None \<Rightarrow> 0 | Some c \<Rightarrow> f_revision c)"

definition scanWorkspace :: "db \<Rightarrow> workspace_row \<Rightarrow> workspace" where
  "scanWorkspace d r = \<lparr>ws_UserID = w_user_id r, ws_ResourceName = w_resource_name r,
     ws_DesiredState = w_desired_state r, ws_RestartNonce = w_restart_nonce r,
     ws_LastActivityAt = w_last_activity_at r, ws_CreatedAt = w_created_at r,
     ws_UpdatedAt = w_updated_at r, ws_ConfigRevision = config_revision d (w_user_id r)\<rparr>"

definition Workspace :: "env \<Rightarrow> string \<Rightarrow> workspace query" where
  "Workspace E userID = fetch (\<lambda>d. case uuid_arg E userID of Inl e \<Rightarrow> Inl e
     | Inr u \<Rightarrow> (case find (\<lambda>r. w_user_id r = u) (workspaces d) of
          None \<Rightarrow> Inl ErrNotFound | Some r \<Rightarrow> Inr (scanWorkspace d r)))"

definition ListWorkspaces :: "workspace list query" where
  "ListWorkspaces = fetch (\<lambda>d. Inr (map (scanWorkspace d) (sort_key w_created_at (workspaces d))))"

text \<open>\<open>UPDATE workspaces SET ... WHERE user_id=$1\<close>: the rows affected.\<close>

definition sql_update_workspace :: "env \<Rightarrow> string \<Rightarrow> (workspace_row \<Rightarrow> db_error + workspace_row) \<Rightarrow> db
    \<Rightarrow> db_error + (int \<times> db)" where
  "sql_update_workspace E userID f d =
     (case uuid_arg E userID of Inl e \<Rightarrow> Inl e
      | Inr u \<Rightarrow> (case find (\<lambda>r. w_user_id r = u) (workspaces d) of
          None \<Rightarrow> Inr (0, d)
        | Some r \<Rightarrow> (case f r of Inl e \<Rightarrow> Inl e
            | Inr r' \<Rightarrow> Inr (1, d\<lparr>workspaces := update_where (\<lambda>x. w_user_id x = u) (\<lambda>_. r') (workspaces d)\<rparr>))))"

definition set_state :: "int \<Rightarrow> string \<Rightarrow> workspace_row \<Rightarrow> db_error + workspace_row" where
  "set_state now state r = (if \<not> valid_state state then Inl ConstraintViolation
     else Inr (r\<lparr>w_desired_state := state,
       w_last_activity_at := (if state = ''running'' then now else w_last_activity_at r),
       w_updated_at := now\<rparr>))"

definition set_restart :: "int \<Rightarrow> workspace_row \<Rightarrow> db_error + workspace_row" where
  "set_restart now r = (if w_restart_nonce r \<ge> bigint_max then Inl OutOfRange
     else Inr (r\<lparr>w_desired_state := ''running'', w_restart_nonce := w_restart_nonce r + 1,
       w_last_activity_at := now, w_updated_at := now\<rparr>))"

definition set_purged :: "int \<Rightarrow> workspace_row \<Rightarrow> db_error + workspace_row" where
  "set_purged now r = (if w_restart_nonce r \<ge> bigint_max then Inl OutOfRange
     else Inr (r\<lparr>w_desired_state := ''stopped'', w_restart_nonce := w_restart_nonce r + 1,
       w_updated_at := now\<rparr>))"

definition set_touched :: "int \<Rightarrow> workspace_row \<Rightarrow> db_error + workspace_row" where
  "set_touched now r = Inr (r\<lparr>w_last_activity_at := now, w_desired_state := ''running'', w_updated_at := now\<rparr>)"

definition SetWorkspaceState :: "env \<Rightarrow> int \<Rightarrow> string \<Rightarrow> string \<Rightarrow> string \<Rightarrow> string \<Rightarrow> bool \<Rightarrow> unit query" where
  "SetWorkspaceState E now actor userID state remote restart =
     (let action = (if restart then ''workspace.restart'' else ''workspace.'' @ state) in transaction
     (andThen (stmt (sql_update_workspace E userID (if restart then set_restart now else set_state now state))) (\<lambda>affected.
      if affected = 0 then throw ErrNotFound
      else audit E now actor action ''workspace'' userID ''{}'' remote)))"

definition TouchWorkspace :: "env \<Rightarrow> int \<Rightarrow> string \<Rightarrow> unit query" where
  "TouchWorkspace E now userID =
     andThen (attempt (stmt (sql_update_workspace E userID (set_touched now)))) (\<lambda>_. ret ())"

definition idle_row :: "int \<Rightarrow> workspace_row \<Rightarrow> bool" where
  "idle_row before r \<longleftrightarrow> w_desired_state r = ''running'' \<and> w_last_activity_at r < before"

definition IdleWorkspaces :: "int \<Rightarrow> int \<Rightarrow> string list query" where
  "IdleWorkspaces now before = stmt (\<lambda>d.
     Inr (map w_user_id (filter (idle_row before) (workspaces d)),
          d\<lparr>workspaces := update_where (idle_row before)
              (\<lambda>r. r\<lparr>w_desired_state := ''stopped'', w_updated_at := now\<rparr>) (workspaces d)\<rparr>))"

definition DeleteWorkspaceDataRecord :: "env \<Rightarrow> int \<Rightarrow> string \<Rightarrow> string \<Rightarrow> string \<Rightarrow> unit query" where
  "DeleteWorkspaceDataRecord E now actor userID remote = transaction
     (andThen (stmt (sql_update_workspace E userID (set_purged now))) (\<lambda>_.
      audit E now actor ''workspace.purge'' ''workspace'' userID ''{}'' remote))"

end
