(* ===== verification/StoreConfig.thy ===== *)
theory StoreConfig
  imports StoreOps
begin

text \<open>
  Sealed workspace configurations, settings, the audit listing and OIDC identities. A \<open>jsonb\<close>
  column holds a \<open>json\<close> value; \<open>Setting\<close> hands it to a decoder, which returns the new value of the
  caller's target and whether \<open>json.Unmarshal\<close> reported an error (Go fills what it can before it
  reports one).
\<close>

section \<open>Workspace configuration\<close>

definition is_json_object :: "env \<Rightarrow> string \<Rightarrow> bool" where
  "is_json_object E bytes = (case json_parse E bytes of Some (JObj _) \<Rightarrow> True | _ \<Rightarrow> False)"

definition sql_upsert_configuration :: "env \<Rightarrow> int \<Rightarrow> string \<Rightarrow> string \<Rightarrow> string \<Rightarrow> db \<Rightarrow> db_error + (unit \<times> db)" where
  "sql_upsert_configuration E now userID configCt keyCt d =
     (case uuid_arg E userID of Inl e \<Rightarrow> Inl e
      | Inr u \<Rightarrow>
          if \<not> matches (\<lambda>r. u_id r = u) (users d) then Inl ConstraintViolation
          else if matches (\<lambda>c. f_user_id c = u \<and> f_revision c \<ge> bigint_max) (configurations d) then Inl OutOfRange
          else Inr ((), d\<lparr>configurations := upsert (\<lambda>c. f_user_id c = u)
                 (\<lambda>c. c\<lparr>f_opencode_json := configCt, f_api_key := keyCt, f_revision := f_revision c + 1,
                        f_updated_at := now\<rparr>)
                 \<lparr>f_user_id = u, f_opencode_json = configCt, f_api_key = keyCt, f_revision = 1,
                  f_created_at = now, f_updated_at = now\<rparr> (configurations d)\<rparr>))"

definition SetWorkspaceConfiguration :: "env \<Rightarrow> int \<Rightarrow> string option \<Rightarrow> string option \<Rightarrow> string \<Rightarrow> string \<Rightarrow> string
    \<Rightarrow> string \<Rightarrow> unit query" where
  "SetWorkspaceConfiguration E now nonce1 nonce2 actor userID opencodeJSON apiKey =
     (if opencodeJSON = [] \<or> \<not> is_json_object E opencodeJSON
      then throw (Message ''OpenCode configuration must be a JSON object'')
      else if TrimSpace apiKey = [] then throw (Message ''workspace API key is required'')
      else andThen (lift (encrypt E nonce1 opencodeJSON)) (\<lambda>configCt.
           andThen (lift (encrypt E nonce2 apiKey)) (\<lambda>keyCt.
           transaction
             (andThen (stmt (sql_upsert_configuration E now userID configCt keyCt)) (\<lambda>_.
              audit E now actor ''workspace.configuration.update'' ''workspace'' userID ''{}'' [])))))"

definition WorkspaceConfiguration :: "env \<Rightarrow> string \<Rightarrow> workspace_configuration query" where
  "WorkspaceConfiguration E userID =
     andThen (fetch (\<lambda>d. case uuid_arg E userID of Inl e \<Rightarrow> Inl e
        | Inr u \<Rightarrow> (case find (\<lambda>c. f_user_id c = u) (configurations d) of
             None \<Rightarrow> Inl ErrNotFound | Some c \<Rightarrow> Inr c))) (\<lambda>c.
     andThen (lift (decrypt E (f_opencode_json c))) (\<lambda>doc.
     andThen (lift (decrypt E (f_api_key c))) (\<lambda>key.
     ret \<lparr>wc_OpenCodeJSON = doc, wc_APIKey = key, wc_Revision = f_revision c\<rparr>)))"

section \<open>Settings\<close>

text \<open>The row of one key, its plain JSON value if sealed.\<close>

definition open_setting :: "env \<Rightarrow> setting_row \<Rightarrow> db_error + json" where
  "open_setting E r =
     (if \<not> k_encrypted r then Inr (k_value r)
      else (case (case k_value r of JStr s \<Rightarrow> Inr s | JNull \<Rightarrow> Inr [] | _ \<Rightarrow> Inl JSONFailed) of
              Inl e \<Rightarrow> Inl e
            | Inr encoded \<Rightarrow>
                (case decrypt E encoded of Inl e \<Rightarrow> Inl e
                 | Inr text \<Rightarrow> (case json_parse E text of None \<Rightarrow> Inl JSONFailed | Some j \<Rightarrow> Inr j))))"

text \<open>\<open>(ok, err)\<close> and the target: the error is a value because callers inspect it.\<close>

definition Setting :: "env \<Rightarrow> string \<Rightarrow> (json \<Rightarrow> 'a \<times> bool) \<Rightarrow> 'a \<Rightarrow> (bool \<times> 'a \<times> db_error option) query" where
  "Setting E key decode target =
     andThen (attempt (fetch (\<lambda>d. Inr (find (\<lambda>r. k_key r = key) (settings d))))) (\<lambda>res.
     case res of
       Inl e \<Rightarrow> ret (False, target, Some e)
     | Inr None \<Rightarrow> ret (False, target, None)
     | Inr (Some r) \<Rightarrow>
         (case open_setting E r of
            Inl e \<Rightarrow> ret (False, target, Some e)
          | Inr j \<Rightarrow> (case decode j of (v, ok) \<Rightarrow> ret (True, v, if ok then None else Some JSONFailed))))"

definition seal_value :: "env \<Rightarrow> string option \<Rightarrow> bool \<Rightarrow> json \<Rightarrow> db_error + json" where
  "seal_value E nonce enc j = (if enc
     then (case encrypt E nonce (json_text E j) of Inl e \<Rightarrow> Inl e | Inr s \<Rightarrow> Inr (JStr s))
     else Inr j)"

definition sql_upsert_setting :: "env \<Rightarrow> int \<Rightarrow> string \<Rightarrow> string \<Rightarrow> json \<Rightarrow> bool \<Rightarrow> db \<Rightarrow> db_error + (unit \<times> db)" where
  "sql_upsert_setting E now actor key value enc d =
     (case user_ref E d (nullUUID actor) of Inl e \<Rightarrow> Inl e
      | Inr a \<Rightarrow> Inr ((), d\<lparr>settings := upsert (\<lambda>r. k_key r = key)
          (\<lambda>r. r\<lparr>k_value := value, k_encrypted := enc, k_updated_by := a, k_updated_at := now\<rparr>)
          \<lparr>k_key = key, k_value = value, k_encrypted = enc, k_updated_at = now, k_updated_by = a\<rparr>
          (settings d)\<rparr>))"

definition SetSetting :: "env \<Rightarrow> int \<Rightarrow> string option \<Rightarrow> string \<Rightarrow> string \<Rightarrow> json \<Rightarrow> bool \<Rightarrow> string \<Rightarrow> unit query" where
  "SetSetting E now nonce actor key value enc remote =
     andThen (lift (seal_value E nonce enc value)) (\<lambda>data.
     transaction
       (andThen (stmt (sql_upsert_setting E now actor key data enc)) (\<lambda>_.
        audit E now actor ''setting.update'' ''setting'' key ''{}'' remote)))"

section \<open>Audit listing\<close>

definition scanAudit :: "audit_row \<Rightarrow> audit_event" where
  "scanAudit r = \<lparr>ae_ID = a_id r, ae_ActorUserID = coalesce (a_actor_user_id r) [], ae_Action = a_action r,
     ae_TargetType = a_target_type r, ae_TargetID = coalesce (a_target_id r) [], ae_Details = a_details r,
     ae_RemoteAddr = a_remote_addr r, ae_CreatedAt = a_created_at r\<rparr>"

definition AuditEvents :: "nat \<Rightarrow> audit_event list query" where
  "AuditEvents limit = fetch (\<lambda>d.
     Inr (map scanAudit (take limit (sort_key (\<lambda>r. - a_created_at r) (audits d)))))"

section \<open>OIDC identities\<close>

definition OIDCUser :: "string \<Rightarrow> string \<Rightarrow> user query" where
  "OIDCUser issuer subject = fetch (\<lambda>d.
     case find (\<lambda>i. i_issuer i = issuer \<and> i_subject i = subject) (identities d) of
       None \<Rightarrow> Inl ErrNotFound
     | Some i \<Rightarrow> (case find (\<lambda>u. u_id u = i_user_id i) (users d) of
         None \<Rightarrow> Inl ErrNotFound | Some u \<Rightarrow> Inr (scanUser u)))"

text \<open>Two unique constraints: one identity per issuer and subject, one per issuer and user.\<close>

definition sql_insert_identity :: "env \<Rightarrow> int \<Rightarrow> string \<Rightarrow> string \<Rightarrow> string \<Rightarrow> string option \<Rightarrow> db
    \<Rightarrow> db_error + (unit \<times> db)" where
  "sql_insert_identity E now issuer subject userID mail d =
     (case uuid_arg E userID of Inl e \<Rightarrow> Inl e
      | Inr u \<Rightarrow>
          if matches (\<lambda>i. i_issuer i = issuer \<and> (i_subject i = subject \<or> i_user_id i = u)) (identities d)
          then Inl DuplicateKey
          else if \<not> matches (\<lambda>r. u_id r = u) (users d) then Inl ConstraintViolation
          else Inr ((), d\<lparr>identities := identities d @
                 [\<lparr>i_issuer = issuer, i_subject = subject, i_user_id = u, i_email = mail,
                   i_created_at = now\<rparr>]\<rparr>))"

definition LinkOIDCUserByEmail :: "env \<Rightarrow> int \<Rightarrow> string \<Rightarrow> string \<Rightarrow> string \<Rightarrow> string \<Rightarrow> user query" where
  "LinkOIDCUserByEmail E now issuer subject mail remote = transaction
     (andThen (user_by_email E (TrimSpace mail)) (\<lambda>found.
      case found of
        None \<Rightarrow> throw ErrNotFound
      | Some u \<Rightarrow>
          if user_Disabled u then throw ErrNotFound
          else andThen (mapErr (\<lambda>e. if e = DuplicateKey then ErrConflict else e)
                 (stmt (sql_insert_identity E now issuer subject (user_ID u) (Some mail)))) (\<lambda>_.
               andThen (audit E now (user_ID u) ''oidc.identity.link'' ''user'' (user_ID u) ''{}'' remote) (\<lambda>_.
               ret u))))"

definition ProvisionOIDCUser :: "env \<Rightarrow> int \<Rightarrow> string \<Rightarrow> string \<Rightarrow> string \<Rightarrow> string \<Rightarrow> string \<Rightarrow> string \<Rightarrow> string
    \<Rightarrow> string \<Rightarrow> user query" where
  "ProvisionOIDCUser E now uid issuer subject uname dname mail rol remote = transaction
     (andThen (insertUser E now uid uname dname mail rol []) (\<lambda>u.
      andThen (stmt (sql_insert_identity E now issuer subject (user_ID u) (nullif mail))) (\<lambda>_.
      andThen (audit E now (user_ID u) ''oidc.provision'' ''user'' (user_ID u) ''{}'' remote) (\<lambda>_.
      ret u))))"

end
