(* ===== verification/StoreLogic.thy ===== *)
theory StoreLogic
  imports StoreConfig
begin

text \<open>
  Reasoning about store operations: how statements and transactions act on the database, with every
  failure schedule covered by the rules. \<open>on_db J\<close> lifts a predicate on the database to the store.
  The rule for \<open>transaction\<close> asks only what the body guarantees when it succeeds: a failing
  transaction leaves the database untouched whatever its body did.
\<close>

definition on_db :: "(db \<Rightarrow> bool) \<Rightarrow> store \<Rightarrow> bool" where
  "on_db J s \<longleftrightarrow> J (db s)"

lemma on_db_simps [simp]:
  "on_db J (s\<lparr>db := d\<rparr>) = J d" "on_db J (s\<lparr>faults := fs\<rparr>) = on_db J s"
  "on_db J (s\<lparr>audit_seq := n\<rparr>) = on_db J s"
  by (simp_all add: on_db_def)

subsection \<open>Statements\<close>

lemma stmt_cases:
  assumes "stmt f s = (r, t)"
  obtains (failed) e where "r = Inl e" and "db t = db s"
  | (finished) x d where "f (db s) = Inr (x, d)" and "r = Inr x" and "db t = d"
  using assms by (auto simp: stmt_def Let_def split: if_splits sum.splits prod.splits)

lemma stmt_Inr: "stmt f s = (Inr x, t) \<Longrightarrow> f (db s) = Inr (x, db t)"
  by (auto simp: stmt_def Let_def split: if_splits sum.splits prod.splits)

lemma stmt_InrE:
  assumes "stmt f s = (Inr x, t)"
  obtains d where "f (db s) = Inr (x, d)" and "db t = d"
  using stmt_Inr [OF assms] by simp

lemma stmt_total:
  obtains (bad) s' where "stmt (\<lambda>d. Inr (g d, d)) s = (Inl Unavailable, s')"
  | (good) s' where "stmt (\<lambda>d. Inr (g d, d)) s = (Inr (g (db s)), s')" "db s' = db s"
  by (cases "faults s \<noteq> [] \<and> hd (faults s)") (auto simp: stmt_def Let_def)

lemma stmt_Inl: "stmt f s = (Inl e, t) \<Longrightarrow> db t = db s"
  by (auto simp: stmt_def Let_def split: if_splits sum.splits prod.splits)

lemma fetch_Inr: "fetch f s = (Inr x, t) \<Longrightarrow> f (db s) = Inr x \<and> db t = db s"
  unfolding fetch_def by (drule stmt_Inr) (auto split: sum.splits)

lemma fetch_db: "fetch f s = (r, t) \<Longrightarrow> db t = db s"
  by (auto simp: fetch_def stmt_def Let_def split: if_splits sum.splits prod.splits)

lemma fetch_total:
  obtains (bad) s' where "fetch f s = (Inl Unavailable, s')" "db s' = db s"
  | (good) s' where "fetch f s = (f (db s), s')" "db s' = db s"
proof (cases "faults s \<noteq> [] \<and> hd (faults s)")
  case True
  then have "fetch f s = (Inl Unavailable, s\<lparr>faults := tl (faults s)\<rparr>)" by (simp add: fetch_def stmt_def Let_def)
  then show thesis by (rule bad) simp
next
  case False
  then have "fetch f s = (f (db s), s\<lparr>faults := tl (faults s)\<rparr>)"
    by (cases "f (db s)") (auto simp: fetch_def stmt_def Let_def)
  then show thesis by (rule good) simp
qed

text \<open>With no faults scheduled a statement is its SQL.\<close>

lemma stmt_no_faults:
  "faults s = [] \<Longrightarrow> stmt f s = (case f (db s) of Inl e \<Rightarrow> (Inl e, s) | Inr (x, d) \<Rightarrow> (Inr x, s\<lparr>db := d\<rparr>))"
  by (cases s) (auto simp: stmt_def Let_def split: sum.splits)

lemma fetch_no_faults:
  "faults s = [] \<Longrightarrow> fetch f s = (f (db s), s)"
  by (auto simp: fetch_def stmt_no_faults split: sum.splits)

lemma nextval_apply [simp]: "nextval s = (Inr (audit_seq s), s\<lparr>audit_seq := audit_seq s + 1\<rparr>)"
  by (simp add: nextval_def)

lemma lift_simps [simp]: "lift (Inl e) = throw e" "lift (Inr x) = ret x"
  by (simp_all add: lift_def)

lemma lift_Inr: "lift r s = (Inr x, t) \<Longrightarrow> r = Inr x \<and> t = s"
  by (cases r) auto

subsection \<open>Transactions\<close>

lemma transaction_Inl: "transaction m s = (Inl e, t) \<Longrightarrow> db t = db s"
  by (auto simp: transaction_def split: sum.splits prod.splits dest: stmt_Inl)

lemma transaction_Inr:
  assumes "transaction m s = (Inr x, t)"
  obtains s1 s2 where "db s1 = db s" and "audit_seq s1 = audit_seq s" and "m s1 = (Inr x, s2)"
    and "db t = db s2"
proof -
  from assms obtain s1 s2 where 1: "stmt (\<lambda>d. Inr ((), d)) s = (Inr (), s1)"
    and 2: "m s1 = (Inr x, s2)" and 3: "stmt (\<lambda>d. Inr ((), d)) s2 = (Inr (), t)"
    by (auto simp: transaction_def split: sum.splits prod.splits)
  from 1 have "db s1 = db s" "audit_seq s1 = audit_seq s"
    by (auto simp: stmt_def Let_def split: if_splits)
  moreover from 3 have "db t = db s2" by (auto dest: stmt_Inr)
  ultimately show thesis using 2 that by blast
qed

lemma transaction_no_faults:
  assumes "faults s = []" and "m s = (Inr x, t)" and "faults t = []"
  shows "transaction m s = (Inr x, t)"
  using assms by (simp add: transaction_def stmt_no_faults)

subsection \<open>Rules\<close>

lemma preserves_stmt [act_rules]:
  "(\<And>d x d'. J d \<Longrightarrow> f d = Inr (x, d') \<Longrightarrow> J d') \<Longrightarrow> preserves (on_db J) (stmt f)"
  by (rule preservesI) (auto simp: on_db_def elim!: stmt_cases)

lemma preserves_fetch [act_rules]: "preserves (on_db J) (fetch f)"
  by (rule preservesI) (auto simp: on_db_def dest: fetch_db)

lemma preserves_nextval [act_rules]: "preserves (on_db J) nextval"
  by (rule preservesI) auto

lemma preserves_lift [act_rules]: "preserves I (lift r)"
  by (cases r) (auto intro: act_rules)

lemma preserves_transaction_yields:
  "yields (on_db J) m (\<lambda>_. on_db J) \<Longrightarrow> preserves (on_db J) (transaction m)"
proof (rule preservesI)
  fix s r t assume y: "yields (on_db J) m (\<lambda>_. on_db J)" and J: "on_db J s" and t: "transaction m s = (r, t)"
  show "on_db J t"
  proof (cases r)
    case (Inl e)
    with t J show ?thesis by (auto simp: on_db_def dest: transaction_Inl)
  next
    case (Inr x)
    with t obtain s1 s2 where "db s1 = db s" "m s1 = (Inr x, s2)" "db t = db s2"
      by (auto elim: transaction_Inr)
    have "on_db J s1" using J \<open>db s1 = db s\<close> by (simp add: on_db_def)
    from yieldsD [OF y this \<open>m s1 = (Inr x, s2)\<close>] have "on_db J s2" .
    with \<open>db t = db s2\<close> show ?thesis by (simp add: on_db_def)
  qed
qed

lemma preserves_yields: "preserves I m \<Longrightarrow> yields I m (\<lambda>_. I)"
  by (rule yieldsI) (auto dest: preservesD)

lemma preserves_transaction [act_rules]:
  "preserves (on_db J) m \<Longrightarrow> preserves (on_db J) (transaction m)"
  by (intro preserves_transaction_yields preserves_yields)

lemma yields_andThen:
  "yields P m Q \<Longrightarrow> (\<And>x. yields (Q x) (f x) R) \<Longrightarrow> yields P (andThen m f) R"
  by (rule yieldsI, erule andThen_Inr_E) (blast dest: yieldsD)

lemma yields_ret: "(\<And>s. P s \<Longrightarrow> Q x s) \<Longrightarrow> yields P (ret x) Q"
  by (auto simp: yields_def)

lemma yields_throw: "yields P (throw e) Q"
  by (auto simp: yields_def)

lemma yields_mapErr: "yields P m Q \<Longrightarrow> yields P (mapErr g m) Q"
  by (auto simp: yields_def mapErr_def split: sum.splits prod.splits)

lemma yields_stmt:
  "(\<And>d x d'. J d \<Longrightarrow> f d = Inr (x, d') \<Longrightarrow> Q x d') \<Longrightarrow> yields (on_db J) (stmt f) (\<lambda>x. on_db (Q x))"
  by (rule yieldsI) (auto simp: on_db_def dest: stmt_Inr)

lemma yields_fetch:
  "yields (on_db J) (fetch f) (\<lambda>x. on_db (\<lambda>d. J d \<and> f d = Inr x))"
  by (rule yieldsI) (auto simp: on_db_def dest: fetch_Inr)

lemma yields_weaken:
  "yields P m Q \<Longrightarrow> (\<And>s. P' s \<Longrightarrow> P s) \<Longrightarrow> (\<And>x s. Q x s \<Longrightarrow> Q' x s) \<Longrightarrow> yields P' m Q'"
  by (fastforce simp: yields_def split: sum.splits prod.splits)

lemma yields_transaction:
  assumes "yields (on_db J) m (\<lambda>x. on_db (Q x))"
  shows "yields (on_db J) (transaction m) (\<lambda>x. on_db (Q x))"
proof (rule yieldsI)
  fix s x t assume J: "on_db J s" and t: "transaction m s = (Inr x, t)"
  from t obtain s1 s2 where "db s1 = db s" "m s1 = (Inr x, s2)" "db t = db s2"
    by (auto elim: transaction_Inr)
  have "on_db J s1" using J \<open>db s1 = db s\<close> by (simp add: on_db_def)
  from yieldsD [OF assms this \<open>m s1 = (Inr x, s2)\<close>] have "on_db (Q x) s2" .
  with \<open>db t = db s2\<close> show "on_db (Q x) t" by (simp add: on_db_def)
qed

text \<open>An action that never changes the database.\<close>

definition reads_only :: "'a query \<Rightarrow> bool" where
  "reads_only m \<longleftrightarrow> (\<forall>s. db (snd (m s)) = db s)"

lemma reads_onlyD: "reads_only m \<Longrightarrow> m s = (r, t) \<Longrightarrow> db t = db s"
  by (metis reads_only_def snd_conv)

lemma reads_only_fetch [act_rules]: "reads_only (fetch f)"
  by (metis reads_only_def fetch_db prod.collapse)

lemma reads_only_andThen [act_rules]: "reads_only m \<Longrightarrow> (\<And>x. reads_only (f x)) \<Longrightarrow> reads_only (andThen m f)"
  by (auto simp: reads_only_def andThen_def split: prod.splits sum.splits) (metis snd_conv)+

lemma reads_only_basic [act_rules]: "reads_only (ret x)" "reads_only (throw e)" "reads_only (lift r)"
  by (auto simp: reads_only_def lift_def split: sum.splits)

lemma reads_only_preserves: "reads_only m \<Longrightarrow> preserves (on_db J) m"
  by (rule preservesI) (auto simp: on_db_def dest: reads_onlyD)

end
