(* ===== verification/StoreInv.thy ===== *)
theory StoreInv
  imports StoreLogic
begin

text \<open>
  What the schema and the Go code together keep true of the database, and the proof that every
  store operation keeps it: unique keys, roles and states in range, foreign keys that point at
  users, and one workspace for every user. The last is no constraint of the schema: it holds only
  between transactions, because \<open>insertUser\<close> writes both rows in one.
\<close>

definition ids :: "db \<Rightarrow> string set" where
  "ids d = u_id ` set (users d)"

definition mail_key :: "env \<Rightarrow> user_row \<Rightarrow> string option" where
  "mail_key E r = map_option (pg_lower E) (u_email r)"

lemma same_email_key: "same_email E x r \<longleftrightarrow> mail_key E r = Some (pg_lower E x)"
  by (simp add: same_email_def mail_key_def split: option.splits)

definition users_ok :: "env \<Rightarrow> user_row list \<Rightarrow> bool" where
  "users_ok E us \<longleftrightarrow> distinct (map u_id us)
     \<and> (\<forall>r \<in> set us. valid_role (u_role r) \<and> uuid_canonical E (u_id r))
     \<and> (\<forall>r \<in> set us. \<forall>s \<in> set us. pg_lower E (u_username r) = pg_lower E (u_username s) \<longrightarrow> u_id r = u_id s)
     \<and> (\<forall>r \<in> set us. \<forall>s \<in> set us. mail_key E r \<noteq> None \<and> mail_key E r = mail_key E s \<longrightarrow> u_id r = u_id s)"

definition credentials_ok :: "string set \<Rightarrow> credential_row list \<Rightarrow> bool" where
  "credentials_ok U cs \<longleftrightarrow> distinct (map c_user_id cs) \<and> c_user_id ` set cs \<subseteq> U"

definition identities_ok :: "string set \<Rightarrow> identity_row list \<Rightarrow> bool" where
  "identities_ok U is \<longleftrightarrow> distinct (map (\<lambda>i. (i_issuer i, i_subject i)) is)
     \<and> distinct (map (\<lambda>i. (i_issuer i, i_user_id i)) is) \<and> i_user_id ` set is \<subseteq> U"

definition sessions_ok :: "string set \<Rightarrow> session_row list \<Rightarrow> bool" where
  "sessions_ok U ss \<longleftrightarrow> distinct (map s_id_hash ss) \<and> s_user_id ` set ss \<subseteq> U"

definition settings_ok :: "string set \<Rightarrow> setting_row list \<Rightarrow> bool" where
  "settings_ok U ks \<longleftrightarrow> distinct (map k_key ks) \<and> (\<forall>r \<in> set ks. \<forall>u. k_updated_by r = Some u \<longrightarrow> u \<in> U)"

definition workspaces_ok :: "string set \<Rightarrow> workspace_row list \<Rightarrow> bool" where
  "workspaces_ok U ws \<longleftrightarrow> distinct (map w_user_id ws) \<and> distinct (map w_resource_name ws)
     \<and> w_user_id ` set ws \<subseteq> U
     \<and> (\<forall>w \<in> set ws. valid_state (w_desired_state w) \<and> 0 \<le> w_restart_nonce w \<and> w_restart_nonce w \<le> bigint_max)"

definition configurations_ok :: "string set \<Rightarrow> config_row list \<Rightarrow> bool" where
  "configurations_ok U cs \<longleftrightarrow> distinct (map f_user_id cs) \<and> f_user_id ` set cs \<subseteq> U
     \<and> (\<forall>c \<in> set cs. 1 \<le> f_revision c \<and> f_revision c \<le> bigint_max)"

definition audits_ok :: "string set \<Rightarrow> audit_row list \<Rightarrow> bool" where
  "audits_ok U as \<longleftrightarrow> (\<forall>a \<in> set as. \<forall>u. a_actor_user_id a = Some u \<longrightarrow> u \<in> U)"

definition db_ok :: "env \<Rightarrow> db \<Rightarrow> bool" where
  "db_ok E d \<longleftrightarrow> users_ok E (users d) \<and> credentials_ok (ids d) (credentials d)
     \<and> identities_ok (ids d) (identities d) \<and> sessions_ok (ids d) (sessions d)
     \<and> settings_ok (ids d) (settings d) \<and> workspaces_ok (ids d) (workspaces d)
     \<and> configurations_ok (ids d) (configurations d) \<and> audits_ok (ids d) (audits d)"

text \<open>Every user has a workspace.\<close>

definition complete :: "db \<Rightarrow> bool" where
  "complete d \<longleftrightarrow> ids d \<subseteq> w_user_id ` set (workspaces d)"

definition db_inv :: "env \<Rightarrow> db \<Rightarrow> bool" where
  "db_inv E d \<longleftrightarrow> db_ok E d \<and> complete d"

definition uuid_ok :: "env \<Rightarrow> bool" where
  "uuid_ok E \<longleftrightarrow> (\<forall>i u. pg_uuid E i = Some u \<longrightarrow> uuid_canonical E u)"

lemmas table_ok_defs = users_ok_def credentials_ok_def identities_ok_def sessions_ok_def settings_ok_def
  workspaces_ok_def configurations_ok_def audits_ok_def

lemma db_inv_empty: "db_inv E empty_db"
  by (simp add: db_inv_def db_ok_def table_ok_defs complete_def ids_def empty_db_def)

section \<open>Changing one table\<close>

lemma ids_simps [simp]:
  "ids (d\<lparr>credentials := cs\<rparr>) = ids d" "ids (d\<lparr>identities := is\<rparr>) = ids d"
  "ids (d\<lparr>sessions := ss\<rparr>) = ids d" "ids (d\<lparr>settings := ks\<rparr>) = ids d"
  "ids (d\<lparr>workspaces := ws\<rparr>) = ids d" "ids (d\<lparr>configurations := fs\<rparr>) = ids d"
  "ids (d\<lparr>audits := as\<rparr>) = ids d" "ids (d\<lparr>users := us\<rparr>) = u_id ` set us"
  by (simp_all add: ids_def)

lemma matches_ids: "matches (\<lambda>r. u_id r = u) (users d) \<longleftrightarrow> u \<in> ids d"
  by (auto simp: matches_iff ids_def)

lemma db_ok_simps:
  "db_ok E (d\<lparr>credentials := cs\<rparr>) \<longleftrightarrow> db_ok E d \<and> credentials_ok (ids d) cs"
  if "db_ok E d"
  using that by (auto simp: db_ok_def)

lemma db_inv_tables:
  assumes "db_inv E d"
  shows "credentials_ok (ids d) cs \<Longrightarrow> db_inv E (d\<lparr>credentials := cs\<rparr>)"
    and "identities_ok (ids d) is \<Longrightarrow> db_inv E (d\<lparr>identities := is\<rparr>)"
    and "sessions_ok (ids d) ss \<Longrightarrow> db_inv E (d\<lparr>sessions := ss\<rparr>)"
    and "settings_ok (ids d) ks \<Longrightarrow> db_inv E (d\<lparr>settings := ks\<rparr>)"
    and "configurations_ok (ids d) fs \<Longrightarrow> db_inv E (d\<lparr>configurations := fs\<rparr>)"
    and "audits_ok (ids d) as \<Longrightarrow> db_inv E (d\<lparr>audits := as\<rparr>)"
  using assms by (auto simp: db_inv_def db_ok_def complete_def)

lemma db_inv_workspaces:
  "db_inv E d \<Longrightarrow> workspaces_ok (ids d) ws \<Longrightarrow> map w_user_id ws = map w_user_id (workspaces d)
   \<Longrightarrow> db_inv E (d\<lparr>workspaces := ws\<rparr>)"
  by (simp add: db_inv_def db_ok_def complete_def) (metis list.set_map)

lemma db_inv_users:
  assumes "db_inv E d" "users_ok E us" "map u_id us = map u_id (users d)"
  shows "db_inv E (d\<lparr>users := us\<rparr>)"
proof -
  have "u_id ` set us = ids d"
    using arg_cong [OF assms(3), of set] by (simp add: ids_def)
  with assms show ?thesis by (auto simp: db_inv_def db_ok_def complete_def)
qed

text \<open>Reading facts off the invariant.\<close>

lemma db_inv_users_ok: "db_inv E d \<Longrightarrow> users_ok E (users d)"
  by (simp add: db_inv_def db_ok_def)

lemma users_okD:
  assumes "users_ok E us"
  shows "distinct (map u_id us)"
    and "r \<in> set us \<Longrightarrow> valid_role (u_role r)"
    and "r \<in> set us \<Longrightarrow> uuid_canonical E (u_id r)"
    and "r \<in> set us \<Longrightarrow> s \<in> set us \<Longrightarrow> pg_lower E (u_username r) = pg_lower E (u_username s) \<Longrightarrow> u_id r = u_id s"
    and "r \<in> set us \<Longrightarrow> s \<in> set us \<Longrightarrow> mail_key E r \<noteq> None \<Longrightarrow> mail_key E r = mail_key E s \<Longrightarrow> u_id r = u_id s"
  using assms unfolding users_ok_def by blast+

lemma users_ok_canonical: "db_inv E d \<Longrightarrow> r \<in> set (users d) \<Longrightarrow> uuid_canonical E (u_id r)"
  by (rule users_okD(3) [OF db_inv_users_ok])

lemma users_ok_role: "db_inv E d \<Longrightarrow> r \<in> set (users d) \<Longrightarrow> valid_role (u_role r)"
  by (rule users_okD(2) [OF db_inv_users_ok])

lemma users_find: "db_inv E d \<Longrightarrow> r \<in> set (users d) \<Longrightarrow> find (\<lambda>x. u_id x = u_id r) (users d) = Some r"
  by (rule distinct_keys_find [OF users_okD(1) [OF db_inv_users_ok]])

lemma users_same_id: "db_inv E d \<Longrightarrow> r \<in> set (users d) \<Longrightarrow> s \<in> set (users d) \<Longrightarrow> u_id r = u_id s \<Longrightarrow> r = s"
  using users_find [of E d r] users_find [of E d s] by (metis option.inject)

section \<open>Updates of the users table\<close>

lemma users_ok_update:
  assumes ok: "users_ok E us"
    and f: "\<And>r. u_id (f r) = u_id r"
    and new: "\<And>r. r \<in> set us \<Longrightarrow> u_id r = u \<Longrightarrow> valid_role (u_role (f r))"
    and name: "\<And>r s. r \<in> set us \<Longrightarrow> s \<in> set us \<Longrightarrow> u_id r = u \<Longrightarrow> u_id s \<noteq> u \<Longrightarrow>
                 pg_lower E (u_username (f r)) \<noteq> pg_lower E (u_username s)"
    and mail: "\<And>r s. r \<in> set us \<Longrightarrow> s \<in> set us \<Longrightarrow> u_id r = u \<Longrightarrow> u_id s \<noteq> u \<Longrightarrow>
                 mail_key E (f r) \<noteq> None \<Longrightarrow> mail_key E (f r) \<noteq> mail_key E s"
  shows "users_ok E (update_where (\<lambda>r. u_id r = u) f us)"
proof -
  let ?us = "update_where (\<lambda>r. u_id r = u) f us"
  have in_us: "(\<exists>r0 \<in> set us. r = f r0 \<and> u_id r0 = u) \<or> r \<in> set us \<and> u_id r \<noteq> u" if "r \<in> set ?us" for r
    using that by (auto simp: set_update_where)
  show ?thesis
    unfolding users_ok_def
  proof (intro conjI ballI impI)
    show "distinct (map u_id ?us)"
      using users_okD(1) [OF ok] f by (simp add: map_update_where)
  next
    fix r assume "r \<in> set ?us"
    from in_us [OF this] show "valid_role (u_role r)" and "uuid_canonical E (u_id r)"
      using users_okD(2,3) [OF ok] new f by metis+
  next
    fix r s assume r: "r \<in> set ?us" and s: "s \<in> set ?us"
      and eq: "pg_lower E (u_username r) = pg_lower E (u_username s)"
    from in_us [OF r] in_us [OF s] show "u_id r = u_id s"
    proof (elim disjE bexE conjE)
      fix r0 assume "r0 \<in> set us" "r = f r0" "u_id r0 = u" "s \<in> set us" "u_id s \<noteq> u"
      with eq name [of r0 s] show ?thesis by simp
    next
      fix s0 assume "s0 \<in> set us" "s = f s0" "u_id s0 = u" "r \<in> set us" "u_id r \<noteq> u"
      with eq name [of s0 r] show ?thesis by simp
    qed (use eq f users_okD(4) [OF ok, of r s] in simp_all)
  next
    fix r s assume r: "r \<in> set ?us" and s: "s \<in> set ?us"
      and eq: "mail_key E r \<noteq> None \<and> mail_key E r = mail_key E s"
    from in_us [OF r] in_us [OF s] show "u_id r = u_id s"
    proof (elim disjE bexE conjE)
      fix r0 assume "r0 \<in> set us" "r = f r0" "u_id r0 = u" "s \<in> set us" "u_id s \<noteq> u"
      with eq mail [of r0 s] show ?thesis by blast
    next
      fix s0 assume "s0 \<in> set us" "s = f s0" "u_id s0 = u" "r \<in> set us" "u_id r \<noteq> u"
      with eq mail [of s0 r] show ?thesis by metis
    qed (use eq f users_okD(5) [OF ok, of r s] in metis)+
  qed
qed

lemma users_ok_append:
  assumes ok: "users_ok E us"
    and "valid_role (u_role r)" "uuid_canonical E (u_id r)"
    and fresh: "\<not> matches (\<lambda>x. u_id x = u_id r) us" "\<not> matches (same_username E (u_username r)) us"
      "\<not> email_taken E (u_email r) us"
  shows "users_ok E (us @ [r])"
proof -
  have "u_id x \<noteq> u_id r" and "pg_lower E (u_username x) \<noteq> pg_lower E (u_username r)"
    and "mail_key E r \<noteq> None \<longrightarrow> mail_key E x \<noteq> mail_key E r" if "x \<in> set us" for x
    using fresh that
    by (auto simp: matches_iff same_username_def email_taken_def same_email_key mail_key_def split: option.splits)
  note new = this
  have "u_id r \<notin> set (map u_id us)" using new(1) by force
  then have "distinct (map u_id (us @ [r]))" using users_okD(1) [OF ok] by simp
  moreover have "valid_role (u_role x) \<and> uuid_canonical E (u_id x)" if "x \<in> set (us @ [r])" for x
    using that assms(2,3) users_okD(2,3) [OF ok] by auto
  moreover have "u_id x = u_id y" if "x \<in> set (us @ [r])" "y \<in> set (us @ [r])"
    "pg_lower E (u_username x) = pg_lower E (u_username y)" for x y
    using that new(2) [of x] new(2) [of y] users_okD(4) [OF ok, of x y]
    by (cases "x = r"; cases "y = r") simp_all
  moreover have "u_id x = u_id y" if "x \<in> set (us @ [r])" "y \<in> set (us @ [r])"
    "mail_key E x \<noteq> None \<and> mail_key E x = mail_key E y" for x y
    using that new(3) [of x] new(3) [of y] users_okD(5) [OF ok, of x y]
    by (cases "x = r"; cases "y = r") simp_all
  ultimately show ?thesis unfolding users_ok_def by blast
qed

end
