(* ===== verification/StoreOpsInv.thy ===== *)
theory StoreOpsInv
  imports StoreInv
begin

text \<open>
  Every operation of the \<open>Store\<close> keeps \<open>db_inv\<close>, whatever its arguments and whatever statements
  fail. One lemma per SQL statement, then one per Go method.
\<close>

named_theorems sql_inv \<open>SQL statements that keep db_inv\<close>
named_theorems store_inv \<open>store methods that keep db_inv\<close>

section \<open>Statements\<close>

lemma uuid_arg_Inr [simp]: "uuid_arg E i = Inr u \<longleftrightarrow> pg_uuid E i = Some u"
  by (simp add: uuid_arg_def split: option.splits)

lemma user_ref_Inr: "user_ref E d a = Inr b \<Longrightarrow> b = Some u \<Longrightarrow> u \<in> ids d"
  by (auto simp: user_ref_def matches_ids split: option.splits sum.splits if_splits)

lemma audit_inv [store_inv]: "preserves (on_db (db_inv E)) (audit E now actor action ty tid details remote)"
proof -
  have "db_inv E (d\<lparr>audits := audits d @ [r\<lparr>a_actor_user_id := a\<rparr>]\<rparr>)"
    if "db_inv E d" "user_ref E d b = Inr a" for d a b r
    using that user_ref_Inr [of E d b a]
    by (intro db_inv_tables(6)) (auto simp: audits_ok_def db_inv_def db_ok_def)
  from this [where r = "\<lparr>a_id = _, a_actor_user_id = _, a_action = _, a_target_type = _, a_target_id = _,
      a_details = _, a_remote_addr = _, a_created_at = _\<rparr>"]
  show ?thesis unfolding audit_def
    by (intro act_rules) (auto split: sum.splits)
qed

lemma matches_key: "matches (\<lambda>r. key r = u) rows \<longleftrightarrow> u \<in> key ` set rows"
  by (auto simp: matches_iff)

lemma user_in_ids [intro]: "r \<in> set (users d) \<Longrightarrow> u_id r \<in> ids d"
  by (simp add: ids_def)

lemma db_invD:
  assumes "db_inv E d"
  shows "credentials_ok (ids d) (credentials d)" "identities_ok (ids d) (identities d)"
    "sessions_ok (ids d) (sessions d)" "settings_ok (ids d) (settings d)"
    "workspaces_ok (ids d) (workspaces d)" "configurations_ok (ids d) (configurations d)"
    "audits_ok (ids d) (audits d)"
  using assms by (simp_all add: db_inv_def db_ok_def)

lemma map_key_upsert_ok:
  assumes "distinct (map key rows)" "\<And>r. key (f r) = key r" "key r = u"
  shows "distinct (map key (upsert (\<lambda>x. key x = u) f r rows))"
  using assms by (auto simp: map_upsert matches_key)

lemma set_upsert_cases:
  "x \<in> set (upsert P f r rows) \<Longrightarrow> (\<exists>y \<in> set rows. P y \<and> x = f y) \<or> x \<in> set rows \<or> x = r"
  by (auto simp: upsert_def set_update_where split: if_splits)

lemma set_update_cases:
  "x \<in> set (update_where P f rows) \<Longrightarrow> (\<exists>y \<in> set rows. P y \<and> x = f y) \<or> x \<in> set rows"
  by (auto simp: set_update_where)

lemma sql_insert_credential_inv [sql_inv]:
  "db_inv E d \<Longrightarrow> sql_insert_credential E now i h d = Inr (x, d') \<Longrightarrow> db_inv E d'"
  using db_invD(1) [of E d]
  by (auto simp: sql_insert_credential_def matches_ids matches_key credentials_ok_def
        split: sum.splits if_splits intro!: db_inv_tables(1))

lemma sql_upsert_credential_inv [sql_inv]:
  assumes "db_inv E d" "sql_upsert_credential E now i h d = Inr (x, d')"
  shows "db_inv E d'"
proof -
  from assms(2) obtain u where u: "u \<in> ids d" and d': "d' = d\<lparr>credentials := upsert (\<lambda>c. c_user_id c = u)
      (\<lambda>c. c\<lparr>c_password_hash := h, c_changed_at := now\<rparr>)
      \<lparr>c_user_id = u, c_password_hash = h, c_changed_at = now\<rparr> (credentials d)\<rparr>"
    by (auto simp: sql_upsert_credential_def matches_ids split: sum.splits if_splits)
  show ?thesis unfolding d'
    by (rule db_inv_tables(1) [OF assms(1)])
      (use u db_invD(1) [OF assms(1)] in \<open>auto simp: credentials_ok_def intro!: map_key_upsert_ok dest!: set_upsert_cases\<close>)
qed

lemma identities_ok_append:
  assumes "identities_ok U is" "i_user_id r \<in> U"
    and fresh: "\<not> matches (\<lambda>i. i_issuer i = i_issuer r \<and> (i_subject i = i_subject r \<or> i_user_id i = i_user_id r)) is"
  shows "identities_ok U (is @ [r])"
proof -
  have "(i_issuer r, i_subject r) \<notin> set (map (\<lambda>i. (i_issuer i, i_subject i)) is)"
    and "(i_issuer r, i_user_id r) \<notin> set (map (\<lambda>i. (i_issuer i, i_user_id i)) is)"
    using fresh by (force simp: matches_iff)+
  with assms(1,2) show ?thesis by (simp add: identities_ok_def)
qed

lemma sql_insert_identity_inv [sql_inv]:
  "db_inv E d \<Longrightarrow> sql_insert_identity E now iss sub i m d = Inr (x, d') \<Longrightarrow> db_inv E d'"
  using db_invD(2) [of E d]
  by (auto simp: sql_insert_identity_def matches_ids
        split: sum.splits if_splits intro!: db_inv_tables(2) identities_ok_append)

lemma sql_upsert_configuration_inv [sql_inv]:
  assumes "db_inv E d" "sql_upsert_configuration E now i c k d = Inr (x, d')"
  shows "db_inv E d'"
proof -
  from assms(2) obtain u where u: "u \<in> ids d"
    and no: "\<not> matches (\<lambda>c. f_user_id c = u \<and> f_revision c \<ge> bigint_max) (configurations d)"
    and d': "d' = d\<lparr>configurations := upsert (\<lambda>c. f_user_id c = u)
      (\<lambda>x. x\<lparr>f_opencode_json := c, f_api_key := k, f_revision := f_revision x + 1, f_updated_at := now\<rparr>)
      \<lparr>f_user_id = u, f_opencode_json = c, f_api_key = k, f_revision = 1,
       f_created_at = now, f_updated_at = now\<rparr> (configurations d)\<rparr>"
    by (auto simp: sql_upsert_configuration_def matches_ids split: sum.splits if_splits)
  show ?thesis unfolding d'
    by (rule db_inv_tables(5) [OF assms(1)])
      (use u no db_invD(6) [OF assms(1)] in
        \<open>force simp: configurations_ok_def matches_iff bigint_max_def intro!: map_key_upsert_ok dest!: set_upsert_cases\<close>)
qed

lemma sql_upsert_setting_inv [sql_inv]:
  assumes "db_inv E d" "sql_upsert_setting E now actor key v enc d = Inr (x, d')"
  shows "db_inv E d'"
proof -
  from assms(2) obtain a where a: "user_ref E d (nullUUID actor) = Inr a"
    and d': "d' = d\<lparr>settings := upsert (\<lambda>r. k_key r = key)
          (\<lambda>r. r\<lparr>k_value := v, k_encrypted := enc, k_updated_by := a, k_updated_at := now\<rparr>)
          \<lparr>k_key = key, k_value = v, k_encrypted = enc, k_updated_at = now, k_updated_by = a\<rparr>
          (settings d)\<rparr>"
    by (auto simp: sql_upsert_setting_def split: sum.splits)
  show ?thesis unfolding d'
    by (rule db_inv_tables(4) [OF assms(1)])
      (use user_ref_Inr [OF a] db_invD(4) [OF assms(1)] in
        \<open>auto simp: settings_ok_def intro!: map_key_upsert_ok dest!: set_upsert_cases\<close>)
qed

subsection \<open>Workspaces\<close>

definition good_workspace_update :: "(workspace_row \<Rightarrow> db_error + workspace_row) \<Rightarrow> bool" where
  "good_workspace_update f \<longleftrightarrow> (\<forall>r r'. f r = Inr r' \<longrightarrow> w_user_id r' = w_user_id r
     \<and> w_resource_name r' = w_resource_name r
     \<and> (valid_state (w_desired_state r) \<and> 0 \<le> w_restart_nonce r \<and> w_restart_nonce r \<le> bigint_max \<longrightarrow>
        valid_state (w_desired_state r') \<and> 0 \<le> w_restart_nonce r' \<and> w_restart_nonce r' \<le> bigint_max))"

lemma good_workspace_updates:
  "good_workspace_update (set_state now st)" "good_workspace_update (set_restart now)"
  "good_workspace_update (set_purged now)" "good_workspace_update (set_touched now)"
  by (auto simp: good_workspace_update_def set_state_def set_restart_def set_purged_def set_touched_def
        valid_state_def split: if_splits)

lemma sql_update_workspace_E:
  assumes "sql_update_workspace E i f d = Inr (n, d')"
  obtains (none) "n = 0" "d' = d"
  | (one) u r r' where "pg_uuid E i = Some u" "find (\<lambda>r. w_user_id r = u) (workspaces d) = Some r"
      "f r = Inr r'" "n = 1"
      "d' = d\<lparr>workspaces := update_where (\<lambda>x. w_user_id x = u) (\<lambda>_. r') (workspaces d)\<rparr>"
proof (cases "pg_uuid E i")
  case None
  with assms show ?thesis by (simp add: sql_update_workspace_def uuid_arg_def)
next
  case (Some u)
  show ?thesis
  proof (cases "find (\<lambda>r. w_user_id r = u) (workspaces d)")
    case None
    with assms Some none show ?thesis by (simp add: sql_update_workspace_def uuid_arg_def)
  next
    case (Some r)
    with assms \<open>pg_uuid E i = Some u\<close> one show ?thesis
      by (cases "f r") (simp_all add: sql_update_workspace_def uuid_arg_def)
  qed
qed

lemma sql_update_workspace_inv:
  assumes inv: "db_inv E d" and upd: "sql_update_workspace E i f d = Inr (x, d')" and good: "good_workspace_update f"
  shows "db_inv E d'"
  using upd
proof (cases rule: sql_update_workspace_E)
  case (one u r r')
  let ?ws = "update_where (\<lambda>x. w_user_id x = u) (\<lambda>_. r') (workspaces d)"
  have r: "r \<in> set (workspaces d)" "w_user_id r = u" using find_Some_in [OF one(2)] by auto
  note ok = db_invD(5) [OF inv, unfolded workspaces_ok_def]
  have r': "w_user_id r' = u" "w_resource_name r' = w_resource_name r" "valid_state (w_desired_state r')"
      "0 \<le> w_restart_nonce r'" "w_restart_nonce r' \<le> bigint_max"
    using good one(3) r ok by (simp_all add: good_workspace_update_def)
  have only: "x = r" if "x \<in> set (workspaces d)" "w_user_id x = u" for x
    using ok r that inj_onD [of w_user_id "set (workspaces d)" x r] by (simp add: distinct_map)
  have eq_ids: "map w_user_id ?ws = map w_user_id (workspaces d)"
    using r' by (auto simp: update_where_def)
  have names: "map w_resource_name ?ws = map w_resource_name (workspaces d)"
    using only r' by (auto simp: update_where_def)
  have "w_user_id ` set ?ws = w_user_id ` set (workspaces d)"
    using eq_ids by (metis list.set_map)
  moreover have "valid_state (w_desired_state w) \<and> 0 \<le> w_restart_nonce w \<and> w_restart_nonce w \<le> bigint_max"
    if "w \<in> set ?ws" for w
    using set_update_cases [OF that] ok r' by blast
  ultimately have "workspaces_ok (ids d) ?ws"
    using ok unfolding workspaces_ok_def eq_ids names by blast
  then show ?thesis unfolding one(5) by (rule db_inv_workspaces [OF inv]) (rule eq_ids)
qed (use inv in simp)

subsection \<open>Users\<close>

lemma sql_update_profile_inv [sql_inv]:
  assumes inv: "db_inv E d" and upd: "sql_update_profile E now i input d = Inr (x, d')"
  shows "db_inv E d'"
proof -
  let ?f = "\<lambda>x. x\<lparr>u_username := pi_Username input, u_display_name := pi_DisplayName input,
      u_role := pi_Role input, u_disabled := pi_Disabled input, u_updated_at := now\<rparr>"
  from upd obtain u where role: "valid_role (pi_Role input)"
    and name: "\<not> matches (\<lambda>x. u_id x \<noteq> u \<and> same_username E (pi_Username input) x) (users d)"
    and d': "d' = d\<lparr>users := update_where (\<lambda>x. u_id x = u) ?f (users d)\<rparr>"
    by (auto simp: sql_update_profile_def Let_def split: sum.splits option.splits if_splits)
  have "users_ok E (update_where (\<lambda>x. u_id x = u) ?f (users d))"
  proof (rule users_ok_update [OF db_inv_users_ok [OF inv]])
    fix r s assume "r \<in> set (users d)" "s \<in> set (users d)" "u_id r = u" "u_id s \<noteq> u"
    then show "pg_lower E (u_username (?f r)) \<noteq> pg_lower E (u_username s)"
      using name by (auto simp: matches_iff same_username_def)
    assume "mail_key E (?f r) \<noteq> None"
    then show "mail_key E (?f r) \<noteq> mail_key E s"
      using users_okD(5) [OF db_inv_users_ok [OF inv], of r s] \<open>r \<in> _\<close> \<open>s \<in> _\<close> \<open>u_id r = u\<close> \<open>u_id s \<noteq> u\<close>
      by (auto simp: mail_key_def)
  qed (use role in auto)
  then show ?thesis unfolding d'
    by (rule db_inv_users [OF inv]) (rule map_update_where, simp)
qed

lemma users_ok_plain_update:
  assumes ok: "users_ok E us"
    and f: "\<And>r. u_id (f r) = u_id r" "\<And>r. u_role (f r) = u_role r" "\<And>r. u_username (f r) = u_username r"
      "\<And>r. u_email (f r) = u_email r"
  shows "users_ok E (update_where (\<lambda>r. u_id r = u) f us)"
proof (rule users_ok_update [OF ok f(1)])
  fix r s assume rs: "r \<in> set us" "s \<in> set us" "u_id r = u" "u_id s \<noteq> u"
  then show "pg_lower E (u_username (f r)) \<noteq> pg_lower E (u_username s)"
    using users_okD(4) [OF ok rs(1,2)] f by auto
  assume "mail_key E (f r) \<noteq> None"
  with rs show "mail_key E (f r) \<noteq> mail_key E s"
    using users_okD(5) [OF ok rs(1,2)] f by (auto simp: mail_key_def)
qed (use users_okD(2) [OF ok] f in auto)

lemma sql_disable_user_inv [sql_inv]:
  assumes inv: "db_inv E d" and upd: "sql_disable_user E now i d = Inr (x, d')"
  shows "db_inv E d'"
proof -
  from upd obtain u where d': "d' = d\<lparr>users := update_where (\<lambda>x. u_id x = u)
      (\<lambda>x. x\<lparr>u_disabled := True, u_updated_at := now\<rparr>) (users d)\<rparr>"
    by (auto simp: sql_disable_user_def Let_def split: sum.splits option.splits)
  show ?thesis unfolding d'
    by (rule db_inv_users [OF inv users_ok_plain_update [OF db_inv_users_ok [OF inv]]])
      (auto intro!: map_update_where)
qed

lemma sql_update_user_inv [sql_inv]:
  assumes inv: "db_inv E d" and upd: "sql_update_user E now i dn m rol dis d = Inr (x, d')"
  shows "db_inv E d'"
proof -
  let ?f = "\<lambda>x. x\<lparr>u_display_name := dn, u_email := nullif m, u_role := rol, u_disabled := dis, u_updated_at := now\<rparr>"
  from upd obtain u where u: "pg_uuid E i = Some u"
    by (auto simp: sql_update_user_def split: sum.splits)
  show ?thesis
  proof (cases "matches (\<lambda>r. u_id r = u) (users d)")
    case True
    with upd u have 2: "valid_role rol"
      "\<not> email_taken E (nullif m) (filter (\<lambda>x. u_id x \<noteq> u) (users d))"
      "d' = d\<lparr>users := update_where (\<lambda>x. u_id x = u) ?f (users d)\<rparr>"
      by (simp_all add: sql_update_user_def uuid_arg_def split: if_splits)
    have "users_ok E (update_where (\<lambda>x. u_id x = u) ?f (users d))"
    proof (rule users_ok_update [OF db_inv_users_ok [OF inv]])
      fix r s assume rs: "r \<in> set (users d)" "s \<in> set (users d)" "u_id r = u" "u_id s \<noteq> u"
      then show "pg_lower E (u_username (?f r)) \<noteq> pg_lower E (u_username s)"
        using users_okD(4) [OF db_inv_users_ok [OF inv] rs(1,2)] by auto
      assume "mail_key E (?f r) \<noteq> None"
      with rs 2(2) show "mail_key E (?f r) \<noteq> mail_key E s"
        by (cases "u_email s") (auto simp: mail_key_def email_taken_def matches_iff same_email_def split: option.splits)
    qed (use 2(1) in auto)
    then show ?thesis unfolding 2(3)
      by (rule db_inv_users [OF inv]) (rule map_update_where, simp)
  qed (use inv upd u in \<open>simp add: sql_update_user_def uuid_arg_def\<close>)
qed

section \<open>insertUser: the only operation that adds users\<close>

definition db_but :: "env \<Rightarrow> string \<Rightarrow> db \<Rightarrow> bool" where
  "db_but E u d \<longleftrightarrow> db_ok E d \<and> u \<in> ids d \<and> ids d \<subseteq> insert u (w_user_id ` set (workspaces d))"

lemma tables_ok_mono:
  assumes "U \<subseteq> V"
  shows "credentials_ok U cs \<Longrightarrow> credentials_ok V cs" "identities_ok U is \<Longrightarrow> identities_ok V is"
    "sessions_ok U ss \<Longrightarrow> sessions_ok V ss" "settings_ok U ks \<Longrightarrow> settings_ok V ks"
    "workspaces_ok U ws \<Longrightarrow> workspaces_ok V ws" "configurations_ok U fs \<Longrightarrow> configurations_ok V fs"
    "audits_ok U as \<Longrightarrow> audits_ok V as"
  using assms unfolding table_ok_defs by blast+

lemma sql_insert_user_but:
  assumes "uuid_ok E" and inv: "db_inv E d" and ins: "sql_insert_user E now i un dn m rol d = Inr (r, d')"
  shows "db_but E (u_id r) d' \<and> pg_uuid E i = Some (u_id r)"
proof -
  from ins have u: "pg_uuid E i = Some (u_id r)" and role: "valid_role (u_role r)"
    and fresh: "\<not> matches (\<lambda>x. u_id x = u_id r) (users d)" "\<not> matches (same_username E (u_username r)) (users d)"
      "\<not> email_taken E (u_email r) (users d)"
    and d': "d' = d\<lparr>users := users d @ [r]\<rparr>"
    by (auto simp: sql_insert_user_def Let_def split: sum.splits if_splits)
  have "uuid_canonical E (u_id r)" using \<open>uuid_ok E\<close> u by (auto simp: uuid_ok_def)
  then have "users_ok E (users d @ [r])"
    by (intro users_ok_append db_inv_users_ok [OF inv] role fresh)
  moreover have "ids d \<subseteq> ids d'" by (auto simp: d' ids_def)
  ultimately have "db_ok E d'"
    using db_invD [OF inv] by (auto simp: db_ok_def d' ids_def intro: tables_ok_mono)
  moreover have "ids d' = insert (u_id r) (ids d)" by (auto simp: d' ids_def)
  moreover have "workspaces d' = workspaces d" by (simp add: d')
  ultimately show ?thesis using inv u by (auto simp: db_but_def db_inv_def complete_def)
qed

lemma sql_insert_credential_but:
  assumes but: "db_but E u d" and ins: "sql_insert_credential E now i h d = Inr (x, d')"
  shows "db_but E u d'"
proof -
  from ins obtain v where v: "v \<notin> c_user_id ` set (credentials d)" "v \<in> u_id ` set (users d)"
    and d': "d' = d\<lparr>credentials := credentials d @ [\<lparr>c_user_id = v, c_password_hash = h, c_changed_at = now\<rparr>]\<rparr>"
    by (auto simp: sql_insert_credential_def matches_key split: sum.splits if_splits)
  from v(2) have "v \<in> ids d" by (simp add: ids_def)
  with but v(1) show ?thesis
    by (simp add: d' db_but_def db_ok_def credentials_ok_def)
qed

lemma sql_insert_workspace_inv:
  assumes but: "db_but E u d" and i: "pg_uuid E i = Some u" and ins: "sql_insert_workspace E now i rn d = Inr (x, d')"
  shows "db_inv E d'"
proof -
  from ins i have fresh: "u \<notin> w_user_id ` set (workspaces d)" "rn \<notin> w_resource_name ` set (workspaces d)"
    and d': "d' = d\<lparr>workspaces := workspaces d @
                 [\<lparr>w_user_id = u, w_resource_name = rn, w_desired_state = ''stopped'',
                   w_restart_nonce = 0, w_last_activity_at = now, w_created_at = now, w_updated_at = now\<rparr>]\<rparr>"
    by (auto simp: sql_insert_workspace_def matches_key split: sum.splits if_splits)
  from but have "workspaces_ok (ids d') (workspaces d')"
    using fresh by (auto simp: db_but_def db_ok_def workspaces_ok_def d' valid_state_def bigint_max_def)
  with but show ?thesis
    by (auto simp: db_inv_def db_but_def db_ok_def complete_def d')
qed

lemma insertUser_yields:
  assumes "uuid_ok E"
  shows "yields (on_db (db_inv E)) (insertUser E now i un dn m rol h) (\<lambda>_. on_db (db_inv E))"
  unfolding insertUser_def
proof (rule yields_andThen, rule yields_mapErr, rule yields_stmt, erule (1) sql_insert_user_but [OF assms])
  fix r :: user_row
  let ?J = "\<lambda>d. db_but E (u_id r) d \<and> pg_uuid E i = Some (u_id r)"
  show "yields (on_db ?J)
      (andThen (if h \<noteq> [] then stmt (sql_insert_credential E now i h) else ret ()) (\<lambda>_.
       andThen (stmt (sql_insert_workspace E now i (resource_name_of i))) (\<lambda>_.
       ret ((scanUser r)\<lparr>user_LastLoginAt := zero_time\<rparr>)))) (\<lambda>_. on_db (db_inv E))"
  proof (rule yields_andThen)
    show "yields (on_db ?J) (if h \<noteq> [] then stmt (sql_insert_credential E now i h) else ret ()) (\<lambda>_. on_db ?J)"
      by (auto intro!: yields_stmt yields_ret dest: sql_insert_credential_but)
    show "yields (on_db ?J) (andThen (stmt (sql_insert_workspace E now i (resource_name_of i))) (\<lambda>_.
       ret ((scanUser r)\<lparr>user_LastLoginAt := zero_time\<rparr>))) (\<lambda>_. on_db (db_inv E))"
      by (rule yields_andThen [where Q = "\<lambda>_. on_db (db_inv E)"], rule yields_stmt)
        (auto intro: yields_ret sql_insert_workspace_inv)
  qed
qed

section \<open>Every store method\<close>

lemma statement_inv:
  assumes "\<And>d x d'. db_inv E d \<Longrightarrow> f d = Inr (x, d') \<Longrightarrow> db_inv E d'"
  shows "preserves (on_db (db_inv E)) (stmt f)"
  by (rule preserves_stmt) (rule assms)

lemma lockUsers_inv [store_inv]: "preserves (on_db J) lockUsers"
  unfolding lockUsers_def by (rule preserves_stmt) simp

lemma user_by_email_inv [store_inv]: "preserves (on_db J) (user_by_email E m)"
  unfolding user_by_email_def by (rule preserves_fetch)

lemmas read_methods = UserCount_def AuthenticateLocal_def HasLocalCredential_def UserByID_def ListUsers_def
  Workspace_def ListWorkspaces_def AuditEvents_def OIDCUser_def

lemma read_methods_inv [store_inv]:
  "preserves (on_db J) UserCount" "preserves (on_db J) (AuthenticateLocal E un)"
  "preserves (on_db J) (HasLocalCredential E i)" "preserves (on_db J) (UserByID E i)"
  "preserves (on_db J) ListUsers" "preserves (on_db J) (Workspace E i)" "preserves (on_db J) ListWorkspaces"
  "preserves (on_db J) (AuditEvents n)" "preserves (on_db J) (OIDCUser iss sub)"
  "preserves (on_db J) (WorkspaceConfiguration E i)"
  by (auto simp: read_methods WorkspaceConfiguration_def intro!: act_rules)

lemma Setting_inv [store_inv]: "preserves (on_db J) (Setting E key dec target)"
  unfolding Setting_def by (intro act_rules)

lemma insert_yields:
  assumes "uuid_ok E" "\<And>x. preserves (on_db (db_inv E)) (k x)"
  shows "yields (on_db (db_inv E)) (andThen (insertUser E now i un dn m rol h) k) (\<lambda>_. on_db (db_inv E))"
  by (rule yields_andThen [OF insertUser_yields [OF assms(1)]]) (rule preserves_yields [OF assms(2)])

lemma CreateLocalUser_inv [store_inv]:
  "uuid_ok E \<Longrightarrow> preserves (on_db (db_inv E)) (CreateLocalUser E now i a un dn m rol h remote)"
  unfolding CreateLocalUser_def
  by (intro preserves_transaction_yields insert_yields act_rules store_inv)

lemma ProvisionOIDCUser_inv [store_inv]:
  "uuid_ok E \<Longrightarrow> preserves (on_db (db_inv E)) (ProvisionOIDCUser E now i iss sub un dn m rol remote)"
  unfolding ProvisionOIDCUser_def
  by (intro preserves_transaction_yields insert_yields preserves_andThen preserves_ret store_inv statement_inv)
    (auto intro: sql_inv)

lemma BootstrapAdmin_inv [store_inv]:
  assumes "uuid_ok E"
  shows "preserves (on_db (db_inv E)) (BootstrapAdmin E now i un dn m h)"
  unfolding BootstrapAdmin_def
proof (rule preserves_transaction_yields, rule yields_andThen [OF preserves_yields [OF lockUsers_inv]],
    rule yields_andThen [OF preserves_yields [OF preserves_fetch]])
  fix b
  show "yields (on_db (db_inv E)) (if b then throw ErrAlreadyBootstrapped
      else andThen (insertUser E now i un dn m ''admin'' h) (\<lambda>u.
           andThen (audit E now (user_ID u) ''bootstrap.admin'' ''user'' (user_ID u) ''{}'' []) (\<lambda>_. ret u)))
      (\<lambda>_. on_db (db_inv E))"
    by (cases b) (auto intro!: yields_throw insert_yields assms act_rules store_inv)
qed

lemma ProvisionUser_inv [store_inv]:
  assumes "uuid_ok E"
  shows "preserves (on_db (db_inv E)) (ProvisionUser E now i actor input)"
  unfolding ProvisionUser_def
proof (rule preserves_transaction_yields, rule yields_andThen [OF preserves_yields [OF user_by_email_inv]],
    rule yields_andThen)
  fix found
  show "yields (on_db (db_inv E)) (case found of
           None \<Rightarrow> andThen (insertUser E now i (pi_Username input) (pi_DisplayName input)
                             (pi_Email input) (pi_Role input) []) (\<lambda>u. ret (u, input))
         | Some u0 \<Rightarrow> let input' = (if user_ID u0 = actor
                           then input\<lparr>pi_Role := ''admin'', pi_Disabled := False\<rparr> else input)
             in andThen (stmt (sql_update_profile E now (user_ID u0) input')) (\<lambda>u. ret (u, input')))
        (\<lambda>_. on_db (db_inv E))"
  proof (cases found)
    case None
    then show ?thesis by (simp add: insert_yields [OF assms] preserves_ret)
  next
    case (Some u0)
    then show ?thesis by (auto simp: Let_def intro!: preserves_yields act_rules intro: sql_inv)
  qed
next
  fix x :: "user \<times> provision_input"
  show "yields (on_db (db_inv E)) (case x of (u, input') \<Rightarrow>
      andThen (if pi_Disabled input' \<and> \<not> user_Disabled u
               then stmt (sql_disable_user E now (user_ID u)) else ret u) (\<lambda>u'.
      andThen (audit E now actor ''user.provision'' ''user'' (user_ID u') ''{}'' []) (\<lambda>_. ret u')))
      (\<lambda>_. on_db (db_inv E))"
    by (cases x) (auto intro!: preserves_yields act_rules store_inv intro: sql_inv)
qed

lemma UpdateUser_inv [store_inv]:
  "preserves (on_db (db_inv E)) (UpdateUser E now actor i dn m rol dis h remote)"
  unfolding UpdateUser_def by (auto intro!: act_rules store_inv intro: sql_inv)

lemma SetWorkspaceConfiguration_inv [store_inv]:
  "preserves (on_db (db_inv E)) (SetWorkspaceConfiguration E now n1 n2 actor i doc key)"
  unfolding SetWorkspaceConfiguration_def by (auto intro!: act_rules store_inv intro: sql_inv)

lemma SetSetting_inv [store_inv]:
  "preserves (on_db (db_inv E)) (SetSetting E now n actor key v enc remote)"
  unfolding SetSetting_def by (auto intro!: act_rules store_inv intro: sql_inv)

lemma LinkOIDCUserByEmail_inv [store_inv]:
  "preserves (on_db (db_inv E)) (LinkOIDCUserByEmail E now iss sub m remote)"
  unfolding LinkOIDCUserByEmail_def by (auto intro!: act_rules store_inv intro: sql_inv)

lemma workspace_methods_inv [store_inv]:
  "preserves (on_db (db_inv E)) (SetWorkspaceState E now actor i st remote restart)"
  "preserves (on_db (db_inv E)) (DeleteWorkspaceDataRecord E now actor i remote)"
  "preserves (on_db (db_inv E)) (TouchWorkspace E now i)"
  unfolding SetWorkspaceState_def DeleteWorkspaceDataRecord_def TouchWorkspace_def
  by (auto intro!: act_rules store_inv statement_inv intro: sql_update_workspace_inv good_workspace_updates)

lemma map_same_keys: "(\<And>r. key (f r) = key r) \<Longrightarrow> key ` set (update_where P f rows) = key ` set rows"
  by (metis map_update_where set_map)

lemma IdleWorkspaces_inv [store_inv]: "preserves (on_db (db_inv E)) (IdleWorkspaces now before)"
  unfolding IdleWorkspaces_def
proof (rule statement_inv)
  fix d x d' assume inv: "db_inv E d"
    and "Inr (map w_user_id (filter (idle_row before) (workspaces d)), d\<lparr>workspaces := update_where (idle_row before)
              (\<lambda>r. r\<lparr>w_desired_state := ''stopped'', w_updated_at := now\<rparr>) (workspaces d)\<rparr>) = Inr (x, d')"
  then have d': "d' = d\<lparr>workspaces := update_where (idle_row before)
              (\<lambda>r. r\<lparr>w_desired_state := ''stopped'', w_updated_at := now\<rparr>) (workspaces d)\<rparr>" by simp
  show "db_inv E d'" unfolding d'
    by (rule db_inv_workspaces [OF inv])
      (use db_invD(5) [OF inv] in \<open>auto simp: workspaces_ok_def map_update_where map_same_keys
          valid_state_def dest!: set_update_cases\<close>)
qed

lemma db_inv_sessions:
  "db_inv E d \<Longrightarrow> (sessions_ok (ids d) (sessions d) \<Longrightarrow> sessions_ok (ids d) ss) \<Longrightarrow> db_inv E (d\<lparr>sessions := ss\<rparr>)"
  by (rule db_inv_tables(3)) (simp_all add: db_invD(3))

lemma session_methods_inv [store_inv]:
  "preserves (on_db (db_inv E)) (CreateSession E now th ch i ua remote expires)"
  "preserves (on_db (db_inv E)) (DeleteSession th)"
  "preserves (on_db (db_inv E)) (Session now th)"
proof -
  show "preserves (on_db (db_inv E)) (CreateSession E now th ch i ua remote expires)"
    unfolding CreateSession_def
  proof (rule statement_inv)
    fix d x d' assume inv: "db_inv E d" and "(case uuid_arg E i of Inl e \<Rightarrow> Inl e
     | Inr u \<Rightarrow>
         if matches (\<lambda>r. s_id_hash r = th) (sessions d) then Inl DuplicateKey
         else if \<not> matches (\<lambda>r. u_id r = u) (users d) then Inl ConstraintViolation
         else Inr ((), d\<lparr>sessions := sessions d @
                [\<lparr>s_id_hash = th, s_user_id = u, s_csrf_hash = ch, s_expires_at = expires,
                  s_created_at = now, s_last_seen_at = now, s_user_agent = ua,
                  s_remote_addr = remote\<rparr>]\<rparr>)) = Inr (x, d')"
    then show "db_inv E d'"
      using db_invD(3) [OF inv]
      by (auto simp: matches_ids matches_key [where key = s_id_hash] sessions_ok_def
            split: sum.splits if_splits intro!: db_inv_tables(3))
  qed
  show "preserves (on_db (db_inv E)) (DeleteSession th)"
    unfolding DeleteSession_def
    by (rule statement_inv) (auto simp: sessions_ok_def distinct_map_filter image_subset_iff intro!: db_inv_sessions)
  show "preserves (on_db (db_inv E)) (Session now th)"
    unfolding Session_def
    by (intro act_rules statement_inv)
      (auto simp: sessions_ok_def map_update_where map_same_keys intro!: db_inv_sessions)
qed

lemma RecordLogin_inv [store_inv]: "preserves (on_db (db_inv E)) (RecordLogin E now i)"
proof -
  have "db_inv E (d\<lparr>users := update_where (\<lambda>r. u_id r = u) (\<lambda>r. r\<lparr>u_last_login_at := Some now\<rparr>) (users d)\<rparr>)"
    if "db_inv E d" for d u
    by (rule db_inv_users [OF that users_ok_plain_update [OF db_inv_users_ok [OF that]]])
      (auto intro!: map_update_where)
  then show ?thesis
    unfolding RecordLogin_def by (intro act_rules statement_inv) (auto split: sum.splits)
qed

end
