(* ===== verification/Demo.thy ===== *)
theory Demo
  imports StoreOpsInv
begin

text \<open>
  A concrete environment and a small installation, at which the properties of the other theories
  are instantiated: \<open>lower\<close> and the UUID input function map ASCII letters to lower case, the digest
  pads or cuts to 32 bytes, and the sealed box is the identity under a nonce.
\<close>

definition pad32 :: "string \<Rightarrow> string" where
  "pad32 s = take 32 (s @ replicate 32 (CHR 0x00))"

definition demo_settings_json :: json where
  "demo_settings_json = JObj [(''enabled'', JBool True)]"

definition demo_env :: env where
  "demo_env = \<lparr>
     pg_lower = map ascii_lower,
     pg_uuid = (\<lambda>i. if i = [] then None else Some (map ascii_lower i)),
     unicode_lower = map ascii_lower,
     sha256 = pad32,
     argon2_IDKey = (\<lambda>p s. pad32 p),
     aead_Seal = (\<lambda>n p. p),
     aead_Open = (\<lambda>n c. Some c),
     json_text = (\<lambda>j. ''{}''),
     json_parse = (\<lambda>s. if s = ''{}'' then Some (JObj []) else None)\<rparr>"

lemma ascii_lower_idem [simp]: "ascii_lower (ascii_lower c) = ascii_lower c"
  by (auto simp: ascii_lower_def)

lemma demo_env_simps [simp]:
  "pg_lower demo_env = map ascii_lower"
  "pg_uuid demo_env i = (if i = [] then None else Some (map ascii_lower i))"
  "sha256 demo_env = pad32"
  "argon2_IDKey demo_env p s = pad32 p"
  "aead_Seal demo_env n p = p" "aead_Open demo_env n p = Some p"
  "json_parse demo_env s = (if s = ''{}'' then Some (JObj []) else None)"
  by (simp_all add: demo_env_def)

lemma length_pad32 [simp]: "length (pad32 s) = 32"
  by (simp add: pad32_def)

lemma demo_uuid_ok: "uuid_ok demo_env"
  by (simp add: uuid_ok_def uuid_canonical_def)

lemma demo_crypto_ok: "crypto_ok demo_env"
  by (simp add: crypto_ok_def)

text \<open>An administrator \<open>root\<close> and a user \<open>ann\<close>.\<close>

definition demo_root :: user_row where
  "demo_root = \<lparr>u_id = ''a1'', u_username = ''root'', u_display_name = ''Root'', u_email = Some ''root@x.io'',
     u_role = ''admin'', u_disabled = False, u_created_at = 1, u_updated_at = 1, u_last_login_at = None\<rparr>"

definition demo_ann :: user_row where
  "demo_ann = \<lparr>u_id = ''b2'', u_username = ''ann'', u_display_name = ''Ann'', u_email = Some ''ann@x.io'',
     u_role = ''user'', u_disabled = False, u_created_at = 2, u_updated_at = 2, u_last_login_at = None\<rparr>"

definition demo_workspace :: "string \<Rightarrow> string \<Rightarrow> workspace_row" where
  "demo_workspace u st = \<lparr>w_user_id = u, w_resource_name = ''ws-'' @ u, w_desired_state = st,
     w_restart_nonce = 0, w_last_activity_at = 5, w_created_at = 1, w_updated_at = 1\<rparr>"

definition demo_db :: db where
  "demo_db = empty_db\<lparr>users := [demo_root, demo_ann],
     workspaces := [demo_workspace ''a1'' ''stopped'', demo_workspace ''b2'' ''running'']\<rparr>"

definition demo_store :: store where
  "demo_store = \<lparr>db = demo_db, audit_seq = 1, faults = []\<rparr>"

lemma demo_store_simps [simp]:
  "db demo_store = demo_db" "faults demo_store = []" "audit_seq demo_store = 1"
  "users demo_db = [demo_root, demo_ann]" "credentials demo_db = []" "identities demo_db = []"
  "sessions demo_db = []" "settings demo_db = []" "configurations demo_db = []" "audits demo_db = []"
  "workspaces demo_db = [demo_workspace ''a1'' ''stopped'', demo_workspace ''b2'' ''running'']"
  by (simp_all add: demo_store_def demo_db_def empty_db_def)

lemmas demo_rows = demo_root_def demo_ann_def demo_workspace_def

lemma demo_db_inv: "db_inv demo_env demo_db"
  by (simp add: db_inv_def db_ok_def table_ok_defs complete_def ids_def demo_rows mail_key_def
        valid_role_def valid_state_def uuid_canonical_def bigint_max_def ascii_lower_def)

end
