(* ===== verification/StoreProps.thy ===== *)
theory StoreProps
  imports Demo
begin

text \<open>
  Properties of the \<open>Store\<close>: the database invariant over every reachable store, atomicity with the
  audit trail, bootstrap, provisioning, idle detection and the workspace state machine.
\<close>

section \<open>Reachable stores\<close>

text \<open>One step: any method with any arguments; or the failure schedule changes.\<close>

inductive store_step :: "env \<Rightarrow> store \<Rightarrow> store \<Rightarrow> bool" for E where
  bootstrap: "store_step E s (snd (BootstrapAdmin E now i un dn m h s))"
| create_user: "store_step E s (snd (CreateLocalUser E now i a un dn m rol h remote s))"
| provision: "store_step E s (snd (ProvisionUser E now i a inp s))"
| update_user: "store_step E s (snd (UpdateUser E now a i dn m rol dis h remote s))"
| record_login: "store_step E s (snd (RecordLogin E now i s))"
| create_session: "store_step E s (snd (CreateSession E now th ch i ua remote expires s))"
| session: "store_step E s (snd (Session now th s))"
| delete_session: "store_step E s (snd (DeleteSession th s))"
| set_configuration: "store_step E s (snd (SetWorkspaceConfiguration E now n1 n2 a i doc key s))"
| set_state: "store_step E s (snd (SetWorkspaceState E now a i st remote restart s))"
| touch: "store_step E s (snd (TouchWorkspace E now i s))"
| idle: "store_step E s (snd (IdleWorkspaces now before s))"
| purge_record: "store_step E s (snd (DeleteWorkspaceDataRecord E now a i remote s))"
| set_setting: "store_step E s (snd (SetSetting E now n a key v enc remote s))"
| link_oidc: "store_step E s (snd (LinkOIDCUserByEmail E now iss sub m remote s))"
| provision_oidc: "store_step E s (snd (ProvisionOIDCUser E now i iss sub un dn m rol remote s))"
| schedule: "store_step E s (s\<lparr>faults := fs\<rparr>)"

inductive store_reachable :: "env \<Rightarrow> store \<Rightarrow> bool" for E where
  start: "db s = empty_db \<Longrightarrow> store_reachable E s"
| step: "store_reachable E s \<Longrightarrow> store_step E s t \<Longrightarrow> store_reachable E t"

lemma preserves_inv_snd: "preserves (on_db (db_inv E)) m \<Longrightarrow> db_inv E (db s) \<Longrightarrow> db_inv E (db (snd (m s)))"
  by (metis on_db_def preserves_snd)

lemma store_step_inv: "store_step E s t \<Longrightarrow> uuid_ok E \<Longrightarrow> db_inv E (db s) \<Longrightarrow> db_inv E (db t)"
  by (induction rule: store_step.induct) (simp_all add: preserves_inv_snd store_inv)

text \<open>C5: In every store that any sequence of store methods can reach from the empty database,
  under any schedule of failing statements and commits, the database is well formed: user IDs,
  usernames and emails are unique (the last two up to letter case), roles and workspace states are
  in range, every foreign key points at a user, and every user has exactly one workspace.\<close>

theorem reachable_store_well_formed:
  assumes "uuid_ok E" and "store_reachable E s"
  shows "db_inv E (db s) \<and> (\<forall>u \<in> set (users (db s)). \<exists>!w. w \<in> set (workspaces (db s)) \<and> w_user_id w = u_id u)"
proof -
  from assms(2) have inv: "db_inv E (db s)"
    by (induction rule: store_reachable.induct)
      (use assms(1) in \<open>auto simp: db_inv_empty intro: store_step_inv\<close>)
  have "\<exists>!w. w \<in> set (workspaces (db s)) \<and> w_user_id w = u_id u" if "u \<in> set (users (db s))" for u
  proof -
    from inv that obtain w where w: "w \<in> set (workspaces (db s))" "w_user_id w = u_id u"
      by (force simp: db_inv_def complete_def ids_def)
    moreover have "inj_on w_user_id (set (workspaces (db s)))"
      using db_invD(5) [OF inv] by (simp add: workspaces_ok_def distinct_map)
    ultimately show ?thesis unfolding inj_on_def by metis
  qed
  with inv show ?thesis by blast
qed

lemmas run_defs = act_defs stmt_def fetch_def transaction_def Let_def uuid_arg_def

lemma demo_bootstrap:
  "snd (BootstrapAdmin demo_env 1 ''a1'' ''root'' ''Root'' [] ''h'' \<lparr>db = empty_db, audit_seq = 1, faults = []\<rparr>)
   = \<lparr>db = empty_db\<lparr>
        users := [demo_root\<lparr>u_email := None\<rparr>],
        credentials := [\<lparr>c_user_id = ''a1'', c_password_hash = ''h'', c_changed_at = 1\<rparr>],
        workspaces := [(demo_workspace ''a1'' ''stopped'')\<lparr>w_last_activity_at := 1\<rparr>],
        audits := [\<lparr>a_id = 1, a_actor_user_id = Some ''a1'', a_action = ''bootstrap.admin'', a_target_type = ''user'',
          a_target_id = Some ''a1'', a_details = ''{}'', a_remote_addr = [], a_created_at = 1\<rparr>]\<rparr>,
      audit_seq = 2, faults = []\<rparr>"
  by (simp add: BootstrapAdmin_def insertUser_def lockUsers_def audit_def run_defs sql_insert_user_def
      sql_insert_credential_def sql_insert_workspace_def empty_db_def ascii_lower_def valid_role_def
      matches_def email_taken_def nullif_def user_ref_def nullUUID_def scanUser_def resource_name_of_def
      demo_rows)

theorem reachable_store_well_formed_witness:
  "\<exists>s. store_reachable demo_env s \<and> length (users (db s)) = 1 \<and> db_inv demo_env (db s)"
proof -
  let ?s = "snd (BootstrapAdmin demo_env 1 ''a1'' ''root'' ''Root'' [] ''h'' \<lparr>db = empty_db, audit_seq = 1, faults = []\<rparr>)"
  have r: "store_reachable demo_env ?s"
    by (rule store_reachable.step [OF store_reachable.start store_step.bootstrap]) simp
  moreover have "length (users (db ?s)) = 1" by (simp add: demo_bootstrap)
  ultimately show ?thesis
    using reachable_store_well_formed [OF demo_uuid_ok r] by blast
qed

section \<open>Transactions and the audit trail\<close>

text \<open>\<open>audited m action actor s\<close>: run from \<open>s\<close>, the method either fails and leaves the database
  untouched, or succeeds and appends exactly one audit event, of this action and by this actor.\<close>

definition audited :: "'a query \<Rightarrow> string \<Rightarrow> store \<Rightarrow> bool" where
  "audited m action s \<longleftrightarrow> (case m s of
       (Inl e, t) \<Rightarrow> db t = db s
     | (Inr x, t) \<Rightarrow> (\<exists>ev. audits (db t) = audits (db s) @ [ev] \<and> a_action ev = action
                        \<and> (\<forall>u. a_actor_user_id ev = Some u \<longrightarrow> u \<in> ids (db t))))"

named_theorems sql_audits \<open>SQL statements that do not touch the audit table\<close>

lemma sql_audits_frame [sql_audits]:
  "sql_insert_user E now i un dn m rol d = Inr (r, d') \<Longrightarrow> audits d' = audits d"
  "sql_insert_credential E now i h d = Inr (x, d') \<Longrightarrow> audits d' = audits d"
  "sql_insert_workspace E now i rn d = Inr (x, d') \<Longrightarrow> audits d' = audits d"
  "sql_update_profile E now i inp d = Inr (u, d') \<Longrightarrow> audits d' = audits d"
  "sql_disable_user E now i d = Inr (u, d') \<Longrightarrow> audits d' = audits d"
  "sql_update_user E now i dn m rol dis d = Inr (n, d') \<Longrightarrow> audits d' = audits d"
  "sql_upsert_credential E now i h d = Inr (x, d') \<Longrightarrow> audits d' = audits d"
  "sql_upsert_configuration E now i c k d = Inr (x, d') \<Longrightarrow> audits d' = audits d"
  "sql_upsert_setting E now a key v enc d = Inr (x, d') \<Longrightarrow> audits d' = audits d"
  "sql_insert_identity E now iss sub i mo d = Inr (x, d') \<Longrightarrow> audits d' = audits d"
  "sql_update_workspace E i f d = Inr (n, d') \<Longrightarrow> audits d' = audits d"
  by (auto simp: sql_insert_user_def sql_insert_credential_def sql_insert_workspace_def sql_update_profile_def
      sql_disable_user_def sql_update_user_def sql_upsert_credential_def sql_upsert_configuration_def
      sql_upsert_setting_def sql_insert_identity_def sql_update_workspace_def Let_def
      split: sum.splits option.splits if_splits)

abbreviation same_audits :: "audit_row list \<Rightarrow> store \<Rightarrow> bool" where
  "same_audits as \<equiv> on_db (\<lambda>d. audits d = as)"

lemma same_audits_stmt:
  "(\<And>d x d'. f d = Inr (x, d') \<Longrightarrow> audits d' = audits d) \<Longrightarrow> preserves (same_audits as) (stmt f)"
  by (rule preserves_stmt) metis

lemma same_audits_insertUser: "preserves (same_audits as) (insertUser E now i un dn m rol h)"
  unfolding insertUser_def by (intro act_rules same_audits_stmt) (erule sql_audits)+

definition audit_added :: "audit_row list \<Rightarrow> string \<Rightarrow> db \<Rightarrow> bool" where
  "audit_added as action d \<longleftrightarrow> (\<exists>ev. audits d = as @ [ev] \<and> a_action ev = action
     \<and> (\<forall>u. a_actor_user_id ev = Some u \<longrightarrow> u \<in> ids d))"

lemma audit_yields:
  "yields (same_audits as) (audit E now actor action ty tid details remote) (\<lambda>_. on_db (audit_added as action))"
  unfolding audit_def
proof (rule yields_andThen [OF preserves_yields [OF preserves_nextval]], rule yields_stmt)
  fix n d x d'
  assume "audits d = as" and "(case user_ref E d (nullUUID actor) of
         Inl e \<Rightarrow> Inl e
       | Inr a \<Rightarrow> Inr ((), d\<lparr>audits := audits d @
           [\<lparr>a_id = n, a_actor_user_id = a, a_action = action, a_target_type = ty,
             a_target_id = nullif tid, a_details = details, a_remote_addr = remote,
             a_created_at = now\<rparr>]\<rparr>)) = Inr (x, d')"
  then show "audit_added as action d'"
    by (auto simp: audit_added_def user_ref_Inr split: sum.splits)
qed

text \<open>A body that ends in \<open>audit\<close>, with or without a result after it.\<close>

lemma audit_last:
  "yields (same_audits as) (andThen (audit E now actor action ty tid details remote) (\<lambda>_. ret x))
     (\<lambda>_. on_db (audit_added as action))"
  by (rule yields_andThen [OF audit_yields]) (rule yields_ret)

lemma audited_transaction:
  assumes "yields (same_audits (audits (db s))) m (\<lambda>_. on_db (audit_added (audits (db s)) action))"
  shows "audited (transaction m) action s"
proof (cases "transaction m s")
  case (Pair r t)
  show ?thesis
  proof (cases r)
    case (Inl e)
    with Pair show ?thesis by (simp add: audited_def transaction_Inl)
  next
    case (Inr x)
    have "on_db (audit_added (audits (db s)) action) t"
      using yieldsD [OF yields_transaction [OF assms]] Pair Inr by (simp add: on_db_def)
    with Pair Inr show ?thesis by (simp add: audited_def audit_added_def on_db_def)
  qed
qed

lemma yields_step: "preserves I m \<Longrightarrow> (\<And>x. yields I (f x) R) \<Longrightarrow> yields I (andThen m f) R"
  by (rule yields_andThen [OF preserves_yields])

lemma yields_if: "(b \<Longrightarrow> yields P m Q) \<Longrightarrow> (\<not> b \<Longrightarrow> yields P n Q) \<Longrightarrow> yields P (if b then m else n) Q"
  by simp

lemma audited_lift:
  assumes "\<And>y. audited (k y) action s"
  shows "audited (andThen (lift r) k) action s"
  using assms by (cases r) (simp_all add: audited_def)

lemma audited_throw: "audited (throw e) action s"
  by (simp add: audited_def)

lemma audited_if: "(b \<Longrightarrow> audited m action s) \<Longrightarrow> (\<not> b \<Longrightarrow> audited n action s) \<Longrightarrow> audited (if b then m else n) action s"
  by simp

lemmas audited_rules = audited_transaction yields_step yields_if yields_throw audit_yields audit_last
  same_audits_insertUser lockUsers_inv user_by_email_inv preserves_fetch preserves_ret preserves_mapErr

lemma audited_users:
  "audited (BootstrapAdmin E now i un dn m h) ''bootstrap.admin'' s"
  "audited (CreateLocalUser E now i a un dn m rol h remote) ''user.create'' s"
  "audited (ProvisionOIDCUser E now i iss sub un dn m rol remote) ''oidc.provision'' s"
  "audited (UpdateUser E now a i dn m rol dis h remote) ''user.update'' s"
  unfolding BootstrapAdmin_def CreateLocalUser_def ProvisionOIDCUser_def UpdateUser_def
  by (intro audited_rules preserves_if same_audits_stmt; erule sql_audits)+

lemma audited_link: "audited (LinkOIDCUserByEmail E now iss sub m remote) ''oidc.identity.link'' s"
proof -
  have "yields (same_audits as) (case found of None \<Rightarrow> throw ErrNotFound
      | Some u \<Rightarrow> if user_Disabled u then throw ErrNotFound
          else andThen (mapErr (\<lambda>e. if e = DuplicateKey then ErrConflict else e)
                 (stmt (sql_insert_identity E now iss sub (user_ID u) (Some m)))) (\<lambda>_.
               andThen (audit E now (user_ID u) ''oidc.identity.link'' ''user'' (user_ID u) ''{}'' remote) (\<lambda>_.
               ret u))) (\<lambda>_. on_db (audit_added as ''oidc.identity.link''))" for as found
    by (cases found) (auto intro!: audited_rules same_audits_stmt dest: sql_audits)
  then show ?thesis
    unfolding LinkOIDCUserByEmail_def by (intro audited_rules)
qed

lemma audited_provision: "audited (ProvisionUser E now i a inp) ''user.provision'' s"
proof -
  have "preserves (same_audits as) (case found of
           None \<Rightarrow> andThen (insertUser E now i (pi_Username inp) (pi_DisplayName inp)
                             (pi_Email inp) (pi_Role inp) []) (\<lambda>u. ret (u, inp))
         | Some u0 \<Rightarrow> let input' = (if user_ID u0 = a
                           then inp\<lparr>pi_Role := ''admin'', pi_Disabled := False\<rparr> else inp)
             in andThen (stmt (sql_update_profile E now (user_ID u0) input')) (\<lambda>u. ret (u, input')))" for as found
    by (auto simp: Let_def intro!: act_rules same_audits_insertUser same_audits_stmt dest: sql_audits split: option.split)
  moreover have "yields (same_audits as) (case x of (u, input') \<Rightarrow>
      andThen (if pi_Disabled input' \<and> \<not> user_Disabled u
               then stmt (sql_disable_user E now (user_ID u)) else ret u) (\<lambda>u'.
      andThen (audit E now a ''user.provision'' ''user'' (user_ID u') ''{}'' []) (\<lambda>_. ret u')))
      (\<lambda>_. on_db (audit_added as ''user.provision''))" for as and x :: "user \<times> provision_input"
    by (cases x) (auto intro!: audited_rules same_audits_stmt dest: sql_audits)
  ultimately show ?thesis
    unfolding ProvisionUser_def by (intro audited_rules)
qed

lemma audited_workspaces:
  "audited (SetWorkspaceState E now a i st remote restart) (if restart then ''workspace.restart'' else ''workspace.'' @ st) s"
  "audited (DeleteWorkspaceDataRecord E now a i remote) ''workspace.purge'' s"
  unfolding SetWorkspaceState_def DeleteWorkspaceDataRecord_def Let_def
  by (intro audited_rules same_audits_stmt; erule sql_audits)+

lemma audited_configuration:
  "audited (SetWorkspaceConfiguration E now n1 n2 a i doc key) ''workspace.configuration.update'' s"
  "audited (SetSetting E now n a k v enc remote) ''setting.update'' s"
  unfolding SetWorkspaceConfiguration_def SetSetting_def
  by (intro audited_if audited_throw audited_lift audited_rules same_audits_stmt; erule sql_audits)+


end
