(* ===== verification/AccountProps.thy ===== *)
theory AccountProps
  imports StoreProps
begin

text \<open>
  Accounts: bootstrap happens once, provisioning is an upsert by email that never demotes its actor,
  a sealed configuration reads back, sessions follow the account, linked identities are unique.
\<close>

section \<open>What insertUser and audit do\<close>

text \<open>The new row of \<open>insertUser\<close>, relative to the users before.\<close>

definition new_row :: "env \<Rightarrow> string \<Rightarrow> string \<Rightarrow> string \<Rightarrow> string \<Rightarrow> string \<Rightarrow> user_row list \<Rightarrow> user_row \<Rightarrow> bool" where
  "new_row E i un dn m rol us r \<longleftrightarrow> u_username r = un \<and> u_display_name r = dn \<and> u_email r = nullif m
     \<and> u_role r = rol \<and> \<not> u_disabled r \<and> pg_uuid E i = Some (u_id r) \<and> valid_role rol
     \<and> \<not> matches (\<lambda>x. u_id x = u_id r) us \<and> \<not> matches (same_username E un) us \<and> \<not> email_taken E (nullif m) us"

definition scan_new :: "user_row \<Rightarrow> user" where
  "scan_new r = (scanUser r)\<lparr>user_LastLoginAt := zero_time\<rparr>"

lemma scan_new_simps [simp]:
  "user_ID (scan_new r) = u_id r" "user_Username (scan_new r) = u_username r"
  "user_Role (scan_new r) = u_role r" "user_Disabled (scan_new r) = u_disabled r"
  by (simp_all add: scan_new_def scanUser_def)

lemma scanUser_simps [simp]:
  "user_ID (scanUser r) = u_id r" "user_Username (scanUser r) = u_username r"
  "user_DisplayName (scanUser r) = u_display_name r" "user_Email (scanUser r) = coalesce (u_email r) []"
  "user_Role (scanUser r) = u_role r" "user_Disabled (scanUser r) = u_disabled r"
  by (simp_all add: scanUser_def)

abbreviation accounts_are :: "user_row list \<Rightarrow> credential_row list \<Rightarrow> db \<Rightarrow> bool" where
  "accounts_are us cs d \<equiv> users d = us \<and> credentials d = cs"

lemma insertUser_adds:
  "yields (on_db (accounts_are us cs)) (insertUser E now i un dn m rol h)
     (\<lambda>u. on_db (\<lambda>d. \<exists>r xs. accounts_are (us @ [r]) (cs @ xs) d \<and> new_row E i un dn m rol us r \<and> u = scan_new r
        \<and> (h = [] \<longrightarrow> xs = [])))"
  unfolding insertUser_def
proof (rule yields_andThen, rule yields_mapErr, rule yields_stmt)
  fix d r d'
  assume "accounts_are us cs d" "sql_insert_user E now i un dn m rol d = Inr (r, d')"
  then show "accounts_are (us @ [r]) cs d' \<and> new_row E i un dn m rol us r"
    by (auto simp: sql_insert_user_def new_row_def Let_def split: sum.splits if_splits)
next
  fix r
  show "yields (on_db (\<lambda>d'. accounts_are (us @ [r]) cs d' \<and> new_row E i un dn m rol us r))
      (andThen (if h \<noteq> [] then stmt (sql_insert_credential E now i h) else ret ()) (\<lambda>_.
       andThen (stmt (sql_insert_workspace E now i (resource_name_of i))) (\<lambda>_.
       ret ((scanUser r)\<lparr>user_LastLoginAt := zero_time\<rparr>)))) (\<lambda>u. on_db (\<lambda>d. \<exists>r xs. accounts_are (us @ [r]) (cs @ xs) d
        \<and> new_row E i un dn m rol us r \<and> u = scan_new r \<and> (h = [] \<longrightarrow> xs = [])))"
  proof (rule yields_andThen)
    let ?Q = "\<lambda>d. \<exists>xs. accounts_are (us @ [r]) (cs @ xs) d \<and> new_row E i un dn m rol us r \<and> (h = [] \<longrightarrow> xs = [])"
    show "yields (on_db (\<lambda>d'. accounts_are (us @ [r]) cs d' \<and> new_row E i un dn m rol us r))
        (if h \<noteq> [] then stmt (sql_insert_credential E now i h) else ret ()) (\<lambda>_. on_db ?Q)"
      by (rule yields_if; (rule yields_stmt | rule yields_ret))
        (auto simp: sql_insert_credential_def on_db_def split: sum.splits if_splits)
    show "yields (on_db ?Q) (andThen (stmt (sql_insert_workspace E now i (resource_name_of i))) (\<lambda>_.
        ret ((scanUser r)\<lparr>user_LastLoginAt := zero_time\<rparr>))) (\<lambda>u. on_db (\<lambda>d. \<exists>r xs. accounts_are (us @ [r]) (cs @ xs) d
        \<and> new_row E i un dn m rol us r \<and> u = scan_new r \<and> (h = [] \<longrightarrow> xs = [])))"
    proof (rule yields_andThen [where Q = "\<lambda>_. on_db ?Q"], rule yields_stmt)
      fix d x d' assume "?Q d" and "sql_insert_workspace E now i (resource_name_of i) d = Inr (x, d')"
      moreover from this(2) have "users d' = users d \<and> credentials d' = credentials d"
        by (auto simp: sql_insert_workspace_def split: sum.splits if_splits)
      ultimately show "?Q d'" by simp
    qed (auto simp: on_db_def scan_new_def intro!: yields_ret)
  qed
qed

text \<open>\<open>audit\<close> touches the audit table only.\<close>

lemma audit_frame:
  assumes "\<And>d as. J d \<Longrightarrow> J (d\<lparr>audits := as\<rparr>)"
  shows "preserves (on_db J) (audit E now actor action ty tid details remote)"
  unfolding audit_def using assms by (intro act_rules) (auto split: sum.splits)

section \<open>Bootstrap\<close>

lemma bootstrap_result:
  "yields (on_db (\<lambda>d. users d = us)) (BootstrapAdmin E now i un dn m h)
     (\<lambda>u. on_db (\<lambda>d. us = [] \<and> (\<exists>r. users d = [r] \<and> new_row E i un dn m ''admin'' [] r \<and> u = scan_new r)))"
  unfolding BootstrapAdmin_def
proof (rule yields_transaction, rule yields_step [OF lockUsers_inv], rule yields_andThen [OF yields_fetch])
  fix ex
  let ?R = "\<lambda>u d. us = [] \<and> (\<exists>r. users d = [r] \<and> new_row E i un dn m ''admin'' [] r \<and> u = scan_new r)"
  have ins: "yields (on_db (\<lambda>d. users d = [])) (insertUser E now i un dn m ''admin'' h)
      (\<lambda>u. on_db (\<lambda>d. \<exists>r. users d = [r] \<and> new_row E i un dn m ''admin'' [] r \<and> u = scan_new r))"
  proof (rule yieldsI)
    fix s u t assume "on_db (\<lambda>d. users d = []) s" and run: "insertUser E now i un dn m ''admin'' h s = (Inr u, t)"
    then have "on_db (accounts_are [] (credentials (db s))) s" by (simp add: on_db_def)
    from yieldsD [OF insertUser_adds this run]
    show "on_db (\<lambda>d. \<exists>r. users d = [r] \<and> new_row E i un dn m ''admin'' [] r \<and> u = scan_new r) t"
      by (auto simp: on_db_def)
  qed
  show "yields (on_db (\<lambda>d. users d = us \<and> Inr (users d \<noteq> []) = Inr ex))
      (if ex then throw ErrAlreadyBootstrapped
       else andThen (insertUser E now i un dn m ''admin'' h) (\<lambda>u.
            andThen (audit E now (user_ID u) ''bootstrap.admin'' ''user'' (user_ID u) ''{}'' []) (\<lambda>_. ret u)))
      (\<lambda>u. on_db (?R u))"
  proof (cases "ex \<or> us \<noteq> []")
    case True
    then show ?thesis by (auto simp: yields_def on_db_def)
  next
    case False
    have "yields (on_db (\<lambda>d. users d = [])) (andThen (insertUser E now i un dn m ''admin'' h) (\<lambda>u.
            andThen (audit E now (user_ID u) ''bootstrap.admin'' ''user'' (user_ID u) ''{}'' []) (\<lambda>_. ret u)))
        (\<lambda>u. on_db (?R u))"
    proof (rule yields_andThen [OF ins], rule yields_step)
      fix u
      let ?J = "\<lambda>d. \<exists>r. users d = [r] \<and> new_row E i un dn m ''admin'' [] r \<and> u = scan_new r"
      show "preserves (on_db ?J) (audit E now (user_ID u) ''bootstrap.admin'' ''user'' (user_ID u) ''{}'' [])"
        by (rule audit_frame) simp
      show "yields (on_db ?J) (ret u) (\<lambda>u. on_db (?R u))"
        using False by (auto simp: on_db_def intro!: yields_ret)
    qed
    with False show ?thesis by (simp add: yields_def on_db_def)
  qed
qed

text \<open>A body that cannot succeed makes a transaction that cannot.\<close>

lemma transaction_fst:
  assumes "\<And>s1. db s1 = db s \<Longrightarrow> fst (m s1) \<in> R" "Inl Unavailable \<in> R" "\<And>x. Inr x \<notin> R"
  shows "fst (transaction m s) \<in> R"
proof (cases rule: stmt_total [of "\<lambda>_. ()" s])
  case bad
  with assms(2) show ?thesis by (simp add: transaction_def)
next
  case (good s1)
  obtain r s2 where m: "m s1 = (r, s2)" by (cases "m s1")
  with assms(1) [OF good(2)] assms(3) obtain e where "r = Inl e" "Inl e \<in> R" by (cases r) auto
  with good m show ?thesis by (simp add: transaction_def)
qed

lemma bootstrap_rejects:
  assumes us: "users (db s) \<noteq> []"
  shows "fst (BootstrapAdmin E now i un dn m h s) \<in> {Inl ErrAlreadyBootstrapped, Inl Unavailable}"
  unfolding BootstrapAdmin_def
proof (rule transaction_fst)
  fix s1 :: store assume s1: "db s1 = db s"
  show "fst (andThen lockUsers (\<lambda>_. andThen (fetch (\<lambda>d. Inr (users d \<noteq> []))) (\<lambda>exists.
          if exists then throw ErrAlreadyBootstrapped
          else andThen (insertUser E now i un dn m ''admin'' h) (\<lambda>u.
               andThen (audit E now (user_ID u) ''bootstrap.admin'' ''user'' (user_ID u) ''{}'' []) (\<lambda>_. ret u)))) s1)
       \<in> {Inl ErrAlreadyBootstrapped, Inl Unavailable}"
  proof (cases rule: stmt_total [of "\<lambda>_. ()" s1])
    case bad
    then show ?thesis by (simp add: lockUsers_def andThen_Inl)
  next
    case (good s2)
    with s1 us show ?thesis
      by (cases rule: stmt_total [of "\<lambda>d. users d \<noteq> []" s2])
        (simp_all add: lockUsers_def fetch_def andThen_def)
  qed
qed auto

text \<open>C24: \<open>BootstrapAdmin\<close> creates the first administrator and nothing else. It succeeds only while
  there are no users, and then the only user is the enabled administrator with the requested name;
  once any user exists it answers \<open>ErrAlreadyBootstrapped\<close> (or the database is unavailable) and
  changes nothing.\<close>

theorem bootstrap_only_first:
  "(case BootstrapAdmin E now i un dn m h s of
      (Inl e, t) \<Rightarrow> db t = db s
    | (Inr u, t) \<Rightarrow> users (db s) = [] \<and> IsAdmin u
        \<and> (\<exists>r. users (db t) = [r] \<and> u_username r = un \<and> u_id r = user_ID u \<and> u_role r = ''admin'' \<and> \<not> u_disabled r))
   \<and> (users (db s) = [] \<or> fst (BootstrapAdmin E now i un dn m h s) \<in> {Inl ErrAlreadyBootstrapped, Inl Unavailable})"
proof (cases "BootstrapAdmin E now i un dn m h s")
  case (Pair r t)
  show ?thesis
  proof (cases r)
    case (Inl e)
    with Pair have "db t = db s" by (auto simp: BootstrapAdmin_def dest: transaction_Inl)
    with Pair Inl bootstrap_rejects [of s E now i un dn m h] show ?thesis by auto
  next
    case (Inr u)
    with Pair yieldsD [OF bootstrap_result, of "users (db s)" s E now i un dn m h u t] show ?thesis
      by (auto simp: on_db_def new_row_def IsAdmin_def)
  qed
qed

end
