(* ===== verification/ProvisionProps.thy ===== *)
theory ProvisionProps
  imports AccountProps
begin

text \<open>
  \<open>ProvisionUser\<close> as an upsert keyed by email: what it writes, what it leaves alone, and that the
  administrator who runs it stays an enabled administrator.
\<close>

definition profile_of :: "int \<Rightarrow> provision_input \<Rightarrow> user_row \<Rightarrow> user_row" where
  "profile_of now inp r = r\<lparr>u_username := pi_Username inp, u_display_name := pi_DisplayName inp,
     u_role := pi_Role inp, u_disabled := pi_Disabled inp, u_updated_at := now\<rparr>"

text \<open>The input after the protection of the actor.\<close>

definition guarded_input :: "string \<Rightarrow> string \<Rightarrow> provision_input \<Rightarrow> provision_input" where
  "guarded_input actor uid inp = (if uid = actor then inp\<lparr>pi_Role := ''admin'', pi_Disabled := False\<rparr> else inp)"

lemma profile_of_simps [simp]:
  "u_id (profile_of now inp r) = u_id r" "u_email (profile_of now inp r) = u_email r"
  "u_username (profile_of now inp r) = pi_Username inp" "u_display_name (profile_of now inp r) = pi_DisplayName inp"
  "u_role (profile_of now inp r) = pi_Role inp" "u_disabled (profile_of now inp r) = pi_Disabled inp"
  by (simp_all add: profile_of_def)

lemma guarded_input_simps [simp]:
  "pi_Username (guarded_input a u inp) = pi_Username inp" "pi_DisplayName (guarded_input a u inp) = pi_DisplayName inp"
  "pi_Email (guarded_input a u inp) = pi_Email inp"
  "pi_Role (guarded_input a u inp) = (if u = a then ''admin'' else pi_Role inp)"
  "pi_Disabled (guarded_input a u inp) = (if u = a then False else pi_Disabled inp)"
  by (simp_all add: guarded_input_def)

text \<open>The users table after a successful run, from the table before.\<close>

definition provisioned :: "env \<Rightarrow> int \<Rightarrow> string \<Rightarrow> string \<Rightarrow> provision_input \<Rightarrow> user_row list \<Rightarrow> user_row list \<Rightarrow> user \<Rightarrow> bool" where
  "provisioned E now i actor inp us us' u \<longleftrightarrow>
     (case find (same_email E (pi_Email inp)) us of
        None \<Rightarrow> (\<exists>r. new_row E i (pi_Username inp) (pi_DisplayName inp) (pi_Email inp) (pi_Role inp) us r
                  \<and> user_ID u = u_id r
                  \<and> us' = us @ [if pi_Disabled inp then r\<lparr>u_disabled := True, u_updated_at := now\<rparr> else r])
      | Some r0 \<Rightarrow> user_ID u = u_id r0
                  \<and> us' = update_where (\<lambda>x. u_id x = u_id r0) (profile_of now (guarded_input actor (u_id r0) inp)) us)"

lemma update_where_append: "update_where P f (xs @ ys) = update_where P f xs @ update_where P f ys"
  by (simp add: update_where_def)

lemma update_where_single: "update_where P f [x] = [if P x then f x else x]"
  by (simp add: update_where_def)

lemma ProvisionUser_result:
  assumes "uuid_ok E"
  shows "yields (on_db (\<lambda>d. accounts_are us cs d \<and> (\<forall>r \<in> set us. uuid_canonical E (u_id r)))) (ProvisionUser E now i actor inp)
     (\<lambda>u. on_db (\<lambda>d. credentials d = cs \<and> provisioned E now i actor inp us (users d) u))"
  unfolding ProvisionUser_def
proof (rule yields_transaction, rule yields_andThen)
  let ?can = "\<forall>r \<in> set us. uuid_canonical E (u_id r)"
  show "yields (on_db (\<lambda>d. accounts_are us cs d \<and> ?can)) (user_by_email E (pi_Email inp))
     (\<lambda>found. on_db (\<lambda>d. (accounts_are us cs d \<and> ?can) \<and> found = map_option scanUser (find (same_email E (pi_Email inp)) us)))"
    unfolding user_by_email_def by (rule yields_weaken [OF yields_fetch]) (auto simp: on_db_def)
next
  fix found :: "user option"
  let ?can = "\<forall>r \<in> set us. uuid_canonical E (u_id r)"
  let ?found = "find (same_email E (pi_Email inp)) us"
  let ?store = "case found of
           None \<Rightarrow> andThen (insertUser E now i (pi_Username inp) (pi_DisplayName inp)
                             (pi_Email inp) (pi_Role inp) []) (\<lambda>u. ret (u, inp))
         | Some u0 \<Rightarrow> let input' = (if user_ID u0 = actor
                           then inp\<lparr>pi_Role := ''admin'', pi_Disabled := False\<rparr> else inp)
             in andThen (stmt (sql_update_profile E now (user_ID u0) input')) (\<lambda>u. ret (u, input'))"
  let ?P = "on_db (\<lambda>d. (accounts_are us cs d \<and> ?can) \<and> found = map_option scanUser ?found)"
  let ?mid = "\<lambda>(u, input') d. credentials d = cs \<and>
     (case ?found of
        None \<Rightarrow> input' = inp \<and> (\<exists>r. new_row E i (pi_Username inp) (pi_DisplayName inp) (pi_Email inp) (pi_Role inp) us r
                  \<and> u = scan_new r \<and> pg_uuid E (u_id r) = Some (u_id r) \<and> users d = us @ [r])
      | Some r0 \<Rightarrow> user_ID u = u_id r0 \<and> user_Disabled u = pi_Disabled input'
                  \<and> users d = update_where (\<lambda>x. u_id x = u_id r0) (profile_of now (guarded_input actor (u_id r0) inp)) us)"
  show "yields ?P (andThen ?store (\<lambda>(u, input').
      andThen (if pi_Disabled input' \<and> \<not> user_Disabled u
               then stmt (sql_disable_user E now (user_ID u)) else ret u) (\<lambda>u'.
      andThen (audit E now actor ''user.provision'' ''user'' (user_ID u') ''{}'' []) (\<lambda>_. ret u'))))
     (\<lambda>u. on_db (\<lambda>d. credentials d = cs \<and> provisioned E now i actor inp us (users d) u))"
  proof (rule yields_andThen)
    show "yields ?P ?store (\<lambda>x. on_db (?mid x))"
    proof (cases ?found)
      case None
      have "yields (on_db (\<lambda>d. accounts_are us cs d)) (andThen (insertUser E now i (pi_Username inp) (pi_DisplayName inp)
                             (pi_Email inp) (pi_Role inp) []) (\<lambda>u. ret (u, inp))) (\<lambda>x. on_db (?mid x))"
        by (rule yields_andThen [OF insertUser_adds], rule yields_ret)
          (use None assms in \<open>auto simp: on_db_def uuid_ok_def uuid_canonical_def new_row_def\<close>)
      note ins = this
      show ?thesis
      proof (cases found)
        case found: None
        show ?thesis unfolding found option.case
          by (rule yields_weaken [OF ins]) (simp_all add: on_db_def)
      qed (simp add: yields_def on_db_def None)
    next
      case (Some r0)
      have r0: "r0 \<in> set us" using find_Some_in [OF Some] by simp
      have "yields (on_db (\<lambda>d. accounts_are us cs d \<and> ?can)) (andThen (stmt (sql_update_profile E now (u_id r0) (guarded_input actor (u_id r0) inp)))
              (\<lambda>u. ret (u, guarded_input actor (u_id r0) inp))) (\<lambda>x. on_db (?mid x))"
      proof (rule yields_andThen, rule yields_stmt)
        fix d u d'
        assume d: "accounts_are us cs d \<and> ?can"
          and upd: "sql_update_profile E now (u_id r0) (guarded_input actor (u_id r0) inp) d = Inr (u, d')"
        have "pg_uuid E (u_id r0) = Some (u_id r0)" using d r0 by (simp add: uuid_canonical_def)
        then show "?mid (u, guarded_input actor (u_id r0) inp) d'"
          using upd d Some unfolding sql_update_profile_def profile_of_def [symmetric]
          by (auto simp: uuid_arg_def Let_def dest: find_Some_in split: option.splits if_splits)
      qed (auto intro!: yields_ret)
      note upd = this
      show ?thesis
      proof (cases "found = Some (scanUser r0)")
        case found: True
        show ?thesis unfolding found option.case Let_def scanUser_simps guarded_input_def [symmetric]
          by (rule yields_weaken [OF upd]) (simp_all add: on_db_def)
      qed (simp add: yields_def on_db_def Some)
    qed
  next
    fix x :: "user \<times> provision_input"
    obtain u input' where x: "x = (u, input')" by (cases x)
    let ?final = "\<lambda>u d. credentials d = cs \<and> provisioned E now i actor inp us (users d) u"
    have "yields (on_db (?mid (u, input'))) (if pi_Disabled input' \<and> \<not> user_Disabled u
               then stmt (sql_disable_user E now (user_ID u)) else ret u) (\<lambda>u. on_db (?final u))"
    proof (cases ?found)
      case None
      then show ?thesis
      proof (intro yields_if)
        show "yields (on_db (?mid (u, input'))) (stmt (sql_disable_user E now (user_ID u))) (\<lambda>u. on_db (?final u))"
          if "pi_Disabled input' \<and> \<not> user_Disabled u"
        proof (rule yields_stmt)
          fix d v d' assume mid: "?mid (u, input') d" and upd: "sql_disable_user E now (user_ID u) d = Inr (v, d')"
          from mid None obtain r where r: "new_row E i (pi_Username inp) (pi_DisplayName inp) (pi_Email inp) (pi_Role inp) us r"
              "user_ID u = u_id r" "pg_uuid E (u_id r) = Some (u_id r)" "users d = us @ [r]" "input' = inp" "credentials d = cs"
            by auto
          have fresh: "\<not> matches (\<lambda>x. u_id x = u_id r) us" using r(1) by (simp add: new_row_def)
          then have "find (\<lambda>x. u_id x = u_id r) (us @ [r]) = Some r"
            by (simp add: find_append find_None_matches [symmetric])
          with upd r fresh have "v = scanUser (r\<lparr>u_disabled := True, u_updated_at := now\<rparr>)"
              and "users d' = us @ [r\<lparr>u_disabled := True, u_updated_at := now\<rparr>]" and "credentials d' = cs"
            by (auto simp: sql_disable_user_def uuid_arg_def Let_def update_where_append update_where_none update_where_single)
          with r None that show "?final v d'" by (auto simp: provisioned_def)
        qed
        show "yields (on_db (?mid (u, input'))) (ret u) (\<lambda>u. on_db (?final u))"
          if "\<not> (pi_Disabled input' \<and> \<not> user_Disabled u)"
        proof (rule yields_ret)
          fix s :: store assume "on_db (?mid (u, input')) s"
          with None that show "on_db (?final u) s" by (auto simp: on_db_def provisioned_def new_row_def)
        qed
      qed
    next
      case (Some r0)
      then show ?thesis
        by (intro yields_if yields_ret) (auto simp: yields_def on_db_def provisioned_def)
    qed
    then show "yields (on_db (?mid x)) (case x of (u, input') \<Rightarrow>
      andThen (if pi_Disabled input' \<and> \<not> user_Disabled u
               then stmt (sql_disable_user E now (user_ID u)) else ret u) (\<lambda>u'.
      andThen (audit E now actor ''user.provision'' ''user'' (user_ID u') ''{}'' []) (\<lambda>_. ret u')))
     (\<lambda>u. on_db (\<lambda>d. credentials d = cs \<and> provisioned E now i actor inp us (users d) u))"
      unfolding x prod.case
      by (rule yields_andThen) (rule yields_step [OF audit_frame], simp, rule yields_ret)
  qed
qed

lemma ProvisionUser_upsert:
  assumes "uuid_ok E" and inv: "db_inv E (db s)" and actor: "actor \<in> ids (db s)" and "pi_Email inp \<noteq> []"
    and run: "ProvisionUser E now i actor inp s = (Inr u, t)"
  shows "\<exists>r \<in> set (users (db t)). u_id r = user_ID u
      \<and> same_email E (pi_Email inp) r \<and> (\<forall>x \<in> set (users (db t)). same_email E (pi_Email inp) x \<longrightarrow> x = r)
      \<and> u_username r = pi_Username inp \<and> u_display_name r = pi_DisplayName inp
      \<and> (if u_id r = actor then u_role r = ''admin'' \<and> \<not> u_disabled r
         else u_role r = pi_Role inp \<and> u_disabled r = pi_Disabled inp)
      \<and> (\<forall>x. u_id x \<noteq> u_id r \<longrightarrow> (x \<in> set (users (db t)) \<longleftrightarrow> x \<in> set (users (db s))))
      \<and> credentials (db t) = credentials (db s)"
proof -
  let ?us = "users (db s)"
  have "preserves (on_db (db_inv E)) (ProvisionUser E now i actor inp)"
    by (rule ProvisionUser_inv [OF assms(1)])
  from preservesD [OF this _ run] inv have inv': "db_inv E (db t)" by (simp add: on_db_def)
  have "on_db (\<lambda>d. accounts_are ?us (credentials (db s)) d \<and> (\<forall>r \<in> set ?us. uuid_canonical E (u_id r))) s"
    using users_ok_canonical [OF inv] by (simp add: on_db_def)
  from yieldsD [OF ProvisionUser_result [OF assms(1)] this run]
  have cs: "credentials (db t) = credentials (db s)" and res: "provisioned E now i actor inp ?us (users (db t)) u"
    by (simp_all add: on_db_def)
  have uniq: "x = r" if "x \<in> set (users (db t))" "r \<in> set (users (db t))" "same_email E (pi_Email inp) x"
    "same_email E (pi_Email inp) r" for x r
    using users_okD(5) [OF db_inv_users_ok [OF inv'], of x r] users_same_id [OF inv', of x r] that
    by (simp add: same_email_key)
  show ?thesis
  proof (cases "find (same_email E (pi_Email inp)) ?us")
    case None
    with res obtain r0 where new: "new_row E i (pi_Username inp) (pi_DisplayName inp) (pi_Email inp) (pi_Role inp) ?us r0"
      and uid: "user_ID u = u_id r0"
      and us: "users (db t) = ?us @ [if pi_Disabled inp then r0\<lparr>u_disabled := True, u_updated_at := now\<rparr> else r0]"
      by (auto simp: provisioned_def)
    define r where "r = (if pi_Disabled inp then r0\<lparr>u_disabled := True, u_updated_at := now\<rparr> else r0)"
    have r: "u_id r = u_id r0" "u_username r = pi_Username inp" "u_display_name r = pi_DisplayName inp"
        "u_role r = pi_Role inp" "u_disabled r = pi_Disabled inp" "same_email E (pi_Email inp) r"
      using new \<open>pi_Email inp \<noteq> []\<close> by (auto simp: r_def new_row_def nullif_def same_email_def)
    have "u_id r0 \<noteq> actor" using new actor by (auto simp: new_row_def matches_ids)
    then show ?thesis
      using us r uid cs uniq by (intro bexI [of _ r]) (auto simp: r_def [symmetric])
  next
    case (Some r0)
    let ?f = "profile_of now (guarded_input actor (u_id r0) inp)"
    from res Some have uid: "user_ID u = u_id r0" and us: "users (db t) = update_where (\<lambda>x. u_id x = u_id r0) ?f ?us"
      by (simp_all add: provisioned_def)
    have r0: "r0 \<in> set ?us" "same_email E (pi_Email inp) r0" using find_Some_in [OF Some] by simp_all
    then have "?f r0 \<in> set (users (db t))" "same_email E (pi_Email inp) (?f r0)"
      by (auto simp: us set_update_where same_email_def)
    then show ?thesis
      using uid cs uniq by (intro bexI [of _ "?f r0"]) (auto simp: us set_update_where)
  qed
qed

text \<open>C25: \<open>ProvisionUser\<close> creates or updates by normalised email. After it succeeds exactly one user
  has this email; that user carries the requested name, role and state, except that the administrator
  who runs it keeps the role and stays enabled; every other user is as before, and no local
  credential was created.\<close>

theorem provision_is_guarded_upsert:
  assumes "uuid_ok E" and inv: "db_inv E (db s)" and actor: "actor \<in> ids (db s)" and "pi_Email inp \<noteq> []"
    and run: "ProvisionUser E now i actor inp s = (Inr u, t)"
  shows "\<exists>r \<in> set (users (db t)). u_id r = user_ID u
      \<and> same_email E (pi_Email inp) r \<and> (\<forall>x \<in> set (users (db t)). same_email E (pi_Email inp) x \<longrightarrow> x = r)
      \<and> u_username r = pi_Username inp \<and> u_display_name r = pi_DisplayName inp
      \<and> (if u_id r = actor then u_role r = ''admin'' \<and> \<not> u_disabled r
         else u_role r = pi_Role inp \<and> u_disabled r = pi_Disabled inp)
      \<and> (\<forall>x. u_id x \<noteq> u_id r \<longrightarrow> (x \<in> set (users (db t)) \<longleftrightarrow> x \<in> set (users (db s))))
      \<and> credentials (db t) = credentials (db s)"
  by (rule ProvisionUser_upsert [OF assms])

definition demo_input :: provision_input where
  "demo_input = \<lparr>pi_Username = ''ann'', pi_DisplayName = ''Ann B'', pi_Email = ''Ann@x.io'', pi_Role = ''admin'',
     pi_Disabled = True\<rparr>"

lemma demo_provision:
  "\<exists>u t. ProvisionUser demo_env 9 ''c3'' ''a1'' demo_input demo_store = (Inr u, t) \<and> user_ID u = ''b2''
     \<and> users (db t) = [demo_root, demo_ann\<lparr>u_display_name := ''Ann B'', u_role := ''admin'', u_disabled := True, u_updated_at := 9\<rparr>]"
  by (simp add: ProvisionUser_def user_by_email_def audit_def run_defs sql_update_profile_def same_email_def
      same_username_def demo_input_def demo_rows ascii_lower_def char_of_def bit_0 matches_def update_where_def valid_role_def
      user_ref_def nullUUID_def)

theorem provision_is_guarded_upsert_witness:
  "\<exists>u t. ProvisionUser demo_env 9 ''c3'' ''a1'' demo_input demo_store = (Inr u, t)
     \<and> (\<exists>r \<in> set (users (db t)). u_id r = user_ID u \<and> u_role r = ''admin'' \<and> u_disabled r)"
proof -
  from demo_provision obtain u t where run: "ProvisionUser demo_env 9 ''c3'' ''a1'' demo_input demo_store = (Inr u, t)"
    and u: "user_ID u = ''b2''" by blast
  have "''a1'' \<in> ids (db demo_store)" by (simp add: ids_def demo_rows)
  from provision_is_guarded_upsert [OF demo_uuid_ok _ this _ run] demo_db_inv u run show ?thesis
    by (fastforce simp: demo_input_def split: if_splits)
qed

end
