(* ===== verification/StateProps.thy ===== *)
theory StateProps
  imports ProvisionProps
begin

text \<open>
  Round trips of sealed data, sessions that follow the account, and linked identities.
\<close>

section \<open>Sealed data\<close>

lemma decrypt_encrypt:
  assumes "crypto_ok E" "length n = nonce_size" "encrypt E (Some n) p = Inr c"
  shows "decrypt E c = Inr p"
  using assms by (auto simp: encrypt_def decrypt_def RawDecode_RawEncode crypto_ok_def)

lemma transaction_upsert_audit:
  assumes "transaction (andThen (stmt f) (\<lambda>_. audit E now actor action ty tid details remote)) s = (Inr x, t)"
  obtains y d as where "f (db s) = Inr (y, d)" "db t = d\<lparr>audits := as\<rparr>"
proof -
  from assms obtain s1 s2 where s1: "db s1 = db s" and t: "db t = db s2"
    and run: "andThen (stmt f) (\<lambda>_. audit E now actor action ty tid details remote) s1 = (Inr x, s2)"
    by (rule transaction_Inr)
  from run obtain y s3 where f: "stmt f s1 = (Inr y, s3)"
    and aud: "audit E now actor action ty tid details remote s3 = (Inr x, s2)" by (rule andThen_Inr_E)
  have "preserves (on_db (\<lambda>d. \<exists>as. d = (db s3)\<lparr>audits := as\<rparr>)) (audit E now actor action ty tid details remote)"
    by (rule audit_frame) auto
  from preservesD [OF this _ aud] have "\<exists>as. db s2 = (db s3)\<lparr>audits := as\<rparr>"
    by (simp add: on_db_def) (metis db.surjective db.update_convs(8))
  then obtain as where "db s2 = (db s3)\<lparr>audits := as\<rparr>" ..
  with stmt_Inr [OF f] s1 t that [of y "db s3" as] show thesis by simp
qed

text \<open>The row that \<open>WorkspaceConfiguration\<close> reads, unsealed.\<close>

definition sealed_configuration :: "env \<Rightarrow> db \<Rightarrow> string \<Rightarrow> string \<Rightarrow> string \<Rightarrow> bool" where
  "sealed_configuration E d u doc key \<longleftrightarrow> (\<exists>r. find (\<lambda>c. f_user_id c = u) (configurations d) = Some r
     \<and> decrypt E (f_opencode_json r) = Inr doc \<and> decrypt E (f_api_key r) = Inr key)"

lemma SetWorkspaceConfiguration_result:
  assumes crypto: "crypto_ok E" and n: "length n1 = nonce_size" "length n2 = nonce_size"
    and i: "pg_uuid E i = Some u"
    and run: "SetWorkspaceConfiguration E now (Some n1) (Some n2) actor i doc key s = (Inr (), t)"
  shows "sealed_configuration E (db t) u doc key \<and> config_revision (db t) u = config_revision (db s) u + 1
     \<and> users (db t) = users (db s)
     \<and> (\<forall>v. v \<noteq> u \<longrightarrow> find (\<lambda>c. f_user_id c = v) (configurations (db t)) = find (\<lambda>c. f_user_id c = v) (configurations (db s)))"
proof -
  from run obtain c k where c: "encrypt E (Some n1) doc = Inr c" and k: "encrypt E (Some n2) key = Inr k"
    and tx: "transaction (andThen (stmt (sql_upsert_configuration E now i c k)) (\<lambda>_.
        audit E now actor ''workspace.configuration.update'' ''workspace'' i ''{}'' [])) s = (Inr (), t)"
    by (auto simp: SetWorkspaceConfiguration_def encrypt_def split: if_splits)
  from tx obtain y d as where up: "sql_upsert_configuration E now i c k (db s) = Inr (y, d)"
    and t: "db t = d\<lparr>audits := as\<rparr>" by (rule transaction_upsert_audit)
  let ?r = "\<lparr>f_user_id = u, f_opencode_json = c, f_api_key = k, f_revision = 1, f_created_at = now, f_updated_at = now\<rparr>"
  let ?f = "\<lambda>x. x\<lparr>f_opencode_json := c, f_api_key := k, f_revision := f_revision x + 1, f_updated_at := now\<rparr>"
  from up i have d: "configurations d = upsert (\<lambda>x. f_user_id x = u) ?f ?r (configurations (db s))" "users d = users (db s)"
    by (auto simp: sql_upsert_configuration_def split: sum.splits if_splits)
  then have "find (\<lambda>x. f_user_id x = u) (configurations (db t))
      = Some (case find (\<lambda>x. f_user_id x = u) (configurations (db s)) of None \<Rightarrow> ?r | Some x \<Rightarrow> ?f x)"
    by (simp add: t find_upsert)
  moreover have "decrypt E c = Inr doc" "decrypt E k = Inr key"
    using decrypt_encrypt [OF crypto n(1) c] decrypt_encrypt [OF crypto n(2) k] .
  moreover have "find (\<lambda>c. f_user_id c = v) (configurations (db t)) = find (\<lambda>c. f_user_id c = v) (configurations (db s))" if "v \<noteq> u" for v
  proof -
    have "find (\<lambda>c. f_user_id c = v) (update_where (\<lambda>x. f_user_id x = u) ?f (configurations (db s)))
        = find (\<lambda>c. f_user_id c = v) (configurations (db s))"
      by (rule find_update_other) (use that in auto)
    then show ?thesis using that by (simp add: t d upsert_def find_append split: option.split)
  qed
  ultimately show ?thesis
    by (auto simp: sealed_configuration_def config_revision_def t d split: option.splits)
qed

text \<open>C26: A workspace configuration reads back as it was written: after
  \<open>SetWorkspaceConfiguration\<close> succeeds, \<open>WorkspaceConfiguration\<close> returns the same document and key,
  and the revision is one more than before (one for the first).\<close>

theorem configuration_round_trip:
  assumes crypto: "crypto_ok E" and n: "length n1 = nonce_size" "length n2 = nonce_size"
    and i: "pg_uuid E i = Some u"
    and run: "SetWorkspaceConfiguration E now (Some n1) (Some n2) actor i doc key s = (Inr (), t)"
    and "faults t = []"
  shows "fst (WorkspaceConfiguration E i t)
    = Inr \<lparr>wc_OpenCodeJSON = doc, wc_APIKey = key, wc_Revision = config_revision (db s) u + 1\<rparr>"
proof -
  from SetWorkspaceConfiguration_result [OF crypto n i run]
  obtain r where "find (\<lambda>c. f_user_id c = u) (configurations (db t)) = Some r"
    "decrypt E (f_opencode_json r) = Inr doc" "decrypt E (f_api_key r) = Inr key"
    "config_revision (db t) u = config_revision (db s) u + 1"
    by (auto simp: sealed_configuration_def)
  then show ?thesis using \<open>faults t = []\<close> i
    by (auto simp: WorkspaceConfiguration_def andThen_def fetch_no_faults uuid_arg_def config_revision_def)
qed

definition demo_nonce :: string where
  "demo_nonce = ''nonce-000001''"

lemma demo_set_configuration:
  "fst (SetWorkspaceConfiguration demo_env 9 (Some demo_nonce) (Some demo_nonce) ''a1'' ''b2'' ''{}'' ''k'' demo_store) = Inr ()
   \<and> faults (snd (SetWorkspaceConfiguration demo_env 9 (Some demo_nonce) (Some demo_nonce) ''a1'' ''b2'' ''{}'' ''k'' demo_store)) = []"
  by (simp add: SetWorkspaceConfiguration_def encrypt_def is_json_object_def TrimSpace_def ascii_space_def
      audit_def run_defs sql_upsert_configuration_def upsert_def matches_def demo_rows ascii_lower_def
      user_ref_def nullUUID_def)

theorem configuration_round_trip_witness:
  "\<exists>t. fst (WorkspaceConfiguration demo_env ''b2'' t) = Inr \<lparr>wc_OpenCodeJSON = ''{}'', wc_APIKey = ''k'', wc_Revision = 1\<rparr>"
proof -
  let ?m = "SetWorkspaceConfiguration demo_env 9 (Some demo_nonce) (Some demo_nonce) ''a1'' ''b2'' ''{}'' ''k''"
  have run: "?m demo_store = (Inr (), snd (?m demo_store))"
    using demo_set_configuration by (metis prod.collapse)
  have "length demo_nonce = nonce_size" by (simp add: demo_nonce_def nonce_size_def)
  moreover have "pg_uuid demo_env ''b2'' = Some ''b2''" by (simp add: ascii_lower_def)
  ultimately have "fst (WorkspaceConfiguration demo_env ''b2'' (snd (?m demo_store)))
     = Inr \<lparr>wc_OpenCodeJSON = ''{}'', wc_APIKey = ''k'', wc_Revision = config_revision (db demo_store) ''b2'' + 1\<rparr>"
    using configuration_round_trip [OF demo_crypto_ok _ _ _ run] demo_set_configuration by blast
  then show ?thesis by (simp add: config_revision_def) blast
qed

text \<open>A setting reads back as it was written, sealed or not: \<open>Setting\<close> hands the decoder exactly
  the value given to \<open>SetSetting\<close>, and a sealed setting is stored as a string that is the encoding of
  the box, never as the value itself.\<close>

theorem setting_round_trip:
  assumes crypto: "crypto_ok E" and n: "length n = nonce_size" and j: "json_parse E (json_text E j) = Some j"
    and run: "SetSetting E now (Some n) actor key j enc remote s = (Inr (), t)" and "faults t = []"
  shows "fst (Setting E key decode target t)
      = Inr (True, fst (decode j), if snd (decode j) then None else Some JSONFailed)
    \<and> (\<exists>r. find (\<lambda>r. k_key r = key) (settings (db t)) = Some r \<and> k_encrypted r = enc
         \<and> k_value r = (if enc then JStr (RawEncode url_alphabet (n @ aead_Seal E n (json_text E j))) else j))"
proof -
  let ?v = "if enc then JStr (RawEncode url_alphabet (n @ aead_Seal E n (json_text E j))) else j"
  have v: "seal_value E (Some n) enc j = Inr ?v" by (simp add: seal_value_def encrypt_def)
  with run have "transaction (andThen (stmt (sql_upsert_setting E now actor key ?v enc)) (\<lambda>_.
        audit E now actor ''setting.update'' ''setting'' key ''{}'' remote)) s = (Inr (), t)"
    by (simp add: SetSetting_def)
  then obtain y d as where up: "sql_upsert_setting E now actor key ?v enc (db s) = Inr (y, d)"
    and t: "db t = d\<lparr>audits := as\<rparr>" by (rule transaction_upsert_audit)
  from up obtain a where "settings d = upsert (\<lambda>r. k_key r = key)
          (\<lambda>r. r\<lparr>k_value := ?v, k_encrypted := enc, k_updated_by := a, k_updated_at := now\<rparr>)
          \<lparr>k_key = key, k_value = ?v, k_encrypted = enc, k_updated_at = now, k_updated_by = a\<rparr> (settings (db s))"
    by (auto simp: sql_upsert_setting_def split: sum.splits)
  then obtain r where r: "find (\<lambda>r. k_key r = key) (settings (db t)) = Some r" "k_value r = ?v" "k_encrypted r = enc"
    by (simp add: t find_upsert split: option.splits)
  have "decrypt E (RawEncode url_alphabet (n @ aead_Seal E n (json_text E j))) = Inr (json_text E j)"
    using crypto n by (simp add: decrypt_def RawDecode_RawEncode crypto_ok_def)
  with r j have "open_setting E r = Inr j" by (simp add: open_setting_def)
  with r \<open>faults t = []\<close> show ?thesis
    by (simp add: Setting_def andThen_def attempt_apply fetch_no_faults split: prod.splits)
qed

lemma demo_set_setting:
  "fst (SetSetting demo_env 9 (Some demo_nonce) ''a1'' ''auth.oidc'' (JObj []) True ''ip'' demo_store) = Inr ()
   \<and> faults (snd (SetSetting demo_env 9 (Some demo_nonce) ''a1'' ''auth.oidc'' (JObj []) True ''ip'' demo_store)) = []"
  by (simp add: SetSetting_def seal_value_def encrypt_def audit_def run_defs sql_upsert_setting_def upsert_def
      matches_def demo_rows ascii_lower_def user_ref_def nullUUID_def)

theorem setting_round_trip_witness:
  "\<exists>t. fst (Setting demo_env ''auth.oidc'' (\<lambda>j. (j, True)) JNull t) = Inr (True, JObj [], None)"
proof -
  let ?m = "SetSetting demo_env 9 (Some demo_nonce) ''a1'' ''auth.oidc'' (JObj []) True ''ip''"
  have run: "?m demo_store = (Inr (), snd (?m demo_store))"
    using demo_set_setting by (metis prod.collapse)
  have "length demo_nonce = nonce_size" by (simp add: demo_nonce_def nonce_size_def)
  moreover have "json_parse demo_env (json_text demo_env (JObj [])) = Some (JObj [])"
    by (simp add: demo_env_def)
  ultimately have "fst (Setting demo_env ''auth.oidc'' (\<lambda>j. (j, True)) JNull (snd (?m demo_store))) = Inr (True, JObj [], None)"
    using setting_round_trip [OF demo_crypto_ok _ _ run, of "\<lambda>j. (j, True)" JNull] demo_set_setting by simp
  then show ?thesis by blast
qed

end
