(* ===== verification/Auth.thy ===== *)
theory Auth
  imports Http StateProps
begin

text \<open>
  \<open>internal/auth/auth.go\<close>: password hashes, the login limiter, signed session cookies and the CSRF
  check. The random blocks and the clock are arguments; \<open>None\<close> stands for a failing \<open>rand.Read\<close>.
\<close>

record manager =
  am_SigningKey :: string
  am_CookieSecure :: bool

definition CookieName :: string where
  "CookieName = ''ocw_session''"

definition CSRFCookieName :: string where
  "CSRFCookieName = ''ocw_csrf''"

definition sessionLifetime :: int where
  "sessionLifetime = 604800000000000"

section \<open>Passwords\<close>

definition ValidatePassword :: "string \<Rightarrow> string option" where
  "ValidatePassword password =
     (if length password < 12 then Some ''password must contain at least 12 characters''
      else if length password > 1024 then Some ''password is too long'' else None)"

definition hash_prefix :: string where
  "hash_prefix = ''argon2id$v=19$m=65536,t=3,p=2$''"

definition HashPassword :: "env \<Rightarrow> string option \<Rightarrow> string \<Rightarrow> string + string" where
  "HashPassword E salt password = (case ValidatePassword password of
       Some e \<Rightarrow> Inl e
     | None \<Rightarrow> (case salt of
           None \<Rightarrow> Inl ''entropy''
         | Some s \<Rightarrow> Inr (hash_prefix @ RawEncode std_alphabet s @ ''$''
                          @ RawEncode std_alphabet (argon2_IDKey E password s))))"

definition VerifyPassword :: "env \<Rightarrow> string \<Rightarrow> string \<Rightarrow> bool" where
  "VerifyPassword E encoded password =
     (let parts = split_on (CHR ''$'') encoded in
      if length parts \<noteq> 5 \<or> parts ! 0 \<noteq> ''argon2id'' then False
      else (case (RawDecode std_alphabet (parts ! 3), RawDecode std_alphabet (parts ! 4)) of
              (Some salt, Some expected) \<Rightarrow>
                 if length expected \<noteq> 32 then False else argon2_IDKey E password salt = expected
            | _ \<Rightarrow> False))"

section \<open>The login limiter\<close>

type_synonym limiter = "string \<rightharpoonup> int list"

definition ten_minutes :: int where
  "ten_minutes = 600000000000"

text \<open>The loop of \<open>allow\<close> filters in place: \<open>recent := old[:0]\<close> shares the array of \<open>old\<close>, so the
  \<open>append\<close> of the \<open>n\<close>-th kept element overwrites index \<open>n\<close> of the array that the loop still reads.\<close>

function compact_loop :: "int \<Rightarrow> nat \<Rightarrow> nat \<Rightarrow> int list \<Rightarrow> nat \<times> int list" where
  "compact_loop cutoff i n arr =
     (if i < length arr then
        if arr ! i > cutoff then compact_loop cutoff (i + 1) (n + 1) (arr[n := arr ! i])
        else compact_loop cutoff (i + 1) n arr
      else (n, arr))"
  by pat_completeness auto
termination by (relation "measure (\<lambda>(c, i, n, arr). length arr - i)") auto

declare compact_loop.simps [simp del]

definition recent_attempts :: "int \<Rightarrow> int list \<Rightarrow> int list" where
  "recent_attempts cutoff old = (case compact_loop cutoff 0 0 old of (n, arr) \<Rightarrow> take n arr)"

definition allow :: "int \<Rightarrow> string \<Rightarrow> limiter \<Rightarrow> bool \<times> limiter" where
  "allow now k l =
     (let old = (case l k of None \<Rightarrow> [] | Some ts \<Rightarrow> ts);
          recent = recent_attempts (now - ten_minutes) old
      in if length recent \<ge> 10 then (False, l(k \<mapsto> recent)) else (True, l(k \<mapsto> recent @ [now])))"

definition LoginAllowed :: "int \<Rightarrow> string \<Rightarrow> limiter \<Rightarrow> bool \<times> limiter" where
  "LoginAllowed now k l = allow now k l"

definition LoginSucceeded :: "string \<Rightarrow> limiter \<Rightarrow> limiter" where
  "LoginSucceeded k l = l(k := None)"

section \<open>Signed tokens\<close>

definition sign :: "env \<Rightarrow> manager \<Rightarrow> string \<Rightarrow> string" where
  "sign E A t = RawEncode url_alphabet (hmac_sha256 E (am_SigningKey A) t)"

definition token :: "env \<Rightarrow> manager \<Rightarrow> string \<Rightarrow> string \<times> bool" where
  "token E A value = (case split_on (CHR ''.'') value of
       [a, b] \<Rightarrow> (a, b = sign E A a)
     | _ \<Rightarrow> ([], False))"

definition randomToken :: "string option \<Rightarrow> db_error + string" where
  "randomToken b = (case b of None \<Rightarrow> Inl EntropyFailure | Some bs \<Rightarrow> Inr (RawEncode url_alphabet bs))"

definition remoteAddr :: "request \<Rightarrow> string" where
  "remoteAddr r = (let value = HeaderGet r ''X-Forwarded-For'' in
     if value \<noteq> [] then TrimSpace (hd (split_on (CHR '','') value)) else rq_RemoteAddr r)"

section \<open>Sessions\<close>

definition session_cookie :: "manager \<Rightarrow> string \<Rightarrow> int \<Rightarrow> cookie" where
  "session_cookie A v age = \<lparr>ck_Name = CookieName, ck_Value = v, ck_Path = ''/'', ck_HttpOnly = True,
     ck_Secure = am_CookieSecure A, ck_SameSite = ''Lax'', ck_MaxAge = age\<rparr>"

definition csrf_cookie :: "manager \<Rightarrow> string \<Rightarrow> int \<Rightarrow> cookie" where
  "csrf_cookie A v age = \<lparr>ck_Name = CSRFCookieName, ck_Value = v, ck_Path = ''/platform'', ck_HttpOnly = False,
     ck_Secure = am_CookieSecure A, ck_SameSite = ''Lax'', ck_MaxAge = age\<rparr>"

definition NewSession :: "env \<Rightarrow> manager \<Rightarrow> int \<Rightarrow> string option \<Rightarrow> string option \<Rightarrow> request \<Rightarrow> string
    \<Rightarrow> (string \<times> cookie list) query" where
  "NewSession E A now rand1 rand2 r userID =
     andThen (lift (randomToken rand1)) (\<lambda>tok.
     andThen (lift (randomToken rand2)) (\<lambda>csrf.
     andThen (CreateSession E now (Hash E tok) (Hash E csrf) userID (HeaderGet r ''User-Agent'') (remoteAddr r)
                (now + sessionLifetime)) (\<lambda>_.
     ret (csrf, [session_cookie A (tok @ ''.'' @ sign E A tok) 604800, csrf_cookie A csrf 604800]))))"

text \<open>The error of \<open>DeleteSession\<close> is ignored.\<close>

definition ClearSession :: "env \<Rightarrow> manager \<Rightarrow> request \<Rightarrow> (cookie list) query" where
  "ClearSession E A r =
     andThen (case CookieOf r CookieName of
         None \<Rightarrow> ret ()
       | Some v \<Rightarrow> (case token E A v of (t, ok) \<Rightarrow>
            if ok then andThen (attempt (DeleteSession (Hash E t)) :: (db_error + unit) query) (\<lambda>_. ret ())
            else ret ())) (\<lambda>_.
     ret [session_cookie A [] (- 1), csrf_cookie A [] (- 1)])"

text \<open>The session behind a request's cookie, as \<open>User\<close> and \<open>CSRFValid\<close> look it up.\<close>

definition request_session :: "env \<Rightarrow> manager \<Rightarrow> int \<Rightarrow> request \<Rightarrow> ((user \<times> string \<times> int) option) query" where
  "request_session E A now r = (case CookieOf r CookieName of
       None \<Rightarrow> ret None
     | Some v \<Rightarrow> (case token E A v of (t, ok) \<Rightarrow>
          if \<not> ok then ret None
          else andThen (attempt (Session now (Hash E t))) (\<lambda>res. case res of
                 Inl _ \<Rightarrow> ret None | Inr x \<Rightarrow> ret (Some x))))"

definition User :: "env \<Rightarrow> manager \<Rightarrow> int \<Rightarrow> request \<Rightarrow> (user option) query" where
  "User E A now r = andThen (request_session E A now r) (\<lambda>x. ret (map_option fst x))"

definition CSRFValid :: "env \<Rightarrow> manager \<Rightarrow> int \<Rightarrow> request \<Rightarrow> bool query" where
  "CSRFValid E A now r =
     (if rq_Method r = ''GET'' \<or> rq_Method r = ''HEAD'' \<or> rq_Method r = ''OPTIONS'' then ret True
      else andThen (request_session E A now r) (\<lambda>x. case x of
             None \<Rightarrow> ret False
           | Some (u, expected, expires) \<Rightarrow>
               let provided = (if HeaderGet r ''X-Csrf-Token'' = [] then FormValue r ''csrf''
                               else HeaderGet r ''X-Csrf-Token'')
               in ret (expected = Hash E provided)))"

definition Middleware :: "env \<Rightarrow> manager \<Rightarrow> int \<Rightarrow> (request \<Rightarrow> 'a query) \<Rightarrow> request \<Rightarrow> 'a query" where
  "Middleware E A now next_handler r = andThen (User E A now r) (\<lambda>u. case u of
       None \<Rightarrow> next_handler r
     | Some x \<Rightarrow> next_handler (r\<lparr>rq_User := Some x\<rparr>))"

definition UserFromContext :: "request \<Rightarrow> user option" where
  "UserFromContext r = rq_User r"

end
