(* ===== verification/Json.thy ===== *)
theory Json
  imports Model
begin

text \<open>
  \<open>encoding/json\<close> between JSON values and structs: \<open>decode_object\<close> is \<open>json.Unmarshal\<close> into a struct
  whose fields are given as a list of tag and setter. Members are taken in the order of the text; a
  member belongs to the field whose tag it folds to; a value of the wrong type is skipped and reported
  at the end; \<open>null\<close> leaves scalars alone. The result is the struct and whether no error was reported.
  A nil slice and an empty one are the same list.
\<close>

section \<open>Field names\<close>

text \<open>Names are compared under simple case folding; the Kelvin sign and the long s are the two runes
  outside ASCII that fold into it.\<close>

fun fold_name :: "string \<Rightarrow> string" where
  "fold_name (a # b # c # s) =
     (if (byte a, byte b, byte c) = (0xE2, 0x84, 0xAA) then CHR ''k'' # fold_name s
      else if (byte a, byte b) = (0xC5, 0xBF) then CHR ''s'' # fold_name (c # s)
      else ascii_lower a # fold_name (b # c # s))"
| "fold_name [a, b] = (if (byte a, byte b) = (0xC5, 0xBF) then ''s'' else [ascii_lower a, ascii_lower b])"
| "fold_name [a] = [ascii_lower a]"
| "fold_name [] = []"

section \<open>Setters\<close>

type_synonym 'r setter = "json \<Rightarrow> 'r \<Rightarrow> 'r \<times> bool"
type_synonym 'r fields = "(string \<times> 'r setter) list"

definition string_field :: "((string \<Rightarrow> string) \<Rightarrow> 'r \<Rightarrow> 'r) \<Rightarrow> 'r setter" where
  "string_field upd j r = (case j of JStr s \<Rightarrow> (upd (\<lambda>_. s) r, True) | JNull \<Rightarrow> (r, True) | _ \<Rightarrow> (r, False))"

definition bool_field :: "((bool \<Rightarrow> bool) \<Rightarrow> 'r \<Rightarrow> 'r) \<Rightarrow> 'r setter" where
  "bool_field upd j r = (case j of JBool b \<Rightarrow> (upd (\<lambda>_. b) r, True) | JNull \<Rightarrow> (r, True) | _ \<Rightarrow> (r, False))"

definition int_field :: "((int \<Rightarrow> int) \<Rightarrow> 'r \<Rightarrow> 'r) \<Rightarrow> 'r setter" where
  "int_field upd j r = (case j of
       JNum n \<Rightarrow> if - (2 ^ 63) \<le> n \<and> n < 2 ^ 63 then (upd (\<lambda>_. n) r, True) else (r, False)
     | JNull \<Rightarrow> (r, True) | _ \<Rightarrow> (r, False))"

text \<open>\<open>[]string\<close>: \<open>null\<close> empties the slice, a wrong element is left as the empty string.\<close>

definition text_of :: "json \<Rightarrow> string" where
  "text_of j = (case j of JStr s \<Rightarrow> s | _ \<Rightarrow> [])"

definition strings_field :: "((string list \<Rightarrow> string list) \<Rightarrow> 'r \<Rightarrow> 'r) \<Rightarrow> 'r setter" where
  "strings_field upd j r = (case j of
       JArr js \<Rightarrow> (upd (\<lambda>_. map text_of js) r, list_all (\<lambda>x. case x of JStr s \<Rightarrow> True | JNull \<Rightarrow> True | _ \<Rightarrow> False) js)
     | JNull \<Rightarrow> (upd (\<lambda>_. []) r, True) | _ \<Rightarrow> (r, False))"

section \<open>Objects\<close>

definition find_field :: "'r fields \<Rightarrow> string \<Rightarrow> 'r setter option" where
  "find_field fs k = map_option snd (find (\<lambda>(n, _). fold_name n = fold_name k) fs)"

text \<open>With \<open>strict\<close> an unknown member is an error (\<open>DisallowUnknownFields\<close>).\<close>

fun decode_members :: "bool \<Rightarrow> 'r fields \<Rightarrow> (string \<times> json) list \<Rightarrow> 'r \<Rightarrow> 'r \<times> bool" where
  "decode_members strict fs [] r = (r, True)"
| "decode_members strict fs ((k, v) # ms) r =
     (case find_field fs k of
        None \<Rightarrow> (case decode_members strict fs ms r of (r', ok) \<Rightarrow> (r', ok \<and> \<not> strict))
      | Some f \<Rightarrow> (case f v r of (r1, ok1) \<Rightarrow>
           case decode_members strict fs ms r1 of (r', ok) \<Rightarrow> (r', ok1 \<and> ok)))"

definition decode_object :: "bool \<Rightarrow> 'r fields \<Rightarrow> 'r setter" where
  "decode_object strict fs j r = (case j of
       JObj ms \<Rightarrow> decode_members strict fs ms r | JNull \<Rightarrow> (r, True) | _ \<Rightarrow> (r, False))"

definition strings_json :: "string list \<Rightarrow> json" where
  "strings_json xs = JArr (map JStr xs)"

lemma strings_round_trip: "strings_field upd (strings_json xs) r = (upd (\<lambda>_. xs) r, True)"
  by (simp add: strings_field_def strings_json_def comp_def text_of_def list_all_iff)

lemma scalar_round_trips:
  "string_field upd (JStr s) r = (upd (\<lambda>_. s) r, True)" "bool_field upb (JBool b) r = (upb (\<lambda>_. b) r, True)"
  by (simp_all add: string_field_def bool_field_def)

section \<open>The structs of the settings table\<close>

definition branding_fields :: "branding fields" where
  "branding_fields = [(''name'', string_field br_Name_update), (''logoUrl'', string_field br_LogoURL_update),
     (''faviconUrl'', string_field br_Favicon_update), (''accent'', string_field br_Accent_update)]"

text \<open>\<open>omitempty\<close> leaves a member out.\<close>

definition optional_member :: "string \<Rightarrow> string \<Rightarrow> (string \<times> json) list" where
  "optional_member k s = (if s = [] then [] else [(k, JStr s)])"

definition branding_json :: "branding \<Rightarrow> json" where
  "branding_json b = JObj ([(''name'', JStr (br_Name b))] @ optional_member ''logoUrl'' (br_LogoURL b)
     @ optional_member ''faviconUrl'' (br_Favicon b) @ optional_member ''accent'' (br_Accent b))"

definition settings_fields :: "oidc_settings fields" where
  "settings_fields = [(''enabled'', bool_field os_Enabled_update), (''issuer'', string_field os_Issuer_update),
     (''clientId'', string_field os_ClientID_update), (''clientSecret'', string_field os_ClientSecret_update),
     (''scopes'', strings_field os_Scopes_update), (''autoProvision'', bool_field os_AutoProvision_update),
     (''linkExistingUsersByEmail'', bool_field os_LinkByEmail_update),
     (''allowedDomains'', strings_field os_AllowedDomains_update),
     (''adminGroups'', strings_field os_AdminGroups_update),
     (''hasClientSecret'', bool_field os_HasClientSecret_update), (''configured'', bool_field os_Configured_update)]"

definition settings_json :: "oidc_settings \<Rightarrow> json" where
  "settings_json s = JObj ([(''enabled'', JBool (os_Enabled s)), (''issuer'', JStr (os_Issuer s)),
       (''clientId'', JStr (os_ClientID s))] @ optional_member ''clientSecret'' (os_ClientSecret s)
     @ [(''scopes'', strings_json (os_Scopes s)), (''autoProvision'', JBool (os_AutoProvision s)),
        (''linkExistingUsersByEmail'', JBool (os_LinkByEmail s)), (''allowedDomains'', strings_json (os_AllowedDomains s)),
        (''adminGroups'', strings_json (os_AdminGroups s)), (''hasClientSecret'', JBool (os_HasClientSecret s)),
        (''configured'', JBool (os_Configured s))])"

lemmas field_round_trips = strings_round_trip scalar_round_trips

lemma fold_name_ascii: "list_all is_ascii s \<Longrightarrow> fold_name s = map ascii_lower s"
  by (induction s rule: fold_name.induct) (auto simp: is_ascii_def)

lemma decode_members_found:
  "find_field fs k = Some f \<Longrightarrow> f v r = (r1, True) \<Longrightarrow>
   decode_members strict fs ((k, v) # ms) r = decode_members strict fs ms r1"
  by (simp split: prod.splits)

lemma settings_found:
  "find_field settings_fields ''enabled'' = Some (bool_field os_Enabled_update)"
  "find_field settings_fields ''issuer'' = Some (string_field os_Issuer_update)"
  "find_field settings_fields ''clientId'' = Some (string_field os_ClientID_update)"
  "find_field settings_fields ''clientSecret'' = Some (string_field os_ClientSecret_update)"
  "find_field settings_fields ''scopes'' = Some (strings_field os_Scopes_update)"
  "find_field settings_fields ''autoProvision'' = Some (bool_field os_AutoProvision_update)"
  "find_field settings_fields ''linkExistingUsersByEmail'' = Some (bool_field os_LinkByEmail_update)"
  "find_field settings_fields ''allowedDomains'' = Some (strings_field os_AllowedDomains_update)"
  "find_field settings_fields ''adminGroups'' = Some (strings_field os_AdminGroups_update)"
  "find_field settings_fields ''hasClientSecret'' = Some (bool_field os_HasClientSecret_update)"
  "find_field settings_fields ''configured'' = Some (bool_field os_Configured_update)"
  by (simp_all add: settings_fields_def find_field_def ascii_lower_def)

lemma settings_round_trip: "decode_object strict settings_fields (settings_json s) zero_oidc_settings = (s, True)"
  by (cases s) (simp add: decode_object_def settings_json_def optional_member_def zero_oidc_settings_def
      settings_found decode_members_found field_round_trips)

end
