(* ===== verification/Config.thy ===== *)
theory Config
  imports Model
begin

text \<open>
  \<open>internal/config/config.go\<close>: configuration from environment variables. \<open>getenv\<close> is \<open>os.Getenv\<close>
  (the empty string for an unset variable). Two parsers of the standard library are parameters, in the
  record \<open>parsers\<close>: \<open>url.Parse\<close>, of whose result the code reads the scheme, the host and the printed
  form, and \<open>time.ParseDuration\<close> (nanoseconds). An error is the text it starts with; the wrapped cause
  is dropped.
\<close>

record url =
  url_Scheme :: string
  url_Host :: string
  url_String :: string

record parsers =
  url_Parse :: "string \<Rightarrow> url option"
  ParseDuration :: "string \<Rightarrow> int option"

record workspace_config =
  wk_Image :: string
  wk_ImagePullPolicy :: string
  wk_ImagePullSecret :: string
  wk_StorageClass :: string
  wk_StorageSize :: string
  wk_RuntimeClassName :: string
  wk_NodeSelector :: "string \<rightharpoonup> string"
  wk_CPURequest :: string
  wk_MemoryRequest :: string
  wk_CPULimit :: string
  wk_MemoryLimit :: string
  wk_IdleTimeout :: int
  wk_ReconcileInterval :: int
  wk_Port :: int

record config =
  cf_Address :: string
  cf_DatabaseURL :: string
  cf_PublicURL :: url
  cf_SessionKey :: string
  cf_EncryptionKey :: string
  cf_Namespace :: string
  cf_OwnerName :: string
  cf_CookieSecure :: bool
  cf_TrustProxy :: bool
  cf_Workspace :: workspace_config

section \<open>Reading variables\<close>

definition env_or :: "(string \<Rightarrow> string) \<Rightarrow> string \<Rightarrow> string \<Rightarrow> string" where
  "env_or getenv name fallback = (let value = TrimSpace (getenv name) in if value \<noteq> [] then value else fallback)"

text \<open>\<open>strconv.ParseBool\<close>.\<close>

definition ParseBool :: "string \<Rightarrow> bool option" where
  "ParseBool s =
     (if s \<in> {''1'', ''t'', ''T'', ''true'', ''TRUE'', ''True''} then Some True
      else if s \<in> {''0'', ''f'', ''F'', ''false'', ''FALSE'', ''False''} then Some False
      else None)"

definition boolEnv :: "(string \<Rightarrow> string) \<Rightarrow> string \<Rightarrow> bool \<Rightarrow> bool" where
  "boolEnv getenv name fallback = (let value = TrimSpace (getenv name) in
     if value = [] then fallback else ParseBool value = Some True)"

text \<open>\<open>strconv.Atoi\<close> on a 64-bit platform: an optional sign and decimal digits, within \<open>int64\<close>.\<close>

fun digits_value :: "nat \<Rightarrow> string \<Rightarrow> nat option" where
  "digits_value acc [] = Some acc"
| "digits_value acc (c # s) = (if is_digit c then digits_value (10 * acc + (byte c - 48)) s else None)"

definition Atoi :: "string \<Rightarrow> int option" where
  "Atoi s = (case s of [] \<Rightarrow> None
     | c # r \<Rightarrow>
         let neg = (c = CHR ''-''); ds = (if c = CHR ''-'' \<or> c = CHR ''+'' then r else s) in
         if ds = [] then None
         else (case digits_value 0 ds of None \<Rightarrow> None
            | Some n \<Rightarrow> let v = (if neg then - int n else int n) in
                if - (2 ^ 63) \<le> v \<and> v < 2 ^ 63 then Some v else None))"

definition key :: "env \<Rightarrow> (string \<Rightarrow> string) \<Rightarrow> string \<Rightarrow> string + string" where
  "key E getenv name = (let value = getenv name in
     if length value < 32 then Inl (name @ '' must contain at least 32 characters'')
     else (case StdDecode value of
             Some decoded \<Rightarrow> if length decoded = 32 then Inr decoded else Inr (sha256 E value)
           | None \<Rightarrow> Inr (sha256 E value)))"

section \<open>The node selector\<close>

text \<open>\<open>json.Unmarshal\<close> into a \<open>map[string]string\<close>: \<open>null\<close> leaves the map alone, a \<open>null\<close> member is
  the empty string, any other value that is no string is an error; a later duplicate replaces an
  earlier one.\<close>

definition json_string_member :: "json \<Rightarrow> string option" where
  "json_string_member j = (case j of JStr s \<Rightarrow> Some s | JNull \<Rightarrow> Some [] | _ \<Rightarrow> None)"

fun string_members :: "(string \<times> json) list \<Rightarrow> (string \<times> string) list option" where
  "string_members [] = Some []"
| "string_members ((k, j) # ms) =
     (case (json_string_member j, string_members ms) of (Some v, Some kvs) \<Rightarrow> Some ((k, v) # kvs) | _ \<Rightarrow> None)"

definition node_selector :: "env \<Rightarrow> string \<Rightarrow> string + (string \<rightharpoonup> string)" where
  "node_selector E value = (let raw = TrimSpace value in
     if raw = [] then Inr Map.empty
     else (case (case json_parse E raw of
                   Some JNull \<Rightarrow> Some [] | Some (JObj ms) \<Rightarrow> string_members ms | _ \<Rightarrow> None) of
             None \<Rightarrow> Inl ''WORKSPACE_NODE_SELECTOR must be a JSON object of string labels''
           | Some kvs \<Rightarrow>
               let selector = map_of (rev kvs) in
               if list_ex (\<lambda>k. TrimSpace k = [] \<or> TrimSpace (the (selector k)) = []) (map fst kvs)
               then Inl ''WORKSPACE_NODE_SELECTOR labels and values must not be empty''
               else Inr selector))"

section \<open>Load\<close>

definition Load :: "env \<Rightarrow> parsers \<Rightarrow> (string \<Rightarrow> string) \<Rightarrow> string + config" where
  "Load E P getenv =
     (case url_Parse P (env_or getenv ''PUBLIC_URL'' ''http://localhost:8080'') of
        None \<Rightarrow> Inl ''PUBLIC_URL must be an absolute http(s) URL''
      | Some publicURL \<Rightarrow>
     if url_Scheme publicURL = [] \<or> url_Host publicURL = [] then Inl ''PUBLIC_URL must be an absolute http(s) URL''
     else if url_Scheme publicURL \<noteq> ''http'' \<and> url_Scheme publicURL \<noteq> ''https'' then Inl ''PUBLIC_URL must use http or https''
     else (case key E getenv ''SESSION_SECRET'' of Inl e \<Rightarrow> Inl e | Inr session \<Rightarrow>
          (case key E getenv ''ENCRYPTION_KEY'' of Inl e \<Rightarrow> Inl e | Inr encryption \<Rightarrow>
          (case Atoi (env_or getenv ''WORKSPACE_PORT'' ''4096'') of
             None \<Rightarrow> Inl ''WORKSPACE_PORT must be a valid port''
           | Some port \<Rightarrow>
          if port < 1 \<or> port > 65535 then Inl ''WORKSPACE_PORT must be a valid port''
          else (case ParseDuration P (env_or getenv ''WORKSPACE_IDLE_TIMEOUT'' ''30m'') of
             None \<Rightarrow> Inl ''WORKSPACE_IDLE_TIMEOUT''
           | Some idle \<Rightarrow>
          (case ParseDuration P (env_or getenv ''RECONCILE_INTERVAL'' ''15s'') of
             None \<Rightarrow> Inl ''RECONCILE_INTERVAL must be a positive duration''
           | Some interval \<Rightarrow>
          if interval \<le> 0 then Inl ''RECONCILE_INTERVAL must be a positive duration''
          else (case node_selector E (getenv ''WORKSPACE_NODE_SELECTOR'') of Inl e \<Rightarrow> Inl e | Inr selector \<Rightarrow>
          let cfg = \<lparr>cf_Address = env_or getenv ''HTTP_ADDRESS'' '':8080'',
                cf_DatabaseURL = TrimSpace (getenv ''DATABASE_URL''),
                cf_PublicURL = publicURL, cf_SessionKey = session, cf_EncryptionKey = encryption,
                cf_Namespace = env_or getenv ''POD_NAMESPACE'' ''opencode-workspaces'',
                cf_OwnerName = env_or getenv ''WORKSPACE_OWNER_NAME'' ''opencode-workspaces-owner'',
                cf_CookieSecure = (url_Scheme publicURL = ''https''),
                cf_TrustProxy = boolEnv getenv ''TRUST_PROXY_HEADERS'' False,
                cf_Workspace = \<lparr>
                  wk_Image = env_or getenv ''WORKSPACE_IMAGE'' ''ghcr.io/ricsam/opencode-workspace:latest'',
                  wk_ImagePullPolicy = env_or getenv ''WORKSPACE_IMAGE_PULL_POLICY'' ''IfNotPresent'',
                  wk_ImagePullSecret = TrimSpace (getenv ''WORKSPACE_IMAGE_PULL_SECRET''),
                  wk_StorageClass = env_or getenv ''WORKSPACE_STORAGE_CLASS'' ''rook-ceph-block'',
                  wk_StorageSize = env_or getenv ''WORKSPACE_STORAGE_SIZE'' ''10Gi'',
                  wk_RuntimeClassName = TrimSpace (getenv ''WORKSPACE_RUNTIME_CLASS''),
                  wk_NodeSelector = selector,
                  wk_CPURequest = env_or getenv ''WORKSPACE_CPU_REQUEST'' ''250m'',
                  wk_MemoryRequest = env_or getenv ''WORKSPACE_MEMORY_REQUEST'' ''512Mi'',
                  wk_CPULimit = env_or getenv ''WORKSPACE_CPU_LIMIT'' ''2'',
                  wk_MemoryLimit = env_or getenv ''WORKSPACE_MEMORY_LIMIT'' ''4Gi'',
                  wk_IdleTimeout = idle, wk_ReconcileInterval = interval, wk_Port = port\<rparr>\<rparr> in
          if cf_DatabaseURL cfg = [] then Inl ''DATABASE_URL is required'' else Inr cfg)))))))"

end
