(* ===== verification/Oidc.thy ===== *)
theory Oidc
  imports Auth Json Config
begin

text \<open>
  \<open>internal/oidc/oidc.go\<close>: OIDC settings, the signed flow cookie, and the login with its checks. The
  identity provider behind \<open>go-oidc\<close> and \<open>oauth2\<close> is the parameter \<open>idp\<close>: discovery, the authorization
  URL, the code exchange (\<open>None\<close> an error, \<open>Some None\<close> an answer without \<open>id_token\<close>) and the verification
  of an ID token for a client, which gives the token's claims. \<open>time_codec\<close> prints and parses
  RFC 3339 times. Errors of this package are \<open>Message\<close>.
\<close>

record oauth2_config =
  oa_ClientID :: string
  oa_ClientSecret :: string
  oa_RedirectURL :: string
  oa_Scopes :: "string list"

record 'p idp =
  NewProvider :: "string \<Rightarrow> 'p option"
  AuthCodeURL :: "'p \<Rightarrow> oauth2_config \<Rightarrow> string \<Rightarrow> string \<Rightarrow> string \<Rightarrow> string"
  Exchange :: "'p \<Rightarrow> oauth2_config \<Rightarrow> string \<Rightarrow> string \<Rightarrow> string option option"
  VerifyIDToken :: "'p \<Rightarrow> string \<Rightarrow> string \<Rightarrow> json option"

record time_codec =
  tc_Format :: "int \<Rightarrow> string option"
  tc_Parse :: "string \<Rightarrow> int option"

record oidc_manager =
  oi_PublicURL :: url
  oi_SigningKey :: string
  oi_CookieSecure :: bool

definition settingKey :: string where
  "settingKey = ''auth.oidc''"

definition flowCookie :: string where
  "flowCookie = ''ocw_oidc_flow''"

record flow =
  fl_State :: string
  fl_Nonce :: string
  fl_Verifier :: string
  fl_Expires :: int

record claims =
  cl_Subject :: string
  cl_Email :: string
  cl_EmailVerified :: bool
  cl_Name :: string
  cl_PreferredUsername :: string
  cl_Nonce :: string
  cl_Groups :: "string list"

definition zero_claims :: claims where
  "zero_claims = \<lparr>cl_Subject = [], cl_Email = [], cl_EmailVerified = False, cl_Name = [],
     cl_PreferredUsername = [], cl_Nonce = [], cl_Groups = []\<rparr>"

definition claims_fields :: "claims fields" where
  "claims_fields = [(''sub'', string_field cl_Subject_update), (''email'', string_field cl_Email_update),
     (''email_verified'', bool_field cl_EmailVerified_update), (''name'', string_field cl_Name_update),
     (''preferred_username'', string_field cl_PreferredUsername_update), (''nonce'', string_field cl_Nonce_update),
     (''groups'', strings_field cl_Groups_update)]"

section \<open>Settings\<close>

text \<open>The settings as far as they could be read, with the error.\<close>

definition Settings :: "env \<Rightarrow> (oidc_settings \<times> db_error option) query" where
  "Settings E =
     andThen (Setting E settingKey (\<lambda>j. decode_object False settings_fields j zero_oidc_settings) zero_oidc_settings)
       (\<lambda>(ok, s, err). case err of
          Some e \<Rightarrow> ret (s, Some e)
        | None \<Rightarrow> ret (s\<lparr>os_Configured := ok \<and> os_Issuer s \<noteq> [] \<and> os_ClientID s \<noteq> [] \<and> os_ClientSecret s \<noteq> [],
                          os_HasClientSecret := os_ClientSecret s \<noteq> []\<rparr>, None))"

definition Save :: "env \<Rightarrow> 'p idp \<Rightarrow> int \<Rightarrow> string option \<Rightarrow> string \<Rightarrow> oidc_settings \<Rightarrow> string \<Rightarrow> unit query" where
  "Save E I now aead_nonce actor settings0 remote =
     (let s1 = settings0\<lparr>os_Issuer := TrimSuffix (TrimSpace (os_Issuer settings0)) ''/'',
                         os_ClientID := TrimSpace (os_ClientID settings0)\<rparr>;
          s2 = (if os_Scopes s1 = [] then s1\<lparr>os_Scopes := [''openid'', ''profile'', ''email'']\<rparr> else s1)
      in if os_Enabled s2 \<and> (os_Issuer s2 = [] \<or> os_ClientID s2 = [] \<or> os_ClientSecret s2 = [])
         then throw (Message ''issuer, client ID, and client secret are required when OIDC is enabled'')
         else if os_Issuer s2 \<noteq> [] \<and> NewProvider I (os_Issuer s2) = None
         then throw (Message ''OIDC discovery failed'')
         else SetSetting E now aead_nonce actor settingKey
                (settings_json (s2\<lparr>os_Configured := False, os_HasClientSecret := False\<rparr>)) True remote)"

section \<open>The flow cookie\<close>

definition flow_fields :: "time_codec \<Rightarrow> flow fields" where
  "flow_fields T = [(''state'', string_field fl_State_update), (''nonce'', string_field fl_Nonce_update),
     (''verifier'', string_field fl_Verifier_update),
     (''expires'', \<lambda>j r. case j of
          JStr s \<Rightarrow> (case tc_Parse T s of None \<Rightarrow> (r, False) | Some t \<Rightarrow> (r\<lparr>fl_Expires := t\<rparr>, True))
        | JNull \<Rightarrow> (r, True) | _ \<Rightarrow> (r, False))]"

definition zero_flow :: flow where
  "zero_flow = \<lparr>fl_State = [], fl_Nonce = [], fl_Verifier = [], fl_Expires = zero_time\<rparr>"

definition flow_json :: "flow \<Rightarrow> string \<Rightarrow> json" where
  "flow_json f expires = JObj [(''state'', JStr (fl_State f)), (''nonce'', JStr (fl_Nonce f)),
     (''verifier'', JStr (fl_Verifier f)), (''expires'', JStr expires)]"

definition flow_mac :: "env \<Rightarrow> oidc_manager \<Rightarrow> string \<Rightarrow> string" where
  "flow_mac E M payload = RawEncode url_alphabet (hmac_sha256 E (oi_SigningKey M) payload)"

definition encodeFlow :: "env \<Rightarrow> time_codec \<Rightarrow> oidc_manager \<Rightarrow> flow \<Rightarrow> db_error + string" where
  "encodeFlow E T M f = (case tc_Format T (fl_Expires f) of
       None \<Rightarrow> Inl JSONFailed
     | Some t \<Rightarrow> let payload = RawEncode url_alphabet (json_text E (flow_json f t))
                 in Inr (payload @ ''.'' @ flow_mac E M payload))"

definition decodeFlow :: "env \<Rightarrow> time_codec \<Rightarrow> oidc_manager \<Rightarrow> string \<Rightarrow> db_error + flow" where
  "decodeFlow E T M value = (case split_on (CHR ''.'') value of
       [p0, p1] \<Rightarrow>
         if flow_mac E M p0 \<noteq> p1 then Inl (Message ''invalid flow signature'')
         else (case RawDecode url_alphabet p0 of
             None \<Rightarrow> Inl (Message ''illegal base64 data'')
           | Some b \<Rightarrow> (case json_parse E b of
               None \<Rightarrow> Inl JSONFailed
             | Some j \<Rightarrow> (case decode_object False (flow_fields T) j zero_flow of
                 (f, ok) \<Rightarrow> if ok then Inr f else Inl JSONFailed)))
     | _ \<Rightarrow> Inl (Message ''invalid flow''))"

section \<open>Helpers\<close>

definition callbackURL :: "oidc_manager \<Rightarrow> string" where
  "callbackURL M = TrimSuffix (url_String (oi_PublicURL M)) ''/'' @ ''/platform/auth/oidc/callback''"

definition oauth_config :: "oidc_manager \<Rightarrow> oidc_settings \<Rightarrow> oauth2_config" where
  "oauth_config M s = \<lparr>oa_ClientID = os_ClientID s, oa_ClientSecret = os_ClientSecret s,
     oa_RedirectURL = callbackURL M, oa_Scopes = os_Scopes s\<rparr>"

definition domainAllowed :: "env \<Rightarrow> string \<Rightarrow> string list \<Rightarrow> bool" where
  "domainAllowed E mail allowed =
     (if allowed = [] then True
      else (case split_on (CHR ''@'') (ToLower E mail) of
              [_, d] \<Rightarrow> list_ex (\<lambda>a. d = ToLower E (TrimSpace a)) allowed
            | _ \<Rightarrow> False))"

fun intersects :: "string list \<Rightarrow> string list \<Rightarrow> bool" where
  "intersects [] allowed = False"
| "intersects (v # vs) allowed = (list_ex (\<lambda>a. v = a) allowed \<or> intersects vs allowed)"

text \<open>\<open>unsafeUsername.ReplaceAllString(v, "-")\<close>: every maximal run of other bytes becomes one hyphen.\<close>

definition safe_char :: "char \<Rightarrow> bool" where
  "safe_char c \<longleftrightarrow> is_lower c \<or> is_digit c \<or> c \<in> {CHR ''.'', CHR ''_'', CHR ''-''}"

fun replace_unsafe :: "bool \<Rightarrow> string \<Rightarrow> string" where
  "replace_unsafe in_run [] = []"
| "replace_unsafe in_run (c # s) =
     (if safe_char c then c # replace_unsafe False s
      else if in_run then replace_unsafe True s
      else CHR ''-'' # replace_unsafe True s)"

text \<open>\<open>strings.Trim(v, "-._")\<close>.\<close>

definition trim_punct :: "string \<Rightarrow> string" where
  "trim_punct v = (let cut = dropWhile (\<lambda>c. c \<in> {CHR ''-'', CHR ''.'', CHR ''_''})
                   in rev (cut (rev (cut v))))"

definition safeUsername :: "env \<Rightarrow> string \<Rightarrow> string \<Rightarrow> string" where
  "safeUsername E preferred mail =
     (let v0 = ToLower E (TrimSpace preferred);
          v1 = (if v0 = [] then hd (split_on (CHR ''@'') mail) else v0);
          v2 = trim_punct (replace_unsafe False v1)
      in if length v2 < 2 then ''user-'' @ v2 else v2)"

section \<open>Start\<close>

text \<open>The cookie and the target of the redirect (status 302).\<close>

definition flow_cookie :: "oidc_manager \<Rightarrow> string \<Rightarrow> cookie" where
  "flow_cookie M v = \<lparr>ck_Name = flowCookie, ck_Value = v, ck_Path = ''/platform/auth/oidc'', ck_HttpOnly = True,
     ck_Secure = oi_CookieSecure M, ck_SameSite = ''Lax'', ck_MaxAge = 600\<rparr>"

definition flow_token :: "string option \<Rightarrow> db_error + string" where
  "flow_token b = (case b of None \<Rightarrow> Inl EntropyFailure | Some bs \<Rightarrow> Inr (RawEncode url_alphabet bs))"

definition challenge :: "env \<Rightarrow> string \<Rightarrow> string" where
  "challenge E verifier = RawEncode url_alphabet (sha256 E verifier)"

definition StartFlow :: "env \<Rightarrow> 'p idp \<Rightarrow> time_codec \<Rightarrow> oidc_manager \<Rightarrow> int \<Rightarrow> string option \<Rightarrow> string option \<Rightarrow> string option
    \<Rightarrow> (cookie \<times> string) query" where
  "StartFlow E I T M now rand1 rand2 rand3 =
     andThen (Settings E) (\<lambda>(s, err). case err of Some e \<Rightarrow> throw e | None \<Rightarrow>
     if \<not> os_Enabled s \<or> \<not> os_Configured s then throw (Message ''OIDC login is not enabled'')
     else (case NewProvider I (os_Issuer s) of None \<Rightarrow> throw (Message ''OIDC discovery'') | Some provider \<Rightarrow>
     andThen (lift (flow_token rand1)) (\<lambda>state.
     andThen (lift (flow_token rand2)) (\<lambda>nonce.
     andThen (lift (flow_token rand3)) (\<lambda>verifier.
     andThen (lift (encodeFlow E T M \<lparr>fl_State = state, fl_Nonce = nonce, fl_Verifier = verifier,
                                      fl_Expires = now + ten_minutes\<rparr>)) (\<lambda>encoded.
     ret (flow_cookie M encoded,
          AuthCodeURL I provider (oauth_config M s) state nonce (challenge E verifier))))))))"

section \<open>Callback\<close>

definition read_claims :: "'p idp \<Rightarrow> 'p \<Rightarrow> oidc_settings \<Rightarrow> oauth2_config \<Rightarrow> string \<Rightarrow> string \<Rightarrow> db_error + claims" where
  "read_claims I provider s cfg code verifier = (case Exchange I provider cfg code verifier of
       None \<Rightarrow> Inl (Message ''OIDC token exchange'')
     | Some None \<Rightarrow> Inl (Message ''OIDC response has no ID token'')
     | Some (Some raw) \<Rightarrow> (case VerifyIDToken I provider (os_ClientID s) raw of
           None \<Rightarrow> Inl (Message ''ID token verification'')
         | Some j \<Rightarrow> (case decode_object False claims_fields j zero_claims of
               (c, ok) \<Rightarrow> if ok then Inr c else Inl JSONFailed)))"

text \<open>The account for checked claims: the linked one, one with the same email if linking is on, a new
  one if provisioning is on.\<close>

definition account_for :: "env \<Rightarrow> int \<Rightarrow> string \<Rightarrow> request \<Rightarrow> oidc_settings \<Rightarrow> claims \<Rightarrow> user query" where
  "account_for E now uid r s c =
     andThen (attempt (OIDCUser (os_Issuer s) (cl_Subject c))) (\<lambda>known. case known of
       Inr u \<Rightarrow> ret u
     | Inl e \<Rightarrow>
         if e \<noteq> ErrNotFound then throw e
         else andThen (if os_LinkByEmail s
              then andThen (attempt (LinkOIDCUserByEmail E now (os_Issuer s) (cl_Subject c) (cl_Email c) (rq_RemoteAddr r)))
                (\<lambda>linked. case linked of
                   Inr u \<Rightarrow> ret (Some u)
                 | Inl e2 \<Rightarrow> if e2 \<noteq> ErrNotFound then throw e2 else ret None)
              else ret None) (\<lambda>linked. case linked of
            Some u \<Rightarrow> ret u
          | None \<Rightarrow>
              if \<not> os_AutoProvision s then throw (Message ''OIDC account has not been provisioned'')
              else let rol = (if intersects (cl_Groups c) (os_AdminGroups s) then ''admin'' else ''user'');
                       uname = safeUsername E (cl_PreferredUsername c) (cl_Email c)
                   in ProvisionOIDCUser E now uid (os_Issuer s) (cl_Subject c) uname (cl_Name c) (cl_Email c) rol
                        (rq_RemoteAddr r)))"

definition Callback :: "env \<Rightarrow> 'p idp \<Rightarrow> time_codec \<Rightarrow> oidc_manager \<Rightarrow> int \<Rightarrow> string \<Rightarrow> request \<Rightarrow> user query" where
  "Callback E I T M now uid r = (case CookieOf r flowCookie of
       None \<Rightarrow> throw (Message ''OIDC flow cookie is missing'')
     | Some v \<Rightarrow> (case decodeFlow E T M v of
         Inl _ \<Rightarrow> throw (Message ''OIDC flow expired'')
       | Inr f \<Rightarrow>
           if now > fl_Expires f then throw (Message ''OIDC flow expired'')
           else if fl_State f \<noteq> QueryGet r ''state'' then throw (Message ''OIDC state mismatch'')
           else andThen (Settings E) (\<lambda>(s, err). case err of Some e \<Rightarrow> throw e | None \<Rightarrow>
           if \<not> os_Enabled s \<or> \<not> os_Configured s then throw (Message ''OIDC is disabled'')
           else (case NewProvider I (os_Issuer s) of None \<Rightarrow> throw (Message ''OIDC discovery'') | Some provider \<Rightarrow>
           andThen (lift (read_claims I provider s (oauth_config M s) (QueryGet r ''code'') (fl_Verifier f))) (\<lambda>c.
           if cl_Nonce c \<noteq> fl_Nonce f then throw (Message ''OIDC nonce mismatch'')
           else if cl_Subject c = [] \<or> cl_Email c = [] \<or> \<not> cl_EmailVerified c
           then throw (Message ''OIDC requires a verified email'')
           else if \<not> domainAllowed E (cl_Email c) (os_AllowedDomains s) then throw (Message ''email domain is not allowed'')
           else account_for E now uid r s c)))))"

end
