(* ===== verification/Kube.thy ===== *)
theory Kube
  imports Config StateProps
begin

text \<open>
  The objects and the client of the Kubernetes API as \<open>internal/kube/controller.go\<close> uses them. The
  records have the fields that the controller sets or reads. The API server is a parameter: a record
  of the calls, over a state \<open>'k\<close> that the model does not look into. What the controller relies on is
  stated in \<open>KubeLaws\<close> as hypotheses.
\<close>

section \<open>Objects\<close>

record owner_reference =
  ow_APIVersion :: string
  ow_Kind :: string
  ow_Name :: string
  ow_UID :: string
  ow_Controller :: bool
  ow_BlockOwnerDeletion :: bool

record object_meta =
  om_Name :: string
  om_Namespace :: string
  om_Labels :: "string \<rightharpoonup> string"
  om_Annotations :: "string \<rightharpoonup> string"
  om_OwnerReferences :: "owner_reference list"
  om_ResourceVersion :: string

record pvc =
  pvc_Meta :: object_meta
  pvc_AccessModes :: "string list"
  pvc_StorageClassName :: string
  pvc_StorageRequest :: string

record secret =
  sc_Meta :: object_meta
  sc_Type :: string
  sc_Data :: "string \<rightharpoonup> string"

record service_port =
  sp_Name :: string
  sp_Port :: int
  sp_TargetPort :: int

record service =
  sv_Meta :: object_meta
  sv_Selector :: "string \<rightharpoonup> string"
  sv_Ports :: "service_port list"

record security_context =
  sx_RunAsUser :: int
  sx_RunAsNonRoot :: bool
  sx_Privileged :: bool
  sx_AllowPrivilegeEscalation :: bool
  sx_CapabilitiesDrop :: "string list"
  sx_SeccompProfile :: string

datatype env_value = Literal string | SecretKey string string

record volume_mount =
  vm_Name :: string
  vm_MountPath :: string
  vm_ReadOnly :: bool
  vm_SubPath :: string

record probe =
  pb_TCPPort :: int
  pb_InitialDelaySeconds :: int
  pb_PeriodSeconds :: int

record container =
  ct_Name :: string
  ct_Image :: string
  ct_ImagePullPolicy :: string
  ct_Command :: "string list"
  ct_Ports :: "(string \<times> int) list"
  ct_SecurityContext :: security_context
  ct_Env :: "(string \<times> env_value) list"
  ct_VolumeMounts :: "volume_mount list"
  ct_Requests :: "string \<rightharpoonup> string"
  ct_Limits :: "string \<rightharpoonup> string"
  ct_ReadinessProbe :: "probe option"
  ct_LivenessProbe :: "probe option"

text \<open>A volume's source: a claim, or a secret with the mode of its files.\<close>

datatype volume_source = ClaimVolume string | SecretVolume string int

record pod_spec =
  ps_AutomountServiceAccountToken :: bool
  ps_EnableServiceLinks :: bool
  ps_SeccompProfile :: string
  ps_InitContainers :: "container list"
  ps_Containers :: "container list"
  ps_Volumes :: "(string \<times> volume_source) list"
  ps_NodeSelector :: "string \<rightharpoonup> string"
  ps_RuntimeClassName :: "string option"
  ps_ImagePullSecrets :: "string list"

record pod_template =
  pt_Labels :: "string \<rightharpoonup> string"
  pt_Annotations :: "string \<rightharpoonup> string"
  pt_Spec :: pod_spec

record deployment =
  dp_Meta :: object_meta
  dp_Replicas :: "int option"
  dp_Strategy :: string
  dp_Selector :: "string \<rightharpoonup> string"
  dp_Template :: pod_template
  dp_StatusReplicas :: int
  dp_StatusReadyReplicas :: int

record pod =
  pd_Name :: string
  pd_Labels :: "string \<rightharpoonup> string"
  pd_StartTime :: "int option"
  pd_Conditions :: "(string \<times> string) list"

section \<open>The client\<close>

text \<open>\<open>KNotFound\<close> is what \<open>apierrors.IsNotFound\<close> recognises.\<close>

datatype kube_error = KNotFound | KFailed string

record ('k, 'o) client =
  cl_Get :: "string \<Rightarrow> string \<Rightarrow> ('k, kube_error, 'o) act"
  cl_Create :: "string \<Rightarrow> 'o \<Rightarrow> ('k, kube_error, unit) act"
  cl_Update :: "string \<Rightarrow> 'o \<Rightarrow> ('k, kube_error, unit) act"
  cl_Delete :: "string \<Rightarrow> string \<Rightarrow> ('k, kube_error, unit) act"
  cl_List :: "string \<Rightarrow> (string \<times> string) list \<Rightarrow> ('k, kube_error, 'o list) act"

text \<open>\<open>MustParse\<close> panics on text that is no quantity.\<close>

record 'k kube_api =
  ka_PVCs :: "('k, pvc) client"
  ka_Secrets :: "('k, secret) client"
  ka_Services :: "('k, service) client"
  ka_Deployments :: "('k, deployment) client"
  ka_Pods :: "('k, pod) client"
  ka_QuantityOk :: "string \<Rightarrow> bool"

record controller =
  co_Config :: config
  co_OwnerUID :: string

datatype ctl_error =
    StoreError db_error
  | KubeError kube_error
  | NoRandom
  | NotReady
  | Panic string

section \<open>Effects\<close>

text \<open>The controller works on the store and on the cluster.\<close>

type_synonym ('k, 'a) ctl = "(store \<times> 'k, ctl_error, 'a) act"

definition on_store :: "'a query \<Rightarrow> ('k, 'a) ctl" where
  "on_store m = within fst (\<lambda>s (_, k). (s, k)) (mapErr StoreError m)"

definition on_kube :: "('k, kube_error, 'a) act \<Rightarrow> ('k, 'a) ctl" where
  "on_kube m = within snd (\<lambda>k (s, _). (s, k)) (mapErr KubeError m)"

end
