(* ===== verification/Controller.thy ===== *)
theory Controller
  imports Kube
begin

text \<open>
  \<open>internal/kube/controller.go\<close>: the reconciler. \<open>Reconcile\<close> brings the four objects of a workspace in
  line with its database row; \<open>Start\<close>, \<open>Stop\<close>, \<open>Restart\<close> and \<open>Purge\<close> change the row first. \<open>rnd\<close> gives
  the random block drawn when the secret of a workspace is created.
\<close>

definition managedBy :: string where
  "managedBy = ''opencode-workspaces''"

definition namespace :: "controller \<Rightarrow> string" where
  "namespace C = cf_Namespace (co_Config C)"

abbreviation wkcfg :: "controller \<Rightarrow> workspace_config" where
  "wkcfg C \<equiv> cf_Workspace (co_Config C)"

definition label_managed :: string where "label_managed = ''app.kubernetes.io/managed-by''"
definition label_name :: string where "label_name = ''opencode.workspaces/name''"
definition label_user :: string where "label_user = ''opencode.workspaces/user-id''"
definition ann_revision :: string where "ann_revision = ''opencode.workspaces/config-revision''"
definition ann_nonce :: string where "ann_nonce = ''opencode.workspaces/restart-nonce''"

section \<open>Object metadata\<close>

definition owner :: "controller \<Rightarrow> owner_reference list" where
  "owner C = [\<lparr>ow_APIVersion = ''v1'', ow_Kind = ''ConfigMap'', ow_Name = cf_OwnerName (co_Config C),
     ow_UID = co_OwnerUID C, ow_Controller = True, ow_BlockOwnerDeletion = True\<rparr>]"

definition workspace_labels :: "workspace \<Rightarrow> string \<rightharpoonup> string" where
  "workspace_labels w = [label_managed \<mapsto> managedBy, label_name \<mapsto> ws_ResourceName w, label_user \<mapsto> ws_UserID w]"

definition meta :: "controller \<Rightarrow> workspace \<Rightarrow> object_meta" where
  "meta C w = \<lparr>om_Name = ws_ResourceName w, om_Namespace = namespace C, om_Labels = workspace_labels w,
     om_Annotations = Map.empty, om_OwnerReferences = owner C, om_ResourceVersion = []\<rparr>"

definition auth_name :: "workspace \<Rightarrow> string" where
  "auth_name w = ws_ResourceName w @ ''-auth''"

section \<open>Objects of a workspace\<close>

definition new_pvc :: "controller \<Rightarrow> workspace \<Rightarrow> pvc" where
  "new_pvc C w = \<lparr>pvc_Meta = (meta C w)\<lparr>om_OwnerReferences := []\<rparr>, pvc_AccessModes = [''ReadWriteOnce''],
     pvc_StorageClassName = wk_StorageClass (wkcfg C), pvc_StorageRequest = wk_StorageSize (wkcfg C)\<rparr>"

definition ensurePVC :: "'k kube_api \<Rightarrow> controller \<Rightarrow> workspace \<Rightarrow> ('k, unit) ctl" where
  "ensurePVC K C w =
     andThen (attempt (on_kube (cl_Get (ka_PVCs K) (namespace C) (ws_ResourceName w)))) (\<lambda>res. case res of
       Inr _ \<Rightarrow> ret ()
     | Inl e \<Rightarrow>
         if e \<noteq> KubeError KNotFound then throw e
         else if \<not> ka_QuantityOk K (wk_StorageSize (wkcfg C)) then throw (Panic ''storage size'')
         else on_kube (cl_Create (ka_PVCs K) (namespace C) (new_pvc C w)))"

text \<open>The files of a configuration in the secret.\<close>

definition set_files :: "workspace_configuration option \<Rightarrow> (string \<rightharpoonup> string) \<Rightarrow> string \<rightharpoonup> string" where
  "set_files cfg data = (case cfg of
       None \<Rightarrow> data(''opencode.json'' := None, ''ai-gateway.key'' := None)
     | Some c \<Rightarrow> data(''opencode.json'' \<mapsto> wc_OpenCodeJSON c, ''ai-gateway.key'' \<mapsto> wc_APIKey c))"

definition revision_text :: "workspace_configuration option \<Rightarrow> string" where
  "revision_text cfg = (case cfg of None \<Rightarrow> ''0'' | Some c \<Rightarrow> show_int (wc_Revision c))"

definition new_secret :: "controller \<Rightarrow> workspace \<Rightarrow> workspace_configuration option \<Rightarrow> string \<Rightarrow> secret" where
  "new_secret C w cfg password = \<lparr>
     sc_Meta = (meta C w)\<lparr>om_Name := auth_name w, om_Annotations := [ann_revision \<mapsto> revision_text cfg]\<rparr>,
     sc_Type = ''Opaque'',
     sc_Data = (let data = [''username'' \<mapsto> ''opencode'', ''password'' \<mapsto> RawEncode url_alphabet password]
                in case cfg of None \<Rightarrow> data | Some c \<Rightarrow> set_files (Some c) data)\<rparr>"

definition updated_secret :: "workspace_configuration option \<Rightarrow> secret \<Rightarrow> secret" where
  "updated_secret cfg current = current\<lparr>
     sc_Meta := (sc_Meta current)\<lparr>om_Annotations := (om_Annotations (sc_Meta current))(ann_revision \<mapsto> revision_text cfg)\<rparr>,
     sc_Data := set_files cfg (sc_Data current)\<rparr>"

text \<open>\<open>errors.Is(configErr, ErrNotFound)\<close> is no failure: the workspace has no configuration yet.\<close>

definition read_configuration :: "env \<Rightarrow> workspace \<Rightarrow> ('k, workspace_configuration option) ctl" where
  "read_configuration E w =
     andThen (attempt (on_store (WorkspaceConfiguration E (ws_UserID w)))) (\<lambda>res. case res of
       Inr c \<Rightarrow> ret (Some c)
     | Inl e \<Rightarrow> if e = StoreError ErrNotFound then ret None else throw e)"

definition ensureSecret :: "env \<Rightarrow> 'k kube_api \<Rightarrow> controller \<Rightarrow> (string \<Rightarrow> string option) \<Rightarrow> workspace \<Rightarrow> ('k, unit) ctl" where
  "ensureSecret E K C rnd w =
     andThen (read_configuration E w) (\<lambda>cfg.
     andThen (attempt (on_kube (cl_Get (ka_Secrets K) (namespace C) (auth_name w)))) (\<lambda>res. case res of
       Inl e \<Rightarrow>
         if e = KubeError KNotFound
         then (case rnd (ws_ResourceName w) of
                 None \<Rightarrow> throw NoRandom
               | Some password \<Rightarrow> on_kube (cl_Create (ka_Secrets K) (namespace C) (new_secret C w cfg password)))
         else throw e
     | Inr current \<Rightarrow>
         if (case om_Annotations (sc_Meta current) ann_revision of None \<Rightarrow> [] | Some v \<Rightarrow> v) = revision_text cfg
         then ret ()
         else on_kube (cl_Update (ka_Secrets K) (namespace C) (updated_secret cfg current))))"

definition new_service :: "controller \<Rightarrow> workspace \<Rightarrow> service" where
  "new_service C w = \<lparr>sv_Meta = meta C w, sv_Selector = [label_name \<mapsto> ws_ResourceName w],
     sv_Ports = [\<lparr>sp_Name = ''http'', sp_Port = wk_Port (wkcfg C), sp_TargetPort = wk_Port (wkcfg C)\<rparr>]\<rparr>"

definition ensureService :: "'k kube_api \<Rightarrow> controller \<Rightarrow> workspace \<Rightarrow> ('k, unit) ctl" where
  "ensureService K C w =
     andThen (attempt (on_kube (cl_Get (ka_Services K) (namespace C) (ws_ResourceName w)))) (\<lambda>res. case res of
       Inr _ \<Rightarrow> ret ()
     | Inl e \<Rightarrow>
         if e \<noteq> KubeError KNotFound then throw e
         else on_kube (cl_Create (ka_Services K) (namespace C) (new_service C w)))"

section \<open>The pod\<close>

definition seccomp_default :: string where
  "seccomp_default = ''RuntimeDefault''"

definition container_security :: security_context where
  "container_security = \<lparr>sx_RunAsUser = 0, sx_RunAsNonRoot = False, sx_Privileged = False,
     sx_AllowPrivilegeEscalation = False, sx_CapabilitiesDrop = [''ALL''], sx_SeccompProfile = seccomp_default\<rparr>"

definition newline :: string where
  "newline = [char_of (10::nat)]"

definition bootstrap_command :: string where
  "bootstrap_command = concat (map (\<lambda>l. l @ newline)
     [''set -euo pipefail'',
      ''config_dir=/workspace/home/.config/opencode'',
      ''if [[ -s /bootstrap/opencode.json ]]; then'',
      ''  mkdir -p \"$config_dir\"'',
      ''  cp /bootstrap/opencode.json \"$config_dir/opencode.json\"'',
      ''  chmod 600 \"$config_dir/opencode.json\"'',
      ''fi'',
      ''if [[ -s /bootstrap/ai-gateway.key ]]; then'',
      ''  mkdir -p \"$config_dir\"'',
      ''  cp /bootstrap/ai-gateway.key \"$config_dir/ai-gateway.key\"'',
      ''  chmod 600 \"$config_dir/ai-gateway.key\"'']) @ ''fi''"

definition init_container :: "controller \<Rightarrow> container" where
  "init_container C = \<lparr>ct_Name = ''workspace-bootstrap'', ct_Image = wk_Image (wkcfg C),
     ct_ImagePullPolicy = wk_ImagePullPolicy (wkcfg C),
     ct_Command = [''/bin/bash'', ''-c'', bootstrap_command], ct_Ports = [],
     ct_SecurityContext = container_security, ct_Env = [],
     ct_VolumeMounts = [\<lparr>vm_Name = ''workspace'', vm_MountPath = ''/workspace'', vm_ReadOnly = False, vm_SubPath = []\<rparr>,
                        \<lparr>vm_Name = ''bootstrap'', vm_MountPath = ''/bootstrap'', vm_ReadOnly = True, vm_SubPath = []\<rparr>],
     ct_Requests = Map.empty, ct_Limits = Map.empty, ct_ReadinessProbe = None, ct_LivenessProbe = None\<rparr>"

definition main_container :: "controller \<Rightarrow> workspace \<Rightarrow> container" where
  "main_container C w = \<lparr>ct_Name = ''workspace'', ct_Image = wk_Image (wkcfg C),
     ct_ImagePullPolicy = wk_ImagePullPolicy (wkcfg C), ct_Command = [],
     ct_Ports = [(''http'', wk_Port (wkcfg C))], ct_SecurityContext = container_security,
     ct_Env = [(''OPENCODE_SERVER_USERNAME'', SecretKey (auth_name w) ''username''),
               (''OPENCODE_SERVER_PASSWORD'', SecretKey (auth_name w) ''password''),
               (''HOME'', Literal ''/workspace/home''),
               (''XDG_DATA_HOME'', Literal ''/workspace/home/.local/share''),
               (''XDG_CONFIG_HOME'', Literal ''/workspace/home/.config''),
               (''WORKSPACE_DIR'', Literal ''/workspace/projects'')],
     ct_VolumeMounts = [\<lparr>vm_Name = ''workspace'', vm_MountPath = ''/workspace'', vm_ReadOnly = False, vm_SubPath = []\<rparr>],
     ct_Requests = [''cpu'' \<mapsto> wk_CPURequest (wkcfg C), ''memory'' \<mapsto> wk_MemoryRequest (wkcfg C)],
     ct_Limits = [''cpu'' \<mapsto> wk_CPULimit (wkcfg C), ''memory'' \<mapsto> wk_MemoryLimit (wkcfg C)],
     ct_ReadinessProbe = Some \<lparr>pb_TCPPort = wk_Port (wkcfg C), pb_InitialDelaySeconds = 3, pb_PeriodSeconds = 5\<rparr>,
     ct_LivenessProbe = Some \<lparr>pb_TCPPort = wk_Port (wkcfg C), pb_InitialDelaySeconds = 20, pb_PeriodSeconds = 20\<rparr>\<rparr>"

text \<open>The mode of the secret's files is octal 0400.\<close>

definition podSpec :: "controller \<Rightarrow> workspace \<Rightarrow> pod_spec" where
  "podSpec C w = \<lparr>ps_AutomountServiceAccountToken = False, ps_EnableServiceLinks = False,
     ps_SeccompProfile = seccomp_default, ps_InitContainers = [init_container C],
     ps_Containers = [main_container C w],
     ps_Volumes = [(''workspace'', ClaimVolume (ws_ResourceName w)), (''bootstrap'', SecretVolume (auth_name w) 256)],
     ps_NodeSelector = wk_NodeSelector (wkcfg C),
     ps_RuntimeClassName = (if wk_RuntimeClassName (wkcfg C) \<noteq> [] then Some (wk_RuntimeClassName (wkcfg C)) else None),
     ps_ImagePullSecrets = (if wk_ImagePullSecret (wkcfg C) \<noteq> [] then [wk_ImagePullSecret (wkcfg C)] else [])\<rparr>"

definition quantities :: "controller \<Rightarrow> string list" where
  "quantities C = [wk_CPURequest (wkcfg C), wk_MemoryRequest (wkcfg C), wk_CPULimit (wkcfg C), wk_MemoryLimit (wkcfg C)]"

definition new_deployment :: "controller \<Rightarrow> workspace \<Rightarrow> deployment" where
  "new_deployment C w = \<lparr>dp_Meta = meta C w,
     dp_Replicas = Some (if ws_DesiredState w = ''running'' then 1 else 0), dp_Strategy = ''Recreate'',
     dp_Selector = [label_name \<mapsto> ws_ResourceName w],
     dp_Template = \<lparr>pt_Labels = workspace_labels w,
       pt_Annotations = [ann_nonce \<mapsto> show_int (ws_RestartNonce w)], pt_Spec = podSpec C w\<rparr>,
     dp_StatusReplicas = 0, dp_StatusReadyReplicas = 0\<rparr>"

definition ensureDeployment :: "'k kube_api \<Rightarrow> controller \<Rightarrow> workspace \<Rightarrow> ('k, unit) ctl" where
  "ensureDeployment K C w =
     (if \<not> list_all (ka_QuantityOk K) (quantities C) then throw (Panic ''container resources'')
      else let dep = new_deployment C w in
        andThen (attempt (on_kube (cl_Get (ka_Deployments K) (namespace C) (ws_ResourceName w)))) (\<lambda>res. case res of
          Inl e \<Rightarrow>
            if e = KubeError KNotFound then on_kube (cl_Create (ka_Deployments K) (namespace C) dep) else throw e
        | Inr current \<Rightarrow>
            on_kube (cl_Update (ka_Deployments K) (namespace C)
              (dep\<lparr>dp_Meta := (dp_Meta dep)\<lparr>om_ResourceVersion := om_ResourceVersion (dp_Meta current)\<rparr>\<rparr>))))"

section \<open>Reconcile and the user's actions\<close>

definition Reconcile :: "env \<Rightarrow> 'k kube_api \<Rightarrow> controller \<Rightarrow> (string \<Rightarrow> string option) \<Rightarrow> workspace \<Rightarrow> ('k, unit) ctl" where
  "Reconcile E K C rnd w =
     andThen (ensurePVC K C w) (\<lambda>_.
     andThen (ensureSecret E K C rnd w) (\<lambda>_.
     andThen (ensureService K C w) (\<lambda>_.
     ensureDeployment K C w)))"

text \<open>Re-read the row, then reconcile.\<close>

definition reconcile_user :: "env \<Rightarrow> 'k kube_api \<Rightarrow> controller \<Rightarrow> (string \<Rightarrow> string option) \<Rightarrow> string \<Rightarrow> ('k, unit) ctl" where
  "reconcile_user E K C rnd userID =
     andThen (on_store (Workspace E userID)) (\<lambda>w. Reconcile E K C rnd w)"

definition Start :: "env \<Rightarrow> 'k kube_api \<Rightarrow> controller \<Rightarrow> (string \<Rightarrow> string option) \<Rightarrow> int \<Rightarrow> string \<Rightarrow> ('k, unit) ctl" where
  "Start E K C rnd now userID =
     andThen (on_store (SetWorkspaceState E now userID userID ''running'' [] False)) (\<lambda>_.
     reconcile_user E K C rnd userID)"

definition Stop :: "env \<Rightarrow> 'k kube_api \<Rightarrow> controller \<Rightarrow> (string \<Rightarrow> string option) \<Rightarrow> int \<Rightarrow> string \<Rightarrow> string \<Rightarrow> string
    \<Rightarrow> ('k, unit) ctl" where
  "Stop E K C rnd now actor userID remote =
     andThen (on_store (SetWorkspaceState E now actor userID ''stopped'' remote False)) (\<lambda>_.
     reconcile_user E K C rnd userID)"

definition Restart :: "env \<Rightarrow> 'k kube_api \<Rightarrow> controller \<Rightarrow> (string \<Rightarrow> string option) \<Rightarrow> int \<Rightarrow> string \<Rightarrow> string \<Rightarrow> string
    \<Rightarrow> ('k, unit) ctl" where
  "Restart E K C rnd now actor userID remote =
     andThen (on_store (SetWorkspaceState E now actor userID ''running'' remote True)) (\<lambda>_.
     reconcile_user E K C rnd userID)"

definition Purge :: "env \<Rightarrow> 'k kube_api \<Rightarrow> controller \<Rightarrow> (string \<Rightarrow> string option) \<Rightarrow> int \<Rightarrow> string \<Rightarrow> string \<Rightarrow> string
    \<Rightarrow> ('k, unit) ctl" where
  "Purge E K C rnd now actor userID remote =
     andThen (on_store (Workspace E userID)) (\<lambda>w.
     andThen (Stop E K C rnd now actor userID remote) (\<lambda>_.
     andThen (attempt (on_kube (cl_Delete (ka_PVCs K) (namespace C) (ws_ResourceName w)))) (\<lambda>res.
     if (case res of Inl e \<Rightarrow> e \<noteq> KubeError KNotFound | Inr _ \<Rightarrow> False)
     then throw (case res of Inl e \<Rightarrow> e | Inr _ \<Rightarrow> NotReady)
     else on_store (DeleteWorkspaceDataRecord E now actor userID remote))))"

section \<open>The loop body\<close>

text \<open>Errors of single workspaces are logged and skipped; a panic ends the process.\<close>

fun reconcile_each :: "env \<Rightarrow> 'k kube_api \<Rightarrow> controller \<Rightarrow> (string \<Rightarrow> string option) \<Rightarrow> workspace list \<Rightarrow> ('k, unit) ctl" where
  "reconcile_each E K C rnd [] = ret ()"
| "reconcile_each E K C rnd (w # ws) =
     andThen (attempt (Reconcile E K C rnd w)) (\<lambda>res. case res of
       Inl (Panic m) \<Rightarrow> throw (Panic m)
     | _ \<Rightarrow> reconcile_each E K C rnd ws)"

definition reconcileAll :: "env \<Rightarrow> 'k kube_api \<Rightarrow> controller \<Rightarrow> (string \<Rightarrow> string option) \<Rightarrow> int \<Rightarrow> ('k, unit) ctl" where
  "reconcileAll E K C rnd now =
     andThen (if wk_IdleTimeout (wkcfg C) > 0
              then andThen (attempt (on_store (IdleWorkspaces now (now - wk_IdleTimeout (wkcfg C)))) ) (\<lambda>_. ret ())
              else ret ()) (\<lambda>_.
     andThen (attempt (on_store ListWorkspaces)) (\<lambda>res. case res of
       Inl _ \<Rightarrow> ret ()
     | Inr items \<Rightarrow> reconcile_each E K C rnd items))"

text \<open>\<open>Run\<close>: one pass at start, then one per tick, until the context is done. The ticks that arrive
  before that are the list \<open>ticks\<close>.\<close>

fun Run :: "env \<Rightarrow> 'k kube_api \<Rightarrow> controller \<Rightarrow> (string \<Rightarrow> string option) \<Rightarrow> int \<Rightarrow> int list \<Rightarrow> ('k, unit) ctl" where
  "Run E K C rnd now [] = reconcileAll E K C rnd now"
| "Run E K C rnd now (t # ticks) = andThen (reconcileAll E K C rnd now) (\<lambda>_. Run E K C rnd t ticks)"

section \<open>Status\<close>

definition workspaceStatus :: "deployment \<Rightarrow> pod option \<Rightarrow> workspace_status" where
  "workspaceStatus d p =
     (let ready = dp_StatusReadyReplicas d > 0;
          status = \<lparr>st_Exists = True, st_Ready = ready, st_Replicas = dp_StatusReplicas d,
             st_ReadyReplicas = dp_StatusReadyReplicas d,
             st_Phase = (if dp_Replicas d = Some 0 then ''stopped'' else if ready then ''running'' else ''starting''),
             st_Message = [], st_PodName = [], st_StartedAt = zero_time\<rparr>
      in case p of
           None \<Rightarrow> status
         | Some q \<Rightarrow> status\<lparr>st_PodName := pd_Name q,
             st_StartedAt := (case pd_StartTime q of None \<Rightarrow> zero_time | Some t \<Rightarrow> t),
             st_Message := (if ready then []
                else fold (\<lambda>(ty, msg) acc. if ty = ''Ready'' \<and> msg \<noteq> [] then msg else acc) (pd_Conditions q) [])\<rparr>)"

definition stopped_status :: workspace_status where
  "stopped_status = zero_status\<lparr>st_Phase := ''stopped''\<rparr>"

definition Status :: "'k kube_api \<Rightarrow> controller \<Rightarrow> workspace \<Rightarrow> ('k, workspace_status) ctl" where
  "Status K C w =
     andThen (attempt (on_kube (cl_Get (ka_Deployments K) (namespace C) (ws_ResourceName w)))) (\<lambda>res. case res of
       Inl e \<Rightarrow> if e = KubeError KNotFound then ret stopped_status else throw e
     | Inr d \<Rightarrow>
         andThen (attempt (on_kube (cl_List (ka_Pods K) (namespace C)
             [(label_managed, managedBy), (label_name, ws_ResourceName w)]))) (\<lambda>pods.
         ret (workspaceStatus d (case pods of Inr (p # _) \<Rightarrow> Some p | _ \<Rightarrow> None))))"

text \<open>The maps built by iterating over a list keep the last entry of a key.\<close>

definition last_by :: "('o \<Rightarrow> string) \<Rightarrow> 'o list \<Rightarrow> string \<rightharpoonup> 'o" where
  "last_by name xs = map_of (rev (map (\<lambda>x. (name x, x)) xs))"

definition pod_workspace :: "pod \<Rightarrow> string" where
  "pod_workspace p = (case pd_Labels p label_name of None \<Rightarrow> [] | Some v \<Rightarrow> v)"

definition Statuses :: "'k kube_api \<Rightarrow> controller \<Rightarrow> workspace list \<Rightarrow> ('k, string \<rightharpoonup> workspace_status) ctl" where
  "Statuses K C ws =
     andThen (on_kube (cl_List (ka_Deployments K) (namespace C) [(label_managed, managedBy)])) (\<lambda>deps.
     andThen (on_kube (cl_List (ka_Pods K) (namespace C) [(label_managed, managedBy)])) (\<lambda>pods.
     let deployments = last_by (\<lambda>d. om_Name (dp_Meta d)) deps;
         podsBy = last_by pod_workspace (filter (\<lambda>p. pod_workspace p \<noteq> []) pods)
     in ret (\<lambda>n. if n \<in> set (map ws_ResourceName ws)
                 then Some (case deployments n of None \<Rightarrow> stopped_status | Some d \<Rightarrow> workspaceStatus d (podsBy n))
                 else None)))"

definition Backend :: "env \<Rightarrow> 'k kube_api \<Rightarrow> controller \<Rightarrow> string \<Rightarrow> ('k, string \<times> string) ctl" where
  "Backend E K C userID =
     andThen (on_store (Workspace E userID)) (\<lambda>w.
     andThen (attempt (Status K C w)) (\<lambda>res. case res of
       Inl _ \<Rightarrow> throw NotReady
     | Inr st \<Rightarrow>
         if \<not> st_Ready st then throw NotReady
         else andThen (on_kube (cl_Get (ka_Secrets K) (namespace C) (auth_name w))) (\<lambda>sec.
              ret (''http://'' @ ws_ResourceName w @ ''.'' @ namespace C @ ''.svc:'' @ show_int (wk_Port (wkcfg C)),
                   case sc_Data sec ''password'' of None \<Rightarrow> [] | Some p \<Rightarrow> p))))"

end
