(* ===== verification/Response.thy ===== *)
theory Response
  imports Http
begin

text \<open>
  What handlers write. A page is the template's name with the data that \<open>render\<close> hands to it
  (\<open>viewData\<close> and \<open>adminRow\<close> of \<open>internal/httpserver/server.go\<close>); the templates themselves are not
  Go code. \<open>Upstream\<close> is the body of a workspace's answer.
\<close>

record adminRow =
  row_User :: user
  row_Workspace :: workspace
  row_Status :: workspace_status

record viewData =
  vd_Title :: string
  vd_Error :: string
  vd_CSRF :: string
  vd_User :: user
  vd_Brand :: branding
  vd_OIDC :: oidc_settings
  vd_HasLocalAuth :: bool
  vd_Workspace :: workspace
  vd_Status :: workspace_status
  vd_Rows :: "adminRow list"
  vd_Audit :: "audit_event list"
  vd_CallbackURL :: string

datatype body =
    Empty
  | Text string
  | Page string viewData
  | WaitingPage
  | JSON json
  | Static string
  | Upstream string
  | Aborted

record response =
  rs_Status :: nat
  rs_Header :: "(string \<times> string) list"
  rs_Cookies :: "cookie list"
  rs_Body :: body

definition plain_type :: string where
  "plain_type = ''text/plain; charset=utf-8''"

text \<open>\<open>http.Error(w, text, code)\<close>; the cookies are those the handler has set before.\<close>

definition http_error :: "string \<Rightarrow> nat \<Rightarrow> response" where
  "http_error t code = \<lparr>rs_Status = code, rs_Header = [(''Content-Type'', plain_type)], rs_Cookies = [], rs_Body = Text t\<rparr>"

definition http_redirect :: "string \<Rightarrow> nat \<Rightarrow> response" where
  "http_redirect target code = \<lparr>rs_Status = code, rs_Header = [(''Location'', target)], rs_Cookies = [], rs_Body = Empty\<rparr>"

text \<open>A panic in a handler: the server closes the connection.\<close>

definition aborted :: response where
  "aborted = \<lparr>rs_Status = 0, rs_Header = [], rs_Cookies = [], rs_Body = Aborted\<rparr>"

end
