(* ===== verification/Proxy.thy ===== *)
theory Proxy
  imports Auth Controller Response
begin

text \<open>
  \<open>internal/proxy/gateway.go\<close>: the gateway that forwards a signed-in user's requests to the user's
  workspace. Its state is the cache of backends and the time of the last recorded activity per user.
  The transport to the pod is a parameter: \<open>rt\<close> gives the pod's response to an outgoing request, \<open>None\<close>
  for a transport error.

  \<open>plane\<close> is the state of the whole control plane, on which the HTTP handlers work.
\<close>

section \<open>State\<close>

record backend =
  bk_Target :: url
  bk_Password :: string

record gateway =
  gw_lastTouch :: "string \<rightharpoonup> int"
  gw_backends :: "string \<rightharpoonup> backend"

record 'k plane =
  pl_store :: store
  pl_cluster :: 'k
  pl_limiter :: limiter
  pl_gateway :: gateway

type_synonym ('k, 'a) handler = "('k plane, ctl_error, 'a) act"

definition use_store :: "'a query \<Rightarrow> ('k, 'a) handler" where
  "use_store m = within pl_store (\<lambda>s p. p\<lparr>pl_store := s\<rparr>) (mapErr StoreError m)"

definition use_ctl :: "('k, 'a) ctl \<Rightarrow> ('k, 'a) handler" where
  "use_ctl m = within (\<lambda>p. (pl_store p, pl_cluster p)) (\<lambda>(s, k) p. p\<lparr>pl_store := s, pl_cluster := k\<rparr>) m"

definition get_gateway :: "('k, gateway) handler" where
  "get_gateway = (\<lambda>p. (Inr (pl_gateway p), p))"

definition put_gateway :: "gateway \<Rightarrow> ('k, unit) handler" where
  "put_gateway g = (\<lambda>p. (Inr (), p\<lparr>pl_gateway := g\<rparr>))"

section \<open>The cache and the activity record\<close>

definition forgetBackend :: "string \<Rightarrow> ('k, unit) handler" where
  "forgetBackend userID = andThen get_gateway (\<lambda>g. put_gateway (g\<lparr>gw_backends := (gw_backends g)(userID := None)\<rparr>))"

definition find_backend :: "env \<Rightarrow> parsers \<Rightarrow> 'k kube_api \<Rightarrow> controller \<Rightarrow> string \<Rightarrow> ('k, backend) handler" where
  "find_backend E P K C userID =
     andThen get_gateway (\<lambda>g. case gw_backends g userID of
       Some cached \<Rightarrow> ret cached
     | None \<Rightarrow>
         andThen (use_ctl (Backend E K C userID)) (\<lambda>(address, password).
         case url_Parse P address of
           None \<Rightarrow> throw NotReady
         | Some target \<Rightarrow>
             let resolved = \<lparr>bk_Target = target, bk_Password = password\<rparr> in
             andThen get_gateway (\<lambda>g'.
             andThen (put_gateway (g'\<lparr>gw_backends := (gw_backends g')(userID \<mapsto> resolved)\<rparr>)) (\<lambda>_.
             ret resolved))))"

definition one_minute :: int where
  "one_minute = 60000000000"

definition touch :: "env \<Rightarrow> int \<Rightarrow> string \<Rightarrow> ('k, unit) handler" where
  "touch E now userID =
     andThen get_gateway (\<lambda>g.
     if (case gw_lastTouch g userID of None \<Rightarrow> False | Some t \<Rightarrow> now - t < one_minute) then ret ()
     else andThen (put_gateway (g\<lparr>gw_lastTouch := (gw_lastTouch g)(userID \<mapsto> now)\<rparr>)) (\<lambda>_.
          use_store (TouchWorkspace E now userID)))"

section \<open>Forwarding\<close>

record outgoing =
  og_Method :: string
  og_URL :: url
  og_RequestURI :: string
  og_Host :: string
  og_Header :: "(string \<times> string) list"

text \<open>\<open>Director\<close>: the client's credentials are removed, the workspace's are set.\<close>

definition basic_auth :: "string \<Rightarrow> string" where
  "basic_auth password = ''Basic '' @ StdEncode (''opencode:'' @ password)"

definition director_headers :: "string \<Rightarrow> string \<Rightarrow> (string \<times> string) list \<Rightarrow> (string \<times> string) list" where
  "director_headers password userID hs =
     (let hs1 = header_del ''Cookie'' hs;
          hs2 = header_del ''Authorization'' hs1;
          hs3 = header_del ''X-Csrf-Token'' hs2;
          hs4 = header_del ''X-Forwarded-User'' hs3;
          hs5 = header_set ''Authorization'' (basic_auth password) hs4
      in header_set ''X-Forwarded-User'' userID hs5)"

text \<open>\<open>httputil.ReverseProxy\<close> removes hop-by-hop fields after the director has run: those that the
  client's \<open>Connection\<close> field lists, and the standard ones (which it restores for an upgrade). Field
  names are canonicalised: upper case at the start and after a hyphen.\<close>

definition upper :: "char \<Rightarrow> char" where
  "upper c = (if is_lower c then char_of (byte c - 32) else c)"

fun canonical_key :: "bool \<Rightarrow> string \<Rightarrow> string" where
  "canonical_key up [] = []"
| "canonical_key up (c # s) = (if up then upper c else ascii_lower c) # canonical_key (c = CHR ''-'') s"

definition listed_fields :: "(string \<times> string) list \<Rightarrow> string list" where
  "listed_fields hs = filter (\<lambda>f. f \<noteq> []) (map (canonical_key True \<circ> TrimSpace)
     (concat (map (split_on (CHR '','')) (header_values ''Connection'' hs))))"

definition hop_headers :: "string list" where
  "hop_headers = [''Connection'', ''Proxy-Connection'', ''Keep-Alive'', ''Proxy-Authenticate'', ''Proxy-Authorization'',
     ''Te'', ''Trailer'', ''Transfer-Encoding'', ''Upgrade'']"

definition remove_fields :: "string list \<Rightarrow> (string \<times> string) list \<Rightarrow> (string \<times> string) list" where
  "remove_fields ks hs = fold header_del ks hs"

definition upgrade_type :: "(string \<times> string) list \<Rightarrow> string" where
  "upgrade_type hs = (if ''Upgrade'' \<in> set (listed_fields hs) then first_value ''Upgrade'' hs else [])"

definition remove_hop_by_hop :: "(string \<times> string) list \<Rightarrow> (string \<times> string) list" where
  "remove_hop_by_hop hs =
     (let hs1 = remove_fields hop_headers (remove_fields (listed_fields hs) hs)
      in if upgrade_type hs = [] then hs1
         else header_set ''Upgrade'' (upgrade_type hs) (header_set ''Connection'' ''Upgrade'' hs1))"

definition forward :: "backend \<Rightarrow> string \<Rightarrow> request \<Rightarrow> outgoing" where
  "forward b userID r = \<lparr>og_Method = rq_Method r, og_URL = bk_Target b, og_RequestURI = rq_RequestURI r,
     og_Host = url_Host (bk_Target b),
     og_Header = remove_hop_by_hop (director_headers (bk_Password b) userID (rq_Header r))\<rparr>"

section \<open>ServeHTTP\<close>

definition accepts_html :: "request \<Rightarrow> bool" where
  "accepts_html r \<longleftrightarrow> Contains (HeaderGet r ''Accept'') ''text/html''"

definition starting :: "request \<Rightarrow> response" where
  "starting r =
     (if accepts_html r \<and> rq_Method r = ''GET''
      then \<lparr>rs_Status = 503, rs_Header = [(''Content-Type'', ''text/html; charset=utf-8''), (''Refresh'', ''3'')],
            rs_Cookies = [], rs_Body = WaitingPage\<rparr>
      else http_error ''workspace is starting; retry shortly'' 503)"

text \<open>The first half of \<open>ServeHTTP\<close>: a workspace that does not run is started; the second half: the backend
  is found, the activity recorded, the request forwarded.\<close>

definition wake :: "env \<Rightarrow> 'k kube_api \<Rightarrow> controller \<Rightarrow> (string \<Rightarrow> string option) \<Rightarrow> int \<Rightarrow> workspace \<Rightarrow> string
    \<Rightarrow> ('k, ctl_error + unit) handler" where
  "wake E K C rnd now w userID =
     (if ws_DesiredState w \<noteq> ''running''
      then andThen (forgetBackend userID) (\<lambda>_. attempt (use_ctl (Start E K C rnd now userID)))
      else ret (Inr ()))"

definition proxied :: "env \<Rightarrow> parsers \<Rightarrow> 'k kube_api \<Rightarrow> controller \<Rightarrow> (outgoing \<Rightarrow> response option) \<Rightarrow> int \<Rightarrow> request \<Rightarrow> string
    \<Rightarrow> ('k, response) handler" where
  "proxied E P K C rt now r userID =
     andThen (attempt (find_backend E P K C userID)) (\<lambda>found. case found of
       Inl _ \<Rightarrow> ret (starting r)
     | Inr b \<Rightarrow>
         andThen (touch E now userID) (\<lambda>_.
         case rt (forward b userID r) of
           Some answer \<Rightarrow> ret answer
         | None \<Rightarrow> andThen (forgetBackend userID) (\<lambda>_.
             ret (http_error ''workspace connection unavailable'' 502))))"

definition ServeHTTP :: "env \<Rightarrow> parsers \<Rightarrow> 'k kube_api \<Rightarrow> controller \<Rightarrow> (string \<Rightarrow> string option) \<Rightarrow> (outgoing \<Rightarrow> response option)
    \<Rightarrow> int \<Rightarrow> request \<Rightarrow> user \<Rightarrow> ('k, response) handler" where
  "ServeHTTP E P K C rnd rt now r u =
     andThen (attempt (use_store (Workspace E (user_ID u)))) (\<lambda>res. case res of
       Inl _ \<Rightarrow> ret (http_error ''workspace unavailable'' 503)
     | Inr w \<Rightarrow> andThen (wake E K C rnd now w (user_ID u)) (\<lambda>started. case started of
           Inl (Panic _) \<Rightarrow> ret aborted
         | Inl _ \<Rightarrow> ret (http_error ''failed to start workspace'' 503)
         | Inr _ \<Rightarrow> proxied E P K C rt now r (user_ID u)))"

end
