(* ===== verification/HttpServer.thy ===== *)
theory HttpServer
  imports Oidc Proxy
begin

text \<open>
  \<open>internal/httpserver/server.go\<close>: the handlers behind the routes, the page data and the gates
  (\<open>requireUser\<close>, \<open>requireAdmin\<close>, \<open>csrf\<close>). \<open>world\<close> holds what a request meets outside the program: the
  environment, the cluster, the identity provider, the pod's answers, the clock, the random blocks the
  request reads (\<open>wd_Rand\<close> by position, \<open>wd_Secret\<close> those of the controller), the identifier a new
  account would get, and the texts of database errors. \<open>server\<close> is the struct \<open>Server\<close> without the
  stateful parts, which are in \<open>plane\<close>.
\<close>

record ('k, 'p) world =
  wd_Env :: env
  wd_Parsers :: parsers
  wd_Kube :: "'k kube_api"
  wd_IdP :: "'p idp"
  wd_Times :: time_codec
  wd_Pod :: "outgoing \<Rightarrow> response option"
  wd_Static :: "string \<Rightarrow> response"
  wd_Now :: int
  wd_Rand :: "nat \<Rightarrow> string option"
  wd_Secret :: "string \<Rightarrow> string option"
  wd_UUID :: string
  wd_ErrorText :: "db_error \<Rightarrow> string"

record server =
  hs_Config :: config
  hs_Auth :: manager
  hs_OIDC :: oidc_manager
  hs_Controller :: controller

section \<open>Helpers\<close>

definition StatusText :: "nat \<Rightarrow> string" where
  "StatusText code = (if code = 400 then ''Bad Request'' else if code = 401 then ''Unauthorized''
     else if code = 403 then ''Forbidden'' else if code = 500 then ''Internal Server Error'' else [])"

text \<open>\<open>s.error\<close>: the error is logged, the client sees the status text.\<close>

definition fail :: "nat \<Rightarrow> response" where
  "fail code = http_error (StatusText code) code"

text \<open>A call whose error is answered with a status; a panic aborts the request.\<close>

definition settled :: "ctl_error + 'a \<Rightarrow> nat \<Rightarrow> ('a \<Rightarrow> ('k, response) handler) \<Rightarrow> ('k, response) handler" where
  "settled res code k = (case res of
       Inl (Panic _) \<Rightarrow> ret aborted
     | Inl _ \<Rightarrow> ret (fail code)
     | Inr x \<Rightarrow> k x)"

definition username_char :: "char \<Rightarrow> bool" where
  "username_char c \<longleftrightarrow> is_lower c \<or> is_upper c \<or> is_digit c \<or> c \<in> {CHR ''.'', CHR ''_'', CHR ''-''}"

definition usernamePattern :: "string \<Rightarrow> bool" where
  "usernamePattern s \<longleftrightarrow> 2 \<le> length s \<and> length s \<le> 64 \<and> list_all username_char s"

definition hex_digit :: "char \<Rightarrow> bool" where
  "hex_digit c \<longleftrightarrow> is_digit c \<or> (97 \<le> byte c \<and> byte c \<le> 102) \<or> (65 \<le> byte c \<and> byte c \<le> 70)"

definition accentPattern :: "string \<Rightarrow> bool" where
  "accentPattern s = (case s of [] \<Rightarrow> False | c # t \<Rightarrow> c = CHR ''#'' \<and> length t = 6 \<and> list_all hex_digit t)"

definition csv :: "string \<Rightarrow> string list" where
  "csv value = filter (\<lambda>p. p \<noteq> []) (map TrimSpace (split_on (CHR '','') value))"

definition safeHTTPURL :: "parsers \<Rightarrow> string \<Rightarrow> string" where
  "safeHTTPURL P value0 =
     (let value = TrimSpace value0 in
      if value = [] then []
      else (case url_Parse P value of None \<Rightarrow> []
            | Some u \<Rightarrow> if url_Scheme u \<noteq> ''https'' \<and> url_Scheme u \<noteq> ''http'' then [] else url_String u))"

text \<open>\<open>url.QueryEscape\<close>.\<close>

definition hex_upper :: "nat \<Rightarrow> char" where
  "hex_upper n = char_of (if n < 10 then 48 + n else 55 + n)"

definition query_char :: "char \<Rightarrow> string" where
  "query_char c = (if username_char c \<or> c = CHR ''~'' then [c] else if c = CHR '' '' then ''+''
     else [CHR ''%'', hex_upper (byte c div 16), hex_upper (byte c mod 16)])"

definition QueryEscape :: "string \<Rightarrow> string" where
  "QueryEscape s = concat (map query_char s)"

section \<open>Pages\<close>

definition default_branding :: branding where
  "default_branding = \<lparr>br_Name = ''OpenCode Workspaces'', br_LogoURL = [], br_Favicon = [], br_Accent = ''#7c3aed''\<rparr>"

definition branding_of :: "('k, 'p) world \<Rightarrow> ('k, branding) handler" where
  "branding_of W =
     andThen (use_store (Setting (wd_Env W) ''branding'' (\<lambda>j. decode_object False branding_fields j default_branding) default_branding))
       (\<lambda>(_, b, _).
        let b1 = (if br_Name b = [] then b\<lparr>br_Name := ''OpenCode Workspaces''\<rparr> else b);
            b2 = (if br_Accent b1 = [] then b1\<lparr>br_Accent := ''#7c3aed''\<rparr> else b1)
        in ret b2)"

definition data :: "('k, 'p) world \<Rightarrow> request \<Rightarrow> ('k, viewData) handler" where
  "data W r =
     (let u = (case UserFromContext r of None \<Rightarrow> zero_user | Some x \<Rightarrow> x);
          token = (case CookieOf r ''ocw_csrf'' of None \<Rightarrow> [] | Some v \<Rightarrow> v)
      in andThen (use_store (Settings (wd_Env W))) (\<lambda>(oidcSettings, _).
         andThen (branding_of W) (\<lambda>brand.
         ret \<lparr>vd_Title = [], vd_Error = [], vd_CSRF = token, vd_User = u, vd_Brand = brand,
              vd_OIDC = oidcSettings\<lparr>os_ClientSecret := []\<rparr>, vd_HasLocalAuth = False, vd_Workspace = zero_workspace,
              vd_Status = zero_status, vd_Rows = [], vd_Audit = [], vd_CallbackURL = []\<rparr>)))"

definition render :: "string \<Rightarrow> viewData \<Rightarrow> response" where
  "render name d = \<lparr>rs_Status = 200, rs_Header = [(''Content-Type'', ''text/html; charset=utf-8'')],
     rs_Cookies = [], rs_Body = Page name d\<rparr>"

definition renderError :: "('k, 'p) world \<Rightarrow> request \<Rightarrow> string \<Rightarrow> string \<Rightarrow> ('k, response) handler" where
  "renderError W r name message = andThen (data W r) (\<lambda>d. ret (render name (d\<lparr>vd_Error := message\<rparr>)))"

section \<open>Gates\<close>

definition requireUser :: "request \<Rightarrow> (user \<Rightarrow> ('k, response) handler) \<Rightarrow> ('k, response) handler" where
  "requireUser r k = (case UserFromContext r of
       None \<Rightarrow> ret (http_redirect ''/platform/login'' 302) | Some u \<Rightarrow> k u)"

definition requireAdmin :: "request \<Rightarrow> (user \<Rightarrow> ('k, response) handler) \<Rightarrow> ('k, response) handler" where
  "requireAdmin r k = requireUser r (\<lambda>u. if \<not> IsAdmin u then ret (http_error ''forbidden'' 403) else k u)"

definition csrf :: "('k, 'p) world \<Rightarrow> server \<Rightarrow> request \<Rightarrow> ('k, response) handler \<Rightarrow> ('k, response) handler" where
  "csrf W S r k = andThen (use_store (CSRFValid (wd_Env W) (hs_Auth S) (wd_Now W) r)) (\<lambda>ok.
     if \<not> ok then ret (http_error ''invalid CSRF token'' 403) else k)"

section \<open>Setup, login, logout\<close>

definition signed_in :: "('k, 'p) world \<Rightarrow> server \<Rightarrow> request \<Rightarrow> string \<Rightarrow> (cookie list \<Rightarrow> ('k, response) handler)
    \<Rightarrow> ('k, response) handler" where
  "signed_in W S r userID k =
     andThen (attempt (use_store (NewSession (wd_Env W) (hs_Auth S) (wd_Now W) (wd_Rand W 1) (wd_Rand W 2) r userID)))
       (\<lambda>res. case res of Inl _ \<Rightarrow> ret (fail 500) | Inr (_, cookies) \<Rightarrow> k cookies)"

definition setupGet :: "('k, 'p) world \<Rightarrow> request \<Rightarrow> ('k, response) handler" where
  "setupGet W r = andThen (attempt (use_store UserCount)) (\<lambda>res. case res of
       Inl _ \<Rightarrow> ret (fail 500)
     | Inr n \<Rightarrow> if n > 0 then ret (http_redirect ''/platform/login'' 303)
                else andThen (data W r) (\<lambda>d. ret (render ''setup'' d)))"

definition setupPost :: "('k, 'p) world \<Rightarrow> server \<Rightarrow> request \<Rightarrow> ('k, response) handler" where
  "setupPost W S r =
     (if rq_FormError r then ret (fail 400)
      else let username = TrimSpace (FormValue r ''username'') in
      if \<not> usernamePattern username then renderError W r ''setup'' ''invalid username''
      else (case HashPassword (wd_Env W) (wd_Rand W 0) (FormValue r ''password'') of
          Inl e \<Rightarrow> renderError W r ''setup'' e
        | Inr h \<Rightarrow>
            andThen (attempt (use_store (BootstrapAdmin (wd_Env W) (wd_Now W) (wd_UUID W) username
                (TrimSpace (FormValue r ''display_name'')) (TrimSpace (FormValue r ''email'')) h))) (\<lambda>res. case res of
              Inl (StoreError e) \<Rightarrow> renderError W r ''setup'' (wd_ErrorText W e)
            | Inl _ \<Rightarrow> renderError W r ''setup'' []
            | Inr u \<Rightarrow> signed_in W S r (user_ID u) (\<lambda>cookies.
                ret ((http_redirect ''/platform/admin'' 303)\<lparr>rs_Cookies := cookies\<rparr>)))))"

definition loginGet :: "('k, 'p) world \<Rightarrow> request \<Rightarrow> ('k, response) handler" where
  "loginGet W r = andThen (attempt (use_store UserCount)) (\<lambda>res.
     if (case res of Inl _ \<Rightarrow> 0 | Inr n \<Rightarrow> n) = 0 then ret (http_redirect ''/platform/setup'' 303)
     else if UserFromContext r \<noteq> None then ret (http_redirect ''/platform/'' 303)
     else andThen (data W r) (\<lambda>d. ret (render ''login'' d)))"

definition limit :: "(limiter \<Rightarrow> 'a \<times> limiter) \<Rightarrow> ('k, 'a) handler" where
  "limit f = (\<lambda>p. case f (pl_limiter p) of (x, l) \<Rightarrow> (Inr x, p\<lparr>pl_limiter := l\<rparr>))"

definition login_key :: "env \<Rightarrow> request \<Rightarrow> string" where
  "login_key E r = rq_RemoteAddr r @ '':'' @ ToLower E (FormValue r ''username'')"

definition loginPost :: "('k, 'p) world \<Rightarrow> server \<Rightarrow> request \<Rightarrow> ('k, response) handler" where
  "loginPost W S r =
     (let key = login_key (wd_Env W) r in
      andThen (limit (LoginAllowed (wd_Now W) key)) (\<lambda>allowed.
      if \<not> allowed then ret (http_error ''too many login attempts'' 429)
      else andThen (attempt (use_store (AuthenticateLocal (wd_Env W) (FormValue r ''username'')))) (\<lambda>res. case res of
          Inl _ \<Rightarrow> renderError W r ''login'' ''invalid username or password''
        | Inr (u, h) \<Rightarrow>
            if \<not> VerifyPassword (wd_Env W) h (FormValue r ''password'') \<or> user_Disabled u
            then renderError W r ''login'' ''invalid username or password''
            else andThen (limit (\<lambda>l. ((), LoginSucceeded key l))) (\<lambda>_.
                 andThen (attempt (use_store (RecordLogin (wd_Env W) (wd_Now W) (user_ID u)))) (\<lambda>_.
                 signed_in W S r (user_ID u) (\<lambda>cookies.
                 ret ((http_redirect ''/platform/'' 303)\<lparr>rs_Cookies := cookies\<rparr>)))))))"

definition logout :: "('k, 'p) world \<Rightarrow> server \<Rightarrow> request \<Rightarrow> ('k, response) handler" where
  "logout W S r = csrf W S r
     (andThen (use_store (ClearSession (wd_Env W) (hs_Auth S) r)) (\<lambda>cookies.
      ret ((http_redirect ''/platform/login'' 303)\<lparr>rs_Cookies := cookies\<rparr>)))"

definition oidcLogin :: "('k, 'p) world \<Rightarrow> server \<Rightarrow> request \<Rightarrow> ('k, response) handler" where
  "oidcLogin W S r =
     andThen (attempt (use_store (StartFlow (wd_Env W) (wd_IdP W) (wd_Times W) (hs_OIDC S) (wd_Now W)
        (wd_Rand W 0) (wd_Rand W 1) (wd_Rand W 2)))) (\<lambda>res. case res of
       Inl _ \<Rightarrow> ret (fail 400)
     | Inr (c, target) \<Rightarrow> ret ((http_redirect target 302)\<lparr>rs_Cookies := [c]\<rparr>))"

definition oidcCallback :: "('k, 'p) world \<Rightarrow> server \<Rightarrow> request \<Rightarrow> ('k, response) handler" where
  "oidcCallback W S r =
     andThen (attempt (use_store (Callback (wd_Env W) (wd_IdP W) (wd_Times W) (hs_OIDC S) (wd_Now W) (wd_UUID W) r)))
       (\<lambda>res. case res of
          Inl _ \<Rightarrow> ret (fail 401)
        | Inr u \<Rightarrow> signed_in W S r (user_ID u) (\<lambda>cookies.
            andThen (attempt (use_store (RecordLogin (wd_Env W) (wd_Now W) (user_ID u)))) (\<lambda>_.
            ret ((http_redirect ''/platform/'' 303)\<lparr>rs_Cookies := cookies\<rparr>))))"

end
