(* ===== verification/HttpRoutes.thy ===== *)
theory HttpRoutes
  imports HttpServer
begin

text \<open>
  The rest of \<open>internal/httpserver/server.go\<close>: the handlers for signed-in users and administrators, the
  gateway, and \<open>Handler\<close>, which is \<open>http.ServeMux\<close> over the registered patterns inside the session
  middleware and the security headers.
\<close>

section \<open>Users\<close>

definition home :: "('k, 'p) world \<Rightarrow> server \<Rightarrow> request \<Rightarrow> ('k, response) handler" where
  "home W S r = requireUser r (\<lambda>u.
     andThen (data W r) (\<lambda>d.
     andThen (attempt (use_store (HasLocalCredential (wd_Env W) (user_ID u)))) (\<lambda>res. case res of
         Inl _ \<Rightarrow> ret (fail 500)
       | Inr b \<Rightarrow>
           andThen (attempt (use_store (Workspace (wd_Env W) (user_ID u)))) (\<lambda>found.
           let w = (case found of Inl _ \<Rightarrow> zero_workspace | Inr x \<Rightarrow> x) in
           andThen (attempt (use_ctl (Status (wd_Kube W) (hs_Controller S) w))) (\<lambda>st.
           ret (render ''home'' (d\<lparr>vd_User := u, vd_HasLocalAuth := b, vd_Workspace := w,
             vd_Status := (case st of Inl _ \<Rightarrow> zero_status | Inr x \<Rightarrow> x)\<rparr>)))))))"

definition stopWorkspace :: "('k, 'p) world \<Rightarrow> server \<Rightarrow> request \<Rightarrow> ('k, response) handler" where
  "stopWorkspace W S r = requireUser r (\<lambda>u. csrf W S r
     (andThen (attempt (use_ctl (Stop (wd_Env W) (wd_Kube W) (hs_Controller S) (wd_Secret W) (wd_Now W)
          (user_ID u) (user_ID u) (rq_RemoteAddr r)))) (\<lambda>res.
      settled res 500 (\<lambda>_. ret (http_redirect ''/platform/'' 303)))))"

definition changePassword :: "('k, 'p) world \<Rightarrow> server \<Rightarrow> request \<Rightarrow> ('k, response) handler" where
  "changePassword W S r = requireUser r (\<lambda>u. csrf W S r
     (andThen (attempt (use_store (AuthenticateLocal (wd_Env W) (user_Username u)))) (\<lambda>res. case res of
         Inl _ \<Rightarrow> ret (fail 403)
       | Inr (current, oldHash) \<Rightarrow>
           if user_ID current \<noteq> user_ID u \<or> \<not> VerifyPassword (wd_Env W) oldHash (FormValue r ''current_password'')
           then ret (fail 403)
           else (case HashPassword (wd_Env W) (wd_Rand W 0) (FormValue r ''new_password'') of
               Inl _ \<Rightarrow> ret (fail 400)
             | Inr h \<Rightarrow>
                 andThen (attempt (use_store (UpdateUser (wd_Env W) (wd_Now W) (user_ID u) (user_ID u) (user_DisplayName u)
                     (user_Email u) (user_Role u) (user_Disabled u) h (rq_RemoteAddr r)))) (\<lambda>done.
                 settled done 500 (\<lambda>_. ret (http_redirect ''/platform/'' 303)))))))"

definition bootstrapAPI :: "('k, 'p) world \<Rightarrow> request \<Rightarrow> ('k, response) handler" where
  "bootstrapAPI W r = requireUser r (\<lambda>u. andThen (branding_of W) (\<lambda>brand.
     ret \<lparr>rs_Status = 200, rs_Header = [(''Content-Type'', ''application/json'')], rs_Cookies = [],
       rs_Body = JSON (JObj [(''adminUrl'', JStr ''/platform/admin''), (''branding'', branding_json brand),
         (''user'', JObj [(''displayName'', JStr (user_DisplayName u)), (''id'', JStr (user_ID u)),
            (''isAdmin'', JBool (IsAdmin u)), (''role'', JStr (user_Role u)), (''username'', JStr (user_Username u))])])\<rparr>))"

definition gateway_handler :: "('k, 'p) world \<Rightarrow> server \<Rightarrow> request \<Rightarrow> ('k, response) handler" where
  "gateway_handler W S r = (case UserFromContext r of
       None \<Rightarrow>
         if rq_Method r = ''GET'' \<and> accepts_html r
         then ret (http_redirect (''/platform/login?next='' @ QueryEscape (rq_RequestURI r)) 302)
         else ret (http_error ''authentication required'' 401)
     | Some u \<Rightarrow> ServeHTTP (wd_Env W) (wd_Parsers W) (wd_Kube W) (hs_Controller S) (wd_Secret W) (wd_Pod W) (wd_Now W) r u)"

section \<open>Administration\<close>

definition admin_row :: "workspace list \<Rightarrow> (string \<rightharpoonup> workspace_status) \<Rightarrow> user \<Rightarrow> adminRow" where
  "admin_row ws statuses u =
     (let w = (case last_by ws_UserID ws (user_ID u) of None \<Rightarrow> zero_workspace | Some x \<Rightarrow> x)
      in \<lparr>row_User = u, row_Workspace = w,
          row_Status = (case statuses (ws_ResourceName w) of None \<Rightarrow> zero_status | Some st \<Rightarrow> st)\<rparr>)"

definition admin :: "('k, 'p) world \<Rightarrow> server \<Rightarrow> request \<Rightarrow> ('k, response) handler" where
  "admin W S r = requireAdmin r (\<lambda>u.
     andThen (data W r) (\<lambda>d.
     andThen (attempt (use_store ListUsers)) (\<lambda>res1. case res1 of Inl _ \<Rightarrow> ret (fail 500) | Inr us \<Rightarrow>
     andThen (attempt (use_store ListWorkspaces)) (\<lambda>res2. case res2 of Inl _ \<Rightarrow> ret (fail 500) | Inr ws \<Rightarrow>
     andThen (attempt (use_ctl (Statuses (wd_Kube W) (hs_Controller S) ws))) (\<lambda>res3.
     settled res3 500 (\<lambda>statuses.
     andThen (attempt (use_store (AuditEvents 50))) (\<lambda>log.
     ret (render ''admin'' (d\<lparr>vd_User := u, vd_Rows := map (admin_row ws statuses) us,
       vd_Audit := (case log of Inl _ \<Rightarrow> [] | Inr es \<Rightarrow> es),
       vd_CallbackURL := TrimSuffix (url_String (cf_PublicURL (hs_Config S))) ''/'' @ ''/platform/auth/oidc/callback''\<rparr>)))))))))"

definition back_to_admin :: "('k, response) handler" where
  "back_to_admin = ret (http_redirect ''/platform/admin'' 303)"

definition createUser :: "('k, 'p) world \<Rightarrow> server \<Rightarrow> request \<Rightarrow> ('k, response) handler" where
  "createUser W S r = requireAdmin r (\<lambda>actor. csrf W S r
     (let username = TrimSpace (FormValue r ''username''); role = FormValue r ''role'' in
      if \<not> usernamePattern username \<or> role \<noteq> ''user'' \<and> role \<noteq> ''admin'' then ret (fail 400)
      else (case HashPassword (wd_Env W) (wd_Rand W 0) (FormValue r ''password'') of
          Inl _ \<Rightarrow> ret (fail 400)
        | Inr h \<Rightarrow>
            andThen (attempt (use_store (CreateLocalUser (wd_Env W) (wd_Now W) (wd_UUID W) (user_ID actor) username
                (FormValue r ''display_name'') (FormValue r ''email'') role h (rq_RemoteAddr r)))) (\<lambda>res.
            settled res 400 (\<lambda>_. back_to_admin)))))"

definition updateUser :: "('k, 'p) world \<Rightarrow> server \<Rightarrow> string \<Rightarrow> request \<Rightarrow> ('k, response) handler" where
  "updateUser W S userID r = requireAdmin r (\<lambda>actor. csrf W S r
     (let role = FormValue r ''role''; password = FormValue r ''password'' in
      if role \<noteq> ''user'' \<and> role \<noteq> ''admin'' then ret (fail 400)
      else (case (if password \<noteq> [] then HashPassword (wd_Env W) (wd_Rand W 0) password else Inr []) of
          Inl _ \<Rightarrow> ret (fail 400)
        | Inr h \<Rightarrow>
            let disabled = FormValue r ''disabled'' \<noteq> [] in
            if userID = user_ID actor \<and> (disabled \<or> role \<noteq> ''admin'') then ret (fail 400)
            else andThen (attempt (use_store (UpdateUser (wd_Env W) (wd_Now W) (user_ID actor) userID
                   (TrimSpace (FormValue r ''display_name'')) (TrimSpace (FormValue r ''email'')) role disabled h
                   (rq_RemoteAddr r)))) (\<lambda>res.
                 settled res 400 (\<lambda>_. back_to_admin)))))"

definition saveBranding :: "('k, 'p) world \<Rightarrow> server \<Rightarrow> request \<Rightarrow> ('k, response) handler" where
  "saveBranding W S r = requireAdmin r (\<lambda>actor. csrf W S r
     (let brand = \<lparr>br_Name = TrimSpace (FormValue r ''name''), br_LogoURL = safeHTTPURL (wd_Parsers W) (FormValue r ''logo_url''),
            br_Favicon = safeHTTPURL (wd_Parsers W) (FormValue r ''favicon_url''), br_Accent = FormValue r ''accent''\<rparr> in
      if br_Name brand = [] \<or> \<not> accentPattern (br_Accent brand) then ret (fail 400)
      else andThen (attempt (use_store (SetSetting (wd_Env W) (wd_Now W) (wd_Rand W 0) (user_ID actor) ''branding''
             (branding_json brand) False (rq_RemoteAddr r)))) (\<lambda>res.
           settled res 500 (\<lambda>_. back_to_admin))))"

definition oidc_form :: "request \<Rightarrow> string \<Rightarrow> oidc_settings" where
  "oidc_form r secret = zero_oidc_settings\<lparr>os_Enabled := FormValue r ''enabled'' \<noteq> [], os_Issuer := FormValue r ''issuer'',
     os_ClientID := FormValue r ''client_id'', os_ClientSecret := secret, os_Scopes := [''openid'', ''profile'', ''email''],
     os_AutoProvision := FormValue r ''auto_provision'' \<noteq> [], os_LinkByEmail := FormValue r ''link_by_email'' \<noteq> [],
     os_AllowedDomains := csv (FormValue r ''allowed_domains''), os_AdminGroups := csv (FormValue r ''admin_groups'')\<rparr>"

definition saveOIDC :: "('k, 'p) world \<Rightarrow> server \<Rightarrow> request \<Rightarrow> ('k, response) handler" where
  "saveOIDC W S r = requireAdmin r (\<lambda>actor. csrf W S r
     (andThen (use_store (Settings (wd_Env W))) (\<lambda>(old, _).
      let secret = (if FormValue r ''client_secret'' = [] then os_ClientSecret old else FormValue r ''client_secret'') in
      andThen (attempt (use_store (Save (wd_Env W) (wd_IdP W) (wd_Now W) (wd_Rand W 0) (user_ID actor) (oidc_form r secret)
          (rq_RemoteAddr r)))) (\<lambda>res.
      settled res 400 (\<lambda>_. back_to_admin)))))"

definition workspaceAction :: "('k, 'p) world \<Rightarrow> server \<Rightarrow> string \<Rightarrow> string \<Rightarrow> request \<Rightarrow> ('k, response) handler" where
  "workspaceAction W S userID action r = requireAdmin r (\<lambda>actor. csrf W S r
     (let E = wd_Env W; K = wd_Kube W; C = hs_Controller S; rnd = wd_Secret W; now = wd_Now W;
          a = user_ID actor; remote = rq_RemoteAddr r;
          run = (\<lambda>m. andThen (attempt (use_ctl m)) (\<lambda>res. settled res 500 (\<lambda>_. back_to_admin)))
      in if action = ''start'' then run (Start E K C rnd now userID)
         else if action = ''stop'' then run (Stop E K C rnd now a userID remote)
         else if action = ''restart'' then run (Restart E K C rnd now a userID remote)
         else if action = ''purge'' then run (Purge E K C rnd now a userID remote)
         else ret (http_error ''404 page not found'' 404)))"

section \<open>Routes\<close>

datatype route =
    StaticFile
  | Healthz
  | Readyz
  | SetupGet
  | SetupPost
  | LoginGet
  | LoginPost
  | Logout
  | OIDCLogin
  | OIDCCallback
  | BootstrapAPI
  | Home
  | StopWorkspace
  | Admin
  | CreateUser
  | UpdateUserOf string
  | ChangePassword
  | SaveBranding
  | SaveOIDC
  | WorkspaceActionOf string string
  | Gateway

text \<open>The most specific pattern for the method (\<open>HEAD\<close> matches \<open>GET\<close> patterns) wins; \<open>/\<close> takes the rest.
  The path is given by its segments; a wildcard matches one segment that is not the empty one after a
  trailing slash.\<close>

definition get_route :: "string list \<Rightarrow> route" where
  "get_route segs =
     (if segs = [''healthz''] then Healthz
      else if segs = [''readyz''] then Readyz
      else if length segs < 2 \<or> hd segs \<noteq> ''platform'' then Gateway
      else let rest = tl segs in
      if hd rest = ''static'' \<and> tl rest \<noteq> [] then StaticFile
      else if rest = [''setup''] then SetupGet
      else if rest = [''login''] then LoginGet
      else if rest = [''auth'', ''oidc'', ''login''] then OIDCLogin
      else if rest = [''auth'', ''oidc'', ''callback''] then OIDCCallback
      else if rest = [''api'', ''v1'', ''bootstrap''] then BootstrapAPI
      else if rest = [''admin''] then Admin
      else Home)"

definition admin_post_route :: "string list \<Rightarrow> route" where
  "admin_post_route rest =
     (if rest = [''users''] then CreateUser
      else if rest = [''branding''] then SaveBranding
      else if rest = [''oidc''] then SaveOIDC
      else (case rest of
          [a, i] \<Rightarrow> if a = ''users'' \<and> i \<noteq> [] then UpdateUserOf i else Gateway
        | [a, i, x] \<Rightarrow> if a = ''workspaces'' \<and> i \<noteq> [] \<and> x \<noteq> [] then WorkspaceActionOf i x else Gateway
        | _ \<Rightarrow> Gateway))"

definition post_route :: "string list \<Rightarrow> route" where
  "post_route segs =
     (if length segs < 2 \<or> hd segs \<noteq> ''platform'' then Gateway
      else let rest = tl segs in
      if rest = [''setup''] then SetupPost
      else if rest = [''login''] then LoginPost
      else if rest = [''logout''] then Logout
      else if rest = [''workspace'', ''stop''] then StopWorkspace
      else if rest = [''account'', ''password''] then ChangePassword
      else if hd rest = ''admin'' then admin_post_route (tl rest)
      else Gateway)"

definition segments :: "string \<Rightarrow> string list" where
  "segments path = tl (split_on (CHR ''/'') path)"

definition route_of :: "string \<Rightarrow> string list \<Rightarrow> route" where
  "route_of method segs =
     (if method = ''GET'' \<or> method = ''HEAD'' then get_route segs
      else if method = ''POST'' then post_route segs else Gateway)"

text \<open>\<open>url.PathUnescape\<close> of a segment that the server has parsed before.\<close>

definition hex_value :: "char \<Rightarrow> nat" where
  "hex_value c = (if is_digit c then byte c - 48 else if 97 \<le> byte c then byte c - 87 else byte c - 55)"

fun path_unescape :: "string \<Rightarrow> string" where
  "path_unescape (c # a # b # s) =
     (if c = CHR ''%'' \<and> hex_digit a \<and> hex_digit b then char_of (16 * hex_value a + hex_value b) # path_unescape s
      else c # path_unescape (a # b # s))"
| "path_unescape s = s"

text \<open>\<open>cleanPath\<close>: dots, double slashes and \<open>..\<close> are resolved; the mux redirects to the clean path.\<close>

fun clean_segments :: "string list \<Rightarrow> string list \<Rightarrow> string list" where
  "clean_segments acc [] = rev acc"
| "clean_segments acc (x # xs) =
     (if x = [] \<or> x = ''.'' then clean_segments acc xs
      else if x = ''..'' then clean_segments (tl acc) xs
      else clean_segments (x # acc) xs)"

definition cleanPath :: "string \<Rightarrow> string" where
  "cleanPath p0 =
     (let p = (if p0 = [] \<or> hd p0 \<noteq> CHR ''/'' then CHR ''/'' # p0 else p0);
          np = CHR ''/'' # join_with (CHR ''/'') (clean_segments [] (segments p))
      in if last p = CHR ''/'' \<and> np \<noteq> ''/'' then np @ ''/'' else np)"

text \<open>A path that names a registered subtree without its slash is redirected, too.\<close>

definition mux_redirect :: "string \<Rightarrow> string \<Rightarrow> string option" where
  "mux_redirect method path =
     (if method = ''CONNECT'' then None
      else let p = cleanPath path in
      if (method = ''GET'' \<or> method = ''HEAD'') \<and> (p = ''/platform'' \<or> p = ''/platform/static'') then Some (p @ ''/'')
      else if p \<noteq> path then Some p else None)"

definition text_answer :: "string \<Rightarrow> response" where
  "text_answer t = \<lparr>rs_Status = 200, rs_Header = [], rs_Cookies = [], rs_Body = Text t\<rparr>"

text \<open>\<open>Store.Healthy\<close>: a round trip to the database.\<close>

definition Healthy :: "unit query" where
  "Healthy = fetch (\<lambda>d. Inr ())"

definition readyz :: "('k, response) handler" where
  "readyz = andThen (attempt (use_store Healthy)) (\<lambda>res. case res of
       Inl _ \<Rightarrow> ret (http_error ''database unavailable'' 503) | Inr _ \<Rightarrow> ret (text_answer ''ready''))"

definition dispatch :: "('k, 'p) world \<Rightarrow> server \<Rightarrow> route \<Rightarrow> request \<Rightarrow> ('k, response) handler" where
  "dispatch W S rt r = (case rt of
       StaticFile \<Rightarrow> ret (wd_Static W (rq_Path r))
     | Healthz \<Rightarrow> ret (text_answer ''ok'')
     | Readyz \<Rightarrow> readyz
     | SetupGet \<Rightarrow> setupGet W r
     | SetupPost \<Rightarrow> setupPost W S r
     | LoginGet \<Rightarrow> loginGet W r
     | LoginPost \<Rightarrow> loginPost W S r
     | Logout \<Rightarrow> logout W S r
     | OIDCLogin \<Rightarrow> oidcLogin W S r
     | OIDCCallback \<Rightarrow> oidcCallback W S r
     | BootstrapAPI \<Rightarrow> bootstrapAPI W r
     | Home \<Rightarrow> home W S r
     | StopWorkspace \<Rightarrow> stopWorkspace W S r
     | Admin \<Rightarrow> admin W S r
     | CreateUser \<Rightarrow> createUser W S r
     | UpdateUserOf i \<Rightarrow> updateUser W S (path_unescape i) r
     | ChangePassword \<Rightarrow> changePassword W S r
     | SaveBranding \<Rightarrow> saveBranding W S r
     | SaveOIDC \<Rightarrow> saveOIDC W S r
     | WorkspaceActionOf i x \<Rightarrow> workspaceAction W S (path_unescape i) (path_unescape x) r
     | Gateway \<Rightarrow> gateway_handler W S r)"

definition mux :: "('k, 'p) world \<Rightarrow> server \<Rightarrow> request \<Rightarrow> ('k, response) handler" where
  "mux W S r = (case mux_redirect (rq_Method r) (rq_Path r) of
       Some p \<Rightarrow> ret (http_redirect (p @ dropWhile (\<lambda>c. c \<noteq> CHR ''?'') (rq_RequestURI r)) 301)
     | None \<Rightarrow> dispatch W S (route_of (rq_Method r) (segments (rq_Path r))) r)"

definition security_headers :: "request \<Rightarrow> (string \<times> string) list" where
  "security_headers r = [(''X-Content-Type-Options'', ''nosniff''), (''X-Frame-Options'', ''DENY''),
     (''Referrer-Policy'', ''same-origin''), (''Permissions-Policy'', ''camera=(), microphone=(), geolocation=()'')]
   @ (if HasPrefix (path_unescape (rq_Path r)) ''/platform/'' then [(''Content-Security-Policy'',
        ''default-src 'self'; img-src 'self' https: data:; style-src 'self' 'unsafe-inline'; form-action 'self'; frame-ancestors 'none'' @ [CHR 0x27])]
      else [])"

definition securityHeaders :: "(request \<Rightarrow> ('k, response) handler) \<Rightarrow> request \<Rightarrow> ('k, response) handler" where
  "securityHeaders next_handler r = andThen (next_handler r) (\<lambda>answer.
     ret (answer\<lparr>rs_Header := security_headers r @ rs_Header answer\<rparr>))"

text \<open>The middleware passes the request on with the session's user in its context.\<close>

definition with_session :: "('k, 'p) world \<Rightarrow> server \<Rightarrow> (request \<Rightarrow> ('k, response) handler) \<Rightarrow> request \<Rightarrow> ('k, response) handler" where
  "with_session W S next_handler r =
     andThen (use_store (Middleware (wd_Env W) (hs_Auth S) (wd_Now W) ret r)) next_handler"

definition Handler :: "('k, 'p) world \<Rightarrow> server \<Rightarrow> request \<Rightarrow> ('k, response) handler" where
  "Handler W S = securityHeaders (with_session W S (mux W S))"

end
