(* ===== verification/HttpLaws.thy ===== *)
theory HttpLaws
  imports HttpRoutes
begin

text \<open>
  Every request is answered, and what no answer contains. \<open>answers Q m\<close>: from every state \<open>m\<close> ends with
  a value that satisfies \<open>Q\<close>, never with an error. The rules are in the collection \<open>answer_rules\<close>.
\<close>

named_theorems answer_rules \<open>rules that push answers through the handlers\<close>

definition answers :: "('a \<Rightarrow> bool) \<Rightarrow> ('s, 'e, 'a) act \<Rightarrow> bool" where
  "answers Q m \<longleftrightarrow> (\<forall>s. \<exists>x t. m s = (Inr x, t) \<and> Q x)"

lemma answersD: "answers Q m \<Longrightarrow> \<exists>x t. m s = (Inr x, t) \<and> Q x"
  by (simp add: answers_def)

lemma answers_weaken: "answers P m \<Longrightarrow> (\<And>x. P x \<Longrightarrow> Q x) \<Longrightarrow> answers Q m"
  unfolding answers_def by blast

lemma answers_ret [answer_rules]: "Q x \<Longrightarrow> answers Q (ret x)"
  by (simp add: answers_def)

lemma answers_andThen:
  assumes "answers P m" "\<And>x. P x \<Longrightarrow> answers Q (f x)"
  shows "answers Q (andThen m f)"
  unfolding answers_def
proof
  fix s
  obtain x t where "m s = (Inr x, t)" "P x" using answersD [OF assms(1)] by blast
  moreover obtain y t' where "f x t = (Inr y, t')" "Q y" using answersD [OF assms(2) [OF \<open>P x\<close>]] by blast
  ultimately show "\<exists>x t. andThen m f s = (Inr x, t) \<and> Q x" by (simp add: andThen_def)
qed

lemma answers_attempt: "answers (\<lambda>_. True) (attempt m)"
  by (simp add: answers_def attempt_apply)

lemma answers_use_store: "answers Q m \<Longrightarrow> answers Q (use_store m)"
  unfolding answers_def
proof
  fix p :: "'b plane" assume "\<forall>s. \<exists>x t. m s = (Inr x, t) \<and> Q x"
  then obtain x t where "m (pl_store p) = (Inr x, t)" "Q x" by blast
  then show "\<exists>x t. use_store m p = (Inr x, t) \<and> Q x"
    by (simp add: use_store_def within_def mapErr_def)
qed

lemma answers_limit: "answers (\<lambda>_. True) (limit f)"
  by (simp add: answers_def limit_def split: prod.splits)

text \<open>An attempted call, with any continuation.\<close>

lemma answers_try [answer_rules]: "(\<And>res. answers Q (f res)) \<Longrightarrow> answers Q (andThen (attempt m) f)"
  by (rule answers_andThen [OF answers_attempt]) simp

lemma answers_limited [answer_rules]: "(\<And>x. answers Q (f x)) \<Longrightarrow> answers Q (andThen (limit g) f)"
  by (rule answers_andThen [OF answers_limit]) simp

lemma answers_if [answer_rules]: "(b \<Longrightarrow> answers Q m) \<Longrightarrow> (\<not> b \<Longrightarrow> answers Q n) \<Longrightarrow> answers Q (if b then m else n)"
  by simp

lemma answers_Let [answer_rules]: "(\<And>y. y = x \<Longrightarrow> answers Q (f y)) \<Longrightarrow> answers Q (let y = x in f y)"
  by simp

lemma answers_sum [answer_rules]: "(\<And>e. x = Inl e \<Longrightarrow> answers Q (f e)) \<Longrightarrow> (\<And>y. x = Inr y \<Longrightarrow> answers Q (g y)) \<Longrightarrow>
    answers Q (case x of Inl e \<Rightarrow> f e | Inr y \<Rightarrow> g y)"
  by (cases x) simp_all

lemma answers_option [answer_rules]: "(x = None \<Longrightarrow> answers Q m) \<Longrightarrow> (\<And>y. x = Some y \<Longrightarrow> answers Q (f y)) \<Longrightarrow>
    answers Q (case x of None \<Rightarrow> m | Some y \<Rightarrow> f y)"
  by (cases x) simp_all

lemma answers_prod [answer_rules]: "(\<And>a b. x = (a, b) \<Longrightarrow> answers Q (f a b)) \<Longrightarrow> answers Q (case x of (a, b) \<Rightarrow> f a b)"
  by (cases x) simp

lemma answers_ctl_error [answer_rules]:
  "(\<And>t. answers Q (h t)) \<Longrightarrow> answers Q n \<Longrightarrow> answers Q (case e of Panic t \<Rightarrow> h t | _ \<Rightarrow> n)"
  "(\<And>d. answers Q (g d)) \<Longrightarrow> answers Q n \<Longrightarrow> answers Q (case e of StoreError d \<Rightarrow> g d | _ \<Rightarrow> n)"
  by (cases e; simp)+

section \<open>Calls that report no error\<close>

lemma request_session_answers: "answers (\<lambda>_. True) (request_session E A now r)"
  unfolding request_session_def by (intro answer_rules TrueI)

lemma CSRFValid_answers: "answers (\<lambda>_. True) (CSRFValid E A now r)"
  unfolding CSRFValid_def
  by (intro answer_rules TrueI answers_andThen [OF request_session_answers])

lemma Setting_answers: "answers (\<lambda>_. True) (Setting E k dec tgt)"
  unfolding Setting_def by (intro answer_rules TrueI)

lemma Settings_answers: "answers (\<lambda>_. True) (Settings E)"
  unfolding Settings_def by (intro answers_andThen [OF Setting_answers] answer_rules TrueI)

lemma ClearSession_answers: "answers (\<lambda>_. True) (ClearSession E A r)"
  unfolding ClearSession_def
  by (intro answers_andThen [where P = "\<lambda>_. True"] answer_rules TrueI)

lemma User_answers: "answers (\<lambda>_. True) (User E A now r)"
  unfolding User_def by (intro answers_andThen [OF request_session_answers] answer_rules TrueI)

section \<open>Answers without secrets\<close>

text \<open>No page carries the OIDC client secret.\<close>

definition clean :: "response \<Rightarrow> bool" where
  "clean a \<longleftrightarrow> (\<forall>n d. rs_Body a = Page n d \<longrightarrow> os_ClientSecret (vd_OIDC d) = [])"

definition clean_data :: "viewData \<Rightarrow> bool" where
  "clean_data d \<longleftrightarrow> os_ClientSecret (vd_OIDC d) = []"

lemma clean_simps [simp]:
  "clean (http_error t code)" "clean (http_redirect l code)" "clean aborted" "clean (fail code)"
  "clean (starting r)" "clean (text_answer t)"
  "clean (a\<lparr>rs_Cookies := cs\<rparr>) = clean a" "clean (a\<lparr>rs_Header := hs\<rparr>) = clean a"
  "clean (render n d) = clean_data d"
  by (simp_all add: clean_def http_error_def http_redirect_def aborted_def fail_def starting_def text_answer_def
      render_def clean_data_def)

lemma clean_data_simps [simp]:
  "clean_data (d\<lparr>vd_Error := e\<rparr>) = clean_data d" "clean_data (d\<lparr>vd_User := u\<rparr>) = clean_data d"
  "clean_data (d\<lparr>vd_HasLocalAuth := b\<rparr>) = clean_data d" "clean_data (d\<lparr>vd_Workspace := w\<rparr>) = clean_data d"
  "clean_data (d\<lparr>vd_Status := st\<rparr>) = clean_data d" "clean_data (d\<lparr>vd_Rows := rows\<rparr>) = clean_data d"
  "clean_data (d\<lparr>vd_Audit := log\<rparr>) = clean_data d" "clean_data (d\<lparr>vd_CallbackURL := c\<rparr>) = clean_data d"
  by (simp_all add: clean_data_def)

lemma branding_answers: "answers (\<lambda>_. True) (branding_of W)"
  unfolding branding_of_def by (intro answers_andThen [OF answers_use_store [OF Setting_answers]] answer_rules TrueI)

lemma data_answers: "answers clean_data (data W r)"
  unfolding data_def
  by (intro answers_andThen [OF answers_use_store [OF Settings_answers]] answers_andThen [OF branding_answers] answer_rules)
    (simp add: clean_data_def)

lemma page_answers [answer_rules]: "(\<And>d. clean_data d \<Longrightarrow> answers Q (f d)) \<Longrightarrow> answers Q (andThen (data W r) f)"
  by (rule answers_andThen [OF data_answers])

lemma csrf_answers [answer_rules]: "answers clean k \<Longrightarrow> answers clean (csrf W S r k)"
  unfolding csrf_def
  by (intro answers_andThen [OF answers_use_store [OF CSRFValid_answers]] answer_rules) simp_all

lemma gate_answers [answer_rules]:
  "(\<And>u. answers clean (k u)) \<Longrightarrow> answers clean (requireUser r k)"
  "(\<And>u. answers clean (k u)) \<Longrightarrow> answers clean (requireAdmin r k)"
  unfolding requireAdmin_def requireUser_def by (intro answer_rules; simp)+

lemma settled_answers [answer_rules]: "(\<And>x. answers clean (k x)) \<Longrightarrow> answers clean (settled res code k)"
  unfolding settled_def by (intro answer_rules) simp_all

lemma signed_in_answers [answer_rules]: "(\<And>cs. answers clean (k cs)) \<Longrightarrow> answers clean (signed_in W S r i k)"
  unfolding signed_in_def by (intro answer_rules) simp_all

lemma renderError_answers [answer_rules]: "answers clean (renderError W r n m)"
  unfolding renderError_def by (intro answer_rules) simp

lemma back_answers [answer_rules]: "answers clean back_to_admin"
  unfolding back_to_admin_def by (intro answer_rules) simp

lemma public_answers:
  "answers clean (setupGet W r)" "answers clean (setupPost W S r)" "answers clean (loginGet W r)"
  "answers clean (loginPost W S r)" "answers clean (oidcLogin W S r)" "answers clean (oidcCallback W S r)"
  unfolding setupGet_def setupPost_def loginGet_def loginPost_def oidcLogin_def oidcCallback_def
  by (intro answer_rules; simp)+

lemma user_answers:
  "answers clean (home W S r)" "answers clean (stopWorkspace W S r)" "answers clean (changePassword W S r)"
  "answers clean readyz"
  unfolding home_def stopWorkspace_def changePassword_def readyz_def
  by (intro answer_rules; simp)+

lemma logout_answers: "answers clean (logout W S r)"
  unfolding logout_def
  by (intro csrf_answers answers_andThen [OF answers_use_store [OF ClearSession_answers]] answers_ret) simp

lemma bootstrapAPI_answers: "answers clean (bootstrapAPI W r)"
  unfolding bootstrapAPI_def
  by (intro gate_answers answers_andThen [OF branding_answers] answers_ret) (simp add: clean_def)

lemma admin_answers:
  "answers clean (admin W S r)" "answers clean (createUser W S r)" "answers clean (updateUser W S i r)"
  "answers clean (saveBranding W S r)" "answers clean (workspaceAction W S i x r)"
  unfolding admin_def createUser_def updateUser_def saveBranding_def workspaceAction_def
  by (intro answer_rules; simp)+

lemma saveOIDC_answers: "answers clean (saveOIDC W S r)"
  unfolding saveOIDC_def
  by (intro answer_rules answers_andThen [OF answers_use_store [OF Settings_answers]])

section \<open>All routes\<close>

lemma TouchWorkspace_answers: "answers (\<lambda>_. True) (TouchWorkspace E now i)"
  unfolding TouchWorkspace_def by (intro answer_rules TrueI)

lemma gateway_state_answers:
  "answers (\<lambda>_. True) get_gateway" "answers (\<lambda>_. True) (put_gateway g)" "answers (\<lambda>_. True) (forgetBackend i)"
proof -
  show 1: "answers (\<lambda>_. True) get_gateway" "answers (\<lambda>_. True) (put_gateway g)" for g
    by (simp_all add: answers_def get_gateway_def put_gateway_def)
  show "answers (\<lambda>_. True) (forgetBackend i)"
    unfolding forgetBackend_def by (rule answers_andThen [OF 1(1) 1(2)])
qed

lemma touch_answers: "answers (\<lambda>_. True) (touch E now i)"
  unfolding touch_def
  by (intro answers_andThen [OF gateway_state_answers(1)] answers_andThen [OF gateway_state_answers(2)]
      answers_use_store TouchWorkspace_answers answer_rules TrueI)

text \<open>The answers of pods and of the file server are not pages of the control plane.\<close>

definition foreign_answers :: "('k, 'p) world \<Rightarrow> bool" where
  "foreign_answers W \<longleftrightarrow> (\<forall>g a. wd_Pod W g = Some a \<longrightarrow> clean a) \<and> (\<forall>path. clean (wd_Static W path))"

lemma ServeHTTP_answers:
  assumes "\<And>g a. rt g = Some a \<Longrightarrow> clean a"
  shows "answers clean (ServeHTTP E P K C rnd rt now r u)"
proof -
  have start: "answers (\<lambda>_. True) (if b then andThen (forgetBackend i) (\<lambda>_. attempt m) else ret (Inr ()))" for b i m
    by (intro answers_if answers_andThen [OF gateway_state_answers(3)] answers_attempt answers_ret TrueI)
  show ?thesis
    unfolding ServeHTTP_def wake_def proxied_def
    by (intro answers_try answers_sum answers_option answers_andThen [OF start] answers_ctl_error(1)
        answers_andThen [OF touch_answers] answers_andThen [OF gateway_state_answers(3)] answers_ret)
      (simp_all add: assms)
qed

lemma gateway_answers: "foreign_answers W \<Longrightarrow> answers clean (gateway_handler W S r)"
  unfolding gateway_handler_def foreign_answers_def
  by (intro answers_option answers_if answers_ret ServeHTTP_answers) simp_all

lemma dispatch_answers:
  assumes "foreign_answers W"
  shows "answers clean (dispatch W S rt r)"
  using assms
  by (cases rt) (simp_all add: dispatch_def public_answers user_answers logout_answers bootstrapAPI_answers admin_answers
      saveOIDC_answers gateway_answers answers_ret foreign_answers_def)

lemma mux_answers: "foreign_answers W \<Longrightarrow> answers clean (mux W S r)"
  unfolding mux_def by (intro answers_option answers_ret dispatch_answers) simp_all

lemma Middleware_answers: "answers (\<lambda>_. True) (Middleware E A now ret r)"
  unfolding Middleware_def by (intro answers_andThen [OF User_answers] answer_rules TrueI)

lemma Handler_answers:
  assumes "foreign_answers W"
  shows "answers clean (Handler W S r)"
  unfolding Handler_def securityHeaders_def with_session_def
  by (intro answers_andThen [OF answers_andThen [OF answers_use_store [OF Middleware_answers] mux_answers [OF assms]]] answers_ret)
    simp

text \<open>\<open>Handler\<close> in two phases: the session, then the mux on the request with its user.\<close>

lemma Handler_phases:
  obtains x p1 where "use_store (Middleware (wd_Env W) (hs_Auth S) (wd_Now W) ret r) p = (Inr x, p1)"
    "snd (Handler W S r p) = snd (mux W S x p1)"
proof -
  obtain x p1 where m: "use_store (Middleware (wd_Env W) (hs_Auth S) (wd_Now W) ret r) p = (Inr x, p1)"
    using answersD [OF answers_use_store [OF Middleware_answers]] by blast
  moreover have "snd (Handler W S r p) = snd (mux W S x p1)"
    by (cases "mux W S x p1") (simp add: Handler_def securityHeaders_def with_session_def andThen_def m split: sum.split)
  ultimately show thesis by (rule that)
qed

end
