(* ===== verification/AuthProps.thy ===== *)
theory AuthProps
  imports Auth
begin

text \<open>
  Properties of passwords and of the login limiter.
\<close>

section \<open>Passwords\<close>

lemma hash_prefix_split: "split_on (CHR ''$'') (hash_prefix @ s)
    = [''argon2id'', ''v=19'', ''m=65536,t=3,p=2''] @ split_on (CHR ''$'') s"
proof -
  have "hash_prefix @ s = ''argon2id'' @ CHR ''$'' # (''v=19'' @ CHR ''$'' # (''m=65536,t=3,p=2'' @ CHR ''$'' # s))"
    by (simp add: hash_prefix_def)
  then show ?thesis
    by (simp only: split_on_append) (simp add: split_on_append)
qed

lemma hash_split: "split_on (CHR ''$'') (hash_prefix @ RawEncode std_alphabet s @ ''$'' @ RawEncode std_alphabet d)
    = [''argon2id'', ''v=19'', ''m=65536,t=3,p=2'', RawEncode std_alphabet s, RawEncode std_alphabet d]"
  by (simp add: hash_prefix_split split_on_append split_on_no_sep std_no_dollar)

lemma VerifyPassword_own_hash:
  assumes "crypto_ok E"
  shows "VerifyPassword E (hash_prefix @ RawEncode std_alphabet salt @ ''$'' @ RawEncode std_alphabet (argon2_IDKey E p salt)) q
      \<longleftrightarrow> argon2_IDKey E q salt = argon2_IDKey E p salt"
proof -
  have "length (argon2_IDKey E p salt) = 32" using assms by (simp add: crypto_ok_def)
  then show ?thesis unfolding VerifyPassword_def Let_def hash_split by (simp add: RawDecode_RawEncode)
qed

text \<open>C27: Passwords. \<open>HashPassword\<close> succeeds exactly for passwords of 12 to 1024 bytes (given
  entropy), and its hash is accepted for a password \<open>q\<close> exactly when Argon2id maps \<open>q\<close> under the
  stored salt to the stored digest: always for the password itself.\<close>

theorem password_round_trip:
  assumes "crypto_ok E"
  shows "(case HashPassword E (Some salt) p of
            Inl e \<Rightarrow> length p < 12 \<or> 1024 < length p
          | Inr h \<Rightarrow> 12 \<le> length p \<and> length p \<le> 1024 \<and> VerifyPassword E h p
              \<and> (\<forall>q. VerifyPassword E h q \<longleftrightarrow> argon2_IDKey E q salt = argon2_IDKey E p salt))"
  by (simp add: HashPassword_def ValidatePassword_def VerifyPassword_own_hash [OF assms, simplified])

theorem password_round_trip_witness:
  "\<exists>h. HashPassword demo_env (Some ''salt'') ''correct horse'' = Inr h \<and> VerifyPassword demo_env h ''correct horse''
     \<and> \<not> VerifyPassword demo_env h ''wrong password''"
proof -
  obtain h where h: "HashPassword demo_env (Some ''salt'') ''correct horse'' = Inr h"
    by (simp add: HashPassword_def ValidatePassword_def)
  have "argon2_IDKey demo_env ''wrong password'' ''salt'' \<noteq> argon2_IDKey demo_env ''correct horse'' ''salt''"
    by (simp add: pad32_def)
  then show ?thesis
    using password_round_trip [OF demo_crypto_ok, of "''correct horse''" "''salt''"] h by auto
qed

text \<open>A stored hash is never a wild card. Whatever the column holds, \<open>VerifyPassword\<close> accepts
  a password only if the column has five fields, names Argon2id, and its last two fields decode to a
  salt and a 32-byte digest that Argon2id computes from the password; the empty column accepts
  nothing.\<close>

theorem verify_needs_digest:
  "(VerifyPassword E enc p \<longleftrightarrow> (\<exists>v m s d salt. split_on (CHR ''$'') enc = [''argon2id'', v, m, s, d]
       \<and> RawDecode std_alphabet s = Some salt \<and> RawDecode std_alphabet d = Some (argon2_IDKey E p salt)
       \<and> length (argon2_IDKey E p salt) = 32))
   \<and> \<not> VerifyPassword E [] p"
proof
  have five: "length xs = 5 \<longleftrightarrow> (\<exists>a b c d e. xs = [a, b, c, d, e])" for xs :: "string list"
    by (auto simp: length_Suc_conv eval_nat_numeral)
  have fields: "(case (x, y) of (Some salt, Some ex) \<Rightarrow> if length ex \<noteq> 32 then False else f salt = ex | _ \<Rightarrow> False)
      \<longleftrightarrow> (\<exists>salt. x = Some salt \<and> y = Some (f salt) \<and> length (f salt) = 32)"
    for x y and f :: "string \<Rightarrow> string" by (auto split: option.splits)
  show "VerifyPassword E enc p \<longleftrightarrow> (\<exists>v m s d salt. split_on (CHR ''$'') enc = [''argon2id'', v, m, s, d]
       \<and> RawDecode std_alphabet s = Some salt \<and> RawDecode std_alphabet d = Some (argon2_IDKey E p salt)
       \<and> length (argon2_IDKey E p salt) = 32)"
  proof (cases "length (split_on (CHR ''$'') enc) = 5")
    case True
    then obtain a b c d e where "split_on (CHR ''$'') enc = [a, b, c, d, e]" using five by blast
    then have ab: "split_on (CHR ''$'') enc = [a, b, c, d, e]" .
    show ?thesis unfolding VerifyPassword_def Let_def ab fields by simp
  next
    case False
    then have "\<not> VerifyPassword E enc p" by (simp add: VerifyPassword_def)
    moreover from False have "split_on (CHR ''$'') enc \<noteq> [v, w, m, x, y]" for v w m x y by auto
    ultimately show ?thesis by blast
  qed
  show "\<not> VerifyPassword E [] p" by (simp add: VerifyPassword_def)
qed

section \<open>The limiter\<close>

lemma compact_loop_steps:
  "i \<ge> length arr \<Longrightarrow> compact_loop c i n arr = (n, arr)"
  "i < length arr \<Longrightarrow> arr ! i > c \<Longrightarrow> compact_loop c i n arr = compact_loop c (i + 1) (n + 1) (arr[n := arr ! i])"
  "i < length arr \<Longrightarrow> \<not> arr ! i > c \<Longrightarrow> compact_loop c i n arr = compact_loop c (i + 1) n arr"
  by (subst compact_loop.simps; simp)+

lemma compact_loop_spec:
  assumes "n \<le> i" "i \<le> length arr" "compact_loop c i n arr = (n', arr')"
  shows "take n' arr' = take n arr @ filter (\<lambda>t. t > c) (drop i arr)"
  using assms
proof (induction c i n arr rule: compact_loop.induct)
  case (1 c i n arr)
  show ?case
  proof (cases "i < length arr")
    case False
    with 1(4,5) show ?thesis by (simp add: compact_loop_steps)
  next
    case i: True
    then have d: "drop i arr = arr ! i # drop (i + 1) arr" by (simp add: Cons_nth_drop_Suc)
    show ?thesis
    proof (cases "arr ! i > c")
      case False
      with 1 i d show ?thesis by (simp add: compact_loop_steps)
    next
      case True
      have "take (n + 1) (arr[n := arr ! i]) = take n arr @ [arr ! i]"
        using 1(3) i by (simp add: take_Suc_conv_app_nth)
      moreover have "drop (i + 1) (arr[n := arr ! i]) = drop (i + 1) arr"
        using 1(3) by (intro drop_update_cancel) simp
      ultimately show ?thesis
        using 1(1) [OF i True] 1(3,5) i True d by (simp add: compact_loop_steps)
    qed
  qed
qed

lemma recent_attempts_filter: "recent_attempts c old = filter (\<lambda>t. t > c) old"
  using compact_loop_spec [of 0 0 old c] by (cases "compact_loop c 0 0 old") (simp add: recent_attempts_def)

text \<open>The reference limiter keeps every granted attempt since the last success and grants an attempt
  if fewer than ten of them lie in the last ten minutes.\<close>

datatype limiter_event = Attempt string int | Success string

type_synonym ledger = "string \<Rightarrow> int list"

definition window :: "int \<Rightarrow> int list \<Rightarrow> int list" where
  "window now ts = filter (\<lambda>t. t > now - ten_minutes) ts"

definition spec_allow :: "int \<Rightarrow> string \<Rightarrow> ledger \<Rightarrow> bool \<times> ledger" where
  "spec_allow now k G = (if length (window now (G k)) < 10 then (True, G(k := G k @ [now])) else (False, G))"

definition ledger_reset :: "string \<Rightarrow> ledger \<Rightarrow> ledger" where
  "ledger_reset k G = G(k := [])"

fun limiter_run :: "limiter_event list \<Rightarrow> limiter \<Rightarrow> bool list" where
  "limiter_run [] l = []"
| "limiter_run (Attempt k now # es) l = (case LoginAllowed now k l of (b, l') \<Rightarrow> b # limiter_run es l')"
| "limiter_run (Success k # es) l = limiter_run es (LoginSucceeded k l)"

fun spec_run :: "limiter_event list \<Rightarrow> ledger \<Rightarrow> bool list \<times> ledger" where
  "spec_run [] G = ([], G)"
| "spec_run (Attempt k now # es) G = (case spec_allow now k G of (b, G') \<Rightarrow>
     (case spec_run es G' of (bs, G'') \<Rightarrow> (b # bs, G'')))"
| "spec_run (Success k # es) G = spec_run es (ledger_reset k G)"

text \<open>The clock of successive events does not run backwards.\<close>

fun clock_ok :: "int \<Rightarrow> limiter_event list \<Rightarrow> bool" where
  "clock_ok prev [] = True"
| "clock_ok prev (Attempt k now # es) = (prev \<le> now \<and> clock_ok now es)"
| "clock_ok prev (Success k # es) = clock_ok prev es"

definition stored :: "limiter \<Rightarrow> string \<Rightarrow> int list" where
  "stored l k = (case l k of None \<Rightarrow> [] | Some ts \<Rightarrow> ts)"

definition pruned :: "int \<Rightarrow> ledger \<Rightarrow> limiter \<Rightarrow> bool" where
  "pruned prev G l \<longleftrightarrow> (\<forall>k. \<exists>c \<le> prev - ten_minutes. stored l k = filter (\<lambda>t. t > c) (G k))"

lemma pruned_window:
  assumes "pruned prev G l" "prev \<le> now"
  shows "recent_attempts (now - ten_minutes) (stored l k) = window now (G k)"
proof -
  from assms(1) obtain c where "c \<le> prev - ten_minutes" "stored l k = filter (\<lambda>t. t > c) (G k)"
    unfolding pruned_def by blast
  with assms(2) show ?thesis
    by (auto simp: recent_attempts_filter window_def intro: filter_cong)
qed

lemma allow_cases:
  "allow now k l = (let recent = recent_attempts (now - ten_minutes) (stored l k) in
     if length recent \<ge> 10 then (False, l(k \<mapsto> recent)) else (True, l(k \<mapsto> recent @ [now])))"
  by (simp add: allow_def stored_def)

lemma pruned_mono: "pruned prev G l \<Longrightarrow> prev \<le> now \<Longrightarrow> pruned now G l"
  unfolding pruned_def by (meson diff_right_mono order_trans)

lemma allow_simulates:
  assumes p: "pruned prev G l" and "prev \<le> now"
    and run: "allow now k l = (b, l')" and spec: "spec_allow now k G = (b', G')"
  shows "b = b' \<and> pruned now G' l'"
proof -
  note w = pruned_window [OF p \<open>prev \<le> now\<close>, of k]
  have other: "stored (l(k \<mapsto> ts)) j = stored l j" if "j \<noteq> k" for j ts
    using that by (simp add: stored_def)
  have own: "stored (l(k \<mapsto> ts)) k = ts" for ts by (simp add: stored_def)
  from run spec w have b: "b = b'" and l': "l' = l(k \<mapsto> if b' then window now (G k) @ [now] else window now (G k))"
    and G': "G' = (if b' then G(k := G k @ [now]) else G)"
    by (auto simp: allow_cases spec_allow_def Let_def split: if_splits)
  have "\<exists>c \<le> now - ten_minutes. stored l' j = filter (\<lambda>t. t > c) (G' j)" for j
  proof (cases "j = k")
    case True
    have "stored l' k = filter (\<lambda>t. t > now - ten_minutes) (G' k)"
      by (simp add: l' G' own window_def ten_minutes_def)
    with True show ?thesis by blast
  next
    case False
    with pruned_mono [OF p \<open>prev \<le> now\<close>] show ?thesis
      by (auto simp: pruned_def l' G' other)
  qed
  with b show ?thesis by (simp add: pruned_def)
qed

lemma limiter_refines:
  "clock_ok prev es \<Longrightarrow> pruned prev G l \<Longrightarrow> limiter_run es l = fst (spec_run es G)"
proof (induction es arbitrary: prev G l)
  case (Cons e es)
  show ?case
  proof (cases e)
    case (Attempt k now)
    obtain b l' where run: "allow now k l = (b, l')" by (cases "allow now k l")
    obtain b' G' where spec: "spec_allow now k G = (b', G')" by (cases "spec_allow now k G")
    from Cons.prems Attempt have "b = b' \<and> pruned now G' l'"
      using allow_simulates [OF _ _ run spec] by auto
    with Cons Attempt run spec show ?thesis by (auto simp: LoginAllowed_def split: prod.splits)
  next
    case (Success k)
    have "pruned prev (ledger_reset k G) (LoginSucceeded k l)"
      using Cons.prems(2) by (auto simp: pruned_def LoginSucceeded_def stored_def ledger_reset_def)
    with Cons Success show ?thesis by simp
  qed
qed simp

definition bounded :: "ledger \<Rightarrow> bool" where
  "bounded G \<longleftrightarrow> (\<forall>k t. length (filter (\<lambda>x. t - ten_minutes < x \<and> x \<le> t) (G k)) \<le> 10)"

lemma filter_length_mono: "(\<And>x. P x \<Longrightarrow> Q x) \<Longrightarrow> length (filter P xs) \<le> length (filter Q xs)"
  by (induction xs) (auto intro: le_SucI)

lemma spec_allow_bounded: "bounded G \<Longrightarrow> bounded (snd (spec_allow now k G))"
proof (cases "length (window now (G k)) < 10")
  case True
  assume b: "bounded G"
  have "length (filter (\<lambda>x. t - ten_minutes < x \<and> x \<le> t) (G k @ [now])) \<le> 10" for t
  proof (cases "now \<le> t")
    case True
    have "length (filter (\<lambda>x. t - ten_minutes < x \<and> x \<le> t) (G k)) \<le> length (window now (G k))"
      unfolding window_def using True by (intro filter_length_mono) simp
    with \<open>length (window now (G k)) < 10\<close> show ?thesis by simp
  qed (use b in \<open>simp add: bounded_def\<close>)
  with True b show ?thesis by (simp add: bounded_def spec_allow_def)
qed (simp add: spec_allow_def)

lemma spec_run_bounded: "bounded G \<Longrightarrow> bounded (snd (spec_run es G))"
proof (induction es G rule: spec_run.induct)
  case (2 k now es G)
  then show ?case using spec_allow_bounded [of G now k] by (auto split: prod.splits)
next
  case (3 k es G)
  have "bounded (ledger_reset k G)" using \<open>bounded G\<close> by (simp add: bounded_def ledger_reset_def)
  with 3 show ?case by simp
qed simp



end
