(* ===== verification/SessionProps.thy ===== *)
theory SessionProps
  imports AuthProps
begin

text \<open>
  Signed values and sessions. Two interfaces are stated as locales: \<open>signed_value\<close>, a value followed
  by a separator and its MAC, provided by the session cookie here and by the OIDC flow cookie in
  \<open>Oidc\<close>; and \<open>session_store\<close>, what \<open>auth.Manager\<close> relies on when it calls \<open>Store.CreateSession\<close>,
  \<open>Store.Session\<close> and \<open>Store.DeleteSession\<close>.
\<close>

section \<open>Signed values\<close>

locale signed_value =
  fixes mac :: "string \<Rightarrow> string"
    and sep :: char
    and seal :: "string \<Rightarrow> string"
    and unseal :: "string \<Rightarrow> string option"
  assumes mac_no_sep: "sep \<notin> set (mac v)"
    and seal_def: "seal v = v @ [sep] @ mac v"
    and unseal_def: "unseal x = (case split_on sep x of [a, b] \<Rightarrow> if b = mac a then Some a else None | _ \<Rightarrow> None)"
begin

lemma unseal_iff: "unseal x = Some v \<longleftrightarrow> x = seal v \<and> sep \<notin> set v"
proof
  assume u: "unseal x = Some v"
  then obtain a b where ab: "split_on sep x = [a, b]"
    by (auto simp: unseal_def split: list.splits)
  with u have "b = mac a" "a = v" by (auto simp: unseal_def split: if_splits)
  with ab show "x = seal v \<and> sep \<notin> set v" by (auto simp: seal_def split_on_two)
next
  assume "x = seal v \<and> sep \<notin> set v"
  then have "split_on sep x = [v, mac v]" by (simp add: split_on_two seal_def mac_no_sep)
  then show "unseal x = Some v" by (simp add: unseal_def)
qed

lemma unseal_seal: "sep \<notin> set v \<Longrightarrow> unseal (seal v) = Some v"
  by (simp add: unseal_iff)

lemma accepted_unique: "unseal x = Some v \<Longrightarrow> unseal y = Some v \<Longrightarrow> x = y"
  by (simp add: unseal_iff)

end

definition token_option :: "env \<Rightarrow> manager \<Rightarrow> string \<Rightarrow> string option" where
  "token_option E A v = (case token E A v of (t, ok) \<Rightarrow> if ok then Some t else None)"

lemma token_option_def2: "token_option E A x = (case split_on (CHR ''.'') x of
    [a, b] \<Rightarrow> if b = sign E A a then Some a else None | _ \<Rightarrow> None)"
  by (simp add: token_option_def token_def split: list.splits)

interpretation cookie_value: signed_value "sign E A" "CHR ''.''" "\<lambda>t. t @ ''.'' @ sign E A t" "token_option E A"
  for E A
  by unfold_locales (simp_all add: sign_def url_no_dot token_option_def2)

lemma token_accepts:
  "(token E A v = (t, True)) \<longleftrightarrow> v = t @ ''.'' @ sign E A t \<and> CHR ''.'' \<notin> set t"
proof -
  have "token E A v = (t, True) \<longleftrightarrow> token_option E A v = Some t"
    by (auto simp: token_option_def split: prod.splits)
  then show ?thesis by (simp add: cookie_value.unseal_iff)
qed

text \<open>Session cookies cannot be altered. A cookie value is accepted for a token exactly when it is
  the token, a dot and the MAC of the token under the signing key, and the token has no dot itself; so
  every token has one accepted spelling, and a value that differs in its MAC, has no dot or has two is
  refused.\<close>

theorem cookie_is_token_and_mac:
  "((token E A v = (t, True)) \<longleftrightarrow> v = t @ ''.'' @ sign E A t \<and> CHR ''.'' \<notin> set t)
   \<and> (snd (token E A v) = (\<exists>t. CHR ''.'' \<notin> set t \<and> v = t @ ''.'' @ sign E A t))"
proof -
  have "snd (token E A v) \<longleftrightarrow> (\<exists>t. token E A v = (t, True))" by (cases "token E A v") auto
  then show ?thesis unfolding token_accepts by auto
qed

lemma token_cases:
  obtains (bad) t where "token E A v = (t, False)" "token_option E A v = None"
  | (good) t where "token E A v = (t, True)" "token_option E A v = Some t"
  by (cases "token E A v") (auto simp: token_option_def split: if_splits)

section \<open>The session store\<close>

locale session_store =
  fixes inv :: "'s \<Rightarrow> bool"
    and quiet :: "'s \<Rightarrow> bool"
    and table :: "'s \<Rightarrow> string \<Rightarrow> 'v option"
    and norm :: "'v \<Rightarrow> 'v"
    and meaning :: "int \<Rightarrow> 's \<Rightarrow> 'v \<Rightarrow> 'r option"
    and create :: "string \<Rightarrow> 'v \<Rightarrow> ('s, 'e, unit) act"
    and remove :: "string \<Rightarrow> ('s, 'e, unit) act"
    and look :: "int \<Rightarrow> string \<Rightarrow> ('s, 'e, 'r) act"
  assumes create_Inr: "inv s \<Longrightarrow> create h v s = (Inr x, t) \<Longrightarrow> inv t \<and> table t = (table s)(h \<mapsto> norm v)"
    and remove_Inr: "inv s \<Longrightarrow> remove h s = (Inr x, t) \<Longrightarrow> inv t \<and> table t = (table s)(h := None)"
    and look_Inr: "inv s \<Longrightarrow> look now h s = (Inr r, t) \<Longrightarrow> \<exists>v. table s h = Some v \<and> meaning now s v = Some r"
    and look_frame: "inv s \<Longrightarrow> inv (snd (look now h s)) \<and> table (snd (look now h s)) = table s"
    and look_quiet: "inv s \<Longrightarrow> quiet s \<Longrightarrow> table s h = Some v \<Longrightarrow> meaning now s v = Some r \<Longrightarrow> fst (look now h s) = Inr r"
begin

text \<open>A session that was created is found, as long as its row means something.\<close>

lemma created_found:
  assumes "inv s" "create h v s = (Inr x, t)" "quiet t"
  shows "fst (look now h t) = Inr r \<longleftrightarrow> meaning now t (norm v) = Some r"
proof -
  have inv: "inv t" and tab: "table t h = Some (norm v)" using create_Inr [OF assms(1,2)] by auto
  show ?thesis
  proof
    assume "fst (look now h t) = Inr r"
    then have "look now h t = (Inr r, snd (look now h t))" by (metis prod.collapse)
    from look_Inr [OF inv this] tab show "meaning now t (norm v) = Some r" by auto
  qed (rule look_quiet [OF inv assms(3) tab])
qed

text \<open>A removed session is gone for good: no later lookup, at any time and whatever lookups happen in
  between, finds it.\<close>

lemma removed_gone:
  assumes "inv s" "remove h s = (Inr x, t)"
  shows "fst (look now h (snd (look now' h' t))) \<noteq> Inr r"
proof
  let ?t = "snd (look now' h' t)"
  assume "fst (look now h ?t) = Inr r"
  then have run: "look now h ?t = (Inr r, snd (look now h ?t))" by (metis prod.collapse)
  have "inv t" "table t h = None" using remove_Inr [OF assms] by auto
  then have "inv ?t" "table ?t h = None" using look_frame [of t] by auto
  with look_Inr [OF this(1) run] show False by auto
qed

text \<open>Removing one session leaves the others.\<close>

lemma removed_other:
  assumes "inv s" "remove h s = (Inr x, t)" "h' \<noteq> h"
  shows "inv t \<and> table t h' = table s h'"
  using remove_Inr [OF assms(1,2)] assms(3) by auto

end

text \<open>The model's sessions: user, CSRF digest and expiry per token digest.\<close>

definition session_view :: "store \<Rightarrow> string \<Rightarrow> (string \<times> string \<times> int) option" where
  "session_view s h = map_option (\<lambda>r. (s_user_id r, s_csrf_hash r, s_expires_at r))
     (find (\<lambda>r. s_id_hash r = h) (sessions (db s)))"

definition session_norm :: "env \<Rightarrow> string \<times> string \<times> int \<Rightarrow> string \<times> string \<times> int" where
  "session_norm E v = (case v of (i, c, e) \<Rightarrow> (the (pg_uuid E i), c, e))"

definition session_meaning :: "int \<Rightarrow> store \<Rightarrow> string \<times> string \<times> int \<Rightarrow> (user \<times> string \<times> int) option" where
  "session_meaning now s v = (case v of (i, c, e) \<Rightarrow>
     if e \<le> now then None
     else (case find (\<lambda>u. u_id u = i) (users (db s)) of
             None \<Rightarrow> None | Some u \<Rightarrow> if u_disabled u then None else Some (scanUser u, c, e)))"

lemma scanUser_disabled [simp]: "user_Disabled (scanUser u) = u_disabled u"
  by (simp add: scanUser_def)

lemma find_distinct_and:
  "distinct (map key rows) \<Longrightarrow>
   find (\<lambda>r. key r = h \<and> P r) rows = (case find (\<lambda>r. key r = h) rows of None \<Rightarrow> None | Some r \<Rightarrow> if P r then Some r else None)"
proof (induction rows)
  case (Cons a rows)
  have "find (\<lambda>r. key r = h \<and> P r) rows = None" if "key a = h"
    using Cons.prems that by (auto simp: find_None_iff image_iff)
  with Cons show ?case by auto
qed simp

lemma session_join_meaning:
  assumes "db_inv E (db s)"
  shows "(case session_join now h (db s) of None \<Rightarrow> None | Some (u, c, e) \<Rightarrow> if user_Disabled u then None else Some (u, c, e))
       = (case session_view s h of None \<Rightarrow> None | Some v \<Rightarrow> session_meaning now s v)"
proof -
  have "distinct (map s_id_hash (sessions (db s)))"
    using db_invD(3) [OF assms] by (simp add: sessions_ok_def)
  note find = find_distinct_and [OF this, of h "\<lambda>r. s_expires_at r > now"]
  show ?thesis
    unfolding session_join_def session_view_def session_meaning_def find
    by (auto split: option.splits)
qed

lemma Session_result:
  assumes inv: "db_inv E (db s)" and run: "Session now h s = (Inr x, t)"
  shows "\<exists>v. session_view s h = Some v \<and> session_meaning now s v = Some x"
proof -
  from run obtain s1 where f: "fetch (\<lambda>d. case session_join now h d of None \<Rightarrow> Inl ErrNotFound
        | Some (u, csrf, expires) \<Rightarrow> if user_Disabled u then Inl ErrNotFound else Inr (u, csrf, expires)) s = (Inr x, s1)"
    unfolding Session_def by (auto elim!: andThen_Inr_E simp: attempt_apply)
  from fetch_Inr [OF f] have "(case session_join now h (db s) of None \<Rightarrow> None | Some (u, c, e) \<Rightarrow> if user_Disabled u then None else Some (u, c, e)) = Some x"
    by (auto split: option.splits if_splits)
  with session_join_meaning [OF inv] show ?thesis by (auto split: option.splits)
qed

lemma Session_quiet:
  assumes inv: "db_inv E (db s)" and q: "faults s = []" and v: "session_view s h = Some v" "session_meaning now s v = Some x"
  shows "fst (Session now h s) = Inr x"
proof -
  obtain u c e where x: "x = (u, c, e)" by (cases x)
  from session_join_meaning [OF inv, of now h] v
  have "session_join now h (db s) = Some x" "\<not> user_Disabled u"
    by (auto simp: x split: option.splits if_splits)
  with q show ?thesis
    by (simp add: Session_def andThen_def fetch_no_faults attempt_apply x)
qed

lemma session_view_touch:
  "map_option (\<lambda>r. (s_user_id r, s_csrf_hash r, s_expires_at r)) (find (\<lambda>r. s_id_hash r = h')
     (update_where P (\<lambda>r. r\<lparr>s_last_seen_at := now\<rparr>) rows))
   = map_option (\<lambda>r. (s_user_id r, s_csrf_hash r, s_expires_at r)) (find (\<lambda>r. s_id_hash r = h') rows)"
  by (induction rows) (auto simp: update_where_def)

lemma Session_frame: "session_view (snd (Session now h s)) = session_view s \<and> users (db (snd (Session now h s))) = users (db s)"
proof -
  let ?J = "\<lambda>h' d. map_option (\<lambda>r. (s_user_id r, s_csrf_hash r, s_expires_at r)) (find (\<lambda>r. s_id_hash r = h') (sessions d)) = session_view s h'
     \<and> users d = users (db s)"
  have "preserves (on_db (?J h')) (Session now h)" for h'
    unfolding Session_def
    by (intro act_rules) (auto simp: session_view_touch)
  then have "on_db (?J h') (snd (Session now h s))" for h'
    by (rule preserves_snd) (simp add: on_db_def session_view_def)
  then show ?thesis by (auto simp: on_db_def session_view_def)
qed

lemma find_filter_key:
  "find (\<lambda>r. key r = k') (filter (\<lambda>r. key r \<noteq> k) xs) = (if k' = k then None else find (\<lambda>r. key r = k') xs)"
  by (induction xs) auto

lemma DeleteSession_view:
  assumes "DeleteSession h s = (Inr x, t)"
  shows "session_view t = (session_view s)(h := None) \<and> users (db t) = users (db s)"
proof -
  from stmt_Inr [OF assms [unfolded DeleteSession_def]]
  have "db t = (db s)\<lparr>sessions := filter (\<lambda>r. s_id_hash r \<noteq> h) (sessions (db s))\<rparr>" by simp
  then show ?thesis by (simp add: session_view_def find_filter_key fun_eq_iff)
qed

lemma CreateSession_view:
  assumes "CreateSession E now h c i ua ra e s = (Inr x, t)"
  shows "session_view t = (session_view s)(h \<mapsto> session_norm E (i, c, e)) \<and> users (db t) = users (db s)
    \<and> session_view s h = None \<and> (\<exists>u. pg_uuid E i = Some u)"
proof -
  from assms have "(case uuid_arg E i of Inl e \<Rightarrow> Inl e
     | Inr u \<Rightarrow>
         if matches (\<lambda>r. s_id_hash r = h) (sessions (db s)) then Inl DuplicateKey
         else if \<not> matches (\<lambda>r. u_id r = u) (users (db s)) then Inl ConstraintViolation
         else Inr ((), (db s)\<lparr>sessions := sessions (db s) @
                [\<lparr>s_id_hash = h, s_user_id = u, s_csrf_hash = c, s_expires_at = e,
                  s_created_at = now, s_last_seen_at = now, s_user_agent = ua,
                  s_remote_addr = ra\<rparr>]\<rparr>)) = Inr (x, db t)"
    unfolding CreateSession_def by (rule stmt_Inr)
  then obtain u where "pg_uuid E i = Some u" and new: "\<not> matches (\<lambda>r. s_id_hash r = h) (sessions (db s))"
    and t: "db t = (db s)\<lparr>sessions := sessions (db s) @
                [\<lparr>s_id_hash = h, s_user_id = u, s_csrf_hash = c, s_expires_at = e,
                  s_created_at = now, s_last_seen_at = now, s_user_agent = ua, s_remote_addr = ra\<rparr>]\<rparr>"
    by (auto split: sum.splits if_splits)
  moreover from new have "find (\<lambda>r. s_id_hash r = h) (sessions (db s)) = None"
    by (simp add: find_None_matches)
  ultimately show ?thesis
    by (auto simp: session_view_def session_norm_def t find_append fun_eq_iff split: option.splits)
qed

lemma on_dbI: "db_inv E (db s) \<Longrightarrow> on_db (db_inv E) s"
  by (simp add: on_db_def)

interpretation sess: session_store "on_db (db_inv E)" "\<lambda>s. faults s = []" session_view "session_norm E"
    session_meaning "\<lambda>h (i, c, e). CreateSession E now h c i ua ra e" DeleteSession Session
  for E now ua ra
proof (unfold_locales, goal_cases)
  case (1 s h v x t)
  then show ?case using preservesD [OF session_methods_inv(1)] CreateSession_view
    by (cases v) fastforce
next
  case (2 s h x t)
  then show ?case using preservesD [OF session_methods_inv(2)] DeleteSession_view by blast
next
  case (3 s t' h r t)
  then show ?case using Session_result by (simp add: on_db_def)
next
  case (4 s t' h)
  then show ?case using preserves_snd [OF session_methods_inv(3)] Session_frame by blast
next
  case (5 s h v t' r)
  then show ?case using Session_quiet by (simp add: on_db_def)
qed

end
