(* ===== verification/LoginProps.thy ===== *)
theory LoginProps
  imports SessionProps
begin

text \<open>
  What the session machinery promises to the handlers: who a request speaks for, that a login works
  until it expires or is ended, that ending it is final, and what a passed CSRF check implies.
\<close>

abbreviation cookie_text :: "env \<Rightarrow> manager \<Rightarrow> string \<Rightarrow> string" where
  "cookie_text E A t \<equiv> t @ ''.'' @ sign E A t"

lemma request_session_Some:
  assumes "request_session E A now r s = (Inr (Some y), t)"
  obtains k where "CookieOf r CookieName = Some (cookie_text E A k)" "Session now (Hash E k) s = (Inr y, t)"
proof (cases "CookieOf r CookieName")
  case None
  with assms show ?thesis by (simp add: request_session_def)
next
  case (Some v)
  obtain k ok where k: "token E A v = (k, ok)" by (cases "token E A v")
  with assms Some have ok: "ok" by (auto simp: request_session_def split: if_splits)
  with k have v: "v = cookie_text E A k" using token_accepts by simp
  have "Session now (Hash E k) s = (Inr y, t)"
    using assms Some k ok
    by (cases "Session now (Hash E k) s")
      (auto simp: request_session_def andThen_def attempt_apply split: sum.splits)
  with Some v that show ?thesis by blast
qed

lemma request_session_no_error: "fst (request_session E A now r s) \<noteq> Inl e"
  by (cases "CookieOf r CookieName")
    (auto simp: request_session_def andThen_def attempt_apply split: prod.splits sum.splits)

lemma request_session_cookie:
  assumes "CookieOf r CookieName = Some (cookie_text E A k)" "CHR ''.'' \<notin> set k"
  shows "request_session E A now r s = (Inr (case fst (Session now (Hash E k) s) of Inl _ \<Rightarrow> None | Inr x \<Rightarrow> Some x),
           snd (Session now (Hash E k) s))"
proof -
  have "token E A (cookie_text E A k) = (k, True)" using token_accepts assms(2) by simp
  with assms(1) show ?thesis
    by (auto simp: request_session_def andThen_def attempt_apply split: sum.splits)
qed

lemma request_session_frame:
  "session_view (snd (request_session E A now r s)) = session_view s
   \<and> users (db (snd (request_session E A now r s))) = users (db s)"
proof (cases "CookieOf r CookieName")
  case (Some v)
  obtain k ok where "token E A v = (k, ok)" by (cases "token E A v")
  with Some Session_frame [of now "Hash E k" s] show ?thesis
    by (auto simp: request_session_def andThen_def attempt_apply split: sum.splits)
qed (simp add: request_session_def)

lemma User_Some: "User E A now r s = (Inr (Some u), t) \<Longrightarrow> \<exists>y. request_session E A now r s = (Inr (Some y), t) \<and> u = fst y"
  by (auto simp: User_def elim!: andThen_Inr_E)

section \<open>Who a request speaks for\<close>

lemma User_session:
  assumes inv: "db_inv E (db s)" and run: "User E A now r s = (res, t)"
  shows "(\<exists>x. res = Inr x) \<and> session_view t = session_view s \<and> users (db t) = users (db s)
    \<and> (\<forall>u. res = Inr (Some u) \<longrightarrow> (\<exists>k row c e. CookieOf r CookieName = Some (k @ ''.'' @ sign E A k)
          \<and> session_view s (Hash E k) = Some (u_id row, c, e) \<and> now < e
          \<and> row \<in> set (users (db s)) \<and> \<not> u_disabled row \<and> u = scanUser row))"
proof (intro conjI allI impI)
  from run have t: "t = snd (request_session E A now r s)"
    by (auto simp: User_def andThen_def split: prod.splits sum.splits)
  show "\<exists>x. res = Inr x"
    using run request_session_no_error [of E A now r s] by (auto simp: User_def andThen_def split: prod.splits sum.splits)
  show "session_view t = session_view s" "users (db t) = users (db s)"
    using request_session_frame t by simp_all
next
  fix u assume "res = Inr (Some u)"
  with run obtain y where y: "request_session E A now r s = (Inr (Some y), t)" "u = fst y"
    using User_Some by blast
  from y(1) obtain k where k: "CookieOf r CookieName = Some (cookie_text E A k)" "Session now (Hash E k) s = (Inr y, t)"
    by (rule request_session_Some)
  from Session_result [OF inv k(2)] obtain v where v: "session_view s (Hash E k) = Some v" "session_meaning now s v = Some y"
    by blast
  obtain i c e where v_def: "v = (i, c, e)" by (cases v)
  with v(2) obtain row where "now < e" "find (\<lambda>u. u_id u = i) (users (db s)) = Some row" "\<not> u_disabled row"
      "y = (scanUser row, c, e)"
    by (auto simp: session_meaning_def split: if_splits option.splits)
  moreover from this(2) have "row \<in> set (users (db s))" "u_id row = i" using find_Some_in by force+
  ultimately show "\<exists>k row c e. CookieOf r CookieName = Some (cookie_text E A k)
          \<and> session_view s (Hash E k) = Some (u_id row, c, e) \<and> now < e
          \<and> row \<in> set (users (db s)) \<and> \<not> u_disabled row \<and> u = scanUser row"
    using k(1) v(1) v_def y(2) by auto
qed

text \<open>C4: A request speaks for the owner of its session and for nobody else. Under any failures, if
  \<open>User\<close> returns a user then the request's cookie is a token with its correct MAC, the database holds
  an unexpired session for the token's digest, and the user returned is the current row of the
  session's owner, who is not disabled; \<open>User\<close> itself never returns an error and changes neither users
  nor sessions' owners, digests and expiries.\<close>

theorem user_owns_session:
  assumes inv: "db_inv E (db s)" and run: "User E A now r s = (res, t)"
  shows "(\<exists>x. res = Inr x) \<and> session_view t = session_view s \<and> users (db t) = users (db s)
    \<and> (\<forall>u. res = Inr (Some u) \<longrightarrow> (\<exists>k row c e. CookieOf r CookieName = Some (k @ ''.'' @ sign E A k)
          \<and> session_view s (Hash E k) = Some (u_id row, c, e) \<and> now < e
          \<and> row \<in> set (users (db s)) \<and> \<not> u_disabled row \<and> u = scanUser row))"
  by (rule User_session [OF inv run])

text \<open>At the demo installation: \<open>ann\<close> signs in.\<close>

definition demo_manager :: manager where
  "demo_manager = \<lparr>am_SigningKey = ''key'', am_CookieSecure = True\<rparr>"

definition demo_request :: "string \<Rightarrow> request" where
  "demo_request v = \<lparr>rq_Method = ''POST'', rq_Path = ''/platform/workspace/stop'', rq_RequestURI = ''/platform/workspace/stop'',
     rq_Query = [], rq_Form = [(''csrf'', RawEncode url_alphabet ''bbbb'')], rq_FormError = False, rq_Header = [],
     rq_Cookies = [(CookieName, v)], rq_RemoteAddr = ''10.0.0.1:4000'', rq_User = None\<rparr>"

definition demo_token :: string where
  "demo_token = RawEncode url_alphabet ''aaaa''"

definition demo_session_row :: session_row where
  "demo_session_row = \<lparr>s_id_hash = Hash demo_env demo_token, s_user_id = ''b2'',
     s_csrf_hash = Hash demo_env (RawEncode url_alphabet ''bbbb''), s_expires_at = 9 + sessionLifetime,
     s_created_at = 9, s_last_seen_at = 9, s_user_agent = [], s_remote_addr = ''10.0.0.1:4000''\<rparr>"

definition demo_signed_in :: store where
  "demo_signed_in = demo_store\<lparr>db := demo_db\<lparr>sessions := [demo_session_row]\<rparr>\<rparr>"

lemma demo_login:
  "NewSession demo_env demo_manager 9 (Some ''aaaa'') (Some ''bbbb'') (demo_request []) ''b2'' demo_store
   = (Inr (RawEncode url_alphabet ''bbbb'',
        [session_cookie demo_manager (cookie_text demo_env demo_manager demo_token) 604800,
         csrf_cookie demo_manager (RawEncode url_alphabet ''bbbb'') 604800]), demo_signed_in)"
  by (simp add: NewSession_def randomToken_def CreateSession_def stmt_no_faults andThen_def uuid_arg_def
      matches_def demo_rows ascii_lower_def demo_signed_in_def demo_session_row_def demo_token_def
      remoteAddr_def demo_request_def HeaderGet_def first_value_def)

lemma demo_signed_in_inv: "db_inv demo_env (db demo_signed_in)"
  unfolding demo_signed_in_def
  using db_inv_tables(3) [OF demo_db_inv, of "[demo_session_row]"]
  by (simp add: sessions_ok_def demo_session_row_def ids_def demo_rows)

theorem user_owns_session_witness:
  "\<exists>u. fst (User demo_env demo_manager 10 (demo_request (cookie_text demo_env demo_manager demo_token)) demo_signed_in) = Inr (Some u)
     \<and> u = scanUser demo_ann"
proof -
  let ?r = "demo_request (cookie_text demo_env demo_manager demo_token)"
  have q: "faults demo_signed_in = []" by (simp add: demo_signed_in_def)
  have c: "CookieOf ?r CookieName = Some (cookie_text demo_env demo_manager demo_token)"
    by (simp add: CookieOf_def demo_request_def)
  have nodot: "CHR ''.'' \<notin> set demo_token" unfolding demo_token_def by (rule url_no_dot)
  have view: "session_view demo_signed_in (Hash demo_env demo_token) =
      Some (''b2'', Hash demo_env (RawEncode url_alphabet ''bbbb''), 9 + sessionLifetime)"
    by (simp add: session_view_def demo_signed_in_def demo_session_row_def)
  have "session_meaning 10 demo_signed_in (''b2'', Hash demo_env (RawEncode url_alphabet ''bbbb''), 9 + sessionLifetime)
      = Some (scanUser demo_ann, Hash demo_env (RawEncode url_alphabet ''bbbb''), 9 + sessionLifetime)"
    by (simp add: session_meaning_def demo_signed_in_def demo_rows sessionLifetime_def)
  from Session_quiet [OF demo_signed_in_inv q view this]
  have "fst (User demo_env demo_manager 10 ?r demo_signed_in) = Inr (Some (scanUser demo_ann))"
    unfolding User_def andThen_def request_session_cookie [OF c nodot] by simp
  moreover from this obtain t where "User demo_env demo_manager 10 ?r demo_signed_in = (Inr (Some (scanUser demo_ann)), t)"
    by (metis prod.collapse)
  note user_owns_session [OF demo_signed_in_inv this]
  ultimately show ?thesis by blast
qed

section \<open>The CSRF check\<close>

text \<open>C9: A state-changing request passes the CSRF check only with the secret of its own session. For
  any method but GET, HEAD and OPTIONS, if \<open>CSRFValid\<close> is true then the cookie is a signed token of a
  live session in the database, and the digest stored with that session is the digest of the header
  \<open>X-CSRF-Token\<close>, or of the form field \<open>csrf\<close> when the header is absent.\<close>

theorem csrf_needs_session_secret:
  assumes inv: "db_inv E (db s)" and run: "CSRFValid E A now r s = (Inr True, t)"
    and "rq_Method r \<notin> {''GET'', ''HEAD'', ''OPTIONS''}"
  shows "\<exists>k i c e. CookieOf r CookieName = Some (k @ ''.'' @ sign E A k)
     \<and> session_view s (Hash E k) = Some (i, c, e) \<and> now < e
     \<and> c = Hash E (if HeaderGet r ''X-Csrf-Token'' = [] then FormValue r ''csrf'' else HeaderGet r ''X-Csrf-Token'')"
proof -
  from assms(3) run obtain y where y: "request_session E A now r s = (Inr (Some y), t)"
    and c: "fst (snd y) = Hash E (if HeaderGet r ''X-Csrf-Token'' = [] then FormValue r ''csrf'' else HeaderGet r ''X-Csrf-Token'')"
    by (auto simp: CSRFValid_def Let_def elim!: andThen_Inr_E split: option.splits)
  from y obtain k where k: "CookieOf r CookieName = Some (cookie_text E A k)" "Session now (Hash E k) s = (Inr y, t)"
    by (rule request_session_Some)
  from Session_result [OF inv k(2)] obtain v where v: "session_view s (Hash E k) = Some v" "session_meaning now s v = Some y"
    by blast
  obtain i d e where "v = (i, d, e)" by (cases v)
  with v c have "session_view s (Hash E k) = Some (i, fst (snd y), e)" "now < e"
    by (auto simp: session_meaning_def split: if_splits option.splits)
  with k(1) c show ?thesis by blast
qed

lemma demo_session_of:
  assumes "CookieOf r CookieName = Some (cookie_text demo_env demo_manager demo_token)"
  shows "request_session demo_env demo_manager 10 r demo_signed_in
    = (Inr (Some (scanUser demo_ann, Hash demo_env (RawEncode url_alphabet ''bbbb''), 9 + sessionLifetime)), demo_signed_in)"
proof -
  have nodot: "CHR ''.'' \<notin> set demo_token" unfolding demo_token_def by (rule url_no_dot)
  have "Session 10 (Hash demo_env demo_token) demo_signed_in
     = (Inr (scanUser demo_ann, Hash demo_env (RawEncode url_alphabet ''bbbb''), 9 + sessionLifetime), demo_signed_in)"
    by (simp add: Session_def andThen_def fetch_no_faults attempt_apply stmt_no_faults demo_signed_in_def session_join_def
        demo_session_row_def demo_rows sessionLifetime_def scanUser_def update_where_def five_minutes_def)
  then show ?thesis unfolding request_session_cookie [OF assms nodot] by simp
qed

lemma demo_session:
  "request_session demo_env demo_manager 10 (demo_request (cookie_text demo_env demo_manager demo_token)) demo_signed_in
   = (Inr (Some (scanUser demo_ann, Hash demo_env (RawEncode url_alphabet ''bbbb''), 9 + sessionLifetime)), demo_signed_in)"
  by (rule demo_session_of) (simp add: CookieOf_def demo_request_def)

theorem csrf_needs_session_secret_witness:
  "fst (CSRFValid demo_env demo_manager 10 (demo_request (cookie_text demo_env demo_manager demo_token)) demo_signed_in) = Inr True
   \<and> (\<exists>k i c e. session_view demo_signed_in (Hash demo_env k) = Some (i, c, e)
        \<and> c = Hash demo_env (RawEncode url_alphabet ''bbbb''))"
proof -
  let ?r = "demo_request (cookie_text demo_env demo_manager demo_token)"
  have form: "HeaderGet (demo_request v) ''X-Csrf-Token'' = []"
    "FormValue (demo_request v) ''csrf'' = RawEncode url_alphabet ''bbbb''" "rq_Method (demo_request v) = ''POST''" for v
    by (simp_all add: HeaderGet_def FormValue_def first_value_def demo_request_def)
  have run: "CSRFValid demo_env demo_manager 10 ?r demo_signed_in = (Inr True, demo_signed_in)"
    using demo_session by (simp add: CSRFValid_def andThen_def form)
  from csrf_needs_session_secret [OF demo_signed_in_inv run] form run show ?thesis by auto
qed

section \<open>Sign-in\<close>

lemma NewSession_result:
  assumes "NewSession E A now rand1 rand2 r i s = (Inr (csrf, cks), t)"
  obtains b1 b2 where "rand1 = Some b1" "rand2 = Some b2" "csrf = RawEncode url_alphabet b2"
    "cks = [session_cookie A (cookie_text E A (RawEncode url_alphabet b1)) 604800, csrf_cookie A csrf 604800]"
    "CreateSession E now (Hash E (RawEncode url_alphabet b1)) (Hash E csrf) i (HeaderGet r ''User-Agent'') (remoteAddr r)
       (now + sessionLifetime) s = (Inr (), t)"
  using assms by (auto simp: NewSession_def randomToken_def elim!: andThen_Inr_E split: option.splits)

lemma RawEncode_Nil_iff: "RawEncode al s = [] \<longleftrightarrow> s = []"
  by (induction al s rule: RawEncode.induct) auto

lemma NewSession_good:
  assumes inv: "db_inv E (db s)"
    and run: "NewSession E A now (Some b1) (Some b2) r i s = (Inr (csrf, cks), t)" and "faults t = []" and "b2 \<noteq> []"
    and row: "row \<in> set (users (db s))" "pg_uuid E i = Some (u_id row)" "\<not> u_disabled row"
    and cookie: "CookieOf r' CookieName = Some (ck_Value (hd cks))" and "HeaderGet r' ''X-Csrf-Token'' = csrf"
  shows "fst (User E A now' r' t) = Inr (if now' < now + sessionLifetime then Some (scanUser row) else None)
    \<and> (now' < now + sessionLifetime \<longrightarrow> fst (CSRFValid E A now' r' t) = Inr True)"
proof -
  let ?k = "RawEncode url_alphabet b1"
  from run have csrf: "csrf = RawEncode url_alphabet b2" and hd: "ck_Value (hd cks) = cookie_text E A ?k"
    and create: "CreateSession E now (Hash E ?k) (Hash E csrf) i (HeaderGet r ''User-Agent'') (remoteAddr r)
       (now + sessionLifetime) s = (Inr (), t)"
    by (auto elim!: NewSession_result simp: session_cookie_def)
  have inv': "db_inv E (db t)"
    using preservesD [OF session_methods_inv(1) _ create] inv by (simp add: on_db_def)
  have "users (db t) = users (db s)" using CreateSession_view [OF create] by blast
  then have find: "find (\<lambda>x. u_id x = u_id row) (users (db t)) = Some row"
    using users_find [OF inv row(1)] by simp
  have norm: "session_norm E (i, Hash E csrf, now + sessionLifetime) = (u_id row, Hash E csrf, now + sessionLifetime)"
    by (simp add: session_norm_def row(2))
  have look: "fst (Session now' (Hash E ?k) t) = Inr y \<longleftrightarrow>
      now' < now + sessionLifetime \<and> y = (scanUser row, Hash E csrf, now + sessionLifetime)" for y
    using sess.created_found [OF on_dbI [OF inv], where h = "Hash E ?k" and v = "(i, Hash E csrf, now + sessionLifetime)",
        of now "HeaderGet r ''User-Agent''" "remoteAddr r"] create \<open>faults t = []\<close> find row(3) norm
    by (auto simp: session_meaning_def)
  have req: "request_session E A now' r' t = (Inr (case fst (Session now' (Hash E ?k) t) of Inl _ \<Rightarrow> None | Inr x \<Rightarrow> Some x),
           snd (Session now' (Hash E ?k) t))"
    using request_session_cookie cookie hd url_no_dot by simp
  have "csrf \<noteq> []" using \<open>b2 \<noteq> []\<close> by (simp add: csrf RawEncode_Nil_iff)
  show ?thesis
  proof (cases "now' < now + sessionLifetime")
    case True
    then have "fst (Session now' (Hash E ?k) t) = Inr (scanUser row, Hash E csrf, now + sessionLifetime)"
      using look by simp
    with True \<open>csrf \<noteq> []\<close> assms(9) show ?thesis
      by (simp add: User_def CSRFValid_def andThen_def req)
  next
    case False
    with look obtain e where "fst (Session now' (Hash E ?k) t) = Inl e"
      by (cases "fst (Session now' (Hash E ?k) t)") auto
    with False show ?thesis by (simp add: User_def andThen_def req)
  qed
qed

text \<open>A login works at once and for exactly seven days. After \<open>NewSession\<close> for an enabled account,
  a request that carries the session cookie it set speaks for this account while less than seven days
  have passed, and passes the CSRF check with the issued token; from then on the cookie is worthless.\<close>

theorem login_works_for_seven_days:
  assumes inv: "db_inv E (db s)"
    and run: "NewSession E A now (Some b1) (Some b2) r i s = (Inr (csrf, cks), t)" and "faults t = []" and "b2 \<noteq> []"
    and row: "row \<in> set (users (db s))" "pg_uuid E i = Some (u_id row)" "\<not> u_disabled row"
    and cookie: "CookieOf r' CookieName = Some (ck_Value (hd cks))" and "HeaderGet r' ''X-Csrf-Token'' = csrf"
  shows "fst (User E A now' r' t) = Inr (if now' < now + sessionLifetime then Some (scanUser row) else None)
    \<and> (now' < now + sessionLifetime \<longrightarrow> fst (CSRFValid E A now' r' t) = Inr True)"
  by (rule NewSession_good [OF assms])

theorem login_works_for_seven_days_witness:
  "fst (User demo_env demo_manager (sessionLifetime + 8)
     ((demo_request (cookie_text demo_env demo_manager demo_token))\<lparr>rq_Header := [(''X-Csrf-Token'', RawEncode url_alphabet ''bbbb'')]\<rparr>)
     demo_signed_in) = Inr (Some (scanUser demo_ann))"
proof -
  let ?r = "(demo_request (cookie_text demo_env demo_manager demo_token))\<lparr>rq_Header := [(''X-Csrf-Token'', RawEncode url_alphabet ''bbbb'')]\<rparr>"
  let ?cks = "[session_cookie demo_manager (cookie_text demo_env demo_manager demo_token) 604800,
         csrf_cookie demo_manager (RawEncode url_alphabet ''bbbb'') 604800]"
  have "db_inv demo_env (db demo_store)" by (simp add: demo_db_inv)
  from login_works_for_seven_days [OF this demo_login, where row = demo_ann and r' = ?r and now' = "sessionLifetime + 8"]
  show ?thesis
    by (simp add: demo_signed_in_def demo_rows ascii_lower_def CookieOf_def demo_request_def session_cookie_def
        HeaderGet_def first_value_def)
qed

section \<open>Sign-out and lock-out\<close>

lemma ClearSession_run:
  assumes "CookieOf r CookieName = Some (cookie_text E A k)" "CHR ''.'' \<notin> set k" "faults s = []"
  obtains t where "ClearSession E A r s = (Inr [session_cookie A [] (- 1), csrf_cookie A [] (- 1)], t)"
    "DeleteSession (Hash E k) s = (Inr (), t)"
proof -
  have "token E A (cookie_text E A k) = (k, True)" using token_accepts assms(2) by simp
  moreover obtain t where "DeleteSession (Hash E k) s = (Inr (), t)"
    using assms(3) by (simp add: DeleteSession_def stmt_no_faults)
  ultimately show thesis
    using that assms(1) by (simp add: ClearSession_def andThen_def attempt_apply)
qed



lemma UpdateUser_users:
  assumes "UpdateUser E now a i dn m rol dis h remote s = (Inr (), t)"
  shows "\<exists>u. pg_uuid E i = Some u \<and> u \<in> ids (db s) \<and> valid_role rol \<and> users (db t) = update_where (\<lambda>x. u_id x = u)
      (\<lambda>x. x\<lparr>u_display_name := dn, u_email := nullif m, u_role := rol, u_disabled := dis, u_updated_at := now\<rparr>) (users (db s))"
proof -
  let ?R = "\<lambda>d. \<exists>u. pg_uuid E i = Some u \<and> u \<in> ids (db s) \<and> valid_role rol \<and> users d = update_where (\<lambda>x. u_id x = u)
      (\<lambda>x. x\<lparr>u_display_name := dn, u_email := nullif m, u_role := rol, u_disabled := dis, u_updated_at := now\<rparr>) (users (db s))"
  let ?Q = "\<lambda>n d. n = 0 \<or> ?R d"
  have "yields (on_db (\<lambda>d. users d = users (db s))) (UpdateUser E now a i dn m rol dis h remote) (\<lambda>_. on_db ?R)"
    unfolding UpdateUser_def
  proof (rule yields_transaction, rule yields_andThen [where Q = "\<lambda>n. on_db (?Q n)"], rule yields_stmt)
    fix d n d' assume us: "users d = users (db s)" and upd: "sql_update_user E now i dn m rol dis d = Inr (n, d')"
    from upd us show "?Q n d'"
      by (auto simp: sql_update_user_def ids_def matches_iff split: sum.splits if_splits)
  next
    fix n :: int
    show "yields (on_db (?Q n)) (if n = 0 then throw ErrNotFound
         else andThen (if h \<noteq> [] then stmt (sql_upsert_credential E now i h) else ret ()) (\<lambda>_.
              audit E now a ''user.update'' ''user'' i ''{}'' remote)) (\<lambda>_. on_db ?R)"
    proof (cases "n = 0")
      case False
      have "preserves (on_db ?R) (if h \<noteq> [] then stmt (sql_upsert_credential E now i h) else ret ())"
        by (intro act_rules) (auto simp: sql_upsert_credential_def split: sum.splits if_splits)
      moreover have "preserves (on_db ?R) (audit E now a ''user.update'' ''user'' i ''{}'' remote)"
        by (rule audit_frame) simp
      ultimately have "yields (on_db ?R) (andThen (if h \<noteq> [] then stmt (sql_upsert_credential E now i h) else ret ()) (\<lambda>_.
              audit E now a ''user.update'' ''user'' i ''{}'' remote)) (\<lambda>_. on_db ?R)"
        by (intro yields_step preserves_yields)
      then have "yields (on_db (?Q n)) (andThen (if h \<noteq> [] then stmt (sql_upsert_credential E now i h) else ret ()) (\<lambda>_.
              audit E now a ''user.update'' ''user'' i ''{}'' remote)) (\<lambda>_. on_db ?R)"
        by (rule yields_pre) (use False in \<open>simp add: on_db_def\<close>)
      with False show ?thesis by (simp only: if_False)
    qed (simp add: yields_throw)
  qed
  from yieldsD [OF this _ assms] show ?thesis by (simp add: on_db_def)
qed

text \<open>C8: Disabling an account ends its sessions at once. When \<open>UpdateUser\<close> commits \<open>disabled\<close> for an
  account, no request that arrives afterwards, with any cookie and at any time, speaks for that
  account.\<close>

theorem disabling_locks_out:
  assumes inv: "db_inv E (db s)" and run: "UpdateUser E now a i dn m rol True h remote s = (Inr (), t)"
    and "pg_uuid E i = Some u"
  shows "\<forall>x. fst (User E A now' r t) = Inr (Some x) \<longrightarrow> user_ID x \<noteq> u"
proof (intro allI impI notI)
  fix x assume some: "fst (User E A now' r t) = Inr (Some x)" and x: "user_ID x = u"
  have inv': "db_inv E (db t)"
    using preservesD [OF UpdateUser_inv _ run] inv by (simp add: on_db_def)
  from some have "User E A now' r t = (Inr (Some x), snd (User E A now' r t))" by (metis prod.collapse)
  from User_session [OF inv' this] obtain row where row: "row \<in> set (users (db t))" "\<not> u_disabled row" "x = scanUser row"
    by blast
  let ?f = "\<lambda>x. x\<lparr>u_display_name := dn, u_email := nullif m, u_role := rol, u_disabled := True, u_updated_at := now\<rparr>"
  from UpdateUser_users [OF run] obtain v where v: "pg_uuid E i = Some v"
    and us: "users (db t) = update_where (\<lambda>x. u_id x = v) ?f (users (db s))" by blast
  from v assms(3) have "v = u" by simp
  from row(1) have "row \<in> ?f ` {r \<in> set (users (db s)). u_id r = v} \<union> {r \<in> set (users (db s)). \<not> u_id r = v}"
    unfolding us set_update_where .
  moreover have "\<forall>y \<in> ?f ` {r \<in> set (users (db s)). u_id r = v}. u_disabled y" by simp
  ultimately have "u_disabled row \<or> u_id row \<noteq> u" using \<open>v = u\<close> by blast
  with row x show False by (simp add: scanUser_def)
qed

lemma demo_disable:
  "\<exists>t. UpdateUser demo_env 10 ''a1'' ''b2'' ''Ann'' ''ann@x.io'' ''user'' True [] ''ip'' demo_signed_in = (Inr (), t)"
  by (simp add: UpdateUser_def audit_def run_defs sql_update_user_def demo_signed_in_def matches_def demo_rows
      ascii_lower_def email_taken_def nullif_def same_email_def valid_role_def user_ref_def nullUUID_def
      update_where_def)

theorem disabling_locks_out_witness:
  "\<exists>t. UpdateUser demo_env 10 ''a1'' ''b2'' ''Ann'' ''ann@x.io'' ''user'' True [] ''ip'' demo_signed_in = (Inr (), t)
    \<and> (\<forall>x r. fst (User demo_env demo_manager 11 r t) = Inr (Some x) \<longrightarrow> user_ID x \<noteq> ''b2'')"
proof -
  from demo_disable obtain t
    where t: "UpdateUser demo_env 10 ''a1'' ''b2'' ''Ann'' ''ann@x.io'' ''user'' True [] ''ip'' demo_signed_in = (Inr (), t)"
    by blast
  have "pg_uuid demo_env ''b2'' = Some ''b2''" by (simp add: ascii_lower_def)
  from disabling_locks_out [OF demo_signed_in_inv t this] t show ?thesis by blast
qed

end
