(* ===== verification/OidcProps.thy ===== *)
theory OidcProps
  imports Oidc LoginProps
begin

text \<open>
  Properties of the OIDC login: what a flow cookie proves, who a callback can log in, and which
  usernames it makes up.
\<close>

section \<open>The flow cookie\<close>

definition flow_payload :: "env \<Rightarrow> oidc_manager \<Rightarrow> string \<Rightarrow> string option" where
  "flow_payload E M v = (case split_on (CHR ''.'') v of
     [p0, p1] \<Rightarrow> if p1 = flow_mac E M p0 then Some p0 else None | _ \<Rightarrow> None)"

interpretation flow_value: signed_value "flow_mac E M" "CHR ''.''" "\<lambda>p. p @ ''.'' @ flow_mac E M p" "flow_payload E M"
  for E M
  by unfold_locales (simp_all add: flow_mac_def url_no_dot flow_payload_def)

lemma decodeFlow_Inr:
  assumes "decodeFlow E T M v = Inr f"
  obtains p b j where "flow_payload E M v = Some p" "RawDecode url_alphabet p = Some b" "json_parse E b = Some j"
    "decode_object False (flow_fields T) j zero_flow = (f, True)"
proof -
  from assms obtain p0 p1 where "split_on (CHR ''.'') v = [p0, p1]"
    by (auto simp: decodeFlow_def split: list.splits)
  with assms that show thesis
    by (auto simp: decodeFlow_def flow_payload_def split: if_splits option.splits prod.splits)
qed

lemma flow_found:
  "find_field (flow_fields T) ''state'' = Some (string_field fl_State_update)"
  "find_field (flow_fields T) ''nonce'' = Some (string_field fl_Nonce_update)"
  "find_field (flow_fields T) ''verifier'' = Some (string_field fl_Verifier_update)"
  "find_field (flow_fields T) ''expires'' = Some (\<lambda>j r. case j of
          JStr s \<Rightarrow> (case tc_Parse T s of None \<Rightarrow> (r, False) | Some t \<Rightarrow> (r\<lparr>fl_Expires := t\<rparr>, True))
        | JNull \<Rightarrow> (r, True) | _ \<Rightarrow> (r, False))"
  by (simp_all add: flow_fields_def find_field_def ascii_lower_def)

lemma flow_json_decodes:
  "tc_Parse T t = Some (fl_Expires f) \<Longrightarrow> decode_object False (flow_fields T) (flow_json f t) zero_flow = (f, True)"
  by (cases f) (simp add: decode_object_def flow_json_def flow_found decode_members_found scalar_round_trips zero_flow_def)

lemma decodeFlow_encodeFlow:
  assumes enc: "encodeFlow E T M f = Inr v"
    and times: "\<And>t. tc_Format T (fl_Expires f) = Some t \<Longrightarrow> tc_Parse T t = Some (fl_Expires f)"
    and codec: "\<And>t. json_parse E (json_text E (flow_json f t)) = Some (flow_json f t)"
  shows "decodeFlow E T M v = Inr f"
proof -
  from enc obtain t where t: "tc_Format T (fl_Expires f) = Some t"
    and v: "v = RawEncode url_alphabet (json_text E (flow_json f t)) @ ''.'' @ flow_mac E M (RawEncode url_alphabet (json_text E (flow_json f t)))"
    by (auto simp: encodeFlow_def Let_def split: option.splits)
  let ?p = "RawEncode url_alphabet (json_text E (flow_json f t))"
  have "split_on (CHR ''.'') v = [?p, flow_mac E M ?p]"
    by (simp add: v split_on_two url_no_dot flow_mac_def)
  then show ?thesis
    using times [OF t] codec [of t] by (simp add: decodeFlow_def RawDecode_RawEncode flow_json_decodes)
qed

text \<open>C32: The flow cookie carries a login attempt unchanged and cannot be made up. What \<open>encodeFlow\<close>
  writes, \<open>decodeFlow\<close> reads back as the same flow; and every value that \<open>decodeFlow\<close> accepts is a
  payload, a dot and the MAC of the payload under the signing key, with no second dot.\<close>

theorem flow_cookie_round_trip:
  assumes enc: "encodeFlow E T M f = Inr v"
    and times: "\<And>t. tc_Format T (fl_Expires f) = Some t \<Longrightarrow> tc_Parse T t = Some (fl_Expires f)"
    and codec: "\<And>t. json_parse E (json_text E (flow_json f t)) = Some (flow_json f t)"
  shows "decodeFlow E T M v = Inr f
    \<and> (\<forall>x g. decodeFlow E T M x = Inr g \<longrightarrow> (\<exists>p. CHR ''.'' \<notin> set p \<and> x = p @ ''.'' @ flow_mac E M p))"
proof -
  have "\<exists>p. CHR ''.'' \<notin> set p \<and> x = p @ ''.'' @ flow_mac E M p" if "decodeFlow E T M x = Inr g" for x g
    using that by (rule decodeFlow_Inr) (auto simp: flow_value.unseal_iff)
  with decodeFlow_encodeFlow [OF assms] show ?thesis by blast
qed

text \<open>A demo codec: one JSON value has the text \<open>F\<close>, and one time prints as \<open>T\<close>.\<close>

definition demo_flow :: flow where
  "demo_flow = \<lparr>fl_State = ''st'', fl_Nonce = ''no'', fl_Verifier = ''ve'', fl_Expires = 600000000009\<rparr>"

definition demo_times :: time_codec where
  "demo_times = \<lparr>tc_Format = (\<lambda>t. Some ''T''), tc_Parse = (\<lambda>s. Some 600000000009)\<rparr>"

definition demo_flow_env :: env where
  "demo_flow_env = demo_env\<lparr>json_text := (\<lambda>j. case j of JObj [_, _, _, (_, JStr t)] \<Rightarrow> t | _ \<Rightarrow> []),
     json_parse := (\<lambda>s. Some (flow_json demo_flow s))\<rparr>"

definition demo_oidc :: oidc_manager where
  "demo_oidc = \<lparr>oi_PublicURL = \<lparr>url_Scheme = ''https'', url_Host = ''x.io'', url_String = ''https://x.io/''\<rparr>,
     oi_SigningKey = ''key'', oi_CookieSecure = True\<rparr>"

lemma demo_flow_codecs:
  "json_parse demo_flow_env (json_text demo_flow_env (flow_json demo_flow t)) = Some (flow_json demo_flow t)"
  "tc_Parse demo_times t = Some (fl_Expires demo_flow)"
  by (simp_all add: demo_flow_env_def flow_json_def demo_times_def demo_flow_def)

definition demo_flow_value :: string where
  "demo_flow_value = (let p = RawEncode url_alphabet ''T'' in p @ ''.'' @ flow_mac demo_flow_env demo_oidc p)"

lemma demo_encode: "encodeFlow demo_flow_env demo_times demo_oidc demo_flow = Inr demo_flow_value"
  by (simp add: encodeFlow_def demo_times_def Let_def demo_flow_value_def demo_flow_env_def flow_json_def)

theorem flow_cookie_round_trip_witness:
  "decodeFlow demo_flow_env demo_times demo_oidc demo_flow_value = Inr demo_flow"
  using flow_cookie_round_trip [OF demo_encode demo_flow_codecs(2,1)] by blast

section \<open>Usernames\<close>

lemma replace_unsafe_safe: "set (replace_unsafe b s) \<subseteq> Collect safe_char"
  by (induction b s rule: replace_unsafe.induct) (auto simp: safe_char_def)

definition alnum :: "char \<Rightarrow> bool" where
  "alnum c \<longleftrightarrow> is_lower c \<or> is_digit c"

lemma last_dropWhile: "dropWhile P xs \<noteq> [] \<Longrightarrow> last xs = last (dropWhile P xs)"
  by (metis last_appendR takeWhile_dropWhile_id)

lemma trim_ends:
  assumes x: "dropWhile P (rev (dropWhile P v)) \<noteq> []" (is "?x \<noteq> []")
  shows "\<not> P (hd ?x)" "\<not> P (last ?x)"
proof -
  show "\<not> P (hd ?x)" by (rule hd_dropWhile [OF x])
  have w: "dropWhile P v \<noteq> []" using x by (metis dropWhile.simps(1) rev.simps(1))
  have "last (rev (dropWhile P v)) = last ?x" by (rule last_dropWhile [OF x])
  then show "\<not> P (last ?x)" using hd_dropWhile [OF w] w by (metis last_rev)
qed

lemma trim_set: "set (dropWhile P (rev (dropWhile P v))) \<subseteq> set v"
  by (metis set_dropWhileD set_rev subsetI)

lemma trim_punct_props:
  assumes v: "set v \<subseteq> Collect safe_char"
  shows "set (trim_punct v) \<subseteq> Collect safe_char" "trim_punct v \<noteq> [] \<Longrightarrow> alnum (hd (trim_punct v))"
proof -
  let ?P = "\<lambda>c. c \<in> {CHR ''-'', CHR ''.'', CHR ''_''}"
  let ?x = "dropWhile ?P (rev (dropWhile ?P v))"
  have t: "trim_punct v = rev ?x" by (simp add: trim_punct_def Let_def)
  have sub: "set ?x \<subseteq> set v" by (rule trim_set)
  with v show "set (trim_punct v) \<subseteq> Collect safe_char" by (simp add: t)
  assume "trim_punct v \<noteq> []"
  then have x: "?x \<noteq> []" by (simp add: t)
  have "last ?x \<in> Collect safe_char" using last_in_set [OF x] sub v by blast
  with trim_ends(2) [OF x] have "alnum (last ?x)" by (auto simp: alnum_def safe_char_def)
  then show "alnum (hd (trim_punct v))" using x by (simp add: t hd_rev)
qed

text \<open>C33: A username made up for an OIDC account is well formed: at least two characters, all of them
  lower-case letters, digits, dots, underscores or hyphens, and it starts with a letter or digit.\<close>

theorem safe_usernames:
  "length (safeUsername E preferred mail) \<ge> 2 \<and> set (safeUsername E preferred mail) \<subseteq> Collect safe_char
   \<and> alnum (hd (safeUsername E preferred mail))"
proof -
  let ?v0 = "ToLower E (TrimSpace preferred)"
  let ?v1 = "if ?v0 = [] then hd (split_on (CHR ''@'') mail) else ?v0"
  let ?v2 = "trim_punct (replace_unsafe False ?v1)"
  note p = trim_punct_props [OF replace_unsafe_safe [of False ?v1]]
  show ?thesis
  proof (cases "length ?v2 < 2")
    case True
    then have "safeUsername E preferred mail = ''user-'' @ ?v2" by (simp add: safeUsername_def Let_def)
    with p(1) show ?thesis by (auto simp: alnum_def safe_char_def is_lower_def)
  next
    case False
    then have s: "safeUsername E preferred mail = ?v2" by (simp add: safeUsername_def Let_def)
    from False have "?v2 \<noteq> []" by auto
    from p(2) [OF this] p(1) False show ?thesis unfolding s by simp
  qed
qed

text \<open>It need not satisfy the username rule of the other forms: the length is not bounded by 64. And
  upper-case letters of an email address are lost instead of being lowered.\<close>

lemma replace_unsafe_id: "safe_char c \<Longrightarrow> replace_unsafe b (replicate n c) = replicate n c"
  by (induction n arbitrary: b) simp_all

theorem safe_username_long: "length (safeUsername E [] (replicate 65 (CHR ''a''))) = 65"
proof -
  let ?v = "replicate 65 (CHR ''a'')"
  have "safe_char (CHR ''a'')" by (simp add: safe_char_def is_lower_def)
  then have "replace_unsafe False ?v = ?v" by (rule replace_unsafe_id)
  moreover have "trim_punct ?v = ?v" unfolding trim_punct_def Let_def by (simp only: dropWhile_replicate rev_replicate) simp
  moreover have "hd (split_on (CHR ''@'') ?v) = ?v" by (subst split_on_no_sep) simp_all
  ultimately show ?thesis by (simp only: safeUsername_def TrimSpace_Nil ToLower_def) simp
qed

theorem safe_username_drops_capitals: "safeUsername demo_env [] ''Alice@x.io'' = ''lice''"
  by (simp add: safeUsername_def ToLower_def trim_punct_def safe_char_def is_lower_def is_digit_def)

section \<open>Accounts behind identities\<close>

definition linked_to :: "db \<Rightarrow> string \<Rightarrow> string \<Rightarrow> user_row \<Rightarrow> bool" where
  "linked_to d iss sub row \<longleftrightarrow> (\<exists>i. find (\<lambda>i. i_issuer i = iss \<and> i_subject i = sub) (identities d) = Some i
     \<and> find (\<lambda>u. u_id u = i_user_id i) (users d) = Some row)"

lemma OIDCUser_result: "OIDCUser iss sub s = (Inr u, t) \<Longrightarrow> db t = db s \<and> (\<exists>row. linked_to (db s) iss sub row \<and> u = scanUser row)"
  unfolding OIDCUser_def by (drule fetch_Inr) (auto simp: linked_to_def split: option.splits)

lemma yields_preserves:
  assumes "yields P m Q" "preserves I m"
  shows "yields (\<lambda>s. P s \<and> I s) m (\<lambda>x s. Q x s \<and> I s)"
  using assms unfolding yields_def preserves_def by (fastforce split: prod.splits sum.splits)

text \<open>The database with one more identity, of user \<open>u\<close>.\<close>

definition adds_identity :: "string \<Rightarrow> string \<Rightarrow> user_row list \<Rightarrow> identity_row list \<Rightarrow> user_row \<Rightarrow> db \<Rightarrow> bool" where
  "adds_identity iss sub us idl row d \<longleftrightarrow> users d = us \<and> (\<exists>i. identities d = idl @ [i] \<and> i_issuer i = iss
     \<and> i_subject i = sub \<and> i_user_id i = u_id row) \<and> \<not> matches (\<lambda>i. i_issuer i = iss \<and> i_subject i = sub) idl"

lemma adds_identity_audit: "adds_identity iss sub us idl row d \<Longrightarrow> adds_identity iss sub us idl row (d\<lparr>audits := as\<rparr>)"
  by (simp add: adds_identity_def)

lemma insert_identity_adds:
  assumes "sql_insert_identity E now iss sub i mail d = Inr (x, d')" "pg_uuid E i = Some (u_id row)"
  shows "adds_identity iss sub (users d) (identities d) row d'"
  using assms by (auto simp: sql_insert_identity_def adds_identity_def uuid_arg_def matches_iff split: sum.splits if_splits)

lemma sql_identities_frame:
  "sql_insert_user E now i un dn m rol d = Inr (r, d') \<Longrightarrow> identities d' = identities d"
  "sql_insert_credential E now i h d = Inr (x, d') \<Longrightarrow> identities d' = identities d"
  "sql_insert_workspace E now i w d = Inr (y, d') \<Longrightarrow> identities d' = identities d"
  by (auto simp: sql_insert_user_def sql_insert_credential_def sql_insert_workspace_def Let_def split: sum.splits if_splits)

lemma insertUser_identities: "preserves (on_db (\<lambda>d. identities d = idl)) (insertUser E now i un dn m rol h)"
  unfolding insertUser_def by (intro act_rules) (simp_all add: sql_identities_frame)

lemma Provision_result:
  assumes uuid: "uuid_ok E" and run: "ProvisionOIDCUser E now uid iss sub un dn m rol remote s = (Inr u, t)"
  shows "\<exists>row. new_row E uid un dn m rol (users (db s)) row \<and> u = scan_new row
    \<and> adds_identity iss sub (users (db s) @ [row]) (identities (db s)) row (db t)"
proof -
  let ?us = "users (db s)" and ?idl = "identities (db s)"
  let ?Q = "\<lambda>u d. \<exists>row. new_row E uid un dn m rol ?us row \<and> u = scan_new row \<and> users d = ?us @ [row] \<and> identities d = ?idl"
  let ?R = "\<lambda>u d. \<exists>row. new_row E uid un dn m rol ?us row \<and> u = scan_new row
    \<and> adds_identity iss sub (?us @ [row]) ?idl row d"
  have ins: "yields (on_db (\<lambda>d. accounts_are ?us (credentials (db s)) d \<and> identities d = ?idl)) (insertUser E now uid un dn m rol [])
      (\<lambda>u. on_db (?Q u))"
    by (rule yields_weaken [OF yields_preserves [OF insertUser_adds insertUser_identities]])
      (auto simp: on_db_def)
  have idn: "yields (on_db (?Q u)) (stmt (sql_insert_identity E now iss sub (user_ID u) mail)) (\<lambda>_. on_db (?R u))" for u mail
  proof (rule yields_stmt)
    fix d x d' assume "?Q u d" and step: "sql_insert_identity E now iss sub (user_ID u) mail d = Inr (x, d')"
    then obtain row where row: "new_row E uid un dn m rol ?us row" "u = scan_new row" "users d = ?us @ [row]" "identities d = ?idl"
      by blast
    from row(1) uuid have "pg_uuid E (u_id row) = Some (u_id row)"
      by (auto simp: new_row_def uuid_ok_def uuid_canonical_def)
    with insert_identity_adds [OF step, of row] row show "?R u d'" by auto
  qed
  have aud: "yields (on_db (?R u)) (audit E now a act ty tid det rem) (\<lambda>_. on_db (?R u))" for u a act ty tid det rem
    by (rule preserves_yields, rule audit_frame) (blast intro: adds_identity_audit)
  have "yields (on_db (\<lambda>d. accounts_are ?us (credentials (db s)) d \<and> identities d = ?idl))
      (ProvisionOIDCUser E now uid iss sub un dn m rol remote) (\<lambda>u. on_db (?R u))"
    unfolding ProvisionOIDCUser_def
    by (rule yields_transaction, rule yields_andThen [OF ins], rule yields_andThen [OF idn], rule yields_andThen [OF aud],
        rule yields_ret)
  from yieldsD [OF this _ run] show ?thesis by (simp add: on_db_def)
qed

lemma Link_result:
  assumes ok: "db_inv E (db s)" and run: "LinkOIDCUserByEmail E now iss sub m remote s = (Inr u, t)"
  shows "\<exists>row. find (same_email E (TrimSpace m)) (users (db s)) = Some row \<and> \<not> u_disabled row \<and> u = scanUser row
    \<and> adds_identity iss sub (users (db s)) (identities (db s)) row (db t)"
proof -
  let ?P = "\<lambda>d. users d = users (db s) \<and> identities d = identities (db s)"
  let ?R = "\<lambda>u d. \<exists>row. find (same_email E (TrimSpace m)) (users (db s)) = Some row \<and> \<not> u_disabled row \<and> u = scanUser row
    \<and> adds_identity iss sub (users (db s)) (identities (db s)) row d"
  have step: "yields (on_db ?P) (stmt (sql_insert_identity E now iss sub (user_ID u) (Some m))) (\<lambda>_. on_db (?R u))"
    if row: "find (same_email E (TrimSpace m)) (users (db s)) = Some row" "\<not> u_disabled row" "u = scanUser row" for u row
  proof (rule yields_stmt)
    fix d x d' assume "?P d" and run: "sql_insert_identity E now iss sub (user_ID u) (Some m) d = Inr (x, d')"
    have "pg_uuid E (u_id row) = Some (u_id row)"
      using users_ok_canonical [OF ok] find_Some_in [OF row(1)] by (simp add: uuid_canonical_def)
    with insert_identity_adds [OF run, of row] row \<open>?P d\<close> show "?R u d'" by auto
  qed
  have aud: "yields (on_db (?R u)) (audit E now a act ty tid det rem) (\<lambda>_. on_db (?R u))" for u a act ty tid det rem
    by (rule preserves_yields, rule audit_frame) (blast intro: adds_identity_audit)
  have "yields (on_db ?P) (LinkOIDCUserByEmail E now iss sub m remote) (\<lambda>u. on_db (?R u))"
    unfolding LinkOIDCUserByEmail_def user_by_email_def
  proof (rule yields_transaction, rule yields_andThen [OF yields_fetch])
    fix found
    let ?J = "\<lambda>d. ?P d \<and> Inr (map_option scanUser (find (same_email E (TrimSpace m)) (users d))) = Inr found"
    show "yields (on_db (\<lambda>d. ?P d \<and> (Inr (map_option scanUser (find (same_email E (TrimSpace m)) (users d))) :: db_error + _) = Inr found))
      (case found of None \<Rightarrow> throw ErrNotFound
      | Some u \<Rightarrow>
          if user_Disabled u then throw ErrNotFound
          else andThen (mapErr (\<lambda>e. if e = DuplicateKey then ErrConflict else e)
                 (stmt (sql_insert_identity E now iss sub (user_ID u) (Some m)))) (\<lambda>_.
               andThen (audit E now (user_ID u) ''oidc.identity.link'' ''user'' (user_ID u) ''{}'' remote) (\<lambda>_.
               ret u))) (\<lambda>u. on_db (?R u))"
    proof (cases "\<exists>row. find (same_email E (TrimSpace m)) (users (db s)) = Some row \<and> \<not> u_disabled row \<and> found = Some (scanUser row)")
      case True
      then obtain row where row: "find (same_email E (TrimSpace m)) (users (db s)) = Some row" "\<not> u_disabled row" "found = Some (scanUser row)"
        by blast
      have "yields (on_db ?P) (andThen (mapErr (\<lambda>e. if e = DuplicateKey then ErrConflict else e)
                 (stmt (sql_insert_identity E now iss sub (user_ID (scanUser row)) (Some m)))) (\<lambda>_.
               andThen (audit E now (user_ID (scanUser row)) ''oidc.identity.link'' ''user'' (user_ID (scanUser row)) ''{}'' remote) (\<lambda>_.
               ret (scanUser row)))) (\<lambda>u. on_db (?R u))"
        by (rule yields_andThen [OF yields_mapErr [OF step [OF row(1,2) refl]]], rule yields_andThen [OF aud], rule yields_ret)
      then show ?thesis
        unfolding row(3) option.case scanUser_simps row(2) if_False
        by (simp only: row(2) if_False) (erule yields_weaken, simp_all add: on_db_def)
    next
      case False
      then show ?thesis by (auto simp: yields_def on_db_def split: option.splits)
    qed
  qed
  from yieldsD [OF this _ run] show ?thesis by (simp add: on_db_def)
qed

section \<open>The callback\<close>

text \<open>Which account the claims lead to: the linked one; an enabled account with the same verified email,
  now linked; or a new account, an administrator exactly when a group of the claims says so.\<close>

definition account_decision :: "env \<Rightarrow> string \<Rightarrow> oidc_settings \<Rightarrow> claims \<Rightarrow> db \<Rightarrow> db \<Rightarrow> user \<Rightarrow> bool" where
  "account_decision E uid s c d d' u \<longleftrightarrow> (
     let iss = os_Issuer s; sub = cl_Subject c in
     (\<exists>row. linked_to d iss sub row \<and> u = scanUser row \<and> d' = d)
   \<or> os_LinkByEmail s \<and> (\<exists>row. find (same_email E (TrimSpace (cl_Email c))) (users d) = Some row \<and> \<not> u_disabled row
       \<and> u = scanUser row \<and> adds_identity iss sub (users d) (identities d) row d')
   \<or> os_AutoProvision s \<and> (\<exists>row. new_row E uid (safeUsername E (cl_PreferredUsername c) (cl_Email c)) (cl_Name c) (cl_Email c)
         (if intersects (cl_Groups c) (os_AdminGroups s) then ''admin'' else ''user'') (users d) row
       \<and> u = scan_new row \<and> adds_identity iss sub (users d @ [row]) (identities d) row d'))"

lemma intersects_iff: "intersects vs as \<longleftrightarrow> set vs \<inter> set as \<noteq> {}"
  by (induction vs) (auto simp: list_ex_iff)

lemma account_for_result:
  assumes uuid: "uuid_ok E" and ok: "db_inv E (db S)" and run: "account_for E now uid r s c S = (Inr u, T)"
  shows "account_decision E uid s c (db S) (db T) u"
proof -
  let ?iss = "os_Issuer s" and ?sub = "cl_Subject c"
  obtain known S1 where known: "OIDCUser ?iss ?sub S = (known, S1)" by (cases "OIDCUser ?iss ?sub S")
  show ?thesis
  proof (cases known)
    case (Inr v)
    with run known OIDCUser_result [of ?iss ?sub S v S1] show ?thesis
      by (auto simp: account_for_def andThen_def attempt_apply account_decision_def Let_def)
  next
    case (Inl e)
    have "reads_only (OIDCUser ?iss ?sub)" unfolding OIDCUser_def by (rule reads_only_fetch)
    with known have S1: "db S1 = db S" by (rule reads_onlyD [rotated])
    let ?link = "LinkOIDCUserByEmail E now ?iss ?sub (cl_Email c) (rq_RemoteAddr r)"
    let ?prov = "ProvisionOIDCUser E now uid ?iss ?sub (safeUsername E (cl_PreferredUsername c) (cl_Email c)) (cl_Name c)
      (cl_Email c) (if intersects (cl_Groups c) (os_AdminGroups s) then ''admin'' else ''user'') (rq_RemoteAddr r)"
    have provision: "account_decision E uid s c (db S) (db T) u"
      if "os_AutoProvision s" "?prov S2 = (Inr u, T)" "db S2 = db S" for S2
      using that Provision_result [OF uuid that(2)] by (auto simp: account_decision_def Let_def)
    show ?thesis
    proof (cases "os_LinkByEmail s")
      case False
      with run known Inl have "os_AutoProvision s" "?prov S1 = (Inr u, T)"
        by (auto simp: account_for_def andThen_def attempt_apply Let_def split: if_splits)
      with S1 show ?thesis by (rule provision [rotated -1])
    next
      case True
      obtain linked S2 where link: "?link S1 = (linked, S2)" by (cases "?link S1")
      show ?thesis
      proof (cases linked)
        case (Inr v)
        with run known Inl True link have "v = u" "S2 = T"
          by (auto simp: account_for_def andThen_def attempt_apply split: if_splits)
        with Link_result [of E S1] ok S1 link Inr True show ?thesis
          by (auto simp: account_decision_def Let_def)
      next
        case (Inl e2)
        with run known \<open>known = Inl e\<close> True link have "os_AutoProvision s" "?prov S2 = (Inr u, T)"
          by (auto simp: account_for_def andThen_def attempt_apply Let_def split: if_splits)
        moreover have "db S2 = db S" using link Inl S1 by (auto simp: LinkOIDCUserByEmail_def dest: transaction_Inl)
        ultimately show ?thesis by (rule provision)
      qed
    qed
  qed
qed

lemma domainAllowed_iff:
  "domainAllowed E mail allowed \<longleftrightarrow> allowed = [] \<or> (\<exists>l d. ToLower E mail = l @ CHR ''@'' # d \<and> CHR ''@'' \<notin> set l
     \<and> CHR ''@'' \<notin> set d \<and> d \<in> (\<lambda>a. ToLower E (TrimSpace a)) ` set allowed)"
proof (cases "\<exists>l d. split_on (CHR ''@'') (ToLower E mail) = [l, d]")
  case True
  then obtain l d where ld: "split_on (CHR ''@'') (ToLower E mail) = [l, d]" by blast
  have split: "(ToLower E mail = l' @ CHR ''@'' # d' \<and> CHR ''@'' \<notin> set l' \<and> CHR ''@'' \<notin> set d') \<longleftrightarrow> l' = l \<and> d' = d" for l' d'
    unfolding split_on_two [symmetric] ld by auto
  have "domainAllowed E mail allowed \<longleftrightarrow> allowed = [] \<or> d \<in> (\<lambda>a. ToLower E (TrimSpace a)) ` set allowed"
    using ld by (auto simp: domainAllowed_def list_ex_iff)
  moreover have "(\<exists>l' d'. (ToLower E mail = l' @ CHR ''@'' # d' \<and> CHR ''@'' \<notin> set l' \<and> CHR ''@'' \<notin> set d')
      \<and> d' \<in> (\<lambda>a. ToLower E (TrimSpace a)) ` set allowed) \<longleftrightarrow> d \<in> (\<lambda>a. ToLower E (TrimSpace a)) ` set allowed"
    unfolding split by blast
  ultimately show ?thesis by (simp only: conj_assoc)
next
  case False
  then have no: "\<not> (ToLower E mail = l @ CHR ''@'' # d \<and> CHR ''@'' \<notin> set l \<and> CHR ''@'' \<notin> set d)" for l d
    by (simp add: split_on_two)
  from False have "domainAllowed E mail allowed \<longleftrightarrow> allowed = []"
    by (auto simp: domainAllowed_def split: list.splits)
  then show ?thesis using no by blast
qed

lemma read_claims_result:
  "read_claims I provider s cfg code verifier = Inr c \<longleftrightarrow> (\<exists>raw j. Exchange I provider cfg code verifier = Some (Some raw)
     \<and> VerifyIDToken I provider (os_ClientID s) raw = Some j \<and> decode_object False claims_fields j zero_claims = (c, True))"
  by (auto simp: read_claims_def split: option.splits prod.splits)

lemma reads_only_attempt [act_rules]: "reads_only m \<Longrightarrow> reads_only (attempt m)"
  by (simp add: reads_only_def attempt_apply)

lemma Settings_reads: "reads_only (Settings E)"
proof -
  have "reads_only (Setting E k dec tgt)" for k and dec :: "json \<Rightarrow> 'a \<times> bool" and tgt
    unfolding Setting_def
    by (intro reads_only_andThen reads_only_attempt reads_only_fetch)
      (auto intro: reads_only_basic split: sum.split option.split prod.split)
  then show ?thesis
    unfolding Settings_def by (intro reads_only_andThen) (auto intro: reads_only_basic split: option.splits)
qed

text \<open>C10: An OIDC login succeeds only for a verified identity. If the callback returns an account, the
  browser holds an unexpired flow cookie that this server signed, the query repeats its state, the
  settings are enabled and complete, the provider exchanged the code under the flow's verifier for an
  ID token that verifies for the client and carries the flow's nonce, a subject and a verified email of
  an allowed domain. The account is the one linked to the issuer and subject; or the enabled account
  with the same email, linked from now on, if linking is on; or a new account with a made-up username
  that is an administrator exactly when one of its groups is an administrator group, if provisioning
  is on.\<close>

theorem callback_checks:
  assumes uuid: "uuid_ok E" and inv: "db_inv E (db S)" and run: "Callback E I T M now uid r S = (Inr u, t)"
  shows "\<exists>v f s provider raw j c. CookieOf r flowCookie = Some v \<and> decodeFlow E T M v = Inr f
    \<and> now \<le> fl_Expires f \<and> QueryGet r ''state'' = fl_State f
    \<and> fst (Settings E S) = Inr (s, None) \<and> os_Enabled s \<and> os_Configured s \<and> NewProvider I (os_Issuer s) = Some provider
    \<and> Exchange I provider (oauth_config M s) (QueryGet r ''code'') (fl_Verifier f) = Some (Some raw)
    \<and> VerifyIDToken I provider (os_ClientID s) raw = Some j \<and> decode_object False claims_fields j zero_claims = (c, True)
    \<and> cl_Nonce c = fl_Nonce f \<and> cl_Subject c \<noteq> [] \<and> cl_Email c \<noteq> [] \<and> cl_EmailVerified c
    \<and> (os_AllowedDomains s = [] \<or> (\<exists>l d. ToLower E (cl_Email c) = l @ CHR ''@'' # d \<and> CHR ''@'' \<notin> set l
         \<and> CHR ''@'' \<notin> set d \<and> d \<in> (\<lambda>a. ToLower E (TrimSpace a)) ` set (os_AllowedDomains s)))
    \<and> account_decision E uid s c (db S) (db t) u"
proof -
  obtain v where v: "CookieOf r flowCookie = Some v"
    using run by (cases "CookieOf r flowCookie") (simp_all add: Callback_def)
  obtain f where f: "decodeFlow E T M v = Inr f"
    using run v by (cases "decodeFlow E T M v") (simp_all add: Callback_def)
  have flow: "now \<le> fl_Expires f" "QueryGet r ''state'' = fl_State f"
    using run v f by (auto simp: Callback_def split: if_splits)
  obtain res S1 where set: "Settings E S = (res, S1)" by (cases "Settings E S")
  have S1: "db S1 = db S" using reads_onlyD [OF Settings_reads set] .
  obtain s where s: "res = Inr (s, None)"
    using run v f flow set by (auto simp: Callback_def andThen_def split: sum.splits option.splits)
  have on: "os_Enabled s" "os_Configured s"
    using run v f flow set s by (auto simp: Callback_def andThen_def split: if_splits)
  obtain provider where provider: "NewProvider I (os_Issuer s) = Some provider"
    using run v f flow set s on by (cases "NewProvider I (os_Issuer s)") (simp_all add: Callback_def andThen_def)
  obtain c where c: "read_claims I provider s (oauth_config M s) (QueryGet r ''code'') (fl_Verifier f) = Inr c"
    using run v f flow set s on provider
    by (cases "read_claims I provider s (oauth_config M s) (QueryGet r ''code'') (fl_Verifier f)") (simp_all add: Callback_def andThen_def)
  have checks: "cl_Nonce c = fl_Nonce f" "cl_Subject c \<noteq> []" "cl_Email c \<noteq> []" "cl_EmailVerified c"
    "domainAllowed E (cl_Email c) (os_AllowedDomains s)" and acc: "account_for E now uid r s c S1 = (Inr u, t)"
    using run v f flow set s on provider c by (auto simp: Callback_def andThen_def split: if_splits)
  from account_for_result [OF uuid _ acc] inv S1 have "account_decision E uid s c (db S) (db t) u" by simp
  moreover have "fst (Settings E S) = Inr (s, None)" using set s by simp
  moreover obtain raw j where "Exchange I provider (oauth_config M s) (QueryGet r ''code'') (fl_Verifier f) = Some (Some raw)"
    "VerifyIDToken I provider (os_ClientID s) raw = Some j" "decode_object False claims_fields j zero_claims = (c, True)"
    using c unfolding read_claims_result by blast
  moreover note checks(5) [unfolded domainAllowed_iff]
  ultimately show ?thesis using v f flow on provider checks(1-4) by (intro exI conjI)
qed

text \<open>Carl logs in for the first time.\<close>

definition demo_oidc_settings :: oidc_settings where
  "demo_oidc_settings = zero_oidc_settings\<lparr>os_Enabled := True, os_Issuer := ''iss'', os_ClientID := ''cid'', os_ClientSecret := ''sec'',
     os_AutoProvision := True, os_AllowedDomains := [''x.io''], os_Configured := True, os_HasClientSecret := True\<rparr>"

definition demo_oidc_store :: store where
  "demo_oidc_store = demo_store\<lparr>db := demo_db\<lparr>settings := [\<lparr>k_key = ''auth.oidc'', k_value = settings_json demo_oidc_settings,
     k_encrypted = False, k_updated_at = 1, k_updated_by = None\<rparr>]\<rparr>\<rparr>"

definition demo_idp :: "unit idp" where
  "demo_idp = \<lparr>NewProvider = (\<lambda>_. Some ()), AuthCodeURL = (\<lambda>_ _ _ _ _. ''https://idp/auth''),
     Exchange = (\<lambda>_ _ _ _. Some (Some ''raw'')),
     VerifyIDToken = (\<lambda>_ _ _. Some (JObj [(''sub'', JStr ''s1''), (''email'', JStr ''carl@x.io''), (''email_verified'', JBool True),
        (''name'', JStr ''Carl''), (''nonce'', JStr ''no'')]))\<rparr>"

definition demo_callback :: request where
  "demo_callback = (demo_request [])\<lparr>rq_Method := ''GET'', rq_Query := [(''state'', ''st''), (''code'', ''co'')],
     rq_Cookies := [(flowCookie, demo_flow_value)]\<rparr>"

lemma demo_flow_env_simps [simp]:
  "pg_uuid demo_flow_env = pg_uuid demo_env" "pg_lower demo_flow_env = map ascii_lower"
  "unicode_lower demo_flow_env = map ascii_lower"
  by (simp_all add: demo_flow_env_def demo_env_def)

lemma demo_Settings: "Settings demo_flow_env demo_oidc_store = (Inr (demo_oidc_settings, None), demo_oidc_store)"
proof -
  have "decode_object False settings_fields (settings_json demo_oidc_settings) zero_oidc_settings = (demo_oidc_settings, True)"
    by (rule settings_round_trip)
  then show ?thesis
    by (simp add: Settings_def Setting_def andThen_def attempt_apply fetch_no_faults demo_oidc_store_def settingKey_def open_setting_def)
      (simp add: demo_oidc_settings_def)
qed

lemma demo_callback_runs:
  "fst (Callback demo_flow_env demo_idp demo_times demo_oidc 9 ''c3'' demo_callback demo_oidc_store)
   = Inr (scan_new \<lparr>u_id = ''c3'', u_username = ''carl'', u_display_name = ''Carl'', u_email = Some ''carl@x.io'',
     u_role = ''user'', u_disabled = False, u_created_at = 9, u_updated_at = 9, u_last_login_at = None\<rparr>)"
proof -
  have dec: "decodeFlow demo_flow_env demo_times demo_oidc demo_flow_value = Inr demo_flow"
    by (rule decodeFlow_encodeFlow [OF demo_encode demo_flow_codecs(2,1)])
  let ?c = "\<lparr>cl_Subject = ''s1'', cl_Email = ''carl@x.io'', cl_EmailVerified = True, cl_Name = ''Carl'',
     cl_PreferredUsername = [], cl_Nonce = ''no'', cl_Groups = []\<rparr>"
  have c: "read_claims demo_idp () demo_oidc_settings cfg code ver = Inr ?c" for cfg code ver
    by (simp add: read_claims_def demo_idp_def decode_object_def zero_claims_def claims_fields_def find_field_def
        string_field_def bool_field_def ascii_lower_def char_of_def bit_0)
  have name: "safeUsername demo_flow_env [] ''carl@x.io'' = ''carl''"
    by (simp add: safeUsername_def ToLower_def trim_punct_def safe_char_def is_lower_def is_digit_def)
  have dom: "domainAllowed demo_flow_env ''carl@x.io'' [''x.io'']"
    by (simp add: domainAllowed_def ToLower_def TrimSpace_def ascii_space_def wide_space2_def wide_space3_def ascii_lower_def is_ascii_def)
  have prov: "fst (ProvisionOIDCUser demo_flow_env 9 ''c3'' ''iss'' ''s1'' ''carl'' ''Carl'' ''carl@x.io'' ''user'' rem demo_oidc_store)
    = Inr (scan_new \<lparr>u_id = ''c3'', u_username = ''carl'', u_display_name = ''Carl'', u_email = Some ''carl@x.io'',
     u_role = ''user'', u_disabled = False, u_created_at = 9, u_updated_at = 9, u_last_login_at = None\<rparr>)" for rem
    by (simp add: ProvisionOIDCUser_def insertUser_def audit_def run_defs sql_insert_user_def sql_insert_identity_def
      sql_insert_workspace_def ascii_lower_def valid_role_def demo_oidc_store_def same_email_key mail_key_def same_username_def
      matches_def email_taken_def nullif_def user_ref_def nullUUID_def scanUser_def scan_new_def resource_name_of_def demo_rows)
  have new: "OIDCUser ''iss'' ''s1'' demo_oidc_store = (Inl ErrNotFound, demo_oidc_store)"
    by (simp add: OIDCUser_def fetch_no_faults demo_oidc_store_def)
  have acc: "fst (account_for demo_flow_env 9 ''c3'' r demo_oidc_settings ?c demo_oidc_store)
    = Inr (scan_new \<lparr>u_id = ''c3'', u_username = ''carl'', u_display_name = ''Carl'', u_email = Some ''carl@x.io'',
     u_role = ''user'', u_disabled = False, u_created_at = 9, u_updated_at = 9, u_last_login_at = None\<rparr>)" for r
    using prov by (simp add: account_for_def andThen_def attempt_apply new name demo_oidc_settings_def zero_oidc_settings_def Let_def)
  have "CookieOf demo_callback flowCookie = Some demo_flow_value" "QueryGet demo_callback ''state'' = ''st''"
    by (simp_all add: demo_callback_def CookieOf_def QueryGet_def first_value_def)
  moreover have "os_Enabled demo_oidc_settings" "os_Configured demo_oidc_settings" "os_AllowedDomains demo_oidc_settings = [''x.io'']"
    by (simp_all add: demo_oidc_settings_def)
  moreover have "NewProvider demo_idp i = Some ()" for i by (simp add: demo_idp_def)
  moreover have "fl_State demo_flow = ''st''" "fl_Nonce demo_flow = ''no''" "\<not> 9 > fl_Expires demo_flow" by (simp_all add: demo_flow_def)
  ultimately show ?thesis
    using dec dom acc by (simp add: Callback_def andThen_def demo_Settings c)
qed

theorem callback_checks_witness:
  "\<exists>u. fst (Callback demo_flow_env demo_idp demo_times demo_oidc 9 ''c3'' demo_callback demo_oidc_store) = Inr u
     \<and> (\<exists>f. decodeFlow demo_flow_env demo_times demo_oidc demo_flow_value = Inr f \<and> 9 \<le> fl_Expires f)"
proof -
  obtain u t where run: "Callback demo_flow_env demo_idp demo_times demo_oidc 9 ''c3'' demo_callback demo_oidc_store = (Inr u, t)"
    using demo_callback_runs by (metis prod.collapse)
  have "uuid_ok demo_flow_env" using demo_uuid_ok by (simp add: uuid_ok_def uuid_canonical_def)
  moreover have "db_inv demo_flow_env (db demo_oidc_store)"
    by (simp add: demo_oidc_store_def db_inv_def db_ok_def table_ok_defs complete_def ids_def demo_rows mail_key_def
        valid_role_def valid_state_def uuid_canonical_def bigint_max_def ascii_lower_def)
  ultimately obtain v f where "CookieOf demo_callback flowCookie = Some v" "decodeFlow demo_flow_env demo_times demo_oidc v = Inr f"
    "9 \<le> fl_Expires f"
    using callback_checks [OF _ _ run] by blast
  moreover have "CookieOf demo_callback flowCookie = Some demo_flow_value"
    by (simp add: demo_callback_def CookieOf_def)
  ultimately show ?thesis using run by auto
qed

end
