(* ===== verification/StoreFrames.thy ===== *)
theory StoreFrames
  imports OidcProps
begin

text \<open>
  What the store methods leave alone: \<open>enabled_admin b\<close>, that the account \<open>b\<close> is an enabled
  administrator, survives every method but \<open>UpdateUser\<close> and \<open>ProvisionUser\<close>, and every workspace keeps
  its resource name. \<open>store_invariant\<close> is the interface between the store and everything
  above it that keeps an invariant of the database.
\<close>

definition enabled_admin :: "string \<Rightarrow> db \<Rightarrow> bool" where
  "enabled_admin b d \<longleftrightarrow> (\<exists>row \<in> set (users d). u_id row = b \<and> u_role row = ''admin'' \<and> \<not> u_disabled row)"

definition has_admin :: "db \<Rightarrow> bool" where
  "has_admin d \<longleftrightarrow> (\<exists>b. enabled_admin b d)"

lemma enabled_admin_users: "users d' = users d \<Longrightarrow> enabled_admin b d' = enabled_admin b d"
  by (simp add: enabled_admin_def)

lemma enabled_admin_map:
  assumes "enabled_admin b d" "users d' = update_where P f (users d)"
    and "\<And>r. P r \<Longrightarrow> u_id (f r) = u_id r \<and> (u_id r = b \<and> u_role r = ''admin'' \<and> \<not> u_disabled r
      \<longrightarrow> u_role (f r) = ''admin'' \<and> \<not> u_disabled (f r))"
  shows "enabled_admin b d'"
proof -
  from assms(1) obtain r where r: "r \<in> set (users d)" "u_id r = b" "u_role r = ''admin''" "\<not> u_disabled r"
    by (auto simp: enabled_admin_def)
  show ?thesis
  proof (cases "P r")
    case True
    then have "f r \<in> set (users d')" using r(1) unfolding assms(2) set_update_where by blast
    with assms(3) [OF True] r show ?thesis unfolding enabled_admin_def by blast
  next
    case False
    then have "r \<in> set (users d')" using r(1) unfolding assms(2) set_update_where by blast
    with r show ?thesis unfolding enabled_admin_def by blast
  qed
qed

lemma sql_users_frame:
  "sql_insert_credential E now i h d = Inr (x1, d') \<Longrightarrow> users d' = users d"
  "sql_insert_workspace E now i w d = Inr (x2, d') \<Longrightarrow> users d' = users d"
  "sql_insert_identity E now iss sub i mail d = Inr (x3, d') \<Longrightarrow> users d' = users d"
  "sql_upsert_setting E now a k v enc d = Inr (x4, d') \<Longrightarrow> users d' = users d"
  "sql_update_workspace E i f d = Inr (x5, d') \<Longrightarrow> users d' = users d"
  "sql_upsert_configuration E now i c k d = Inr (x6, d') \<Longrightarrow> users d' = users d"
  by (auto simp: sql_insert_credential_def sql_insert_workspace_def sql_insert_identity_def sql_upsert_setting_def
      sql_update_workspace_def sql_upsert_configuration_def split: sum.splits if_splits option.splits)

lemma sql_insert_user_frame: "sql_insert_user E now i un dn m rol d = Inr (r, d') \<Longrightarrow> users d' = users d @ [r]"
  by (auto simp: sql_insert_user_def Let_def split: sum.splits if_splits)

lemma enabled_admin_insert:
  "enabled_admin b d \<Longrightarrow> sql_insert_user E now i un dn m rol d = Inr (r, d') \<Longrightarrow> enabled_admin b d'"
  by (drule sql_insert_user_frame) (auto simp: enabled_admin_def)

lemma audit_keeps_admin: "preserves (on_db (enabled_admin b)) (audit E now a act ty tid det remote)"
  by (rule audit_frame) (simp add: enabled_admin_def)

lemma keeps_admin_stmt:
  "(\<And>d x d'. f d = Inr (x, d') \<Longrightarrow> users d' = users d) \<Longrightarrow> preserves (on_db (enabled_admin b)) (stmt f)"
  by (rule preserves_stmt) (metis enabled_admin_users)

lemma insertUser_keeps_admin: "preserves (on_db (enabled_admin b)) (insertUser E now i un dn m rol h)"
  unfolding insertUser_def
  by (intro act_rules keeps_admin_stmt) (auto dest: sql_users_frame enabled_admin_insert)

lemma account_methods_keep_admin:
  "preserves (on_db (enabled_admin b)) (CreateLocalUser E now i a un dn m rol h remote)"
  "preserves (on_db (enabled_admin b)) (BootstrapAdmin E now i un dn m h)"
  "preserves (on_db (enabled_admin b)) (ProvisionOIDCUser E now i iss sub un dn m rol remote)"
  "preserves (on_db (enabled_admin b)) (LinkOIDCUserByEmail E now iss sub m remote)"
  unfolding CreateLocalUser_def BootstrapAdmin_def ProvisionOIDCUser_def LinkOIDCUserByEmail_def
  by (intro act_rules store_inv insertUser_keeps_admin audit_keeps_admin keeps_admin_stmt, (erule sql_users_frame)?)+

lemma RecordLogin_keeps_admin: "preserves (on_db (enabled_admin b)) (RecordLogin E now i)"
  unfolding RecordLogin_def
  by (intro act_rules preserves_stmt) (auto split: sum.splits intro: enabled_admin_map)

lemma session_methods_keep_admin:
  "preserves (on_db (enabled_admin b)) (CreateSession E now th ch i ua remote expires)"
  "preserves (on_db (enabled_admin b)) (DeleteSession th)"
  "preserves (on_db (enabled_admin b)) (Session now th)"
  unfolding CreateSession_def DeleteSession_def Session_def
  by (intro act_rules keeps_admin_stmt; auto split: sum.splits if_splits)+

lemma other_methods_keep_admin:
  "preserves (on_db (enabled_admin b)) (SetSetting E now n a k v enc remote)"
  "preserves (on_db (enabled_admin b)) (SetWorkspaceState E now a i st remote restart)"
  "preserves (on_db (enabled_admin b)) (DeleteWorkspaceDataRecord E now a i remote)"
  "preserves (on_db (enabled_admin b)) (TouchWorkspace E now i)"
  "preserves (on_db (enabled_admin b)) (IdleWorkspaces now before)"
  unfolding SetSetting_def SetWorkspaceState_def DeleteWorkspaceDataRecord_def TouchWorkspace_def IdleWorkspaces_def
  by (intro act_rules audit_keeps_admin keeps_admin_stmt; auto dest: sql_users_frame)+

section \<open>Workspaces keep their names\<close>

text \<open>\<open>named u n d\<close>: the workspace of the account \<open>u\<close> has the resource name \<open>n\<close>.\<close>

definition named :: "string \<Rightarrow> string \<Rightarrow> db \<Rightarrow> bool" where
  "named u n d \<longleftrightarrow> map_option w_resource_name (find (\<lambda>r. w_user_id r = u) (workspaces d)) = Some n"

lemma named_same: "workspaces d' = workspaces d \<Longrightarrow> named u n d' = named u n d"
  by (simp add: named_def)

lemma find_named_update:
  assumes "\<And>r. P r \<Longrightarrow> w_user_id (f r) = w_user_id r \<and> w_resource_name (f r) = w_resource_name r"
  shows "map_option w_resource_name (find (\<lambda>r. w_user_id r = u) (update_where P f ws))
     = map_option w_resource_name (find (\<lambda>r. w_user_id r = u) ws)"
  using assms by (induction ws) (auto simp: update_where_def)

lemma find_named_replace:
  assumes "find (\<lambda>r. w_user_id r = v) ws = Some r0" "w_user_id r1 = w_user_id r0" "w_resource_name r1 = w_resource_name r0"
  shows "map_option w_resource_name (find (\<lambda>r. w_user_id r = u) (update_where (\<lambda>r. w_user_id r = v) (\<lambda>_. r1) ws))
     = map_option w_resource_name (find (\<lambda>r. w_user_id r = u) ws)"
proof (cases "u = v")
  case True
  have "w_user_id r0 = v" "matches (\<lambda>r. w_user_id r = v) ws" using find_Some_in [OF assms(1)] by (auto simp: matches_iff)
  with assms True show ?thesis by (simp add: find_update_const)
next
  case False
  have "w_user_id r0 = v" using find_Some_in [OF assms(1)] by simp
  with False assms(2) have "find (\<lambda>r. w_user_id r = u) (update_where (\<lambda>r. w_user_id r = v) (\<lambda>_. r1) ws) = find (\<lambda>r. w_user_id r = u) ws"
    by (intro find_update_other) auto
  then show ?thesis by simp
qed

lemma named_statements:
  "sql_insert_user E now i un dn m rol d = Inr (x1, d') \<Longrightarrow> workspaces d' = workspaces d"
  "sql_insert_credential E now i h d = Inr (x2, d') \<Longrightarrow> workspaces d' = workspaces d"
  "sql_insert_identity E now iss sub i mail d = Inr (x3, d') \<Longrightarrow> workspaces d' = workspaces d"
  "sql_upsert_setting E now a k v enc d = Inr (x4, d') \<Longrightarrow> workspaces d' = workspaces d"
  "sql_upsert_configuration E now i c k d = Inr (x5, d') \<Longrightarrow> workspaces d' = workspaces d"
  "sql_update_user E now i dn m rol dis d = Inr (x6, d') \<Longrightarrow> workspaces d' = workspaces d"
  "sql_upsert_credential E now i h d = Inr (x7, d') \<Longrightarrow> workspaces d' = workspaces d"
  "sql_update_profile E now i inp d = Inr (x8, d') \<Longrightarrow> workspaces d' = workspaces d"
  "sql_disable_user E now i d = Inr (x9, d') \<Longrightarrow> workspaces d' = workspaces d"
  by (auto simp: sql_insert_user_def sql_insert_credential_def sql_insert_identity_def sql_upsert_setting_def
      sql_upsert_configuration_def sql_update_user_def sql_upsert_credential_def sql_update_profile_def sql_disable_user_def Let_def
      split: sum.splits if_splits option.splits)

lemma named_insert:
  "named u n d \<Longrightarrow> sql_insert_workspace E now i w d = Inr (x, d') \<Longrightarrow> named u n d'"
  by (auto simp: named_def sql_insert_workspace_def find_append split: sum.splits if_splits option.splits)

lemma named_update:
  assumes "named u n d" "sql_update_workspace E i f d = Inr (x, d')"
    and "\<And>r r'. f r = Inr r' \<Longrightarrow> w_user_id r' = w_user_id r \<and> w_resource_name r' = w_resource_name r"
  shows "named u n d'"
  using assms(2)
proof (cases rule: sql_update_workspace_E)
  case (one v r0 r1)
  with assms(3) [of r0 r1] find_named_replace [of v "workspaces d" r0 r1 u] assms(1) show ?thesis by (simp add: named_def)
qed (use assms(1) in simp)

lemma keeps_named_stmt:
  "(\<And>d x d'. f d = Inr (x, d') \<Longrightarrow> workspaces d' = workspaces d) \<Longrightarrow> preserves (on_db (named u n)) (stmt f)"
  by (rule preserves_stmt) (metis named_same)

lemma audit_keeps_named: "preserves (on_db (named u n)) (audit E now a act ty tid det remote)"
  by (rule audit_frame) (simp add: named_def)

lemma insertUser_keeps_named: "preserves (on_db (named u n)) (insertUser E now i un dn m rol h)"
  unfolding insertUser_def
  by (intro act_rules keeps_named_stmt) (auto dest: named_statements named_insert)

lemma accounts_keep_named:
  "preserves (on_db (named u n)) (CreateLocalUser E now i a un dn m rol h remote)"
  "preserves (on_db (named u n)) (BootstrapAdmin E now i un dn m h)"
  "preserves (on_db (named u n)) (ProvisionOIDCUser E now i iss sub un dn m rol remote)"
  "preserves (on_db (named u n)) (LinkOIDCUserByEmail E now iss sub m remote)"
  "preserves (on_db (named u n)) (RecordLogin E now i)"
  "preserves (on_db (named u n)) (UpdateUser E now a i dn m rol dis h remote)"
  "preserves (on_db (named u n)) (ProvisionUser E now i a inp)"
  "preserves (on_db (named u n)) (SetWorkspaceConfiguration E now n1 n2 a i doc k)"
  unfolding CreateLocalUser_def BootstrapAdmin_def ProvisionOIDCUser_def LinkOIDCUserByEmail_def RecordLogin_def UpdateUser_def
    ProvisionUser_def SetWorkspaceConfiguration_def
  by (intro act_rules store_inv insertUser_keeps_named audit_keeps_named keeps_named_stmt; auto dest: named_statements split: sum.splits)+

lemma sessions_keep_named:
  "preserves (on_db (named u n)) (CreateSession E now th ch i ua remote expires)"
  "preserves (on_db (named u n)) (DeleteSession th)"
  "preserves (on_db (named u n)) (Session now th)"
  unfolding CreateSession_def DeleteSession_def Session_def
  by (intro act_rules keeps_named_stmt; auto split: sum.splits if_splits)+

lemma row_updates_keep:
  "set_state now st r = Inr r' \<Longrightarrow> w_user_id r' = w_user_id r \<and> w_resource_name r' = w_resource_name r"
  "set_restart now r = Inr r' \<Longrightarrow> w_user_id r' = w_user_id r \<and> w_resource_name r' = w_resource_name r"
  "set_purged now r = Inr r' \<Longrightarrow> w_user_id r' = w_user_id r \<and> w_resource_name r' = w_resource_name r"
  "set_touched now r = Inr r' \<Longrightarrow> w_user_id r' = w_user_id r \<and> w_resource_name r' = w_resource_name r"
  by (auto simp: set_state_def set_restart_def set_purged_def set_touched_def split: if_splits)

lemma update_keeps_named:
  "(\<And>r r'. f r = Inr r' \<Longrightarrow> w_user_id r' = w_user_id r \<and> w_resource_name r' = w_resource_name r) \<Longrightarrow>
   preserves (on_db (named u n)) (stmt (sql_update_workspace E i f))"
  by (rule preserves_stmt) (rule named_update)

lemma workspaces_keep_named:
  "preserves (on_db (named u n)) (SetSetting E now n0 a k v enc remote)"
  "preserves (on_db (named u n)) (SetWorkspaceState E now a i st remote restart)"
  "preserves (on_db (named u n)) (DeleteWorkspaceDataRecord E now a i remote)"
  "preserves (on_db (named u n)) (TouchWorkspace E now i)"
  "preserves (on_db (named u n)) (IdleWorkspaces now before)"
proof -
  show "preserves (on_db (named u n)) (SetSetting E now n0 a k v enc remote)"
    unfolding SetSetting_def by (intro act_rules audit_keeps_named keeps_named_stmt) (rule named_statements)
  show "preserves (on_db (named u n)) (SetWorkspaceState E now a i st remote restart)"
    unfolding SetWorkspaceState_def by (intro act_rules audit_keeps_named update_keeps_named) (auto dest: row_updates_keep split: if_splits)
  show "preserves (on_db (named u n)) (DeleteWorkspaceDataRecord E now a i remote)"
    unfolding DeleteWorkspaceDataRecord_def by (intro act_rules audit_keeps_named update_keeps_named row_updates_keep)
  show "preserves (on_db (named u n)) (TouchWorkspace E now i)"
    unfolding TouchWorkspace_def by (intro act_rules update_keeps_named row_updates_keep)
  show "preserves (on_db (named u n)) (IdleWorkspaces now before)"
    unfolding IdleWorkspaces_def
    by (rule preserves_stmt) (auto simp: named_def simp del: map_option_eq_Some simp: find_named_update)
qed

section \<open>Invariants of the database\<close>

locale store_invariant =
  fixes E :: env and J :: "db \<Rightarrow> bool"
  assumes accounts:
      "preserves (on_db J) (CreateLocalUser E now uid a un dn m rol h remote)"
      "preserves (on_db J) (BootstrapAdmin E now uid un dn m h)"
      "preserves (on_db J) (ProvisionOIDCUser E now uid iss sub un dn m rol remote)"
      "preserves (on_db J) (LinkOIDCUserByEmail E now iss sub m remote)"
      "preserves (on_db J) (RecordLogin E now i)"
    and sessions:
      "preserves (on_db J) (CreateSession E now th ch i ua remote expires)"
      "preserves (on_db J) (DeleteSession th)"
      "preserves (on_db J) (Session now th)"
    and others:
      "preserves (on_db J) (SetSetting E now n a k v enc remote)"
      "preserves (on_db J) (SetWorkspaceState E now a i st remote restart)"
      "preserves (on_db J) (DeleteWorkspaceDataRecord E now a i remote)"
      "preserves (on_db J) (TouchWorkspace E now i)"
      "preserves (on_db J) (IdleWorkspaces now before)"

interpretation admins: store_invariant E "enabled_admin b" for E b
  by unfold_locales (rule account_methods_keep_admin RecordLogin_keeps_admin session_methods_keep_admin other_methods_keep_admin)+

interpretation names: store_invariant E "named u n" for E u n
  by unfold_locales (rule accounts_keep_named sessions_keep_named workspaces_keep_named)+

lemma preserves_when: "(C \<Longrightarrow> preserves (on_db J) m) \<Longrightarrow> preserves (on_db (\<lambda>d. C \<longrightarrow> J d)) m"
  by (auto simp: preserves_def on_db_def)

interpretation wellformed: store_invariant E "\<lambda>d. uuid_ok E \<longrightarrow> db_inv E d" for E
  by unfold_locales (rule preserves_when, rule store_inv, assumption?)+

end
