(* ===== verification/KubeLaws.thy ===== *)
theory KubeLaws
  imports Controller
begin

text \<open>
  What the controller relies on in the Kubernetes API, as the hypothesis \<open>kube_ok\<close> over views of the
  cluster: what each call may change, and what it must have done when it reports success. Failing
  calls may have taken effect (a lost answer), a deleted object may stay for a while (finalizers), and
  the server may fill in the resource version and the status. \<open>demo_api\<close> is an API that satisfies it.
\<close>

type_synonym 'o objects = "string \<times> string \<rightharpoonup> 'o"

record 'k views =
  vw_PVCs :: "'k \<Rightarrow> pvc objects"
  vw_Secrets :: "'k \<Rightarrow> secret objects"
  vw_Services :: "'k \<Rightarrow> service objects"
  vw_Deployments :: "'k \<Rightarrow> deployment objects"
  vw_Pods :: "'k \<Rightarrow> string \<Rightarrow> pod list"

text \<open>The stored object is the object sent, up to the resource version.\<close>

definition meta_agrees :: "object_meta \<Rightarrow> object_meta \<Rightarrow> bool" where
  "meta_agrees a b \<longleftrightarrow> om_Name b = om_Name a \<and> om_Namespace b = om_Namespace a \<and> om_Labels b = om_Labels a
     \<and> om_Annotations b = om_Annotations a \<and> om_OwnerReferences b = om_OwnerReferences a"

definition pvc_agrees :: "pvc \<Rightarrow> pvc \<Rightarrow> bool" where
  "pvc_agrees a b \<longleftrightarrow> meta_agrees (pvc_Meta a) (pvc_Meta b) \<and> pvc_AccessModes b = pvc_AccessModes a
     \<and> pvc_StorageClassName b = pvc_StorageClassName a \<and> pvc_StorageRequest b = pvc_StorageRequest a"

definition secret_agrees :: "secret \<Rightarrow> secret \<Rightarrow> bool" where
  "secret_agrees a b \<longleftrightarrow> meta_agrees (sc_Meta a) (sc_Meta b) \<and> sc_Type b = sc_Type a \<and> sc_Data b = sc_Data a"

definition service_agrees :: "service \<Rightarrow> service \<Rightarrow> bool" where
  "service_agrees a b \<longleftrightarrow> meta_agrees (sv_Meta a) (sv_Meta b) \<and> sv_Selector b = sv_Selector a \<and> sv_Ports b = sv_Ports a"

definition deployment_agrees :: "deployment \<Rightarrow> deployment \<Rightarrow> bool" where
  "deployment_agrees a b \<longleftrightarrow> meta_agrees (dp_Meta a) (dp_Meta b) \<and> dp_Replicas b = dp_Replicas a
     \<and> dp_Strategy b = dp_Strategy a \<and> dp_Selector b = dp_Selector a \<and> dp_Template b = dp_Template a"

text \<open>\<open>stores agrees v x o v'\<close>: \<open>v'\<close> is \<open>v\<close> with an object that agrees with \<open>o\<close> at \<open>x\<close>.\<close>

definition stores :: "('o \<Rightarrow> 'o \<Rightarrow> bool) \<Rightarrow> 'o objects \<Rightarrow> string \<times> string \<Rightarrow> 'o \<Rightarrow> 'o objects \<Rightarrow> bool" where
  "stores agrees v x ob v' \<longleftrightarrow> (\<exists>q. agrees ob q \<and> v' = v(x \<mapsto> q))"

definition get_ok :: "('o \<Rightarrow> string) \<Rightarrow> ('k \<Rightarrow> 'o objects) \<Rightarrow> string \<times> string \<Rightarrow> 'k \<Rightarrow> kube_error + 'o \<Rightarrow> 'k \<Rightarrow> bool" where
  "get_ok name view x k r k' \<longleftrightarrow> view k' = view k
     \<and> (case r of Inr q \<Rightarrow> view k x = Some q \<and> name q = snd x | Inl e \<Rightarrow> e = KNotFound \<longrightarrow> view k x = None)"

definition create_ok :: "('o \<Rightarrow> 'o \<Rightarrow> bool) \<Rightarrow> ('k \<Rightarrow> 'o objects) \<Rightarrow> string \<times> string \<Rightarrow> 'o \<Rightarrow> 'k
    \<Rightarrow> kube_error + unit \<Rightarrow> 'k \<Rightarrow> bool" where
  "create_ok agrees view x ob k r k' \<longleftrightarrow>
     view k' = view k \<and> r \<noteq> Inr () \<or> view k x = None \<and> stores agrees (view k) x ob (view k')"

definition update_ok :: "('o \<Rightarrow> 'o \<Rightarrow> bool) \<Rightarrow> ('k \<Rightarrow> 'o objects) \<Rightarrow> string \<times> string \<Rightarrow> 'o \<Rightarrow> 'k
    \<Rightarrow> kube_error + unit \<Rightarrow> 'k \<Rightarrow> bool" where
  "update_ok agrees view x ob k r k' \<longleftrightarrow> view k' = view k \<and> r \<noteq> Inr () \<or> stores agrees (view k) x ob (view k')"

definition delete_ok :: "('k \<Rightarrow> 'o objects) \<Rightarrow> string \<times> string \<Rightarrow> 'k \<Rightarrow> 'k \<Rightarrow> bool" where
  "delete_ok view x k k' \<longleftrightarrow> view k' = view k \<or> view k' = (view k)(x := None)"

definition client_ok :: "('k, 'o) client \<Rightarrow> ('k \<Rightarrow> 'o objects) \<Rightarrow> ('o \<Rightarrow> string) \<Rightarrow> ('o \<Rightarrow> 'o \<Rightarrow> bool)
    \<Rightarrow> ('k \<Rightarrow> 'k \<Rightarrow> bool) \<Rightarrow> bool" where
  "client_ok cl view name agrees others \<longleftrightarrow>
     (\<forall>n x k r k'. cl_Get cl n x k = (r, k') \<longrightarrow> others k k' \<and> get_ok name view (n, x) k r k')
   \<and> (\<forall>n ob k r k'. cl_Create cl n ob k = (r, k') \<longrightarrow> others k k' \<and> create_ok agrees view (n, name ob) ob k r k')
   \<and> (\<forall>n ob k r k'. cl_Update cl n ob k = (r, k') \<longrightarrow> others k k' \<and> update_ok agrees view (n, name ob) ob k r k')
   \<and> (\<forall>n x k r k'. cl_Delete cl n x k = (r, k') \<longrightarrow> others k k' \<and> delete_ok view (n, x) k k')
   \<and> (\<forall>n sel k r k'. cl_List cl n sel k = (r, k') \<longrightarrow> others k k' \<and> view k' = view k)"

definition selected :: "(string \<times> string) list \<Rightarrow> (string \<rightharpoonup> string) \<Rightarrow> bool" where
  "selected sel labels \<longleftrightarrow> (\<forall>(k, v) \<in> set sel. labels k = Some v)"

definition pods_ok :: "('k, pod) client \<Rightarrow> ('k \<Rightarrow> string \<Rightarrow> pod list) \<Rightarrow> ('k \<Rightarrow> 'k \<Rightarrow> bool) \<Rightarrow> bool" where
  "pods_ok cl pods others \<longleftrightarrow> (\<forall>n sel k r k'. cl_List cl n sel k = (r, k') \<longrightarrow> others k k' \<and> pods k' = pods k
     \<and> (\<forall>ps. r = Inr ps \<longrightarrow> ps = filter (\<lambda>p. selected sel (pd_Labels p)) (pods k n)))"

text \<open>A list of deployments holds exactly the selected ones, each once, under its name.\<close>

definition lists_deployments :: "('k, deployment) client \<Rightarrow> ('k \<Rightarrow> deployment objects) \<Rightarrow> bool" where
  "lists_deployments cl view \<longleftrightarrow>
     (\<forall>n sel k ds k'. cl_List cl n sel k = (Inr ds, k') \<longrightarrow> distinct (map (\<lambda>d. om_Name (dp_Meta d)) ds)
        \<and> (\<forall>d. d \<in> set ds \<longleftrightarrow> view k (n, om_Name (dp_Meta d)) = Some d \<and> selected sel (om_Labels (dp_Meta d))))"

definition kube_ok :: "'k kube_api \<Rightarrow> 'k views \<Rightarrow> bool" where
  "kube_ok K V \<longleftrightarrow>
     client_ok (ka_PVCs K) (vw_PVCs V) (\<lambda>x. om_Name (pvc_Meta x)) pvc_agrees
       (\<lambda>k k'. vw_Secrets V k' = vw_Secrets V k \<and> vw_Services V k' = vw_Services V k
          \<and> vw_Deployments V k' = vw_Deployments V k \<and> vw_Pods V k' = vw_Pods V k)
   \<and> client_ok (ka_Secrets K) (vw_Secrets V) (\<lambda>x. om_Name (sc_Meta x)) secret_agrees
       (\<lambda>k k'. vw_PVCs V k' = vw_PVCs V k \<and> vw_Services V k' = vw_Services V k
          \<and> vw_Deployments V k' = vw_Deployments V k \<and> vw_Pods V k' = vw_Pods V k)
   \<and> client_ok (ka_Services K) (vw_Services V) (\<lambda>x. om_Name (sv_Meta x)) service_agrees
       (\<lambda>k k'. vw_PVCs V k' = vw_PVCs V k \<and> vw_Secrets V k' = vw_Secrets V k
          \<and> vw_Deployments V k' = vw_Deployments V k \<and> vw_Pods V k' = vw_Pods V k)
   \<and> client_ok (ka_Deployments K) (vw_Deployments V) (\<lambda>x. om_Name (dp_Meta x)) deployment_agrees
       (\<lambda>k k'. vw_PVCs V k' = vw_PVCs V k \<and> vw_Secrets V k' = vw_Secrets V k
          \<and> vw_Services V k' = vw_Services V k \<and> vw_Pods V k' = vw_Pods V k)
   \<and> pods_ok (ka_Pods K) (vw_Pods V)
       (\<lambda>k k'. vw_PVCs V k' = vw_PVCs V k \<and> vw_Secrets V k' = vw_Secrets V k
          \<and> vw_Services V k' = vw_Services V k \<and> vw_Deployments V k' = vw_Deployments V k)
   \<and> lists_deployments (ka_Deployments K) (vw_Deployments V)"

lemma client_okD:
  assumes "client_ok cl view name agrees others"
  shows "cl_Get cl n x k = (g, k') \<Longrightarrow> others k k' \<and> get_ok name view (n, x) k g k'"
    and "cl_Create cl n ob k = (r, k') \<Longrightarrow> others k k' \<and> create_ok agrees view (n, name ob) ob k r k'"
    and "cl_Update cl n ob k = (r, k') \<Longrightarrow> others k k' \<and> update_ok agrees view (n, name ob) ob k r k'"
    and "cl_Delete cl n x k = (r, k') \<Longrightarrow> others k k' \<and> delete_ok view (n, x) k k'"
    and "cl_List cl n sel k = (l, k') \<Longrightarrow> others k k' \<and> view k' = view k"
  using assms by (simp_all add: client_ok_def)

section \<open>Running controller actions\<close>

lemma on_kube_run: "on_kube m (s, k) = (case m k of (Inl e, k') \<Rightarrow> (Inl (KubeError e), (s, k')) | (Inr x, k') \<Rightarrow> (Inr x, (s, k')))"
  by (auto simp: on_kube_def within_def mapErr_def split: prod.splits sum.splits)

lemma on_store_run: "on_store m (s, k) = (case m s of (Inl e, s') \<Rightarrow> (Inl (StoreError e), (s', k)) | (Inr x, s') \<Rightarrow> (Inr x, (s', k)))"
  by (auto simp: on_store_def within_def mapErr_def split: prod.splits sum.splits)

lemma andThen_cases:
  assumes "andThen m f p = (r, q)"
  obtains (stopped) e where "m p = (Inl e, q)" "r = Inl e"
  | (went_on) x p' where "m p = (Inr x, p')" "f x p' = (r, q)"
  using assms by (auto simp: andThen_def split: prod.splits sum.splits)

text \<open>A \<open>Get\<close> whose error is inspected.\<close>

lemma get_cases:
  assumes ok: "client_ok cl view name agrees others"
    and run: "andThen (attempt (on_kube (cl_Get cl n x))) f (s, k) = (r, q)"
  obtains (found) ob k1 where "view k (n, x) = Some ob" "name ob = x" "others k k1" "view k1 = view k" "f (Inr ob) (s, k1) = (r, q)"
  | (absent) k1 where "view k (n, x) = None" "others k k1" "view k1 = view k"
      "f (Inl (KubeError KNotFound)) (s, k1) = (r, q)"
  | (failed) e k1 where "e \<noteq> KNotFound" "others k k1" "view k1 = view k"
      "f (Inl (KubeError e)) (s, k1) = (r, q)"
proof -
  obtain res k1 where g: "cl_Get cl n x k = (res, k1)" by (cases "cl_Get cl n x k")
  note law = client_okD(1) [OF ok g]
  show thesis
  proof (cases res)
    case (Inr ob)
    have "f (Inr ob) (s, k1) = (r, q)" using g run Inr by (simp add: andThen_def attempt_apply on_kube_run)
    moreover have "view k (n, x) = Some ob" "name ob = x" "others k k1" "view k1 = view k"
      using law Inr by (simp_all add: get_ok_def)
    ultimately show thesis by (rule found [rotated 4])
  next
    case (Inl e)
    have run1: "f (Inl (KubeError e)) (s, k1) = (r, q)" using g run Inl by (simp add: andThen_def attempt_apply on_kube_run)
    have fr: "others k k1" "view k1 = view k" "e = KNotFound \<longrightarrow> view k (n, x) = None"
      using law Inl by (simp_all add: get_ok_def)
    show thesis
    proof (cases "e = KNotFound")
      case True
      then show thesis using absent fr run1 by simp
    next
      case False
      then show thesis using failed fr run1 by simp
    qed
  qed
qed

lemma create_cases:
  assumes ok: "client_ok cl view name agrees others"
    and run: "on_kube (cl_Create cl n ob) (s, k) = (r, (s', k'))"
  shows "s' = s \<and> others k k'
     \<and> (view k' = view k \<and> r \<noteq> Inr () \<or> view k (n, name ob) = None \<and> stores agrees (view k) (n, name ob) ob (view k'))"
proof -
  obtain res k1 where c: "cl_Create cl n ob k = (res, k1)" by (cases "cl_Create cl n ob k")
  with run have "s' = s" "k' = k1" "r = Inr () \<longleftrightarrow> res = Inr ()"
    by (auto simp: on_kube_run split: sum.splits)
  with client_okD(2) [OF ok c] show ?thesis by (simp add: create_ok_def)
qed

lemma update_cases:
  assumes ok: "client_ok cl view name agrees others"
    and run: "on_kube (cl_Update cl n ob) (s, k) = (r, (s', k'))"
  shows "s' = s \<and> others k k'
     \<and> (view k' = view k \<and> r \<noteq> Inr () \<or> stores agrees (view k) (n, name ob) ob (view k'))"
proof -
  obtain res k1 where c: "cl_Update cl n ob k = (res, k1)" by (cases "cl_Update cl n ob k")
  with run have "s' = s" "k' = k1" "r = Inr () \<longleftrightarrow> res = Inr ()"
    by (auto simp: on_kube_run split: sum.splits)
  with client_okD(3) [OF ok c] show ?thesis by (simp add: update_ok_def)
qed

end
