(* ===== verification/Ensure.thy ===== *)
theory Ensure
  imports KubeLaws
begin

text \<open>
  The contract of the four \<open>ensure\<close> operations, as a locale: each works on one kind of object, leaves
  the store's data and the other kinds alone, moves its own kind only in the allowed ways whatever
  fails, and reaches its goal when it reports success. \<open>Reconcile\<close> is the composition of the four.
\<close>

section \<open>The contract\<close>

locale ensure_step =
  fixes env_ok :: bool
    and step :: "('k, unit) ctl"
    and view :: "'k \<Rightarrow> 'o objects"
    and rest :: "'k \<Rightarrow> 'r"
    and moves :: "db \<Rightarrow> 'o objects \<Rightarrow> 'o objects \<Rightarrow> bool"
    and goal :: "db \<Rightarrow> 'o objects \<Rightarrow> bool"
  assumes frame: "env_ok \<Longrightarrow> step (s, k) = (r, (s', k')) \<Longrightarrow> db s' = db s \<and> rest k' = rest k"
    and moves: "env_ok \<Longrightarrow> step (s, k) = (r, (s', k')) \<Longrightarrow> moves (db s) (view k) (view k')"
    and goal: "env_ok \<Longrightarrow> step (s, k) = (Inr (), (s', k')) \<Longrightarrow> goal (db s) (view k')"
    and still: "env_ok \<Longrightarrow> moves d v v"
begin

text \<open>The step followed by more work: either it stopped with an error after a permitted move, or the
  goal holds and the rest runs from a state that differs in this kind only.\<close>

lemma then_cases:
  assumes "env_ok" and "andThen step (\<lambda>_. m) (s, k) = (r, (s', k'))"
  obtains (stopped) e where "r = Inl e" "db s' = db s" "rest k' = rest k" "moves (db s) (view k) (view k')"
  | (went_on) s1 k1 where "m (s1, k1) = (r, (s', k'))" "db s1 = db s" "rest k1 = rest k"
      "moves (db s) (view k) (view k1)" "goal (db s) (view k1)"
  using assms(2)
proof (cases rule: andThen_cases)
  case (stopped e)
  then show thesis using that(1) frame [OF assms(1)] moves [OF assms(1)] by blast
next
  case (went_on x p)
  obtain s1 k1 where p: "p = (s1, k1)" by (cases p)
  from went_on(1) have run: "step (s, k) = (Inr (), (s1, k1))" by (simp add: p)
  show thesis
    using that(2) [of s1 k1] went_on(2) frame [OF assms(1) run] moves [OF assms(1) run] goal [OF assms(1) run]
    by (simp add: p)
qed

end

section \<open>The configuration that a database holds\<close>

definition quiet_store :: "db \<Rightarrow> store" where
  "quiet_store d = \<lparr>db = d, audit_seq = 0, faults = []\<rparr>"

definition configuration_in :: "env \<Rightarrow> db \<Rightarrow> string \<Rightarrow> workspace_configuration option" where
  "configuration_in E d i = (case fst (WorkspaceConfiguration E i (quiet_store d)) of Inr c \<Rightarrow> Some c | Inl _ \<Rightarrow> None)"

lemma andThen_lift: "andThen (lift r) f = (case r of Inl e \<Rightarrow> throw e | Inr x \<Rightarrow> f x)"
  by (cases r) simp_all

text \<open>A read followed by a pure computation.\<close>

lemma fetch_then_pure:
  assumes run: "andThen (fetch f) m s = (r, t)" and pure: "\<And>x s. m x s = (h x, s)"
  shows "db t = db s \<and> (r = Inl Unavailable \<or> r = (case f (db s) of Inl e \<Rightarrow> Inl e | Inr x \<Rightarrow> h x))"
proof (cases rule: fetch_total [of f s])
  case (bad s1)
  with run show ?thesis by (auto simp: andThen_def)
next
  case (good s1)
  with run pure show ?thesis by (auto simp: andThen_def split: sum.splits)
qed

lemma WorkspaceConfiguration_shape:
  obtains f and m :: "config_row \<Rightarrow> workspace_configuration query"
  where "WorkspaceConfiguration E i = andThen (fetch (\<lambda>d. f (configurations d))) m" "\<And>x s t. m x s = (fst (m x t), s)"
proof
  show "WorkspaceConfiguration E i = andThen (fetch (\<lambda>d. (\<lambda>cs. case uuid_arg E i of Inl e \<Rightarrow> Inl e
        | Inr u \<Rightarrow> (case find (\<lambda>c. f_user_id c = u) cs of None \<Rightarrow> Inl ErrNotFound | Some c \<Rightarrow> Inr c)) (configurations d)))
     (\<lambda>c. andThen (lift (decrypt E (f_opencode_json c))) (\<lambda>doc.
     andThen (lift (decrypt E (f_api_key c))) (\<lambda>key.
     ret \<lparr>wc_OpenCodeJSON = doc, wc_APIKey = key, wc_Revision = f_revision c\<rparr>)))"
    by (simp add: WorkspaceConfiguration_def)
qed (auto simp: andThen_lift split: sum.splits)

lemma WorkspaceConfiguration_quiet:
  assumes "faults s = []"
  shows "WorkspaceConfiguration E i s = (fst (WorkspaceConfiguration E i (quiet_store (db s))), s)"
proof -
  obtain f and m :: "config_row \<Rightarrow> workspace_configuration query"
    where run: "WorkspaceConfiguration E i = andThen (fetch (\<lambda>d. f (configurations d))) m" and pure: "\<And>x s t. m x s = (fst (m x t), s)"
    using WorkspaceConfiguration_shape [of E i] by blast
  show ?thesis
  proof (cases "f (configurations (db s))")
    case (Inr x)
    with assms pure [of x s "quiet_store (db s)"] show ?thesis
      by (simp add: run andThen_def fetch_no_faults quiet_store_def)
  qed (use assms in \<open>simp add: run andThen_def fetch_no_faults quiet_store_def\<close>)
qed

lemma WorkspaceConfiguration_cong:
  assumes "configurations d' = configurations d"
  shows "fst (WorkspaceConfiguration E i (quiet_store d')) = fst (WorkspaceConfiguration E i (quiet_store d))"
proof -
  obtain f and m :: "config_row \<Rightarrow> workspace_configuration query"
    where run: "WorkspaceConfiguration E i = andThen (fetch (\<lambda>d. f (configurations d))) m" and pure: "\<And>x s t. m x s = (fst (m x t), s)"
    using WorkspaceConfiguration_shape [of E i] by blast
  show ?thesis
  proof (cases "f (configurations d)")
    case (Inr x)
    with assms pure [of x "quiet_store d'" "quiet_store d"] show ?thesis
      by (simp add: run andThen_def fetch_no_faults quiet_store_def)
  qed (use assms in \<open>simp add: run andThen_def fetch_no_faults quiet_store_def\<close>)
qed

lemma WorkspaceConfiguration_result:
  assumes "WorkspaceConfiguration E i s = (r, t)"
  shows "db t = db s \<and> (r = Inl Unavailable \<or> r = fst (WorkspaceConfiguration E i (quiet_store (db s))))"
proof -
  obtain f and m :: "config_row \<Rightarrow> workspace_configuration query"
    where run: "WorkspaceConfiguration E i = andThen (fetch (\<lambda>d. f (configurations d))) m" and pure: "\<And>x s t. m x s = (fst (m x t), s)"
    using WorkspaceConfiguration_shape [of E i] by blast
  have "fst (andThen (fetch (\<lambda>d. f (configurations d))) m (quiet_store (db s)))
      = (case f (configurations (db s)) of Inl e \<Rightarrow> Inl e | Inr x \<Rightarrow> fst (m x (quiet_store (db s))))"
    by (simp add: andThen_def fetch_no_faults quiet_store_def split: sum.splits)
  with fetch_then_pure [OF assms [unfolded run], of "\<lambda>x. fst (m x (quiet_store (db s)))"] pure show ?thesis
    unfolding run by simp
qed

lemma read_configuration_cases:
  assumes "read_configuration E w (s, k) = (r, (s', k'))"
  shows "db s' = db s \<and> k' = k \<and> (\<forall>cfg. r = Inr cfg \<longrightarrow> cfg = configuration_in E (db s) (ws_UserID w))"
proof -
  obtain res t where wc: "WorkspaceConfiguration E (ws_UserID w) s = (res, t)"
    by (cases "WorkspaceConfiguration E (ws_UserID w) s")
  note result = WorkspaceConfiguration_result [OF wc]
  from assms wc have "s' = t" "k' = k"
    by (auto simp: read_configuration_def andThen_def attempt_apply on_store_run split: sum.splits if_splits)
  moreover have "cfg = configuration_in E (db s) (ws_UserID w)" if "r = Inr cfg" for cfg
    using assms wc result that
    by (auto simp: read_configuration_def andThen_def attempt_apply on_store_run configuration_in_def
        split: sum.splits if_splits)
  ultimately show ?thesis using result by simp
qed

section \<open>The four operations\<close>

lemma show_nat_ne [simp]: "show_nat n \<noteq> []"
  by (subst show_nat.simps) simp

lemma revision_text_ne: "revision_text cfg \<noteq> []"
  by (cases cfg) (simp_all add: revision_text_def show_int_def)

definition pvc_moves :: "controller \<Rightarrow> workspace \<Rightarrow> db \<Rightarrow> pvc objects \<Rightarrow> pvc objects \<Rightarrow> bool" where
  "pvc_moves C w d v v' \<longleftrightarrow> v' = v \<or> v (namespace C, ws_ResourceName w) = None
     \<and> stores pvc_agrees v (namespace C, ws_ResourceName w) (new_pvc C w) v'"

definition secret_moves :: "env \<Rightarrow> controller \<Rightarrow> workspace \<Rightarrow> db \<Rightarrow> secret objects \<Rightarrow> secret objects \<Rightarrow> bool" where
  "secret_moves E C w d v v' \<longleftrightarrow> v' = v
     \<or> v (namespace C, auth_name w) = None
       \<and> (\<exists>pw. stores secret_agrees v (namespace C, auth_name w) (new_secret C w (configuration_in E d (ws_UserID w)) pw) v')
     \<or> (\<exists>cur. v (namespace C, auth_name w) = Some cur
       \<and> stores secret_agrees v (namespace C, auth_name w) (updated_secret (configuration_in E d (ws_UserID w)) cur) v')"

definition service_moves :: "controller \<Rightarrow> workspace \<Rightarrow> db \<Rightarrow> service objects \<Rightarrow> service objects \<Rightarrow> bool" where
  "service_moves C w d v v' \<longleftrightarrow> v' = v \<or> v (namespace C, ws_ResourceName w) = None
     \<and> stores service_agrees v (namespace C, ws_ResourceName w) (new_service C w) v'"

definition deployment_moves :: "controller \<Rightarrow> workspace \<Rightarrow> db \<Rightarrow> deployment objects \<Rightarrow> deployment objects \<Rightarrow> bool" where
  "deployment_moves C w d v v' \<longleftrightarrow> v' = v
     \<or> stores deployment_agrees v (namespace C, ws_ResourceName w) (new_deployment C w) v'"

definition pvc_goal :: "controller \<Rightarrow> workspace \<Rightarrow> db \<Rightarrow> pvc objects \<Rightarrow> bool" where
  "pvc_goal C w d v \<longleftrightarrow> v (namespace C, ws_ResourceName w) \<noteq> None"

definition secret_goal :: "env \<Rightarrow> controller \<Rightarrow> workspace \<Rightarrow> db \<Rightarrow> secret objects \<Rightarrow> bool" where
  "secret_goal E C w d v \<longleftrightarrow> (\<exists>q. v (namespace C, auth_name w) = Some q
     \<and> om_Annotations (sc_Meta q) ann_revision = Some (revision_text (configuration_in E d (ws_UserID w))))"

definition service_goal :: "controller \<Rightarrow> workspace \<Rightarrow> db \<Rightarrow> service objects \<Rightarrow> bool" where
  "service_goal C w d v \<longleftrightarrow> v (namespace C, ws_ResourceName w) \<noteq> None"

definition deployment_goal :: "controller \<Rightarrow> workspace \<Rightarrow> db \<Rightarrow> deployment objects \<Rightarrow> bool" where
  "deployment_goal C w d v \<longleftrightarrow>
     (\<exists>q. v (namespace C, ws_ResourceName w) = Some q \<and> deployment_agrees (new_deployment C w) q)"

lemmas step_moves_defs = pvc_moves_def service_moves_def deployment_moves_def pvc_goal_def service_goal_def
  deployment_goal_def

lemma storesD: "stores agrees v x ob v' \<Longrightarrow> \<exists>q. v' x = Some q \<and> agrees ob q"
  by (auto simp: stores_def)

lemma names [simp]:
  "om_Name (pvc_Meta (new_pvc C w)) = ws_ResourceName w"
  "om_Name (sc_Meta (new_secret C w cfg pw)) = auth_name w"
  "om_Name (sv_Meta (new_service C w)) = ws_ResourceName w"
  "om_Name (dp_Meta (new_deployment C w)) = ws_ResourceName w"
  "om_Name (sc_Meta (updated_secret cfg q)) = om_Name (sc_Meta q)"
  by (simp_all add: new_pvc_def new_secret_def new_service_def new_deployment_def updated_secret_def meta_def)

lemma kube_okD:
  assumes "kube_ok K V"
  shows "client_ok (ka_PVCs K) (vw_PVCs V) (\<lambda>x. om_Name (pvc_Meta x)) pvc_agrees
       (\<lambda>k k'. vw_Secrets V k' = vw_Secrets V k \<and> vw_Services V k' = vw_Services V k
          \<and> vw_Deployments V k' = vw_Deployments V k \<and> vw_Pods V k' = vw_Pods V k)"
    and "client_ok (ka_Secrets K) (vw_Secrets V) (\<lambda>x. om_Name (sc_Meta x)) secret_agrees
       (\<lambda>k k'. vw_PVCs V k' = vw_PVCs V k \<and> vw_Services V k' = vw_Services V k
          \<and> vw_Deployments V k' = vw_Deployments V k \<and> vw_Pods V k' = vw_Pods V k)"
    and "client_ok (ka_Services K) (vw_Services V) (\<lambda>x. om_Name (sv_Meta x)) service_agrees
       (\<lambda>k k'. vw_PVCs V k' = vw_PVCs V k \<and> vw_Secrets V k' = vw_Secrets V k
          \<and> vw_Deployments V k' = vw_Deployments V k \<and> vw_Pods V k' = vw_Pods V k)"
    and "client_ok (ka_Deployments K) (vw_Deployments V) (\<lambda>x. om_Name (dp_Meta x)) deployment_agrees
       (\<lambda>k k'. vw_PVCs V k' = vw_PVCs V k \<and> vw_Secrets V k' = vw_Secrets V k
          \<and> vw_Services V k' = vw_Services V k \<and> vw_Pods V k' = vw_Pods V k)"
  using assms unfolding kube_ok_def by blast+

lemma ensurePVC_run:
  assumes ok: "kube_ok K V" and run: "ensurePVC K C w (s, k) = (r, (s', k'))"
  shows "s' = s \<and> vw_Secrets V k' = vw_Secrets V k \<and> vw_Services V k' = vw_Services V k
     \<and> vw_Deployments V k' = vw_Deployments V k \<and> vw_Pods V k' = vw_Pods V k
     \<and> pvc_moves C w d (vw_PVCs V k) (vw_PVCs V k') \<and> (r = Inr () \<longrightarrow> pvc_goal C w d (vw_PVCs V k'))"
proof -
  note cl = kube_okD(1) [OF ok]
  from run [unfolded ensurePVC_def] show ?thesis
  proof (cases rule: get_cases [OF cl, consumes 1, case_names found absent failed])
    case (found ob k1)
    then show ?thesis by (auto simp: step_moves_defs)
  next
    case (absent k1)
    then show ?thesis
      by (auto simp: step_moves_defs split: if_splits dest!: create_cases [OF cl] dest: storesD)
  next
    case (failed e k1)
    then show ?thesis by (auto simp: step_moves_defs)
  qed
qed

lemma ensureService_run:
  assumes ok: "kube_ok K V" and run: "ensureService K C w (s, k) = (r, (s', k'))"
  shows "s' = s \<and> vw_PVCs V k' = vw_PVCs V k \<and> vw_Secrets V k' = vw_Secrets V k
     \<and> vw_Deployments V k' = vw_Deployments V k \<and> vw_Pods V k' = vw_Pods V k
     \<and> service_moves C w d (vw_Services V k) (vw_Services V k') \<and> (r = Inr () \<longrightarrow> service_goal C w d (vw_Services V k'))"
proof -
  note cl = kube_okD(3) [OF ok]
  from run [unfolded ensureService_def] show ?thesis
  proof (cases rule: get_cases [OF cl, consumes 1, case_names found absent failed])
    case (found ob k1)
    then show ?thesis by (auto simp: step_moves_defs)
  next
    case (absent k1)
    then show ?thesis
      by (auto simp: step_moves_defs split: if_splits dest!: create_cases [OF cl] dest: storesD)
  next
    case (failed e k1)
    then show ?thesis by (auto simp: step_moves_defs)
  qed
qed

lemma deployment_agrees_version:
  "deployment_agrees (d\<lparr>dp_Meta := (dp_Meta d)\<lparr>om_ResourceVersion := v\<rparr>\<rparr>) = deployment_agrees d"
  by (simp add: fun_eq_iff deployment_agrees_def meta_agrees_def)

lemma stores_version:
  "stores deployment_agrees v x (d\<lparr>dp_Meta := (dp_Meta d)\<lparr>om_ResourceVersion := rv\<rparr>\<rparr>) = stores deployment_agrees v x d"
  by (simp add: stores_def fun_eq_iff deployment_agrees_version)

lemma ensureDeployment_run:
  assumes ok: "kube_ok K V" and run: "ensureDeployment K C w (s, k) = (r, (s', k'))"
  shows "s' = s \<and> vw_PVCs V k' = vw_PVCs V k \<and> vw_Secrets V k' = vw_Secrets V k
     \<and> vw_Services V k' = vw_Services V k \<and> vw_Pods V k' = vw_Pods V k
     \<and> deployment_moves C w d (vw_Deployments V k) (vw_Deployments V k')
     \<and> (r = Inr () \<longrightarrow> deployment_goal C w d (vw_Deployments V k'))"
proof (cases "list_all (ka_QuantityOk K) (quantities C)")
  case False
  with run show ?thesis by (auto simp: ensureDeployment_def step_moves_defs)
next
  case True
  note cl = kube_okD(4) [OF ok]
  from True run have "andThen (attempt (on_kube (cl_Get (ka_Deployments K) (namespace C) (ws_ResourceName w)))) (\<lambda>res. case res of
          Inl e \<Rightarrow>
            if e = KubeError KNotFound then on_kube (cl_Create (ka_Deployments K) (namespace C) (new_deployment C w)) else throw e
        | Inr current \<Rightarrow>
            on_kube (cl_Update (ka_Deployments K) (namespace C)
              ((new_deployment C w)\<lparr>dp_Meta := (dp_Meta (new_deployment C w))\<lparr>om_ResourceVersion := om_ResourceVersion (dp_Meta current)\<rparr>\<rparr>)))
     (s, k) = (r, (s', k'))"
    by (simp add: ensureDeployment_def Let_def)
  then show ?thesis
  proof (cases rule: get_cases [OF cl, consumes 1, case_names found absent failed])
    case (found ob k1)
    then show ?thesis
      by (auto simp: step_moves_defs stores_version dest!: update_cases [OF cl] dest: storesD)
  next
    case (absent k1)
    then show ?thesis
      by (auto simp: step_moves_defs dest!: create_cases [OF cl] dest: storesD)
  next
    case (failed e k1)
    then show ?thesis by (auto simp: step_moves_defs)
  qed
qed

lemma secret_goal_stored:
  "stores secret_agrees v (namespace C, auth_name w) (updated_secret (configuration_in E d (ws_UserID w)) q) v' \<Longrightarrow>
   secret_goal E C w d v'"
  "stores secret_agrees v (namespace C, auth_name w) (new_secret C w (configuration_in E d (ws_UserID w)) pw) v' \<Longrightarrow>
   secret_goal E C w d v'"
  by (auto simp: stores_def secret_goal_def secret_agrees_def meta_agrees_def updated_secret_def new_secret_def)

lemma ensureSecret_run:
  assumes ok: "kube_ok K V" and run: "ensureSecret E K C rnd w (s, k) = (r, (s', k'))"
  shows "db s' = db s \<and> vw_PVCs V k' = vw_PVCs V k \<and> vw_Services V k' = vw_Services V k
     \<and> vw_Deployments V k' = vw_Deployments V k \<and> vw_Pods V k' = vw_Pods V k
     \<and> secret_moves E C w (db s) (vw_Secrets V k) (vw_Secrets V k')
     \<and> (r = Inr () \<longrightarrow> secret_goal E C w (db s) (vw_Secrets V k'))"
  using run [unfolded ensureSecret_def]
proof (cases rule: andThen_cases)
  case (stopped e)
  with read_configuration_cases [of E w s k "Inl e" s' k'] show ?thesis by (simp add: secret_moves_def)
next
  case (went_on cfg p)
  obtain s1 k1 where p: "p = (s1, k1)" by (cases p)
  from went_on(1) have rc: "db s1 = db s" "k1 = k" and cfg: "cfg = configuration_in E (db s) (ws_UserID w)"
    using read_configuration_cases [of E w s k "Inr cfg" s1 k1] by (simp_all add: p)
  note cl = kube_okD(2) [OF ok]
  from went_on(2) [unfolded p rc(2)] show ?thesis
  proof (cases rule: get_cases [OF cl, consumes 1, case_names found absent failed])
    case (found ob k2)
    let ?a = "case om_Annotations (sc_Meta ob) ann_revision of None \<Rightarrow> [] | Some v \<Rightarrow> v"
    show ?thesis
    proof (cases "?a = revision_text cfg")
      case True
      then have "om_Annotations (sc_Meta ob) ann_revision = Some (revision_text cfg)"
        using revision_text_ne [of cfg] by (auto split: option.splits)
      with True found rc cfg show ?thesis by (auto simp: secret_moves_def secret_goal_def)
    next
      case False
      with found have "on_kube (cl_Update (ka_Secrets K) (namespace C) (updated_secret cfg ob)) (s1, k2) = (r, (s', k'))"
        by simp
      from update_cases [OF cl this] found rc cfg show ?thesis
        by (auto simp: secret_moves_def intro: secret_goal_stored)
    qed
  next
    case (absent k2)
    show ?thesis
    proof (cases "rnd (ws_ResourceName w)")
      case None
      with absent rc show ?thesis by (auto simp: secret_moves_def)
    next
      case (Some pw)
      with absent have "on_kube (cl_Create (ka_Secrets K) (namespace C) (new_secret C w cfg pw)) (s1, k2) = (r, (s', k'))"
        by simp
      from create_cases [OF cl this] absent rc cfg show ?thesis
        by (auto simp: secret_moves_def intro: secret_goal_stored)
    qed
  next
    case (failed e k2)
    with rc show ?thesis by (auto simp: secret_moves_def)
  qed
qed

section \<open>Interpretations\<close>

interpretation pvc_step: ensure_step "kube_ok K V" "ensurePVC K C w" "vw_PVCs V"
    "\<lambda>k. (vw_Secrets V k, vw_Services V k, vw_Deployments V k, vw_Pods V k)" "pvc_moves C w" "pvc_goal C w"
  for K V C w
  by unfold_locales (auto dest: ensurePVC_run simp: pvc_moves_def)

interpretation secret_step: ensure_step "kube_ok K V" "ensureSecret E K C rnd w" "vw_Secrets V"
    "\<lambda>k. (vw_PVCs V k, vw_Services V k, vw_Deployments V k, vw_Pods V k)" "secret_moves E C w" "secret_goal E C w"
  for K V E C rnd w
proof unfold_locales
  fix s s' :: store and k k' and r
  assume ok: "kube_ok K V" and run: "ensureSecret E K C rnd w (s, k) = (r, (s', k'))"
  from ensureSecret_run [OF this]
  show "db s' = db s \<and> (vw_PVCs V k', vw_Services V k', vw_Deployments V k', vw_Pods V k')
      = (vw_PVCs V k, vw_Services V k, vw_Deployments V k, vw_Pods V k)"
    and "secret_moves E C w (db s) (vw_Secrets V k) (vw_Secrets V k')" by simp_all
next
  fix s s' :: store and k k'
  assume "kube_ok K V" "ensureSecret E K C rnd w (s, k) = (Inr (), (s', k'))"
  from ensureSecret_run [OF this] show "secret_goal E C w (db s) (vw_Secrets V k')" by simp
qed (simp add: secret_moves_def)

interpretation service_step: ensure_step "kube_ok K V" "ensureService K C w" "vw_Services V"
    "\<lambda>k. (vw_PVCs V k, vw_Secrets V k, vw_Deployments V k, vw_Pods V k)" "service_moves C w" "service_goal C w"
  for K V C w
  by unfold_locales (auto dest: ensureService_run simp: service_moves_def)

interpretation deployment_step: ensure_step "kube_ok K V" "ensureDeployment K C w" "vw_Deployments V"
    "\<lambda>k. (vw_PVCs V k, vw_Secrets V k, vw_Services V k, vw_Pods V k)" "deployment_moves C w" "deployment_goal C w"
  for K V C w
  by unfold_locales (auto dest: ensureDeployment_run simp: deployment_moves_def)

section \<open>Reconcile\<close>

definition all_moves :: "env \<Rightarrow> 'k views \<Rightarrow> controller \<Rightarrow> workspace \<Rightarrow> db \<Rightarrow> 'k \<Rightarrow> 'k \<Rightarrow> bool" where
  "all_moves E V C w d k k' \<longleftrightarrow> pvc_moves C w d (vw_PVCs V k) (vw_PVCs V k')
     \<and> secret_moves E C w d (vw_Secrets V k) (vw_Secrets V k')
     \<and> service_moves C w d (vw_Services V k) (vw_Services V k')
     \<and> deployment_moves C w d (vw_Deployments V k) (vw_Deployments V k') \<and> vw_Pods V k' = vw_Pods V k"

definition all_goals :: "env \<Rightarrow> 'k views \<Rightarrow> controller \<Rightarrow> workspace \<Rightarrow> db \<Rightarrow> 'k \<Rightarrow> bool" where
  "all_goals E V C w d k \<longleftrightarrow> pvc_goal C w d (vw_PVCs V k) \<and> secret_goal E C w d (vw_Secrets V k)
     \<and> service_goal C w d (vw_Services V k) \<and> deployment_goal C w d (vw_Deployments V k)"

lemma moves_refl [simp]:
  "pvc_moves C w d v1 v1" "secret_moves E C w d v2 v2" "service_moves C w d v3 v3" "deployment_moves C w d v4 v4"
  by (simp_all add: pvc_moves_def secret_moves_def service_moves_def deployment_moves_def)

lemma Reconcile_run:
  assumes ok: "kube_ok K V" and run: "Reconcile E K C rnd w (s, k) = (r, (s', k'))"
  shows "db s' = db s \<and> all_moves E V C w (db s) k k' \<and> (r = Inr () \<longrightarrow> all_goals E V C w (db s) k')"
proof -
  show ?thesis
  proof (cases rule: pvc_step.then_cases [OF ok run [unfolded Reconcile_def], case_names stopped went_on])
    case stopped
    then show ?thesis by (simp add: all_moves_def)
  next
    case one: (went_on s1 k1)
    show ?thesis
    proof (cases rule: secret_step.then_cases [OF ok one(1), case_names stopped went_on])
      case stopped
      with one show ?thesis by (simp add: all_moves_def)
    next
      case two: (went_on s2 k2)
      show ?thesis
      proof (cases rule: service_step.then_cases [OF ok two(1), case_names stopped went_on])
        case stopped
        with one two show ?thesis by (simp add: all_moves_def)
      next
        case three: (went_on s3 k3)
        from deployment_step.frame [OF ok three(1)] deployment_step.moves [OF ok three(1)]
          deployment_step.goal [OF ok, of C w s3 k3 s' k'] three one two
        show ?thesis by (auto simp: all_moves_def all_goals_def)
      qed
    qed
  qed
qed

end
