(* ===== verification/KubeDemo.thy ===== *)
theory KubeDemo
  imports Ensure
begin

text \<open>
  A concrete Kubernetes API, an object store without failures, that satisfies \<open>kube_ok\<close>; the
  properties of the controller are instantiated at it.
\<close>

record cluster =
  k_pvcs :: "pvc objects"
  k_secrets :: "secret objects"
  k_services :: "service objects"
  k_deployments :: "(string \<times> deployment) list"
  k_pods :: "string \<Rightarrow> pod list"

definition map_client :: "('k \<Rightarrow> 'o objects) \<Rightarrow> ('o objects \<Rightarrow> 'k \<Rightarrow> 'k) \<Rightarrow> ('o \<Rightarrow> string) \<Rightarrow> ('k, 'o) client" where
  "map_client get put name = \<lparr>
     cl_Get = (\<lambda>n x k. (case get k (n, x) of None \<Rightarrow> Inl KNotFound
        | Some q \<Rightarrow> if name q = x then Inr q else Inl (KFailed ''corrupt''), k)),
     cl_Create = (\<lambda>n ob k. case get k (n, name ob) of
        None \<Rightarrow> (Inr (), put ((get k)((n, name ob) \<mapsto> ob)) k) | Some _ \<Rightarrow> (Inl (KFailed ''exists''), k)),
     cl_Update = (\<lambda>n ob k. (Inr (), put ((get k)((n, name ob) \<mapsto> ob)) k)),
     cl_Delete = (\<lambda>n x k. (Inr (), put ((get k)((n, x) := None)) k)),
     cl_List = (\<lambda>n sel k. (Inl (KFailed ''unused''), k))\<rparr>"

lemma map_client_ok:
  assumes get_put: "\<And>v k. get (put v k) = v" and others: "\<And>v k. others k (put v k)" "\<And>k. others k k"
    and refl: "\<And>ob. agrees ob ob"
  shows "client_ok (map_client get put name) get name agrees others"
  using refl
  by (auto simp: client_ok_def map_client_def get_ok_def create_ok_def update_ok_def delete_ok_def stores_def
      get_put others split: option.splits if_splits)

abbreviation dep_key :: "string \<times> deployment \<Rightarrow> string \<times> string" where
  "dep_key x \<equiv> (fst x, om_Name (dp_Meta (snd x)))"

definition deployment_view :: "cluster \<Rightarrow> deployment objects" where
  "deployment_view k = map_of (map (\<lambda>x. (dep_key x, snd x)) (k_deployments k))"

definition put_deployment :: "string \<Rightarrow> deployment \<Rightarrow> cluster \<Rightarrow> cluster" where
  "put_deployment n d k = k\<lparr>k_deployments :=
     (n, d) # filter (\<lambda>x. dep_key x \<noteq> (n, om_Name (dp_Meta d))) (k_deployments k)\<rparr>"

definition deployment_client :: "(cluster, deployment) client" where
  "deployment_client = \<lparr>
     cl_Get = (\<lambda>n x k. (case deployment_view k (n, x) of None \<Rightarrow> Inl KNotFound
        | Some q \<Rightarrow> if om_Name (dp_Meta q) = x then Inr q else Inl (KFailed ''corrupt''), k)),
     cl_Create = (\<lambda>n d k. case deployment_view k (n, om_Name (dp_Meta d)) of
        None \<Rightarrow> (Inr (), put_deployment n d k) | Some _ \<Rightarrow> (Inl (KFailed ''exists''), k)),
     cl_Update = (\<lambda>n d k. (Inr (), put_deployment n d k)),
     cl_Delete = (\<lambda>n x k. (Inl (KFailed ''unused''), k)),
     cl_List = (\<lambda>n sel k. (if distinct (map dep_key (k_deployments k))
        then Inr (map snd (filter (\<lambda>x. fst x = n \<and> selected sel (om_Labels (dp_Meta (snd x)))) (k_deployments k)))
        else Inl (KFailed ''corrupt''), k))\<rparr>"

definition pod_client :: "(cluster, pod) client" where
  "pod_client = \<lparr>
     cl_Get = (\<lambda>n x k. (Inl (KFailed ''unused''), k)), cl_Create = (\<lambda>n ob k. (Inl (KFailed ''unused''), k)),
     cl_Update = (\<lambda>n ob k. (Inl (KFailed ''unused''), k)), cl_Delete = (\<lambda>n x k. (Inl (KFailed ''unused''), k)),
     cl_List = (\<lambda>n sel k. (Inr (filter (\<lambda>p. selected sel (pd_Labels p)) (k_pods k n)), k))\<rparr>"

definition demo_api :: "cluster kube_api" where
  "demo_api = \<lparr>
     ka_PVCs = map_client k_pvcs (\<lambda>v k. k\<lparr>k_pvcs := v\<rparr>) (\<lambda>x. om_Name (pvc_Meta x)),
     ka_Secrets = map_client k_secrets (\<lambda>v k. k\<lparr>k_secrets := v\<rparr>) (\<lambda>x. om_Name (sc_Meta x)),
     ka_Services = map_client k_services (\<lambda>v k. k\<lparr>k_services := v\<rparr>) (\<lambda>x. om_Name (sv_Meta x)),
     ka_Deployments = deployment_client, ka_Pods = pod_client, ka_QuantityOk = (\<lambda>q. q \<noteq> [])\<rparr>"

definition demo_views :: "cluster views" where
  "demo_views = \<lparr>vw_PVCs = k_pvcs, vw_Secrets = k_secrets, vw_Services = k_services,
     vw_Deployments = deployment_view, vw_Pods = k_pods\<rparr>"

lemma map_of_filter_key: "map_of (map (\<lambda>x. (f x, g x)) (filter (\<lambda>x. f x \<noteq> a) xs)) = (map_of (map (\<lambda>x. (f x, g x)) xs))(a := None)"
  by (induction xs) (auto simp: fun_eq_iff)

lemma put_deployment_view:
  "deployment_view (put_deployment n d k) = (deployment_view k)((n, om_Name (dp_Meta d)) \<mapsto> d)"
  unfolding deployment_view_def put_deployment_def
  using map_of_filter_key [of dep_key snd "(n, om_Name (dp_Meta d))" "k_deployments k"] by simp

lemma put_deployment_others [simp]:
  "k_pvcs (put_deployment n d k) = k_pvcs k" "k_secrets (put_deployment n d k) = k_secrets k"
  "k_services (put_deployment n d k) = k_services k" "k_pods (put_deployment n d k) = k_pods k"
  by (simp_all add: put_deployment_def)

lemma deployment_view_others:
  "deployment_view (k\<lparr>k_pvcs := a\<rparr>) = deployment_view k" "deployment_view (k\<lparr>k_secrets := b\<rparr>) = deployment_view k"
  "deployment_view (k\<lparr>k_services := c\<rparr>) = deployment_view k"
  by (simp_all add: deployment_view_def)

lemma agrees_refl [simp]:
  "pvc_agrees a a" "secret_agrees b b" "service_agrees c c" "deployment_agrees e e"
  by (simp_all add: pvc_agrees_def secret_agrees_def service_agrees_def deployment_agrees_def meta_agrees_def)

lemma deployment_client_ok:
  "client_ok deployment_client deployment_view (\<lambda>x. om_Name (dp_Meta x)) deployment_agrees
     (\<lambda>k k'. k_pvcs k' = k_pvcs k \<and> k_secrets k' = k_secrets k \<and> k_services k' = k_services k \<and> k_pods k' = k_pods k)"
  by (auto simp: client_ok_def deployment_client_def get_ok_def create_ok_def update_ok_def delete_ok_def stores_def
      put_deployment_view split: option.splits if_splits intro: agrees_refl)

lemma deployment_lists: "lists_deployments deployment_client deployment_view"
proof -
  have names: "distinct (map ((\<lambda>d. om_Name (dp_Meta d)) \<circ> snd) 
        (filter (\<lambda>x. fst x = n \<and> selected sel (om_Labels (dp_Meta (snd x)))) xs))"
    if "distinct (map dep_key xs)" for n sel and xs :: "(string \<times> deployment) list"
    using that by (induction xs) (auto simp: image_iff)
  have mem: "map_of (map (\<lambda>x. (dep_key x, snd x)) xs) (n, om_Name (dp_Meta d)) = Some d \<longleftrightarrow> (n, d) \<in> set xs"
    if "distinct (map dep_key xs)" for n d and xs :: "(string \<times> deployment) list"
  proof -
    have "distinct (map fst (map (\<lambda>x. (dep_key x, snd x)) xs))" using that by (simp add: comp_def)
    from map_of_eq_Some_iff [OF this] show ?thesis by (auto simp: image_iff intro: bexI [of _ "(n, d)"])
  qed
  show ?thesis
    unfolding lists_deployments_def deployment_client_def deployment_view_def
    by (auto simp: names mem image_iff split: if_splits)
qed

lemma demo_kube_ok: "kube_ok demo_api demo_views"
  unfolding kube_ok_def demo_api_def demo_views_def
  by (auto intro!: map_client_ok simp: deployment_client_ok deployment_lists pods_ok_def pod_client_def
      deployment_view_others)

end
