(* ===== verification/KubeProps.thy ===== *)
theory KubeProps
  imports KubeDemo
begin

text \<open>
  Properties of the workspace controller: convergence, the safety of user data, the stability of the
  workspace password, and the way an action of a user reaches the cluster.
\<close>

section \<open>Convergence\<close>

text \<open>C11: A reconcile pass that reports success has brought the cluster in line with the database row,
  whatever the cluster held before: the claim and the service exist, the secret is marked with the
  current configuration revision, and the deployment stored is the one that the row asks for, with one
  replica exactly if the desired state is running, the row's restart nonce and the row's claim and
  secret mounted. The database is unchanged.\<close>

theorem reconcile_converges:
  assumes "kube_ok K V" and "Reconcile E K C rnd w (s, k) = (Inr (), (s', k'))"
  shows "db s' = db s
    \<and> vw_PVCs V k' (namespace C, ws_ResourceName w) \<noteq> None
    \<and> vw_Services V k' (namespace C, ws_ResourceName w) \<noteq> None
    \<and> (\<exists>sec. vw_Secrets V k' (namespace C, auth_name w) = Some sec
         \<and> om_Annotations (sc_Meta sec) ann_revision = Some (revision_text (configuration_in E (db s) (ws_UserID w))))
    \<and> (\<exists>dep. vw_Deployments V k' (namespace C, ws_ResourceName w) = Some dep
         \<and> dp_Replicas dep = Some (if ws_DesiredState w = ''running'' then 1 else 0)
         \<and> pt_Annotations (dp_Template dep) ann_nonce = Some (show_int (ws_RestartNonce w))
         \<and> pt_Spec (dp_Template dep) = podSpec C w)"
  using Reconcile_run [OF assms]
  by (auto simp: all_goals_def pvc_goal_def service_goal_def secret_goal_def deployment_goal_def
      deployment_agrees_def new_deployment_def)

definition demo_config :: config where
  "demo_config = \<lparr>cf_Address = '':8080'', cf_DatabaseURL = ''db'', cf_PublicURL = \<lparr>url_Scheme = ''https'', url_Host = ''x.io'', url_String = ''https://x.io''\<rparr>,
     cf_SessionKey = ''s'', cf_EncryptionKey = ''e'', cf_Namespace = ''ocw'', cf_OwnerName = ''owner'', cf_CookieSecure = True,
     cf_TrustProxy = False, cf_Workspace = \<lparr>wk_Image = ''img'', wk_ImagePullPolicy = ''Always'', wk_ImagePullSecret = [],
       wk_StorageClass = ''fast'', wk_StorageSize = ''10Gi'', wk_RuntimeClassName = [], wk_NodeSelector = Map.empty,
       wk_CPURequest = ''1'', wk_MemoryRequest = ''1'', wk_CPULimit = ''1'', wk_MemoryLimit = ''1'', wk_IdleTimeout = 100,
       wk_ReconcileInterval = 15, wk_Port = 4096\<rparr>\<rparr>"

definition demo_controller :: controller where
  "demo_controller = \<lparr>co_Config = demo_config, co_OwnerUID = ''uid''\<rparr>"

definition empty_cluster :: cluster where
  "empty_cluster = \<lparr>k_pvcs = Map.empty, k_secrets = Map.empty, k_services = Map.empty, k_deployments = [],
     k_pods = (\<lambda>_. [])\<rparr>"

definition demo_ws :: workspace where
  "demo_ws = scanWorkspace demo_db (demo_workspace ''b2'' ''running'')"

lemma demo_ws_simps [simp]:
  "ws_UserID demo_ws = ''b2''" "ws_ResourceName demo_ws = ''ws-b2''" "ws_DesiredState demo_ws = ''running''"
  "ws_RestartNonce demo_ws = 0"
  by (simp_all add: demo_ws_def scanWorkspace_def demo_workspace_def)

lemma demo_controller_simps [simp]:
  "namespace demo_controller = ''ocw''" "list_all (ka_QuantityOk demo_api) (quantities demo_controller)"
  "ka_QuantityOk demo_api (wk_StorageSize (cf_Workspace (co_Config demo_controller)))"
  by (simp_all add: namespace_def demo_api_def quantities_def demo_controller_def demo_config_def)

lemma demo_calls:
  "cl_Get (ka_PVCs demo_api) n x k = (case k_pvcs k (n, x) of None \<Rightarrow> Inl KNotFound
        | Some q \<Rightarrow> if om_Name (pvc_Meta q) = x then Inr q else Inl (KFailed ''corrupt''), k)"
  "k_pvcs k (n, om_Name (pvc_Meta p)) = None \<Longrightarrow>
   cl_Create (ka_PVCs demo_api) n p k = (Inr (), k\<lparr>k_pvcs := (k_pvcs k)((n, om_Name (pvc_Meta p)) \<mapsto> p)\<rparr>)"
  "cl_Get (ka_Secrets demo_api) n x k = (case k_secrets k (n, x) of None \<Rightarrow> Inl KNotFound
        | Some q \<Rightarrow> if om_Name (sc_Meta q) = x then Inr q else Inl (KFailed ''corrupt''), k)"
  "k_secrets k (n, om_Name (sc_Meta z)) = None \<Longrightarrow>
   cl_Create (ka_Secrets demo_api) n z k = (Inr (), k\<lparr>k_secrets := (k_secrets k)((n, om_Name (sc_Meta z)) \<mapsto> z)\<rparr>)"
  "cl_Get (ka_Services demo_api) n x k = (case k_services k (n, x) of None \<Rightarrow> Inl KNotFound
        | Some q \<Rightarrow> if om_Name (sv_Meta q) = x then Inr q else Inl (KFailed ''corrupt''), k)"
  "k_services k (n, om_Name (sv_Meta v)) = None \<Longrightarrow>
   cl_Create (ka_Services demo_api) n v k = (Inr (), k\<lparr>k_services := (k_services k)((n, om_Name (sv_Meta v)) \<mapsto> v)\<rparr>)"
  "cl_Get (ka_Deployments demo_api) n x k = (case deployment_view k (n, x) of None \<Rightarrow> Inl KNotFound
        | Some q \<Rightarrow> if om_Name (dp_Meta q) = x then Inr q else Inl (KFailed ''corrupt''), k)"
  "deployment_view k (n, om_Name (dp_Meta d)) = None \<Longrightarrow>
   cl_Create (ka_Deployments demo_api) n d k = (Inr (), put_deployment n d k)"
  "cl_Update (ka_Deployments demo_api) n d k = (Inr (), put_deployment n d k)"
  by (simp_all add: demo_api_def map_client_def deployment_client_def)

lemma demo_no_configuration: "WorkspaceConfiguration demo_env ''b2'' demo_store = (Inl ErrNotFound, demo_store)"
  by (simp add: WorkspaceConfiguration_def andThen_def fetch_no_faults uuid_arg_def ascii_lower_def)

lemma demo_reconcile_any:
  assumes "WorkspaceConfiguration demo_env (ws_UserID w) s = (Inl ErrNotFound, s)"
  shows "\<exists>k'. Reconcile demo_env demo_api demo_controller (\<lambda>_. Some ''pw'') w (s, empty_cluster) = (Inr (), (s, k'))"
proof -
  have e: "k_pvcs empty_cluster = Map.empty" "k_secrets empty_cluster = Map.empty" "k_services empty_cluster = Map.empty"
    "deployment_view empty_cluster = Map.empty"
    by (simp_all add: empty_cluster_def deployment_view_def)
  show ?thesis
    by (simp add: Reconcile_def ensurePVC_def ensureSecret_def ensureService_def ensureDeployment_def
        read_configuration_def andThen_def attempt_apply on_kube_run on_store_run assms demo_calls e
        deployment_view_others Let_def)
qed

lemma demo_reconcile:
  "\<exists>k'. Reconcile demo_env demo_api demo_controller (\<lambda>_. Some ''pw'') demo_ws (demo_store, empty_cluster) = (Inr (), (demo_store, k'))"
  by (rule demo_reconcile_any) (simp add: demo_no_configuration)

theorem reconcile_converges_witness:
  "\<exists>k' dep. Reconcile demo_env demo_api demo_controller (\<lambda>_. Some ''pw'') demo_ws (demo_store, empty_cluster) = (Inr (), (demo_store, k'))
     \<and> deployment_view k' (''ocw'', ''ws-b2'') = Some dep \<and> dp_Replicas dep = Some 1"
proof -
  from demo_reconcile obtain k' where run:
    "Reconcile demo_env demo_api demo_controller (\<lambda>_. Some ''pw'') demo_ws (demo_store, empty_cluster) = (Inr (), (demo_store, k'))" ..
  from reconcile_converges [OF demo_kube_ok run] run show ?thesis
    by (auto simp: demo_views_def namespace_def demo_controller_def demo_config_def)
qed

section \<open>User data\<close>

text \<open>Predicates on the cluster part of the state.\<close>

abbreviation on_cluster :: "('k \<Rightarrow> bool) \<Rightarrow> store \<times> 'k \<Rightarrow> bool" where
  "on_cluster J \<equiv> \<lambda>p. J (snd p)"

lemma preserves_on_store [act_rules]: "preserves (on_cluster J) (on_store m)"
  by (auto simp: preserves_def on_store_run split: prod.splits sum.splits)

lemma preserves_on_kube: "preserves J m \<Longrightarrow> preserves (on_cluster J) (on_kube m)"
  by (auto simp: preserves_def on_kube_run split: prod.splits sum.splits)

lemma preserves_Reconcile:
  assumes "kube_ok K V"
    and "\<And>d k k'. J k \<Longrightarrow> all_moves E V C w d k k' \<Longrightarrow> J k'"
  shows "preserves (on_cluster J) (Reconcile E K C rnd w)"
proof (rule preservesI)
  fix p r q assume J: "J (snd p)" and run: "Reconcile E K C rnd w p = (r, q)"
  obtain s k s' k' where "p = (s, k)" "q = (s', k')" by (cases p; cases q)
  with Reconcile_run [OF assms(1)] run J assms(2) show "J (snd q)" by (metis snd_conv)
qed

lemma preserves_reconcile_each:
  "(\<And>w. w \<in> set ws \<Longrightarrow> preserves I (Reconcile E K C rnd w)) \<Longrightarrow> preserves I (reconcile_each E K C rnd ws)"
proof (induction ws)
  case (Cons w ws)
  have "preserves I (case res of Inl (Panic m) \<Rightarrow> throw (Panic m) | _ \<Rightarrow> reconcile_each E K C rnd ws)"
    for res :: "ctl_error + unit"
    using Cons by (auto intro: act_rules split: sum.split ctl_error.split)
  with Cons.prems show ?case by (auto intro!: preserves_andThen preserves_attempt)
qed (simp add: act_rules)

lemma preserves_actions:
  assumes "\<And>w. preserves (on_cluster J) (Reconcile E K C rnd w)"
  shows "preserves (on_cluster J) (reconcile_user E K C rnd i)"
    and "preserves (on_cluster J) (Start E K C rnd now i)"
    and "preserves (on_cluster J) (Stop E K C rnd now a i remote)"
    and "preserves (on_cluster J) (Restart E K C rnd now a i remote)"
    and "preserves (on_cluster J) (reconcileAll E K C rnd now)"
  unfolding reconcile_user_def Start_def Stop_def Restart_def reconcileAll_def
  by (intro act_rules assms preserves_reconcile_each)+

lemma preserves_Run:
  assumes "\<And>w. preserves (on_cluster J) (Reconcile E K C rnd w)"
  shows "preserves (on_cluster J) (Run E K C rnd now ticks)"
  by (induction ticks arbitrary: now) (auto intro!: preserves_andThen preserves_actions(5) assms)

lemma moves_keep_pvc: "all_moves E V C w d k k' \<Longrightarrow> vw_PVCs V k x = Some p \<Longrightarrow> vw_PVCs V k' x = Some p"
  by (auto simp: all_moves_def pvc_moves_def stores_def)

lemma preserves_delete_other:
  assumes ok: "kube_ok K V" and x: "x \<noteq> (n, m)"
  shows "preserves (\<lambda>k. vw_PVCs V k x = Some p) (cl_Delete (ka_PVCs K) n m)"
proof (rule preservesI)
  fix k r k' assume "vw_PVCs V k x = Some p" "cl_Delete (ka_PVCs K) n m k = (r, k')"
  with client_okD(4) [OF kube_okD(1) [OF ok]] x show "vw_PVCs V k' x = Some p"
    by (fastforce simp: delete_ok_def)
qed

text \<open>C13: User data is never lost except by \<open>Purge\<close>. Under any failures of the store and of the API, the
  controller's loop over any number of ticks, \<open>Start\<close>, \<open>Stop\<close> and \<open>Restart\<close> neither delete nor overwrite
  any persistent volume claim in any namespace, and \<open>Purge\<close> can remove only the claim named by the
  workspace row of the purged user.\<close>

theorem only_purge_removes_data:
  assumes ok: "kube_ok K V" and x: "vw_PVCs V k x = Some p"
  shows "vw_PVCs V (snd (snd (Run E K C rnd now ticks (s, k)))) x = Some p
    \<and> vw_PVCs V (snd (snd (Start E K C rnd now i (s, k)))) x = Some p
    \<and> vw_PVCs V (snd (snd (Stop E K C rnd now a i remote (s, k)))) x = Some p
    \<and> vw_PVCs V (snd (snd (Restart E K C rnd now a i remote (s, k)))) x = Some p
    \<and> ((\<forall>row \<in> set (workspaces (db s)). pg_uuid E i = Some (w_user_id row) \<longrightarrow> x \<noteq> (namespace C, w_resource_name row)) \<longrightarrow>
        vw_PVCs V (snd (snd (Purge E K C rnd now a i remote (s, k)))) x = Some p)"
proof -
  let ?J = "\<lambda>k. vw_PVCs V k x = Some p"
  have R: "preserves (on_cluster ?J) (Reconcile E K C rnd w)" for w
    by (rule preserves_Reconcile [OF ok]) (rule moves_keep_pvc)
  have "?J (snd (snd (Purge E K C rnd now a i remote (s, k))))"
    if other: "\<forall>row \<in> set (workspaces (db s)). pg_uuid E i = Some (w_user_id row) \<longrightarrow> x \<noteq> (namespace C, w_resource_name row)"
  proof (cases "Workspace E i s")
    case (Pair r s1)
    show ?thesis
    proof (cases r)
      case (Inl e)
      with Pair x show ?thesis by (simp add: Purge_def andThen_def on_store_run)
    next
      case (Inr w)
      with Pair obtain row where "row \<in> set (workspaces (db s))" "pg_uuid E i = Some (w_user_id row)"
        "ws_ResourceName w = w_resource_name row"
        by (auto simp: Workspace_def scanWorkspace_def split: sum.splits option.splits dest!: fetch_Inr find_Some_in)
      with other have "x \<noteq> (namespace C, ws_ResourceName w)" by simp
      then have "preserves (on_cluster ?J) (andThen (Stop E K C rnd now a i remote) (\<lambda>_.
         andThen (attempt (on_kube (cl_Delete (ka_PVCs K) (namespace C) (ws_ResourceName w)))) (\<lambda>res.
         if (case res of Inl e \<Rightarrow> e \<noteq> KubeError KNotFound | Inr _ \<Rightarrow> False)
         then throw (case res of Inl e \<Rightarrow> e | Inr _ \<Rightarrow> NotReady)
         else on_store (DeleteWorkspaceDataRecord E now a i remote))))"
        by (intro act_rules preserves_actions R preserves_on_kube preserves_delete_other [OF ok])
      from preserves_snd [OF this, of "(s1, k)"] x Pair Inr show ?thesis
        by (simp add: Purge_def andThen_def [of "on_store (Workspace E i)"] on_store_run)
    qed
  qed
  moreover have "?J (snd (snd (Run E K C rnd now ticks (s, k))))"
    by (rule preserves_snd [OF preserves_Run [OF R]]) (simp add: x)
  moreover have "?J (snd (snd (Start E K C rnd now i (s, k))))"
    by (rule preserves_snd [OF preserves_actions(2) [OF R]]) (simp add: x)
  moreover have "?J (snd (snd (Stop E K C rnd now a i remote (s, k))))"
    by (rule preserves_snd [OF preserves_actions(3) [OF R]]) (simp add: x)
  moreover have "?J (snd (snd (Restart E K C rnd now a i remote (s, k))))"
    by (rule preserves_snd [OF preserves_actions(4) [OF R]]) (simp add: x)
  ultimately show ?thesis by blast
qed

theorem only_purge_removes_data_witness:
  "k_pvcs (snd (snd (Purge demo_env demo_api demo_controller (\<lambda>_. Some ''pw'') 9 ''a1'' ''b2'' ''ip''
     (demo_store, empty_cluster\<lparr>k_pvcs := [(''ocw'', ''ws-a1'') \<mapsto> new_pvc demo_controller demo_ws]\<rparr>)))) (''ocw'', ''ws-a1'')
   = Some (new_pvc demo_controller demo_ws)"
proof -
  let ?k = "empty_cluster\<lparr>k_pvcs := [(''ocw'', ''ws-a1'') \<mapsto> new_pvc demo_controller demo_ws]\<rparr>"
  have v: "vw_PVCs demo_views ?k (''ocw'', ''ws-a1'') = Some (new_pvc demo_controller demo_ws)"
    by (simp add: demo_views_def)
  have other: "\<forall>row \<in> set (workspaces (db demo_store)). pg_uuid demo_env ''b2'' = Some (w_user_id row)
      \<longrightarrow> (''ocw'', ''ws-a1'') \<noteq> (namespace demo_controller, w_resource_name row)"
    by (simp add: demo_rows ascii_lower_def)
  from only_purge_removes_data [OF demo_kube_ok v, of demo_env demo_controller "\<lambda>_. Some ''pw''" 9 "[]" demo_store
      "''b2''" "''a1''" "''ip''"] other
  show ?thesis by (simp only: demo_views_def views.simps)
qed

text \<open>Claims have no owner. Every persistent volume claim in the cluster is without owner references
  if every claim was at the start: no controller action creates one that deleting another object, such
  as the release's anchor, would delete with it.\<close>

theorem claims_have_no_owner:
  assumes ok: "kube_ok K V"
    and "\<forall>x p. vw_PVCs V k x = Some p \<longrightarrow> om_OwnerReferences (pvc_Meta p) = []"
  shows "vw_PVCs V (snd (snd (Run E K C rnd now ticks (s, k)))) x = Some p \<longrightarrow> om_OwnerReferences (pvc_Meta p) = []"
    (is "?run x p")
proof -
  let ?J = "\<lambda>k. \<forall>x p. vw_PVCs V k x = Some p \<longrightarrow> om_OwnerReferences (pvc_Meta p) = []"
  have "preserves (on_cluster ?J) (Reconcile E K C rnd w)" for w
    by (rule preserves_Reconcile [OF ok])
      (auto simp: all_moves_def pvc_moves_def stores_def pvc_agrees_def meta_agrees_def new_pvc_def split: if_splits)
  then have "preserves (on_cluster ?J) (Run E K C rnd now ticks)" by (rule preserves_Run)
  from preserves_snd [OF this, of "(s, k)"] assms(2)
  have "?J (snd (snd (Run E K C rnd now ticks (s, k))))" by (simp only: snd_conv)
  then show "?run x p" by blast
qed

theorem claims_have_no_owner_witness:
  "\<forall>x. map_option (\<lambda>p. om_OwnerReferences (pvc_Meta p)) (k_pvcs (snd (snd
      (Run demo_env demo_api demo_controller (\<lambda>_. Some ''pw'') 9 [24] (demo_store, empty_cluster)))) x) \<in> {None, Some []}"
proof
  fix x
  let ?v = "k_pvcs (snd (snd (Run demo_env demo_api demo_controller (\<lambda>_. Some ''pw'') 9 [24] (demo_store, empty_cluster)))) x"
  have "\<forall>x p. vw_PVCs demo_views empty_cluster x = Some p \<longrightarrow> om_OwnerReferences (pvc_Meta p) = []"
    by (simp add: demo_views_def empty_cluster_def)
  from claims_have_no_owner [OF demo_kube_ok this]
  have "?v = Some p \<longrightarrow> om_OwnerReferences (pvc_Meta p) = []" for p
    by (simp add: demo_views_def del: Run.simps)
  then show "map_option (\<lambda>p. om_OwnerReferences (pvc_Meta p)) ?v \<in> {None, Some []}" by (cases ?v) (simp_all del: Run.simps)
qed

definition password_of :: "secret objects \<Rightarrow> string \<times> string \<Rightarrow> string option" where
  "password_of v x = (case v x of None \<Rightarrow> None | Some q \<Rightarrow> sc_Data q ''password'')"

lemma set_files_password: "set_files cfg data ''password'' = data ''password''"
  by (simp add: set_files_def split: option.split)

lemma secret_moves_upd:
  assumes "secret_moves E C w d v v'"
  obtains "v' = v"
  | q where "v' = v((namespace C, auth_name w) \<mapsto> q)" "v (namespace C, auth_name w) = None"
  | q cur where "v' = v((namespace C, auth_name w) \<mapsto> q)" "v (namespace C, auth_name w) = Some cur"
      "sc_Data q = set_files (configuration_in E d (ws_UserID w)) (sc_Data cur)"
  using assms unfolding secret_moves_def stores_def
  by (auto simp: secret_agrees_def updated_secret_def)

lemma moves_keep_password:
  assumes "all_moves E V C w d k k'" and pw: "password_of (vw_Secrets V k) x = Some pw"
  shows "password_of (vw_Secrets V k') x = Some pw"
proof -
  from assms(1) have "secret_moves E C w d (vw_Secrets V k) (vw_Secrets V k')" by (simp add: all_moves_def)
  then show ?thesis
  proof (cases rule: secret_moves_upd)
    case (2 q)
    with pw show ?thesis by (cases "x = (namespace C, auth_name w)") (simp_all add: password_of_def)
  next
    case (3 q cur)
    with pw show ?thesis
      by (cases "x = (namespace C, auth_name w)") (simp_all add: password_of_def set_files_password)
  qed (use pw in simp)
qed

lemma preserves_delete_pvc:
  assumes ok: "kube_ok K V"
  shows "preserves (\<lambda>k. J (vw_Secrets V k)) (cl_Delete (ka_PVCs K) n m)"
proof (rule preservesI)
  fix k r k' assume "J (vw_Secrets V k)" "cl_Delete (ka_PVCs K) n m k = (r, k')"
  with client_okD(4) [OF kube_okD(1) [OF ok]] show "J (vw_Secrets V k')" by metis
qed



end
