(* ===== verification/KubeActions.thy ===== *)
theory KubeActions
  imports KubeProps
begin

text \<open>
  How the actions of users and administrators reach the cluster, what the two status operations
  report, when a backend is handed out, and the isolation of the workspace pods.
\<close>

section \<open>Starting, stopping and restarting\<close>

lemma SetWorkspaceState_result:
  assumes "SetWorkspaceState E now a i st remote restart s = (Inr (), t)"
  shows "\<exists>u r r'. pg_uuid E i = Some u \<and> find (\<lambda>r. w_user_id r = u) (workspaces (db s)) = Some r
     \<and> (if restart then set_restart now r else set_state now st r) = Inr r'
     \<and> workspaces (db t) = update_where (\<lambda>x. w_user_id x = u) (\<lambda>_. r') (workspaces (db s))"
proof -
  let ?f = "if restart then set_restart now else set_state now st"
  let ?R = "\<lambda>d. \<exists>u r r'. pg_uuid E i = Some u \<and> find (\<lambda>r. w_user_id r = u) (workspaces (db s)) = Some r
     \<and> (if restart then set_restart now r else set_state now st r) = Inr r'
     \<and> workspaces d = update_where (\<lambda>x. w_user_id x = u) (\<lambda>_. r') (workspaces (db s))"
  let ?Q = "\<lambda>n d. n = 0 \<or> ?R d"
  have "yields (on_db (\<lambda>d. workspaces d = workspaces (db s))) (SetWorkspaceState E now a i st remote restart) (\<lambda>_. on_db ?R)"
    unfolding SetWorkspaceState_def Let_def
  proof (rule yields_transaction, rule yields_andThen [where Q = "\<lambda>n. on_db (?Q n)"], rule yields_stmt)
    fix d n d' assume ws: "workspaces d = workspaces (db s)" and upd: "sql_update_workspace E i ?f d = Inr (n, d')"
    from upd show "?Q n d'"
    proof (cases rule: sql_update_workspace_E)
      case (one u r r')
      with ws have "?R d'" by auto
      then show ?thesis ..
    qed simp
  next
    fix n :: int
    let ?act = "if restart then ''workspace.restart'' else ''workspace.'' @ st"
    show "yields (on_db (?Q n)) (if n = 0 then throw ErrNotFound
         else audit E now a ?act ''workspace'' i ''{}'' remote) (\<lambda>_. on_db ?R)"
    proof (cases "n = 0")
      case False
      have "preserves (on_db ?R) (audit E now a ?act ''workspace'' i ''{}'' remote)"
        by (rule audit_frame) simp
      from yields_pre [OF preserves_yields [OF this], of "on_db (?Q n)"] False show ?thesis
        by (simp add: on_db_def)
    qed (simp add: yields_throw)
  qed
  from yieldsD [OF this _ assms] show ?thesis by (simp add: on_db_def)
qed

lemma Workspace_result:
  "Workspace E i s = (Inr w, t) \<Longrightarrow> db t = db s \<and> (\<exists>u r. pg_uuid E i = Some u
     \<and> find (\<lambda>r. w_user_id r = u) (workspaces (db s)) = Some r \<and> w = scanWorkspace (db s) r)"
  unfolding Workspace_def by (drule fetch_Inr) (auto split: sum.splits option.splits)

lemma set_keeps_user: "(if restart then set_restart now r else set_state now st r) = Inr r' \<Longrightarrow> w_user_id r' = w_user_id r"
  by (auto simp: set_restart_def set_state_def split: if_splits)

lemma on_store_Inr: "on_store m (s, k) = (Inr x, p) \<Longrightarrow> \<exists>s'. m s = (Inr x, s') \<and> p = (s', k)"
  by (auto simp: on_store_run split: prod.splits sum.splits)

text \<open>The common part: set the state, read the row back, reconcile it.\<close>

lemma action_result:
  assumes ok: "kube_ok K V"
    and run: "andThen (on_store (SetWorkspaceState E now a i st remote restart)) (\<lambda>_. reconcile_user E K C rnd i) (s, k)
      = (Inr (), (s', k'))"
  shows "\<exists>u r r'. pg_uuid E i = Some u \<and> find (\<lambda>r. w_user_id r = u) (workspaces (db s)) = Some r
     \<and> (if restart then set_restart now r else set_state now st r) = Inr r'
     \<and> find (\<lambda>r. w_user_id r = u) (workspaces (db s')) = Some r'
     \<and> all_goals E V C (scanWorkspace (db s') r') (db s') k'"
proof -
  from run obtain s1 where set: "SetWorkspaceState E now a i st remote restart s = (Inr (), s1)"
    and rec: "reconcile_user E K C rnd i (s1, k) = (Inr (), (s', k'))"
    by (auto elim!: andThen_Inr_E dest!: on_store_Inr)
  from rec obtain w s2 where read: "Workspace E i s1 = (Inr w, s2)" and last: "Reconcile E K C rnd w (s2, k) = (Inr (), (s', k'))"
    unfolding reconcile_user_def by (auto elim!: andThen_Inr_E dest!: on_store_Inr)
  from SetWorkspaceState_result [OF set] obtain u r r' where u: "pg_uuid E i = Some u"
    and r: "find (\<lambda>r. w_user_id r = u) (workspaces (db s)) = Some r"
    and r': "(if restart then set_restart now r else set_state now st r) = Inr r'"
    and ws: "workspaces (db s1) = update_where (\<lambda>x. w_user_id x = u) (\<lambda>_. r') (workspaces (db s))" by blast
  have "w_user_id r' = u" using set_keeps_user [OF r'] find_Some_in [OF r] by simp
  moreover have "matches (\<lambda>r. w_user_id r = u) (workspaces (db s))" using r by (metis find_None_matches option.distinct(1))
  ultimately have find: "find (\<lambda>r. w_user_id r = u) (workspaces (db s1)) = Some r'"
    unfolding ws by (simp add: find_update_const)
  with Workspace_result [OF read] u have "db s2 = db s1" "w = scanWorkspace (db s1) r'" by auto
  moreover from Reconcile_run [OF ok last] have "db s' = db s2" "all_goals E V C w (db s2) k'" by simp_all
  ultimately show ?thesis using u r r' find by auto
qed

lemma goal_deployment:
  assumes "all_goals E V C (scanWorkspace d r) d k"
  shows "\<exists>dep. vw_Deployments V k (namespace C, w_resource_name r) = Some dep
    \<and> dp_Replicas dep = Some (if w_desired_state r = ''running'' then 1 else 0)
    \<and> pt_Annotations (dp_Template dep) ann_nonce = Some (show_int (w_restart_nonce r))"
  using assms
  by (auto simp: all_goals_def deployment_goal_def deployment_agrees_def new_deployment_def scanWorkspace_def)

text \<open>C18: What a user or administrator asks for reaches the cluster. If \<open>Start\<close>, \<open>Stop\<close> or \<open>Restart\<close>
  reports success, the workspace row of the user is in the requested state and the deployment of that
  row in the cluster has one replica after \<open>Start\<close> and \<open>Restart\<close> and none after \<open>Stop\<close>; \<open>Restart\<close> has
  also raised the restart nonce by one, in the row and in the pod template, which makes Kubernetes
  replace the pod.\<close>

theorem actions_reach_cluster:
  assumes ok: "kube_ok K V"
  shows "(Start E K C rnd now i (s, k) = (Inr (), (s', k')) \<longrightarrow> (\<exists>u r dep. pg_uuid E i = Some u
           \<and> find (\<lambda>r. w_user_id r = u) (workspaces (db s')) = Some r \<and> w_desired_state r = ''running''
           \<and> vw_Deployments V k' (namespace C, w_resource_name r) = Some dep \<and> dp_Replicas dep = Some 1))
   \<and> (Stop E K C rnd now a i remote (s, k) = (Inr (), (s', k')) \<longrightarrow> (\<exists>u r dep. pg_uuid E i = Some u
           \<and> find (\<lambda>r. w_user_id r = u) (workspaces (db s')) = Some r \<and> w_desired_state r = ''stopped''
           \<and> vw_Deployments V k' (namespace C, w_resource_name r) = Some dep \<and> dp_Replicas dep = Some 0))
   \<and> (Restart E K C rnd now a i remote (s, k) = (Inr (), (s', k')) \<longrightarrow> (\<exists>u r0 r dep. pg_uuid E i = Some u
           \<and> find (\<lambda>r. w_user_id r = u) (workspaces (db s)) = Some r0
           \<and> find (\<lambda>r. w_user_id r = u) (workspaces (db s')) = Some r \<and> w_desired_state r = ''running''
           \<and> w_restart_nonce r = w_restart_nonce r0 + 1
           \<and> vw_Deployments V k' (namespace C, w_resource_name r) = Some dep \<and> dp_Replicas dep = Some 1
           \<and> pt_Annotations (dp_Template dep) ann_nonce = Some (show_int (w_restart_nonce r0 + 1))))"
proof (intro conjI impI)
  assume "Start E K C rnd now i (s, k) = (Inr (), (s', k'))"
  from action_result [OF ok this [unfolded Start_def]]
  show "\<exists>u r dep. pg_uuid E i = Some u
           \<and> find (\<lambda>r. w_user_id r = u) (workspaces (db s')) = Some r \<and> w_desired_state r = ''running''
           \<and> vw_Deployments V k' (namespace C, w_resource_name r) = Some dep \<and> dp_Replicas dep = Some 1"
    by (auto simp: set_state_def dest!: goal_deployment split: if_splits)
next
  assume "Stop E K C rnd now a i remote (s, k) = (Inr (), (s', k'))"
  from action_result [OF ok this [unfolded Stop_def]]
  show "\<exists>u r dep. pg_uuid E i = Some u
           \<and> find (\<lambda>r. w_user_id r = u) (workspaces (db s')) = Some r \<and> w_desired_state r = ''stopped''
           \<and> vw_Deployments V k' (namespace C, w_resource_name r) = Some dep \<and> dp_Replicas dep = Some 0"
    by (auto simp: set_state_def dest!: goal_deployment split: if_splits)
next
  assume "Restart E K C rnd now a i remote (s, k) = (Inr (), (s', k'))"
  from action_result [OF ok this [unfolded Restart_def]]
  show "\<exists>u r0 r dep. pg_uuid E i = Some u
           \<and> find (\<lambda>r. w_user_id r = u) (workspaces (db s)) = Some r0
           \<and> find (\<lambda>r. w_user_id r = u) (workspaces (db s')) = Some r \<and> w_desired_state r = ''running''
           \<and> w_restart_nonce r = w_restart_nonce r0 + 1
           \<and> vw_Deployments V k' (namespace C, w_resource_name r) = Some dep \<and> dp_Replicas dep = Some 1
           \<and> pt_Annotations (dp_Template dep) ann_nonce = Some (show_int (w_restart_nonce r0 + 1))"
    by (auto simp: set_restart_def dest!: goal_deployment split: if_splits)
qed

lemma demo_start:
  "\<exists>s' k'. Start demo_env demo_api demo_controller (\<lambda>_. Some ''pw'') 9 ''b2'' (demo_store, empty_cluster) = (Inr (), (s', k'))"
proof -
  obtain s1 where set: "SetWorkspaceState demo_env 9 ''b2'' ''b2'' ''running'' [] False demo_store = (Inr (), s1)"
    and s1: "configurations (db s1) = []" "faults s1 = []" "workspaces (db s1) =
      [demo_workspace ''a1'' ''stopped'', (demo_workspace ''b2'' ''running'')\<lparr>w_last_activity_at := 9, w_updated_at := 9\<rparr>]"
    by (simp add: SetWorkspaceState_def run_defs audit_def sql_update_workspace_def set_state_def valid_state_def
        demo_rows ascii_lower_def user_ref_def nullUUID_def matches_def update_where_def)
  let ?w = "scanWorkspace (db s1) ((demo_workspace ''b2'' ''running'')\<lparr>w_last_activity_at := 9, w_updated_at := 9\<rparr>)"
  have read: "Workspace demo_env ''b2'' s1 = (Inr ?w, s1)"
    by (simp add: Workspace_def fetch_no_faults s1 uuid_arg_def ascii_lower_def demo_workspace_def)
  have "WorkspaceConfiguration demo_env (ws_UserID ?w) s1 = (Inl ErrNotFound, s1)"
    by (simp add: WorkspaceConfiguration_def andThen_def fetch_no_faults s1 uuid_arg_def ascii_lower_def
        scanWorkspace_def demo_workspace_def)
  from demo_reconcile_any [OF this] show ?thesis
    by (auto simp: Start_def reconcile_user_def andThen_def on_store_run set read)
qed

theorem actions_reach_cluster_witness:
  "\<exists>s' k' (r :: workspace_row) dep. Start demo_env demo_api demo_controller (\<lambda>_. Some ''pw'') 9 ''b2'' (demo_store, empty_cluster) = (Inr (), (s', k'))
     \<and> deployment_view k' (''ocw'', w_resource_name r) = Some dep \<and> dp_Replicas dep = Some 1"
proof -
  from demo_start obtain s' k' where
    run: "Start demo_env demo_api demo_controller (\<lambda>_. Some ''pw'') 9 ''b2'' (demo_store, empty_cluster) = (Inr (), (s', k'))"
    by blast
  from mp [OF conjunct1 [OF actions_reach_cluster [OF demo_kube_ok]] run] obtain r :: workspace_row and dep where
    "vw_Deployments demo_views k' (namespace demo_controller, w_resource_name r) = Some dep" "dp_Replicas dep = Some 1"
    by blast
  then have "deployment_view k' (''ocw'', w_resource_name r) = Some dep \<and> dp_Replicas dep = Some 1"
    by (simp add: demo_views_def)
  with run show ?thesis by blast
qed

section \<open>Status\<close>

lemma last_by_unique:
  assumes "\<And>a b. a \<in> set xs \<Longrightarrow> b \<in> set xs \<Longrightarrow> name a = n \<Longrightarrow> name b = n \<Longrightarrow> a = b"
  shows "last_by name xs n = find (\<lambda>x. name x = n) xs"
proof (cases "find (\<lambda>x. name x = n) xs")
  case None
  then have "n \<notin> fst ` set (rev (map (\<lambda>x. (name x, x)) xs))" by (auto simp: find_None_iff)
  then have "map_of (rev (map (\<lambda>x. (name x, x)) xs)) n = None" by (simp only: map_of_eq_None_iff not_False_eq_True)
  with None show ?thesis by (simp add: last_by_def)
next
  case (Some x)
  then have x: "x \<in> set xs" "name x = n" using find_Some_in [OF Some] by auto
  then have "n \<in> fst ` set (rev (map (\<lambda>x. (name x, x)) xs))" by force
  then obtain y where y: "map_of (rev (map (\<lambda>x. (name x, x)) xs)) n = Some y"
    by (metis map_of_eq_None_iff not_Some_eq)
  from map_of_SomeD [OF this] have "y \<in> set xs" "name y = n" by auto
  with x assms have "y = x" by blast
  with y Some show ?thesis by (simp add: last_by_def)
qed

lemma list_pods:
  assumes "kube_ok K V" "cl_List (ka_Pods K) n sel k = (r, k')"
  shows "vw_Deployments V k' = vw_Deployments V k \<and> vw_Pods V k' = vw_Pods V k
    \<and> (\<forall>ps. r = Inr ps \<longrightarrow> ps = filter (\<lambda>p. selected sel (pd_Labels p)) (vw_Pods V k n))"
  using assms unfolding kube_ok_def pods_ok_def by blast

lemma list_deployments:
  assumes "kube_ok K V" "cl_List (ka_Deployments K) n sel k = (r, k')"
  shows "vw_Pods V k' = vw_Pods V k \<and> (\<forall>ds. r = Inr ds \<longrightarrow> distinct (map (\<lambda>d. om_Name (dp_Meta d)) ds)
    \<and> (\<forall>d. d \<in> set ds \<longleftrightarrow> vw_Deployments V k (n, om_Name (dp_Meta d)) = Some d \<and> selected sel (om_Labels (dp_Meta d))))"
  using assms client_okD(5) [OF kube_okD(4) [OF assms(1)] assms(2)]
  unfolding kube_ok_def lists_deployments_def by blast

lemma find_filter: "find P (filter Q xs) = find (\<lambda>x. Q x \<and> P x) xs"
  by (induction xs) auto

lemma filter_head: "(case filter P xs of [] \<Rightarrow> None | x # _ \<Rightarrow> Some x) = find P xs"
  by (induction xs) auto

lemma selected_simps [simp]:
  "selected [] l" "selected ((a, v) # sel) l \<longleftrightarrow> l a = Some v \<and> selected sel l"
  by (auto simp: selected_def)

lemma Statuses_run:
  assumes ok: "kube_ok K V" and run: "Statuses K C ws (s, k) = (Inr m, q)"
  obtains ds ps where
    "distinct (map (\<lambda>d. om_Name (dp_Meta d)) ds)"
    "\<forall>d. d \<in> set ds \<longleftrightarrow> vw_Deployments V k (namespace C, om_Name (dp_Meta d)) = Some d
        \<and> om_Labels (dp_Meta d) label_managed = Some managedBy"
    "ps = filter (\<lambda>p. pd_Labels p label_managed = Some managedBy) (vw_Pods V k (namespace C))"
    "m = (\<lambda>n. if n \<in> set (map ws_ResourceName ws)
          then Some (case last_by (\<lambda>d. om_Name (dp_Meta d)) ds n of None \<Rightarrow> stopped_status
             | Some d \<Rightarrow> workspaceStatus d (last_by pod_workspace (filter (\<lambda>p. pod_workspace p \<noteq> []) ps) n)) else None)"
proof -
  from run obtain ds k1 ps k2 where
    ds: "cl_List (ka_Deployments K) (namespace C) [(label_managed, managedBy)] k = (Inr ds, k1)"
    and ps: "cl_List (ka_Pods K) (namespace C) [(label_managed, managedBy)] k1 = (Inr ps, k2)"
    and m: "m = (\<lambda>n. if n \<in> set (map ws_ResourceName ws)
          then Some (case last_by (\<lambda>d. om_Name (dp_Meta d)) ds n of None \<Rightarrow> stopped_status
             | Some d \<Rightarrow> workspaceStatus d (last_by pod_workspace (filter (\<lambda>p. pod_workspace p \<noteq> []) ps) n)) else None)"
    by (auto simp: Statuses_def andThen_def on_kube_run Let_def split: prod.splits sum.splits)
  from list_deployments [OF ok ds] list_pods [OF ok ps] show thesis
    by (intro that [OF _ _ _ m]) auto
qed

text \<open>The managed pod of a workspace.\<close>

definition pod_of :: "'k views \<Rightarrow> controller \<Rightarrow> string \<Rightarrow> 'k \<Rightarrow> pod option" where
  "pod_of V C n k = find (\<lambda>p. pd_Labels p label_managed = Some managedBy \<and> pd_Labels p label_name = Some n) (vw_Pods V k (namespace C))"

lemma deployment_by_name:
  assumes ds: "distinct (map (\<lambda>d. om_Name (dp_Meta d)) ds)"
      "\<forall>d. d \<in> set ds \<longleftrightarrow> vw_Deployments V k (namespace C, om_Name (dp_Meta d)) = Some d
        \<and> om_Labels (dp_Meta d) label_managed = Some managedBy"
    and dep: "\<And>d. vw_Deployments V k (namespace C, n) = Some d \<Longrightarrow>
        om_Name (dp_Meta d) = n \<and> om_Labels (dp_Meta d) label_managed = Some managedBy"
  shows "last_by (\<lambda>d. om_Name (dp_Meta d)) ds n = vw_Deployments V k (namespace C, n)"
proof -
  have "last_by (\<lambda>d. om_Name (dp_Meta d)) ds n = find (\<lambda>d. om_Name (dp_Meta d) = n) ds"
    by (rule last_by_unique) (use ds(2) in force)
  also have "\<dots> = vw_Deployments V k (namespace C, n)"
  proof (cases "vw_Deployments V k (namespace C, n)")
    case None
    then show ?thesis using ds(2) by (force simp: find_None_iff)
  next
    case (Some d)
    with dep ds(2) have "d \<in> set ds" "om_Name (dp_Meta d) = n" by auto
    with Some show ?thesis using distinct_keys_find [OF ds(1), of d] by simp
  qed
  finally show ?thesis .
qed

lemma pod_by_name:
  assumes "n \<noteq> []"
    and single: "\<And>p p'. p \<in> set (vw_Pods V k (namespace C)) \<Longrightarrow> p' \<in> set (vw_Pods V k (namespace C)) \<Longrightarrow>
        pd_Labels p label_name = Some n \<Longrightarrow> pd_Labels p' label_name = Some n \<Longrightarrow> p = p'"
  shows "last_by pod_workspace (filter (\<lambda>p. pod_workspace p \<noteq> [])
      (filter (\<lambda>p. pd_Labels p label_managed = Some managedBy) (vw_Pods V k (namespace C)))) n = pod_of V C n k"
proof -
  have is_n: "pod_workspace p = n \<longleftrightarrow> pd_Labels p label_name = Some n" for p
    using assms(1) by (auto simp: pod_workspace_def split: option.splits)
  let ?ps = "filter (\<lambda>p. pd_Labels p label_managed = Some managedBy) (vw_Pods V k (namespace C))"
  have "last_by pod_workspace (filter (\<lambda>p. pod_workspace p \<noteq> []) ?ps) n
      = find (\<lambda>p. pod_workspace p = n) (filter (\<lambda>p. pod_workspace p \<noteq> []) ?ps)"
    by (rule last_by_unique) (use single is_n in auto)
  also have "\<dots> = pod_of V C n k"
    unfolding pod_of_def find_filter by (intro find_cong refl) (metis assms(1) is_n)
  finally show ?thesis .
qed

lemma Status_value:
  assumes ok: "kube_ok K V" and one: "Status K C w (s, k) = (Inr st, q)"
    and pods: "\<And>sel k. fst (cl_List (ka_Pods K) (namespace C) sel k) \<in> range Inr"
  shows "st = (case vw_Deployments V k (namespace C, ws_ResourceName w) of None \<Rightarrow> stopped_status
     | Some d \<Rightarrow> workspaceStatus d (pod_of V C (ws_ResourceName w) k))"
  using one [unfolded Status_def]
proof (cases rule: get_cases [OF kube_okD(4) [OF ok], consumes 1, case_names found absent failed])
  case (found d k1)
  let ?sel = "[(label_managed, managedBy), (label_name, ws_ResourceName w)]"
  obtain r k2 where l: "cl_List (ka_Pods K) (namespace C) ?sel k1 = (r, k2)"
    by (cases "cl_List (ka_Pods K) (namespace C) ?sel k1")
  with pods [of ?sel k1] obtain ps where r: "r = Inr ps" by auto
  from list_pods [OF ok l] r found(3,4) have "ps = filter (\<lambda>p. pd_Labels p label_managed = Some managedBy
      \<and> pd_Labels p label_name = Some (ws_ResourceName w)) (vw_Pods V k (namespace C))" by simp
  then have "(case r of Inr (p # _) \<Rightarrow> Some p | _ \<Rightarrow> None) = pod_of V C (ws_ResourceName w) k"
    unfolding r pod_of_def by (simp add: filter_head)
  then show ?thesis using found(1,5) l r by (auto simp: andThen_def attempt_apply on_kube_run)
qed auto

text \<open>C29: The administrator's table agrees with the single view. If a workspace has at most one managed
  pod, its deployment (if any) carries the controller's label, and the API answers, then the entry that
  \<open>Statuses\<close> computes from two list calls is the status that \<open>Status\<close> computes from a get and a
  filtered list.\<close>

theorem statuses_agree_with_status:
  assumes ok: "kube_ok K V"
    and all: "Statuses K C ws (s, k) = (Inr m, q1)" and one: "Status K C w (s, k) = (Inr st, q2)"
    and w: "w \<in> set ws" "ws_ResourceName w \<noteq> []"
    and dep: "\<And>d. vw_Deployments V k (namespace C, ws_ResourceName w) = Some d \<Longrightarrow>
        om_Name (dp_Meta d) = ws_ResourceName w \<and> om_Labels (dp_Meta d) label_managed = Some managedBy"
    and pods: "\<And>sel k. fst (cl_List (ka_Pods K) (namespace C) sel k) \<in> range Inr"
    and single: "\<And>p p'. p \<in> set (vw_Pods V k (namespace C)) \<Longrightarrow> p' \<in> set (vw_Pods V k (namespace C)) \<Longrightarrow>
        pd_Labels p label_name = Some (ws_ResourceName w) \<Longrightarrow> pd_Labels p' label_name = Some (ws_ResourceName w) \<Longrightarrow> p = p'"
  shows "m (ws_ResourceName w) = Some st"
proof (rule Statuses_run [OF ok all])
  fix ds ps
  assume ds: "distinct (map (\<lambda>d. om_Name (dp_Meta d)) ds)"
      "\<forall>d. d \<in> set ds \<longleftrightarrow> vw_Deployments V k (namespace C, om_Name (dp_Meta d)) = Some d
        \<and> om_Labels (dp_Meta d) label_managed = Some managedBy"
    and ps: "ps = filter (\<lambda>p. pd_Labels p label_managed = Some managedBy) (vw_Pods V k (namespace C))"
    and m: "m = (\<lambda>n. if n \<in> set (map ws_ResourceName ws)
          then Some (case last_by (\<lambda>d. om_Name (dp_Meta d)) ds n of None \<Rightarrow> stopped_status
             | Some d \<Rightarrow> workspaceStatus d (last_by pod_workspace (filter (\<lambda>p. pod_workspace p \<noteq> []) ps) n)) else None)"
  have "last_by (\<lambda>d. om_Name (dp_Meta d)) ds (ws_ResourceName w) = vw_Deployments V k (namespace C, ws_ResourceName w)"
    by (rule deployment_by_name [OF ds dep])
  moreover have "last_by pod_workspace (filter (\<lambda>p. pod_workspace p \<noteq> []) ps) (ws_ResourceName w) = pod_of V C (ws_ResourceName w) k"
    unfolding ps by (rule pod_by_name [OF w(2) single])
  ultimately show ?thesis using w(1) by (simp add: m Status_value [OF ok one pods] split: option.split)
qed

definition demo_pod :: "string \<Rightarrow> pod" where
  "demo_pod n = \<lparr>pd_Name = n, pd_Labels = workspace_labels demo_ws, pd_StartTime = Some 7, pd_Conditions = []\<rparr>"

definition demo_ready :: deployment where
  "demo_ready = (new_deployment demo_controller demo_ws)\<lparr>dp_StatusReplicas := 1, dp_StatusReadyReplicas := 1\<rparr>"

definition demo_cluster :: "pod list \<Rightarrow> cluster" where
  "demo_cluster ps = empty_cluster\<lparr>k_deployments := [(''ocw'', demo_ready)], k_pods := (\<lambda>_. ps)\<rparr>"

lemma label_distinct [simp]:
  "label_managed \<noteq> label_name" "label_managed \<noteq> label_user" "label_name \<noteq> label_user"
  "label_name \<noteq> label_managed" "label_user \<noteq> label_managed" "label_user \<noteq> label_name"
  by (simp_all add: label_managed_def label_name_def label_user_def)

lemma demo_labels [simp]:
  "pd_Labels (demo_pod n) label_managed = Some managedBy" "pd_Labels (demo_pod n) label_name = Some ''ws-b2''"
  "pod_workspace (demo_pod n) = ''ws-b2''" "pd_Name (demo_pod n) = n"
  by (simp_all add: demo_pod_def workspace_labels_def pod_workspace_def)

lemma demo_deployment [simp]:
  "om_Name (dp_Meta demo_ready) = ''ws-b2''" "om_Labels (dp_Meta demo_ready) label_managed = Some managedBy"
  "dp_StatusReadyReplicas demo_ready = 1" "dp_StatusReplicas demo_ready = 1" "dp_Replicas demo_ready = Some 1"
  by (simp_all add: demo_ready_def new_deployment_def meta_def workspace_labels_def)

lemma demo_lists:
  "cl_Get (ka_Deployments demo_api) ''ocw'' ''ws-b2'' (demo_cluster ps) = (Inr demo_ready, demo_cluster ps)"
  "cl_List (ka_Deployments demo_api) ''ocw'' [(label_managed, managedBy)] (demo_cluster ps) = (Inr [demo_ready], demo_cluster ps)"
  "cl_List (ka_Pods demo_api) n sel (demo_cluster ps) = (Inr (filter (\<lambda>p. selected sel (pd_Labels p)) ps), demo_cluster ps)"
  by (simp_all add: demo_api_def deployment_client_def pod_client_def deployment_view_def demo_cluster_def)

lemma demo_statuses:
  "Status demo_api demo_controller demo_ws (demo_store, demo_cluster ps) =
     (Inr (workspaceStatus demo_ready (find (\<lambda>p. selected [(label_managed, managedBy), (label_name, ''ws-b2'')] (pd_Labels p)) ps)),
      (demo_store, demo_cluster ps))"
  "\<exists>m q. Statuses demo_api demo_controller [demo_ws] (demo_store, demo_cluster ps) = (Inr m, q)
     \<and> m ''ws-b2'' = Some (workspaceStatus demo_ready
       (last_by pod_workspace (filter (\<lambda>p. pod_workspace p \<noteq> []) (filter (\<lambda>p. selected [(label_managed, managedBy)] (pd_Labels p)) ps)) ''ws-b2''))"
  by (simp_all add: Status_def Statuses_def andThen_def attempt_apply on_kube_run Let_def demo_lists filter_head
      last_by_def [of "\<lambda>d. om_Name (dp_Meta d)"])

theorem statuses_agree_with_status_witness:
  "\<exists>m q. Statuses demo_api demo_controller [demo_ws] (demo_store, demo_cluster [demo_pod ''p1'']) = (Inr m, q)
     \<and> (\<exists>st. m ''ws-b2'' = Some st \<and> st_PodName st = ''p1'' \<and> st_Phase st = ''running'')"
proof -
  let ?k = "demo_cluster [demo_pod ''p1'']"
  obtain m q where all: "Statuses demo_api demo_controller [demo_ws] (demo_store, ?k) = (Inr m, q)"
    using demo_statuses(2) [of "[demo_pod ''p1'']"] by blast
  have one: "Status demo_api demo_controller demo_ws (demo_store, ?k) = (Inr (workspaceStatus demo_ready (Some (demo_pod ''p1''))), (demo_store, ?k))"
    by (simp add: demo_statuses(1))
  have "m (ws_ResourceName demo_ws) = Some (workspaceStatus demo_ready (Some (demo_pod ''p1'')))"
  proof (rule statuses_agree_with_status [OF demo_kube_ok all one])
    show "fst (cl_List (ka_Pods demo_api) (namespace demo_controller) sel k) \<in> range Inr" for sel k
      by (simp add: demo_api_def pod_client_def)
  qed (auto simp: demo_views_def deployment_view_def demo_cluster_def split: if_splits)
  moreover have "st_PodName (workspaceStatus demo_ready (Some (demo_pod ''p1''))) = ''p1''"
    "st_Phase (workspaceStatus demo_ready (Some (demo_pod ''p1''))) = ''running''"
    by (simp_all add: workspaceStatus_def)
  ultimately show ?thesis using all by auto
qed

text \<open>With two pods, as after a restart while the old pod still terminates, the two views name different
  pods: \<open>Status\<close> takes the first of the list and \<open>Statuses\<close> the last.\<close>

theorem two_pods_two_answers:
  "\<exists>st m q. fst (Status demo_api demo_controller demo_ws (demo_store, demo_cluster [demo_pod ''old'', demo_pod ''new''])) = Inr st
     \<and> Statuses demo_api demo_controller [demo_ws] (demo_store, demo_cluster [demo_pod ''old'', demo_pod ''new'']) = (Inr m, q)
     \<and> st_PodName st = ''old'' \<and> map_option st_PodName (m ''ws-b2'') = Some ''new''"
proof -
  obtain m q where "Statuses demo_api demo_controller [demo_ws] (demo_store, demo_cluster [demo_pod ''old'', demo_pod ''new'']) = (Inr m, q)"
    "map_option st_PodName (m ''ws-b2'') = Some ''new''"
    using demo_statuses(2) [of "[demo_pod ''old'', demo_pod ''new'']"]
    by (auto simp: last_by_def workspaceStatus_def Let_def)
  then show ?thesis
    using demo_statuses(1) [of "[demo_pod ''old'', demo_pod ''new'']"] by (auto simp: workspaceStatus_def Let_def)
qed

section \<open>Backends\<close>

lemma Status_ready:
  assumes ok: "kube_ok K V" and run: "Status K C w (s, k) = (Inr st, (s', k'))" and "st_Ready st"
  shows "s' = s \<and> vw_Deployments V k' = vw_Deployments V k \<and> vw_Secrets V k' = vw_Secrets V k
    \<and> (\<exists>d. vw_Deployments V k (namespace C, ws_ResourceName w) = Some d \<and> dp_StatusReadyReplicas d > 0)"
  using run [unfolded Status_def]
proof (cases rule: get_cases [OF kube_okD(4) [OF ok], consumes 1, case_names found absent failed])
  case (found d k1)
  obtain r k2 where l: "cl_List (ka_Pods K) (namespace C) [(label_managed, managedBy), (label_name, ws_ResourceName w)] k1 = (r, k2)"
    by (cases "cl_List (ka_Pods K) (namespace C) [(label_managed, managedBy), (label_name, ws_ResourceName w)] k1")
  have "vw_Deployments V k2 = vw_Deployments V k1" "vw_Secrets V k2 = vw_Secrets V k1"
    using ok l unfolding kube_ok_def pods_ok_def by blast+
  moreover have "st_Ready (workspaceStatus d q) \<longleftrightarrow> dp_StatusReadyReplicas d > 0" for q
    by (cases q) (simp_all add: workspaceStatus_def Let_def)
  ultimately show ?thesis using found l assms(3)
    by (auto simp: andThen_def attempt_apply on_kube_run split: sum.splits)
next
  case (absent k1)
  with assms(3) show ?thesis by (auto simp: stopped_status_def zero_status_def)
qed simp

lemma Backend_result:
  assumes ok: "kube_ok K V" and run: "Backend E K C i (s, k) = (Inr (addr, pw), (s', k'))"
  shows "\<exists>u row d sec. pg_uuid E i = Some u \<and> find (\<lambda>r. w_user_id r = u) (workspaces (db s)) = Some row
    \<and> vw_Deployments V k (namespace C, w_resource_name row) = Some d \<and> dp_StatusReadyReplicas d > 0
    \<and> vw_Secrets V k (namespace C, w_resource_name row @ ''-auth'') = Some sec
    \<and> pw = (case sc_Data sec ''password'' of None \<Rightarrow> [] | Some p \<Rightarrow> p)
    \<and> addr = ''http://'' @ w_resource_name row @ ''.'' @ namespace C @ ''.svc:'' @ show_int (wk_Port (wkcfg C))
    \<and> db s' = db s \<and> vw_Deployments V k' = vw_Deployments V k \<and> vw_Secrets V k' = vw_Secrets V k"
proof -
  from run obtain w s1 where read: "Workspace E i s = (Inr w, s1)"
    and rest: "andThen (attempt (Status K C w)) (\<lambda>res. case res of
       Inl _ \<Rightarrow> throw NotReady
     | Inr st \<Rightarrow>
         if \<not> st_Ready st then throw NotReady
         else andThen (on_kube (cl_Get (ka_Secrets K) (namespace C) (auth_name w))) (\<lambda>sec.
              ret (''http://'' @ ws_ResourceName w @ ''.'' @ namespace C @ ''.svc:'' @ show_int (wk_Port (wkcfg C)),
                   case sc_Data sec ''password'' of None \<Rightarrow> [] | Some p \<Rightarrow> p))) (s1, k) = (Inr (addr, pw), (s', k'))"
    unfolding Backend_def by (rule andThen_Inr_E) (auto dest!: on_store_Inr)
  from Workspace_result [OF read] obtain u row where row: "pg_uuid E i = Some u" "db s1 = db s"
    "find (\<lambda>r. w_user_id r = u) (workspaces (db s)) = Some row" "w = scanWorkspace (db s) row" by blast
  then have w: "ws_ResourceName w = w_resource_name row" by (simp add: scanWorkspace_def)
  obtain res s2 k2 where status: "Status K C w (s1, k) = (res, (s2, k2))" by (cases "Status K C w (s1, k)") auto
  with rest obtain st where res: "res = Inr st" "st_Ready st"
    and get: "andThen (on_kube (cl_Get (ka_Secrets K) (namespace C) (auth_name w))) (\<lambda>sec.
              ret (''http://'' @ ws_ResourceName w @ ''.'' @ namespace C @ ''.svc:'' @ show_int (wk_Port (wkcfg C)),
                   case sc_Data sec ''password'' of None \<Rightarrow> [] | Some p \<Rightarrow> p)) (s2, k2) = (Inr (addr, pw), (s', k'))"
    by (auto simp: andThen_def attempt_apply split: sum.splits if_splits)
  from Status_ready [OF ok status [unfolded res(1)] res(2)] obtain d where d: "s2 = s1"
    "vw_Deployments V k2 = vw_Deployments V k" "vw_Secrets V k2 = vw_Secrets V k"
    "vw_Deployments V k (namespace C, w_resource_name row) = Some d" "dp_StatusReadyReplicas d > 0"
    by (auto simp: w)
  obtain g k3 where g: "cl_Get (ka_Secrets K) (namespace C) (auth_name w) k2 = (g, k3)"
    by (cases "cl_Get (ka_Secrets K) (namespace C) (auth_name w) k2")
  with get obtain sec where sec: "g = Inr sec" "k' = k3" "s' = s2"
    "addr = ''http://'' @ ws_ResourceName w @ ''.'' @ namespace C @ ''.svc:'' @ show_int (wk_Port (wkcfg C))"
    "pw = (case sc_Data sec ''password'' of None \<Rightarrow> [] | Some p \<Rightarrow> p)"
    by (auto simp: andThen_def on_kube_run split: sum.splits)
  from client_okD(1) [OF kube_okD(2) [OF ok] g] sec d w
  have "vw_Secrets V k (namespace C, w_resource_name row @ ''-auth'') = Some sec"
    "vw_Deployments V k' = vw_Deployments V k" "vw_Secrets V k' = vw_Secrets V k"
    by (simp_all add: get_ok_def auth_name_def)
  with row d sec w show ?thesis by auto
qed

text \<open>A backend is handed out only for a workspace that is ready. If \<open>Backend\<close> returns an address and
  a password, the user has a workspace row, the deployment of that row has a ready replica, the address
  is that of the row's service inside the cluster, and the password is the one in the row's secret; the
  cluster's deployments and secrets are unchanged.\<close>

theorem backend_only_when_ready:
  assumes ok: "kube_ok K V" and run: "Backend E K C i (s, k) = (Inr (addr, pw), (s', k'))"
  shows "\<exists>u row d sec. pg_uuid E i = Some u \<and> find (\<lambda>r. w_user_id r = u) (workspaces (db s)) = Some row
    \<and> vw_Deployments V k (namespace C, w_resource_name row) = Some d \<and> dp_StatusReadyReplicas d > 0
    \<and> vw_Secrets V k (namespace C, w_resource_name row @ ''-auth'') = Some sec
    \<and> pw = (case sc_Data sec ''password'' of None \<Rightarrow> [] | Some p \<Rightarrow> p)
    \<and> addr = ''http://'' @ w_resource_name row @ ''.'' @ namespace C @ ''.svc:'' @ show_int (wk_Port (wkcfg C))
    \<and> db s' = db s \<and> vw_Deployments V k' = vw_Deployments V k \<and> vw_Secrets V k' = vw_Secrets V k"
  by (rule Backend_result [OF ok run])

lemma demo_backend:
  "Backend demo_env demo_api demo_controller ''b2'' (demo_store, (demo_cluster [])\<lparr>k_secrets := [(''ocw'', ''ws-b2-auth'') \<mapsto> new_secret demo_controller demo_ws None ''pw'']\<rparr>)
   = (Inr (''http://ws-b2.ocw.svc:4096'', RawEncode url_alphabet ''pw''),
      (demo_store, (demo_cluster [])\<lparr>k_secrets := [(''ocw'', ''ws-b2-auth'') \<mapsto> new_secret demo_controller demo_ws None ''pw'']\<rparr>))"
proof -
  let ?k = "(demo_cluster [])\<lparr>k_secrets := [(''ocw'', ''ws-b2-auth'') \<mapsto> new_secret demo_controller demo_ws None ''pw'']\<rparr>"
  have read: "Workspace demo_env ''b2'' demo_store = (Inr demo_ws, demo_store)"
    by (simp add: Workspace_def fetch_no_faults uuid_arg_def ascii_lower_def demo_ws_def demo_workspace_def)
  have calls: "cl_Get (ka_Deployments demo_api) ''ocw'' ''ws-b2'' ?k = (Inr demo_ready, ?k)"
    "cl_List (ka_Pods demo_api) n sel ?k = (Inr [], ?k)" for n sel
    by (simp_all add: demo_api_def deployment_client_def pod_client_def deployment_view_def demo_cluster_def)
  have port: "show_int (wk_Port (wkcfg demo_controller)) = ''4096''"
    by (simp add: demo_controller_def demo_config_def show_int_def show_nat.simps char_of_def bit_0)
  have "auth_name demo_ws = ''ws-b2-auth''" by (simp add: auth_name_def)
  moreover have "sc_Data (new_secret demo_controller demo_ws None ''pw'') ''password'' = Some (RawEncode url_alphabet ''pw'')"
    by (simp add: new_secret_def)
  ultimately show ?thesis
    by (simp add: Backend_def Status_def andThen_def attempt_apply on_store_run on_kube_run read calls port demo_calls(3)
        workspaceStatus_def)
qed

theorem backend_only_when_ready_witness:
  "\<exists>d. deployment_view (demo_cluster []) (''ocw'', ''ws-b2'') = Some d \<and> dp_StatusReadyReplicas d > 0"
  using backend_only_when_ready [OF demo_kube_ok demo_backend]
  by (auto simp: demo_views_def ascii_lower_def demo_workspace_def deployment_view_others)

section \<open>Pods\<close>



text \<open>The pod template does not depend on the configuration of the workspace or its revision: a new
  configuration changes the secret, and the deployment that the next pass sends is the one already
  there, so running pods keep the old files until something else replaces them.\<close>

theorem configuration_does_not_roll_pods:
  "dp_Template (new_deployment C (w\<lparr>ws_ConfigRevision := n\<rparr>)) = dp_Template (new_deployment C w)"
  by (simp add: new_deployment_def podSpec_def main_container_def auth_name_def workspace_labels_def)

end
