(* ===== verification/ProxyProps.thy ===== *)
theory ProxyProps
  imports Proxy KubeActions StoreFrames
begin

text \<open>
  Properties of the gateway: which credentials reach a workspace, whose workspace a request reaches,
  and how activity is recorded.
\<close>

section \<open>Headers\<close>

lemma header_values_remove:
  "header_values k (remove_fields ks hs) = (if k \<in> set ks then [] else header_values k hs)"
  unfolding remove_fields_def
  by (induction ks arbitrary: hs) (auto simp: header_values_del)

lemma header_values_hop:
  assumes "k \<notin> set hop_headers"
  shows "header_values k (remove_hop_by_hop hs) = (if k \<in> set (listed_fields hs) then [] else header_values k hs)"
  using assms
  by (auto simp: remove_hop_by_hop_def Let_def header_values_remove header_values_set hop_headers_def)

lemma director_values:
  "header_values ''Cookie'' (director_headers pw i hs) = []"
  "header_values ''X-Csrf-Token'' (director_headers pw i hs) = []"
  "header_values ''Authorization'' (director_headers pw i hs) = [basic_auth pw]"
  "header_values ''X-Forwarded-User'' (director_headers pw i hs) = [i]"
  "k \<notin> {''Cookie'', ''X-Csrf-Token'', ''Authorization'', ''X-Forwarded-User''} \<Longrightarrow>
   header_values k (director_headers pw i hs) = header_values k hs"
  by (auto simp: director_headers_def Let_def header_values_set header_values_del)

lemma not_hop:
  "''Cookie'' \<notin> set hop_headers" "''X-Csrf-Token'' \<notin> set hop_headers" "''Authorization'' \<notin> set hop_headers"
  "''X-Forwarded-User'' \<notin> set hop_headers"
  by (simp_all add: hop_headers_def)

lemma director_listed: "listed_fields (director_headers pw i hs) = listed_fields hs"
  by (simp add: listed_fields_def director_values(5))

text \<open>C31: The browser's credentials stay in the control plane, and a client cannot speak as somebody
  else. Whatever fields a request carries, in whatever multiplicity, the request forwarded to the pod
  has no \<open>Cookie\<close> and no \<open>X-CSRF-Token\<close>, its only \<open>Authorization\<close> is the workspace's generated
  credential and its only \<open>X-Forwarded-User\<close> the signed-in user's ID, unless the client's own
  \<open>Connection\<close> field lists one of these two, which makes the proxy drop that field.\<close>

theorem forwarded_credentials:
  "header_values ''Cookie'' (og_Header (forward b i r)) = []
   \<and> header_values ''X-Csrf-Token'' (og_Header (forward b i r)) = []
   \<and> header_values ''Authorization'' (og_Header (forward b i r))
       = (if ''Authorization'' \<in> set (listed_fields (rq_Header r)) then [] else [basic_auth (bk_Password b)])
   \<and> header_values ''X-Forwarded-User'' (og_Header (forward b i r))
       = (if ''X-Forwarded-User'' \<in> set (listed_fields (rq_Header r)) then [] else [i])"
  by (simp add: forward_def header_values_hop director_values director_listed not_hop)

text \<open>A client that sends \<open>Connection: authorization\<close> strips the credential that the gateway adds.\<close>

theorem connection_header_strips_credential:
  "header_values ''Authorization'' (og_Header (forward b i (r\<lparr>rq_Header := [(''Connection'', ''authorization'')]\<rparr>))) = []"
proof -
  have "''Authorization'' \<in> set (listed_fields [(''Connection'', ''authorization'')])"
    by (simp add: listed_fields_def header_values_def TrimSpace_def ascii_space_def wide_space2_def wide_space3_def
        upper_def is_lower_def ascii_lower_def char_of_def bit_0)
  then show ?thesis
    by (simp add: forward_def header_values_hop director_listed hop_headers_def)
qed

section \<open>Activity\<close>

lemma use_store_run:
  "use_store m p = (case m (pl_store p) of (Inl e, s) \<Rightarrow> (Inl (StoreError e), p\<lparr>pl_store := s\<rparr>)
     | (Inr x, s) \<Rightarrow> (Inr x, p\<lparr>pl_store := s\<rparr>))"
  by (auto simp: use_store_def within_def mapErr_def split: prod.splits sum.splits)

lemma use_ctl_run:
  "use_ctl m p = (case m (pl_store p, pl_cluster p) of (r, (s, k)) \<Rightarrow> (r, p\<lparr>pl_store := s, pl_cluster := k\<rparr>))"
  by (auto simp: use_ctl_def within_def split: prod.splits)

lemma gateway_run [simp]:
  "get_gateway p = (Inr (pl_gateway p), p)" "put_gateway g p = (Inr (), p\<lparr>pl_gateway := g\<rparr>)"
  by (simp_all add: get_gateway_def put_gateway_def)

lemma TouchWorkspace_quiet:
  assumes "faults s = []" "pg_uuid E i = Some u" "find (\<lambda>r. w_user_id r = u) (workspaces (db s)) = Some row"
  shows "TouchWorkspace E now i s = (Inr (), s\<lparr>db := (db s)\<lparr>workspaces := update_where (\<lambda>x. w_user_id x = u)
    (\<lambda>_. row\<lparr>w_last_activity_at := now, w_desired_state := ''running'', w_updated_at := now\<rparr>) (workspaces (db s))\<rparr>\<rparr>)"
  using assms
  by (simp add: TouchWorkspace_def andThen_def attempt_apply stmt_no_faults sql_update_workspace_def uuid_arg_def set_touched_def)

text \<open>Recorded activity lags behind traffic by less than a minute. After \<open>touch\<close> the in-memory record
  of the user is at most a minute old; and when \<open>touch\<close> had no record that recent and the database
  answers, the workspace row says running with activity now, so that only the first request of each
  minute costs a statement.\<close>

theorem touch_records_activity:
  assumes "touch E now i p = (Inr (), p')"
    and q: "faults (pl_store p) = []" and u: "pg_uuid E i = Some u"
    and row: "find (\<lambda>r. w_user_id r = u) (workspaces (db (pl_store p))) = Some row"
  shows "(\<exists>t. gw_lastTouch (pl_gateway p') i = Some t \<and> now - t < one_minute)
    \<and> (if \<exists>t. gw_lastTouch (pl_gateway p) i = Some t \<and> now - t < one_minute then p' = p
       else gw_lastTouch (pl_gateway p') i = Some now
         \<and> (\<exists>row'. find (\<lambda>r. w_user_id r = u) (workspaces (db (pl_store p'))) = Some row'
              \<and> w_last_activity_at row' = now \<and> w_desired_state row' = ''running''))"
proof (cases "\<exists>t. gw_lastTouch (pl_gateway p) i = Some t \<and> now - t < one_minute")
  case True
  with assms(1) show ?thesis by (auto simp: touch_def andThen_def)
next
  case False
  let ?row = "row\<lparr>w_last_activity_at := now, w_desired_state := ''running'', w_updated_at := now\<rparr>"
  have no: "\<not> (case gw_lastTouch (pl_gateway p) i of None \<Rightarrow> False | Some t \<Rightarrow> now - t < one_minute)"
    using False by (auto split: option.splits)
  have q': "faults (pl_store (p\<lparr>pl_gateway := g\<rparr>)) = []" for g using q by simp
  from assms(1) no have g: "gw_lastTouch (pl_gateway p') i = Some now"
    and st: "db (pl_store p') = (db (pl_store p))\<lparr>workspaces := update_where (\<lambda>x. w_user_id x = u) (\<lambda>_. ?row) (workspaces (db (pl_store p)))\<rparr>"
    by (auto simp: touch_def andThen_def use_store_run TouchWorkspace_quiet [OF q u row])
  have "w_user_id ?row = u" "matches (\<lambda>r. w_user_id r = u) (workspaces (db (pl_store p)))"
    using find_Some_in [OF row] by (auto simp: matches_iff)
  then have "find (\<lambda>r. w_user_id r = u) (workspaces (db (pl_store p'))) = Some ?row"
    by (simp add: st find_update_const)
  with g False show ?thesis by (auto simp: one_minute_def)
qed

definition demo_plane :: "cluster plane" where
  "demo_plane = \<lparr>pl_store = demo_store, pl_cluster = empty_cluster, pl_limiter = Map.empty,
     pl_gateway = \<lparr>gw_lastTouch = [''b2'' \<mapsto> 0], gw_backends = Map.empty\<rparr>\<rparr>"

theorem touch_records_activity_witness:
  "\<exists>p'. touch demo_env 70000000000 ''b2'' demo_plane = (Inr (), p')
     \<and> (\<exists>row'. find (\<lambda>r. w_user_id r = ''b2'') (workspaces (db (pl_store p'))) = Some row' \<and> w_last_activity_at row' = 70000000000)"
proof -
  have q: "faults (pl_store demo_plane) = []" and u: "pg_uuid demo_env ''b2'' = Some ''b2''"
    and row: "find (\<lambda>r. w_user_id r = ''b2'') (workspaces (db (pl_store demo_plane))) = Some (demo_workspace ''b2'' ''running'')"
    by (simp_all add: demo_plane_def ascii_lower_def demo_workspace_def)
  have late: "gw_lastTouch (pl_gateway demo_plane) ''b2'' = Some 0" "\<not> (70000000000 - 0 < one_minute)"
    by (simp_all add: demo_plane_def one_minute_def)
  obtain p' where run: "touch demo_env 70000000000 ''b2'' demo_plane = (Inr (), p')"
    using late q TouchWorkspace_quiet [OF q u row, of 70000000000]
    by (simp add: touch_def andThen_def use_store_run)
  from touch_records_activity [OF run q u row] run late show ?thesis by auto
qed

section \<open>Whose workspace\<close>

definition secret_pw :: "secret objects \<Rightarrow> string \<times> string \<Rightarrow> string option" where
  "secret_pw v x = map_option (\<lambda>q. case sc_Data q ''password'' of None \<Rightarrow> [] | Some p \<Rightarrow> p) (v x)"

text \<open>\<open>b\<close> is the backend of user \<open>i\<close>: the service of the row and the password of its secret.\<close>

definition backend_of :: "env \<Rightarrow> parsers \<Rightarrow> 'k views \<Rightarrow> controller \<Rightarrow> string \<Rightarrow> backend \<Rightarrow> db \<Rightarrow> 'k \<Rightarrow> bool" where
  "backend_of E P V C i b d k \<longleftrightarrow> (\<exists>u n. pg_uuid E i = Some u \<and> named u n d
     \<and> secret_pw (vw_Secrets V k) (namespace C, n @ ''-auth'') = Some (bk_Password b)
     \<and> url_Parse P (''http://'' @ n @ ''.'' @ namespace C @ ''.svc:'' @ show_int (wk_Port (wkcfg C))) = Some (bk_Target b))"

text \<open>Rows keep their resource names and secrets their passwords.\<close>

definition grows :: "'k views \<Rightarrow> db \<Rightarrow> 'k \<Rightarrow> db \<Rightarrow> 'k \<Rightarrow> bool" where
  "grows V d k d' k' \<longleftrightarrow> (\<forall>u n. named u n d \<longrightarrow> named u n d')
   \<and> (\<forall>x pw. secret_pw (vw_Secrets V k) x = Some pw \<longrightarrow> secret_pw (vw_Secrets V k') x = Some pw)"

lemma grows_refl [simp]: "workspaces d' = workspaces d \<Longrightarrow> vw_Secrets V k' = vw_Secrets V k \<Longrightarrow> grows V d k d' k'"
  by (simp add: grows_def named_def)

lemma grows_trans: "grows V d k d1 k1 \<Longrightarrow> grows V d1 k1 d2 k2 \<Longrightarrow> grows V d k d2 k2"
  unfolding grows_def by fastforce

lemma backend_of_grows: "backend_of E P V C i b d k \<Longrightarrow> grows V d k d' k' \<Longrightarrow> backend_of E P V C i b d' k'"
  unfolding backend_of_def grows_def by blast

lemma named_grows:
  assumes "\<And>u n. preserves (on_db (named u n)) m" "m s = (r, t)"
  shows "grows V (db s) k (db t) k"
  using preservesD [OF assms(1) _ assms(2)] by (simp add: grows_def on_db_def)

lemmas workspace_grows = named_grows [OF names.others(2)] named_grows [OF names.others(4)]

lemma moves_keep_secret_pw:
  assumes "all_moves E V C w d k k'" "secret_pw (vw_Secrets V k) x = Some pw"
  shows "secret_pw (vw_Secrets V k') x = Some pw"
proof -
  from assms(1) have "secret_moves E C w d (vw_Secrets V k) (vw_Secrets V k')" by (simp add: all_moves_def)
  then show ?thesis
  proof (cases rule: secret_moves_upd)
    case (2 q)
    with assms(2) show ?thesis by (cases "x = (namespace C, auth_name w)") (simp_all add: secret_pw_def)
  next
    case (3 q cur)
    with assms(2) show ?thesis
      by (cases "x = (namespace C, auth_name w)") (simp_all add: secret_pw_def set_files_password)
  qed (use assms(2) in simp)
qed

text \<open>\<open>steady V m\<close>: running \<open>m\<close> on store and cluster only grows them.\<close>

definition steady :: "'k views \<Rightarrow> ('k, 'a) ctl \<Rightarrow> bool" where
  "steady V m \<longleftrightarrow> (\<forall>s k r s' k'. m (s, k) = (r, (s', k')) \<longrightarrow> grows V (db s) k (db s') k')"

lemma steadyD: "steady V m \<Longrightarrow> m (s, k) = (r, (s', k')) \<Longrightarrow> grows V (db s) k (db s') k'"
  by (simp add: steady_def)

lemma steady_andThen [act_rules]:
  assumes "steady V m" "\<And>x. steady V (f x)"
  shows "steady V (andThen m f)"
  unfolding steady_def
proof (intro allI impI)
  fix s k r s' k' assume "andThen m f (s, k) = (r, (s', k'))"
  then show "grows V (db s) k (db s') k'"
  proof (cases rule: andThen_cases)
    case (stopped e)
    then show ?thesis using steadyD [OF assms(1)] by blast
  next
    case (went_on x p)
    then show ?thesis
      using steadyD [OF assms(1), of s k _ "fst p" "snd p"] steadyD [OF assms(2), of x "fst p" "snd p"]
      by (auto intro: grows_trans)
  qed
qed

lemma steady_basic [act_rules]: "steady V (ret x)" "steady V (throw e)"
  by (auto simp: steady_def)

lemma steady_attempt [act_rules]: "steady V m \<Longrightarrow> steady V (attempt m)"
  unfolding steady_def by (simp add: attempt_apply) (metis prod.collapse)

lemma steady_if [act_rules]: "steady V m \<Longrightarrow> steady V n \<Longrightarrow> steady V (if b then m else n)"
  by simp

lemma steady_sum [act_rules]: "(\<And>e. steady V (f e)) \<Longrightarrow> (\<And>y. steady V (g y)) \<Longrightarrow>
    steady V (case x of Inl e \<Rightarrow> f e | Inr y \<Rightarrow> g y)"
  by (cases x) simp_all

lemma steady_on_store:
  assumes "\<And>s r t k. m s = (r, t) \<Longrightarrow> grows V (db s) k (db t) k"
  shows "steady V (on_store m)"
  unfolding steady_def on_store_run using assms by (auto split: prod.splits sum.splits)

lemma Workspace_quiet: "Workspace E i s = (r, t) \<Longrightarrow> grows V (db s) k (db t) k"
  by (rule named_grows [OF read_methods_inv(6)])

lemma steady_Reconcile:
  assumes "kube_ok K V"
  shows "steady V (Reconcile E K C rnd w)"
  unfolding steady_def
proof (intro allI impI)
  fix s k r s' k' assume "Reconcile E K C rnd w (s, k) = (r, (s', k'))"
  from Reconcile_run [OF assms this] have "db s' = db s" "all_moves E V C w (db s) k k'" by simp_all
  then show "grows V (db s) k (db s') k'" using moves_keep_secret_pw by (auto simp: grows_def)
qed

lemma steady_Start: "kube_ok K V \<Longrightarrow> steady V (Start E K C rnd now i)"
  unfolding Start_def reconcile_user_def
  by (intro act_rules steady_Reconcile steady_on_store workspace_grows(1) Workspace_quiet)

section \<open>ServeHTTP\<close>

definition cache_ok :: "env \<Rightarrow> parsers \<Rightarrow> 'k views \<Rightarrow> controller \<Rightarrow> 'k plane \<Rightarrow> bool" where
  "cache_ok E P V C p \<longleftrightarrow> (\<forall>i b. gw_backends (pl_gateway p) i = Some b \<longrightarrow>
     backend_of E P V C i b (db (pl_store p)) (pl_cluster p))"

text \<open>A run that grows store and cluster and keeps the cache sound.\<close>

definition sound_run :: "env \<Rightarrow> parsers \<Rightarrow> 'k views \<Rightarrow> controller \<Rightarrow> 'k plane \<Rightarrow> 'k plane \<Rightarrow> bool" where
  "sound_run E P V C p p' \<longleftrightarrow> grows V (db (pl_store p)) (pl_cluster p) (db (pl_store p')) (pl_cluster p')
     \<and> (cache_ok E P V C p \<longrightarrow> cache_ok E P V C p')"

lemma sound_trans: "sound_run E P V C p p1 \<Longrightarrow> sound_run E P V C p1 p2 \<Longrightarrow> sound_run E P V C p p2"
  by (auto simp: sound_run_def intro: grows_trans)

lemma sound_refl [simp]: "sound_run E P V C p p"
  by (simp add: sound_run_def)

lemma soundI:
  assumes "grows V (db (pl_store p)) (pl_cluster p) (db (pl_store p')) (pl_cluster p')"
    and "\<And>i b. gw_backends (pl_gateway p') i = Some b \<Longrightarrow> gw_backends (pl_gateway p) i = Some b
      \<or> backend_of E P V C i b (db (pl_store p')) (pl_cluster p')"
  shows "sound_run E P V C p p'"
  using assms backend_of_grows [OF _ assms(1), of E P C] unfolding sound_run_def cache_ok_def by blast

lemma use_store_sound:
  assumes "\<And>s r t k. m s = (r, t) \<Longrightarrow> grows V (db s) k (db t) k" and run: "use_store m p = (r, p')"
  shows "sound_run E P V C p p'"
proof -
  obtain q t where m: "m (pl_store p) = (q, t)" by (cases "m (pl_store p)")
  with run have "p' = p\<lparr>pl_store := t\<rparr>" by (auto simp: use_store_run split: sum.splits)
  with assms(1) [OF m] show ?thesis by (intro soundI) simp_all
qed

lemma use_ctl_sound:
  assumes "steady V m" and run: "use_ctl m p = (r, p')"
  shows "sound_run E P V C p p'" "pl_gateway p' = pl_gateway p"
proof -
  obtain q s k where m: "m (pl_store p, pl_cluster p) = (q, (s, k))" by (cases "m (pl_store p, pl_cluster p)") auto
  with run have p': "p' = p\<lparr>pl_store := s, pl_cluster := k\<rparr>" by (simp add: use_ctl_run)
  with steadyD [OF assms(1) m] show "sound_run E P V C p p'" by (intro soundI) simp_all
  from p' show "pl_gateway p' = pl_gateway p" by simp
qed

lemma forgetBackend_sound: "forgetBackend i p = (r, p') \<Longrightarrow> sound_run E P V C p p'"
  by (rule soundI) (auto simp: forgetBackend_def andThen_def split: if_splits)

lemma TouchWorkspace_total: "fst (TouchWorkspace E now i s) = Inr ()"
  by (simp add: TouchWorkspace_def andThen_def attempt_apply split: prod.splits)

lemma touch_sound:
  assumes "touch E now i p = (r, p')"
  shows "sound_run E P V C p p'" "r = Inr ()"
proof -
  let ?p = "p\<lparr>pl_gateway := (pl_gateway p)\<lparr>gw_lastTouch := (gw_lastTouch (pl_gateway p))(i \<mapsto> now)\<rparr>\<rparr>"
  from assms consider "p' = p" "r = Inr ()" | "use_store (TouchWorkspace E now i) ?p = (r, p')"
    by (auto simp: touch_def andThen_def split: if_splits)
  then have "sound_run E P V C p p' \<and> r = Inr ()"
  proof cases
    case 2
    then have "r = Inr ()" using TouchWorkspace_total [of E now i "pl_store p"]
      by (cases "TouchWorkspace E now i (pl_store p)") (simp add: use_store_run)
    moreover have "sound_run E P V C p ?p" by (rule soundI) simp_all
    moreover from 2 have "sound_run E P V C ?p p'" by (rule use_store_sound [rotated]) (rule workspace_grows(2))
    ultimately show ?thesis by (blast intro: sound_trans)
  qed simp
  then show "sound_run E P V C p p'" "r = Inr ()" by simp_all
qed

lemma steady_on_kube:
  assumes "\<And>k r k'. m k = (r, k') \<Longrightarrow> vw_Secrets V k' = vw_Secrets V k"
  shows "steady V (on_kube m)"
  unfolding steady_def on_kube_run using assms by (auto split: prod.splits sum.splits)

lemma steady_reads:
  assumes ok: "kube_ok K V"
  shows "steady V (on_kube (cl_Get (ka_Deployments K) n x))" "steady V (on_kube (cl_List (ka_Pods K) n sel))"
    "steady V (on_kube (cl_Get (ka_Secrets K) n x))"
  by (rule steady_on_kube, drule client_okD(1) [OF kube_okD(4) [OF ok]], simp)
    (rule steady_on_kube, use ok in \<open>simp add: kube_ok_def pods_ok_def\<close>,
     rule steady_on_kube, drule client_okD(1) [OF kube_okD(2) [OF ok]], simp add: get_ok_def)

lemma steady_Backend:
  assumes ok: "kube_ok K V"
  shows "steady V (Backend E K C i)"
  unfolding Backend_def Status_def
  by (intro act_rules steady_reads [OF ok] steady_on_store Workspace_quiet)

lemma Backend_owned:
  assumes ok: "kube_ok K V" and run: "use_ctl (Backend E K C i) p = (Inr (addr, pw), p1)" and url: "url_Parse P addr = Some t"
  shows "backend_of E P V C i \<lparr>bk_Target = t, bk_Password = pw\<rparr> (db (pl_store p1)) (pl_cluster p1)"
proof -
  obtain s' k' where be: "Backend E K C i (pl_store p, pl_cluster p) = (Inr (addr, pw), (s', k'))" "pl_store p1 = s'" "pl_cluster p1 = k'"
    using run by (auto simp: use_ctl_run split: prod.splits)
  from Backend_result [OF ok be(1)] obtain u row sec where own_row: "pg_uuid E i = Some u"
    "find (\<lambda>r. w_user_id r = u) (workspaces (db (pl_store p))) = Some row"
    "vw_Secrets V (pl_cluster p) (namespace C, w_resource_name row @ ''-auth'') = Some sec"
    "pw = (case sc_Data sec ''password'' of None \<Rightarrow> [] | Some p \<Rightarrow> p)"
    "addr = ''http://'' @ w_resource_name row @ ''.'' @ namespace C @ ''.svc:'' @ show_int (wk_Port (wkcfg C))"
    "db s' = db (pl_store p)" "vw_Secrets V k' = vw_Secrets V (pl_cluster p)" by blast
  then have "named u (w_resource_name row) (db s')" by (simp add: named_def)
  with own_row url show ?thesis
    unfolding backend_of_def be(2,3) by (intro exI [of _ u] exI [of _ "w_resource_name row"]) (simp add: secret_pw_def)
qed

lemma find_backend_sound:
  assumes ok: "kube_ok K V" and run: "find_backend E P K C i p = (r, p')"
  shows "sound_run E P V C p p'"
    and "r = Inr b \<Longrightarrow> cache_ok E P V C p \<Longrightarrow> backend_of E P V C i b (db (pl_store p')) (pl_cluster p')"
proof -
  have "sound_run E P V C p p' \<and> (r = Inr b \<longrightarrow> cache_ok E P V C p
    \<longrightarrow> backend_of E P V C i b (db (pl_store p')) (pl_cluster p'))"
  proof (cases "gw_backends (pl_gateway p) i")
    case (Some c)
    with run have "p' = p" "r = Inr c" by (simp_all add: find_backend_def andThen_def)
    with Some show ?thesis by (auto simp: cache_ok_def)
  next
    case None
    with run have run': "andThen (use_ctl (Backend E K C i)) (\<lambda>(address, password).
         case url_Parse P address of None \<Rightarrow> throw NotReady
         | Some target \<Rightarrow>
             let resolved = \<lparr>bk_Target = target, bk_Password = password\<rparr> in
             andThen get_gateway (\<lambda>g'.
             andThen (put_gateway (g'\<lparr>gw_backends := (gw_backends g')(i \<mapsto> resolved)\<rparr>)) (\<lambda>_. ret resolved))) p = (r, p')"
      by (simp add: find_backend_def andThen_def)
    then show ?thesis
    proof (cases rule: andThen_cases)
      case (stopped e)
      with use_ctl_sound(1) [OF steady_Backend [OF ok]] show ?thesis by blast
    next
      case (went_on x p1)
      obtain addr pw where x: "x = (addr, pw)" by (cases x)
      note s1 = use_ctl_sound [OF steady_Backend [OF ok] went_on(1)]
      show ?thesis
      proof (cases "url_Parse P addr")
        case None
        with went_on(2) x s1(1) show ?thesis by auto
      next
        case (Some t)
        let ?b = "\<lparr>bk_Target = t, bk_Password = pw\<rparr>"
        from Some went_on(2) x have r: "r = Inr ?b" and
          p': "p' = p1\<lparr>pl_gateway := (pl_gateway p1)\<lparr>gw_backends := (gw_backends (pl_gateway p1))(i \<mapsto> ?b)\<rparr>\<rparr>"
          by (simp_all add: andThen_def Let_def)
        from went_on(1) x Some have own: "backend_of E P V C i ?b (db (pl_store p1)) (pl_cluster p1)"
          by (auto intro: Backend_owned [OF ok])
        have "sound_run E P V C p1 p'" by (rule soundI) (use own in \<open>auto simp: p' split: if_splits\<close>)
        with s1(1) own r show ?thesis by (auto simp: p' intro: sound_trans)
      qed
    qed
  qed
  then show "sound_run E P V C p p'"
    and "r = Inr b \<Longrightarrow> cache_ok E P V C p \<Longrightarrow> backend_of E P V C i b (db (pl_store p')) (pl_cluster p')" by blast+
qed

definition own_answers :: "request \<Rightarrow> response set" where
  "own_answers r = {http_error ''workspace unavailable'' 503, aborted, http_error ''failed to start workspace'' 503,
     starting r, http_error ''workspace connection unavailable'' 502}"

lemma attempt_Inr: "attempt m p = (r, p') \<Longrightarrow> \<exists>x. r = Inr x \<and> m p = (x, p')"
  by (auto simp: attempt_apply split: prod.splits)

lemma attempt_then:
  assumes "andThen (attempt m) f p = (r, p')"
  obtains x p1 where "m p = (x, p1)" "f x p1 = (r, p')"
  using assms by (cases "m p") (simp add: andThen_def attempt_apply)

lemma wake_sound:
  assumes ok: "kube_ok K V" and run: "wake E K C rnd now w i p = (started, p')"
  shows "sound_run E P V C p p' \<and> (\<exists>res. started = Inr res)"
proof (cases "ws_DesiredState w = ''running''")
  case True
  with run show ?thesis by (auto simp: wake_def)
next
  case False
  obtain y p1 where f: "forgetBackend i p = (y, p1)" by (cases "forgetBackend i p")
  obtain res p2 where st: "use_ctl (Start E K C rnd now i) p1 = (res, p2)" by (cases "use_ctl (Start E K C rnd now i) p1")
  have "y = Inr ()" using f by (auto simp: forgetBackend_def andThen_def)
  with False f st run have "started = Inr res" "p' = p2" by (simp_all add: wake_def andThen_def attempt_apply)
  with use_ctl_sound(1) [OF steady_Start [OF ok] st] forgetBackend_sound [OF f] show ?thesis
    by (blast intro: sound_trans)
qed

lemma proxied_sound:
  assumes ok: "kube_ok K V" and run: "proxied E P K C rt now r i p = (q, p')"
  shows "sound_run E P V C p p' \<and> (\<exists>a. q = Inr a \<and> (a \<in> own_answers r
    \<or> (\<exists>b. rt (forward b i r) = Some a \<and> (cache_ok E P V C p \<longrightarrow> backend_of E P V C i b (db (pl_store p')) (pl_cluster p')))))"
  using run [unfolded proxied_def]
proof (rule attempt_then)
  fix found p1 assume f: "find_backend E P K C i p = (found, p1)"
    and rest: "(case found of Inl _ \<Rightarrow> ret (starting r) | Inr b \<Rightarrow> andThen (touch E now i) (\<lambda>_.
                 case rt (forward b i r) of Some answer \<Rightarrow> ret answer
                 | None \<Rightarrow> andThen (forgetBackend i) (\<lambda>_. ret (http_error ''workspace connection unavailable'' 502)))) p1 = (q, p')"
  note s1 = find_backend_sound [OF ok f]
  show ?thesis
  proof (cases found)
    case (Inl e)
    with rest s1(1) show ?thesis by (auto simp: own_answers_def)
  next
    case (Inr b)
    obtain u p2 where t: "touch E now i p1 = (u, p2)" by (cases "touch E now i p1")
    have s2: "sound_run E P V C p1 p2" "u = Inr ()" by (rule touch_sound [OF t])+
    show ?thesis
    proof (cases "rt (forward b i r)")
      case (Some a)
      with rest Inr t s2 have "p' = p2" "q = Inr a" by (simp_all add: andThen_def)
      moreover have "backend_of E P V C i b (db (pl_store p2)) (pl_cluster p2)" if "cache_ok E P V C p"
        using s1(2) [OF Inr that] s2(1) by (auto simp: sound_run_def intro: backend_of_grows)
      ultimately show ?thesis using s1(1) s2(1) Some by (auto intro: sound_trans)
    next
      case None
      have "fst (forgetBackend i p2) = Inr ()" by (simp add: forgetBackend_def andThen_def)
      then have "forgetBackend i p2 = (Inr (), p') \<and> q = Inr (http_error ''workspace connection unavailable'' 502)"
        using rest Inr t s2 None by (cases "forgetBackend i p2") (simp add: andThen_def)
      with s1(1) s2(1) forgetBackend_sound [of i p2 "Inr ()" p'] show ?thesis
        by (auto simp: own_answers_def intro: sound_trans)
    qed
  qed
qed

lemma ServeHTTP_sound:
  assumes ok: "kube_ok K V" and run: "ServeHTTP E P K C rnd rt now r u p = (q, p')"
  shows "sound_run E P V C p p' \<and> (\<exists>a. q = Inr a \<and> (a \<in> own_answers r
    \<or> (\<exists>b. rt (forward b (user_ID u) r) = Some a
      \<and> (cache_ok E P V C p \<longrightarrow> backend_of E P V C (user_ID u) b (db (pl_store p')) (pl_cluster p')))))"
  using run [unfolded ServeHTTP_def]
proof (rule attempt_then)
  fix res p1 assume w: "use_store (Workspace E (user_ID u)) p = (res, p1)"
    and rest: "(case res of Inl _ \<Rightarrow> ret (http_error ''workspace unavailable'' 503)
     | Inr w \<Rightarrow> andThen (wake E K C rnd now w (user_ID u)) (\<lambda>started. case started of
           Inl (Panic _) \<Rightarrow> ret aborted
         | Inl _ \<Rightarrow> ret (http_error ''failed to start workspace'' 503)
         | Inr _ \<Rightarrow> proxied E P K C rt now r (user_ID u))) p1 = (q, p')"
  have s1: "sound_run E P V C p p1" by (rule use_store_sound [OF _ w]) (rule Workspace_quiet)
  show ?thesis
  proof (cases res)
    case (Inl e)
    with rest s1 show ?thesis by (auto simp: own_answers_def)
  next
    case (Inr ws)
    obtain x p2 where x: "wake E K C rnd now ws (user_ID u) p1 = (x, p2)" by (cases "wake E K C rnd now ws (user_ID u) p1")
    from wake_sound [OF ok this] s1 obtain started where s12: "sound_run E P V C p p2" and st: "x = Inr started"
      by (blast intro: sound_trans)
    show ?thesis
    proof (cases started)
      case (Inl e)
      with rest \<open>res = Inr ws\<close> x st s12 show ?thesis by (cases e) (auto simp: own_answers_def andThen_def)
    next
      case (Inr z)
      with rest \<open>res = Inr ws\<close> x st have "proxied E P K C rt now r (user_ID u) p2 = (q, p')" by (simp add: andThen_def)
      from proxied_sound [OF ok this] s12 show ?thesis by (auto simp: sound_run_def intro: grows_trans)
    qed
  qed
qed

text \<open>C7: The gateway serves every user from that user's own workspace. Whatever fails, a request gets an
  answer; it is either one of the gateway's own error and waiting pages, or the answer of the pod
  behind the service of the signed-in user's workspace row, asked with the password in that row's
  secret. The backend cache stays sound: it never maps a user to somebody else's workspace or to a
  stale password.\<close>

theorem gateway_serves_own_workspace:
  assumes ok: "kube_ok K V" and cache: "cache_ok E P V C p"
    and run: "ServeHTTP E P K C rnd rt now r u p = (q, p')"
  shows "cache_ok E P V C p' \<and> (\<exists>a. q = Inr a \<and> (a \<in> own_answers r
    \<or> (\<exists>b. backend_of E P V C (user_ID u) b (db (pl_store p')) (pl_cluster p') \<and> rt (forward b (user_ID u) r) = Some a)))"
  using ServeHTTP_sound [OF ok run] cache unfolding sound_run_def by blast

text \<open>Ann's running workspace answers her request; nothing is cached before.\<close>

definition demo_parsers :: parsers where
  "demo_parsers = \<lparr>url_Parse = (\<lambda>s. Some \<lparr>url_Scheme = take 4 s, url_Host = drop 7 s, url_String = s\<rparr>), ParseDuration = (\<lambda>s. None)\<rparr>"

definition demo_running_plane :: "cluster plane" where
  "demo_running_plane = demo_plane\<lparr>pl_cluster :=
     (demo_cluster [])\<lparr>k_secrets := [(''ocw'', ''ws-b2-auth'') \<mapsto> new_secret demo_controller demo_ws None ''pw'']\<rparr>\<rparr>"

definition demo_answer :: response where
  "demo_answer = \<lparr>rs_Status = 200, rs_Header = [], rs_Cookies = [], rs_Body = Upstream ''hello''\<rparr>"

lemma demo_serve:
  "fst (ServeHTTP demo_env demo_parsers demo_api demo_controller (\<lambda>_. None) (\<lambda>_. Some demo_answer) 1 (demo_request []) (scanUser demo_ann) demo_running_plane)
   = Inr demo_answer"
proof -
  have read: "Workspace demo_env ''b2'' demo_store = (Inr demo_ws, demo_store)"
    by (simp add: Workspace_def fetch_no_faults uuid_arg_def ascii_lower_def demo_ws_def demo_workspace_def)
  have recent: "touch demo_env 1 ''b2'' p = (Inr (), p)" if "gw_lastTouch (pl_gateway p) = [''b2'' \<mapsto> 0]" for p :: "cluster plane"
    using that by (simp add: touch_def andThen_def one_minute_def)
  have "user_ID (scanUser demo_ann) = ''b2''" by (simp add: scanUser_def demo_ann_def)
  moreover have "ws_DesiredState demo_ws = ''running''" by simp
  ultimately show ?thesis
    by (simp add: ServeHTTP_def wake_def proxied_def andThen_def attempt_apply use_store_run use_ctl_run read demo_running_plane_def demo_plane_def
        find_backend_def demo_backend demo_parsers_def Let_def recent)
qed

theorem gateway_serves_own_workspace_witness:
  "\<exists>p'. ServeHTTP demo_env demo_parsers demo_api demo_controller (\<lambda>_. None) (\<lambda>_. Some demo_answer) 1 (demo_request []) (scanUser demo_ann) demo_running_plane
       = (Inr demo_answer, p')
     \<and> cache_ok demo_env demo_parsers demo_views demo_controller p'
     \<and> (\<exists>b. backend_of demo_env demo_parsers demo_views demo_controller ''b2'' b (db (pl_store p')) (pl_cluster p'))"
proof -
  obtain p' where run: "ServeHTTP demo_env demo_parsers demo_api demo_controller (\<lambda>_. None) (\<lambda>_. Some demo_answer) 1
      (demo_request []) (scanUser demo_ann) demo_running_plane = (Inr demo_answer, p')"
    using demo_serve by (metis prod.collapse)
  have "cache_ok demo_env demo_parsers demo_views demo_controller demo_running_plane"
    by (simp add: cache_ok_def demo_running_plane_def demo_plane_def)
  note served = gateway_serves_own_workspace [OF demo_kube_ok this run]
  have "demo_answer \<notin> own_answers (demo_request [])"
    by (simp add: own_answers_def http_error_def aborted_def starting_def demo_answer_def)
  moreover have "user_ID (scanUser demo_ann) = ''b2''" by (simp add: scanUser_def demo_ann_def)
  ultimately show ?thesis using served run by auto
qed

end
