(* ===== verification/HttpInv.thy ===== *)
theory HttpInv
  imports HttpLaws StoreFrames ProxyProps
begin

text \<open>
  Invariants lifted to requests. \<open>on_state L\<close> is a predicate on database, cluster and gateway. Inside
  \<open>state_invariant\<close> every handler keeps it, except that \<open>updateUser\<close> and \<open>changePassword\<close> do so only if
  \<open>UpdateUser\<close> does at their arguments. Every \<open>store_invariant\<close> gives a \<open>state_invariant\<close>; the gateway's
  cache is another one.
\<close>

section \<open>Rules\<close>

definition on_state :: "(db \<Rightarrow> 'k \<Rightarrow> gateway \<Rightarrow> bool) \<Rightarrow> 'k plane \<Rightarrow> bool" where
  "on_state L p \<longleftrightarrow> L (db (pl_store p)) (pl_cluster p) (pl_gateway p)"

definition on_pair :: "(db \<Rightarrow> 'k \<Rightarrow> bool) \<Rightarrow> store \<times> 'k \<Rightarrow> bool" where
  "on_pair M q \<longleftrightarrow> M (db (fst q)) (snd q)"

abbreviation on_plane :: "(db \<Rightarrow> bool) \<Rightarrow> 'k plane \<Rightarrow> bool" where
  "on_plane J \<equiv> on_state (\<lambda>d _ _. J d)"

named_theorems plane_rules \<open>preservation through the combinators of handlers\<close>

lemma plane_store: "(\<And>k g. preserves (on_db (\<lambda>d. L d k g)) m) \<Longrightarrow> preserves (on_state L) (use_store m)"
  unfolding preserves_def on_db_def on_state_def
  by (auto simp: use_store_run split: prod.splits sum.splits) (metis snd_conv)+

lemma plane_ctl: "(\<And>g. preserves (on_pair (\<lambda>d k. L d k g)) m) \<Longrightarrow> preserves (on_state L) (use_ctl m)"
  unfolding preserves_def on_pair_def on_state_def by (auto simp: use_ctl_run split: prod.splits) (metis fst_conv snd_conv)+

lemma plane_limit [plane_rules]: "preserves (on_state L) (limit f)"
  by (auto simp: preserves_def on_state_def limit_def split: prod.splits)

lemma pair_store: "(\<And>k. preserves (on_db (\<lambda>d. M d k)) m) \<Longrightarrow> preserves (on_pair M) (on_store m)"
  unfolding preserves_def on_db_def on_pair_def
  by (auto simp: on_store_run split: prod.splits sum.splits) (metis snd_conv)+

lemma pair_kube: "(\<And>d. preserves (M d) m) \<Longrightarrow> preserves (on_pair M) (on_kube m)"
  unfolding preserves_def on_pair_def by (auto simp: on_kube_run split: prod.splits sum.splits) (metis snd_conv)+

lemma preserves_ctl_error [plane_rules]:
  "(\<And>t. preserves I (h t)) \<Longrightarrow> preserves I n \<Longrightarrow> preserves I (case e of Panic t \<Rightarrow> h t | _ \<Rightarrow> n)"
  "(\<And>d. preserves I (g d)) \<Longrightarrow> preserves I n \<Longrightarrow> preserves I (case e of StoreError d \<Rightarrow> g d | _ \<Rightarrow> n)"
  by (cases e; simp)+

lemma plane_settled [plane_rules]: "(\<And>x. preserves I (k x)) \<Longrightarrow> preserves I (settled res code k)"
  unfolding settled_def by (intro act_rules plane_rules)

lemma plane_gates [plane_rules]:
  "(\<And>u. UserFromContext r = Some u \<Longrightarrow> preserves I (k u)) \<Longrightarrow> preserves I (requireUser r k)"
  "(\<And>u. UserFromContext r = Some u \<Longrightarrow> IsAdmin u \<Longrightarrow> preserves I (k u)) \<Longrightarrow> preserves I (requireAdmin r k)"
  unfolding requireAdmin_def requireUser_def by (intro act_rules; simp)+

lemma reads_session: "preserves (on_db J) (Settings E)"
  by (rule reads_only_preserves [OF Settings_reads])

lemma mux_keeps:
  assumes "\<And>rt. rt = route_of (rq_Method r) (segments (rq_Path r)) \<Longrightarrow> preserves I (dispatch W S rt r)"
  shows "preserves I (mux W S r)"
  unfolding mux_def using assms by (intro act_rules) simp

section \<open>Handlers\<close>

context store_invariant
begin

lemma request_reads:
  "preserves (on_db J) (request_session E A now r)" "preserves (on_db J) (User E A now r)"
  "preserves (on_db J) (CSRFValid E A now r)" "preserves (on_db J) (Middleware E A now ret r)"
proof -
  show 1: "preserves (on_db J) (request_session E A now r)"
    unfolding request_session_def by (intro act_rules sessions)
  then show 2: "preserves (on_db J) (User E A now r)" unfolding User_def by (intro act_rules)
  from 1 show "preserves (on_db J) (CSRFValid E A now r)" unfolding CSRFValid_def by (intro act_rules)
  from 2 show "preserves (on_db J) (Middleware E A now ret r)" unfolding Middleware_def by (intro act_rules)
qed

lemma auth_methods:
  "preserves (on_db J) (NewSession E A now r1 r2 r i)" "preserves (on_db J) (ClearSession E A r)"
  "preserves (on_db J) (Save E I now n a s remote)" "preserves (on_db J) (StartFlow E I T M now r1 r2 r3)"
  unfolding NewSession_def ClearSession_def Save_def StartFlow_def
  by (intro act_rules sessions others reads_session)+

lemma callback_keeps: "preserves (on_db J) (Callback E I T M now uid r)"
  unfolding Callback_def account_for_def
  by (intro act_rules accounts reads_session read_methods_inv)

end

text \<open>The interface between the parts of a plane and the handlers.\<close>

locale state_invariant =
  fixes E :: env and K :: "'k kube_api" and P :: parsers and C :: controller and L :: "db \<Rightarrow> 'k \<Rightarrow> gateway \<Rightarrow> bool"
  assumes store_methods: "store_invariant E (\<lambda>d. L d k g)"
    and pass: "preserves (on_pair (\<lambda>d k. L d k g)) (Reconcile E K C rnd w)"
    and calls:
      "preserves (\<lambda>k. L d k g) (cl_Get (ka_Deployments K) n x)"
      "preserves (\<lambda>k. L d k g) (cl_List (ka_Deployments K) n sel)"
      "preserves (\<lambda>k. L d k g) (cl_List (ka_Pods K) n sel)"
      "preserves (\<lambda>k. L d k g) (cl_Delete (ka_PVCs K) n x)"
    and serve: "preserves (on_state L) (ServeHTTP E P K C rnd rt now r u)"

context state_invariant
begin

lemmas accounts = store_invariant.accounts [OF store_methods]
lemmas others = store_invariant.others [OF store_methods]
lemmas request_reads = store_invariant.request_reads [OF store_methods]
lemmas auth_methods = store_invariant.auth_methods [OF store_methods]
lemmas callback_keeps = store_invariant.callback_keeps [OF store_methods]

lemma pages:
  assumes "wd_Env W = E"
  shows "preserves (on_state L) (branding_of W)" "preserves (on_state L) (data W r)" "preserves (on_state L) (renderError W r n m)"
proof -
  show 1: "preserves (on_state L) (branding_of W)"
    unfolding branding_of_def by (intro act_rules plane_store Setting_inv)
  then show 2: "preserves (on_state L) (data W r)"
    unfolding data_def by (intro act_rules plane_store reads_session)
  then show "preserves (on_state L) (renderError W r n m)"
    unfolding renderError_def by (intro act_rules)
qed

lemma csrf_keeps: "wd_Env W = E \<Longrightarrow> preserves (on_state L) k \<Longrightarrow> preserves (on_state L) (csrf W S r k)"
  unfolding csrf_def by (intro act_rules plane_store) (simp_all add: request_reads)

lemma signed_in_keeps:
  "wd_Env W = E \<Longrightarrow> (\<And>cs. preserves (on_state L) (k cs)) \<Longrightarrow> preserves (on_state L) (signed_in W S r i k)"
  unfolding signed_in_def by (intro act_rules plane_store) (simp_all add: auth_methods)

lemma actions_keep:
  "preserves (on_pair (\<lambda>d k. L d k g)) (Start E K C rnd now i)"
  "preserves (on_pair (\<lambda>d k. L d k g)) (Stop E K C rnd now a i remote)"
  "preserves (on_pair (\<lambda>d k. L d k g)) (Restart E K C rnd now a i remote)"
  "preserves (on_pair (\<lambda>d k. L d k g)) (Purge E K C rnd now a i remote)"
proof -
  have rec: "preserves (on_pair (\<lambda>d k. L d k g)) (reconcile_user E K C rnd i)"
    unfolding reconcile_user_def by (intro act_rules pair_store read_methods_inv pass)
  show "preserves (on_pair (\<lambda>d k. L d k g)) (Start E K C rnd now i)"
    "preserves (on_pair (\<lambda>d k. L d k g)) (Restart E K C rnd now a i remote)"
    and stop: "preserves (on_pair (\<lambda>d k. L d k g)) (Stop E K C rnd now a i remote)"
    unfolding Start_def Stop_def Restart_def by (intro act_rules pair_store others rec)+
  show "preserves (on_pair (\<lambda>d k. L d k g)) (Purge E K C rnd now a i remote)"
    unfolding Purge_def by (intro act_rules pair_store pair_kube others calls read_methods_inv stop)
qed

lemma status_keeps:
  "preserves (on_pair (\<lambda>d k. L d k g)) (Status K C w)" "preserves (on_pair (\<lambda>d k. L d k g)) (Statuses K C ws)"
  unfolding Status_def Statuses_def by (intro act_rules pair_kube calls)+

lemma loop_keeps:
  "preserves (on_pair (\<lambda>d k. L d k g)) (reconcileAll E K C rnd now)"
  "preserves (on_pair (\<lambda>d k. L d k g)) (Run E K C rnd now ticks)"
proof -
  show 1: "preserves (on_pair (\<lambda>d k. L d k g)) (reconcileAll E K C rnd now)" for now
    unfolding reconcileAll_def
    by (intro act_rules pair_store others read_methods_inv preserves_reconcile_each pass)
  show "preserves (on_pair (\<lambda>d k. L d k g)) (Run E K C rnd now ticks)"
    by (induction ticks arbitrary: now) (auto intro!: preserves_andThen 1)
qed

lemma public_keep:
  assumes "wd_Env W = E"
  shows "preserves (on_state L) (setupGet W r)" "preserves (on_state L) (setupPost W S r)"
    "preserves (on_state L) (loginGet W r)" "preserves (on_state L) (loginPost W S r)"
    "preserves (on_state L) (oidcLogin W S r)" "preserves (on_state L) (oidcCallback W S r)"
    "preserves (on_state L) (logout W S r)" "preserves (on_state L) (bootstrapAPI W r)" "preserves (on_state L) readyz"
  unfolding setupGet_def setupPost_def loginGet_def loginPost_def oidcLogin_def oidcCallback_def logout_def bootstrapAPI_def
    readyz_def Healthy_def assms
  by (intro act_rules plane_rules plane_store accounts auth_methods callback_keeps read_methods_inv pages signed_in_keeps
      csrf_keeps assms)+

lemma user_keep:
  assumes "wd_Env W = E" "wd_Kube W = K" "wd_Parsers W = P" "hs_Controller S = C"
  shows "preserves (on_state L) (home W S r)" "preserves (on_state L) (stopWorkspace W S r)"
    "preserves (on_state L) (gateway_handler W S r)" "preserves (on_state L) (admin W S r)"
  unfolding home_def stopWorkspace_def gateway_handler_def admin_def assms
  by (intro act_rules plane_rules plane_store plane_ctl pages actions_keep status_keeps read_methods_inv csrf_keeps serve assms(1))+

lemma admin_keep:
  assumes "wd_Env W = E" "wd_Kube W = K" "wd_Parsers W = P" "hs_Controller S = C"
  shows "preserves (on_state L) (createUser W S r)" "preserves (on_state L) (saveBranding W S r)"
    "preserves (on_state L) (saveOIDC W S r)" "preserves (on_state L) (workspaceAction W S i x r)"
  unfolding createUser_def saveBranding_def saveOIDC_def workspaceAction_def back_to_admin_def assms
  by (intro act_rules plane_rules plane_store plane_ctl actions_keep others accounts auth_methods reads_session csrf_keeps assms(1))+

text \<open>All routes but the two that update an account.\<close>

lemma dispatch_keeps:
  assumes "wd_Env W = E" "wd_Kube W = K" "wd_Parsers W = P" "hs_Controller S = C" "\<And>i. rt \<noteq> UpdateUserOf i" "rt \<noteq> ChangePassword"
  shows "preserves (on_state L) (dispatch W S rt r)"
  using assms
  by (cases rt) (auto simp: dispatch_def intro: public_keep user_keep admin_keep act_rules)

lemma updateUser_keeps:
  assumes "wd_Env W = E"
    and "\<And>u h k g. rq_User r = Some u \<Longrightarrow> IsAdmin u \<Longrightarrow> i = user_ID u \<Longrightarrow> FormValue r ''role'' = ''admin'' \<Longrightarrow>
      preserves (on_db (\<lambda>d. L d k g)) (UpdateUser E (wd_Now W) (user_ID u) i (TrimSpace (FormValue r ''display_name''))
        (TrimSpace (FormValue r ''email'')) ''admin'' False h (rq_RemoteAddr r))"
    and "\<And>u h role dis k g. rq_User r = Some u \<Longrightarrow> IsAdmin u \<Longrightarrow> i \<noteq> user_ID u \<Longrightarrow>
      preserves (on_db (\<lambda>d. L d k g)) (UpdateUser E (wd_Now W) (user_ID u) i (TrimSpace (FormValue r ''display_name''))
        (TrimSpace (FormValue r ''email'')) role dis h (rq_RemoteAddr r))"
  shows "preserves (on_state L) (updateUser W S i r)"
proof -
  have "preserves (on_state L) (use_store (UpdateUser E (wd_Now W) (user_ID u) i (TrimSpace (FormValue r ''display_name''))
        (TrimSpace (FormValue r ''email'')) (FormValue r ''role'') (FormValue r ''disabled'' \<noteq> []) h (rq_RemoteAddr r)))"
    if "UserFromContext r = Some u" "IsAdmin u"
      "\<not> (i = user_ID u \<and> (FormValue r ''disabled'' \<noteq> [] \<or> FormValue r ''role'' \<noteq> ''admin''))" for u h
    using that assms(2) [of u _ _ h] assms(3) [of u _ _ "FormValue r ''role''" "FormValue r ''disabled'' \<noteq> []" h]
    by (cases "i = user_ID u") (auto simp: UserFromContext_def intro!: plane_store)
  then show ?thesis
    unfolding updateUser_def back_to_admin_def assms(1) Let_def
    by (intro act_rules plane_rules csrf_keeps assms(1)) blast+
qed

lemma changePassword_keeps:
  assumes "wd_Env W = E"
    and "\<And>u h k g. rq_User r = Some u \<Longrightarrow>
      preserves (on_db (\<lambda>d. L d k g)) (UpdateUser E (wd_Now W) (user_ID u) (user_ID u) (user_DisplayName u) (user_Email u)
        (user_Role u) (user_Disabled u) h (rq_RemoteAddr r))"
  shows "preserves (on_state L) (changePassword W S r)"
  unfolding changePassword_def assms(1)
  by (intro act_rules plane_rules csrf_keeps assms(1) plane_store read_methods_inv)
    (auto simp: UserFromContext_def intro: assms(2))

lemma served_keeps:
  assumes "wd_Env W = E" "wd_Kube W = K" "wd_Parsers W = P" "hs_Controller S = C"
    and upd: "\<And>now a i dn m rol dis h remote k g. preserves (on_db (\<lambda>d. L d k g)) (UpdateUser E now a i dn m rol dis h remote)"
  shows "preserves (on_state L) (mux W S x)"
proof (rule mux_keeps)
  fix rt
  show "preserves (on_state L) (dispatch W S rt x)"
  proof (cases "rt = ChangePassword \<or> (\<exists>i. rt = UpdateUserOf i)")
    case True
    have "preserves (on_state L) (changePassword W S x)" "preserves (on_state L) (updateUser W S i x)" for i
      by (rule changePassword_keeps [OF assms(1)], rule upd) (rule updateUser_keeps [OF assms(1)]; rule upd)
    with True show ?thesis by (auto simp: dispatch_def)
  next
    case False
    then show ?thesis by (intro dispatch_keeps [OF assms(1-4)]) auto
  qed
qed

lemma Handler_keeps:
  assumes "wd_Env W = E" "wd_Kube W = K" "wd_Parsers W = P" "hs_Controller S = C"
    and "\<And>now a i dn m rol dis h remote k g. preserves (on_db (\<lambda>d. L d k g)) (UpdateUser E now a i dn m rol dis h remote)"
  shows "preserves (on_state L) (Handler W S r)"
  unfolding Handler_def securityHeaders_def with_session_def assms(1)
  by (intro act_rules plane_store request_reads served_keeps assms)

end

section \<open>Invariants of the database alone\<close>

lemma plane_gateway:
  "preserves (on_plane J) get_gateway" "preserves (on_plane J) (put_gateway g)" "preserves (on_plane J) (forgetBackend i)"
  unfolding forgetBackend_def by (auto simp: preserves_def on_state_def andThen_def)

lemma pair_Reconcile: "kube_ok K V \<Longrightarrow> preserves (on_pair (\<lambda>d _. J d)) (Reconcile E K C rnd w)"
  by (rule preservesI, case_tac s, case_tac t) (auto simp: on_pair_def dest: Reconcile_run)

context store_invariant
begin

lemma gateway_calls:
  assumes "kube_ok K V"
  shows "preserves (on_pair (\<lambda>d _. J d)) (Start E K C rnd now i)" "preserves (on_pair (\<lambda>d _. J d)) (Backend E K C i)"
proof -
  have kube: "preserves (on_pair (\<lambda>d _. J d)) (on_kube m)" for m
    by (rule pair_kube) (simp add: preserves_def)
  show "preserves (on_pair (\<lambda>d _. J d)) (Start E K C rnd now i)" "preserves (on_pair (\<lambda>d _. J d)) (Backend E K C i)"
    unfolding Start_def reconcile_user_def Backend_def Status_def
    by (intro act_rules pair_store kube others read_methods_inv pair_Reconcile [OF assms])+
qed

lemma serve_keeps:
  assumes "kube_ok K V"
  shows "preserves (on_plane J) (ServeHTTP E P K C rnd rt now r u)"
  unfolding ServeHTTP_def wake_def proxied_def find_backend_def touch_def
  by (intro act_rules plane_rules plane_store plane_ctl plane_gateway others read_methods_inv gateway_calls [OF assms])

lemma state: "kube_ok K V \<Longrightarrow> state_invariant E K P C (\<lambda>d _ _. J d)"
  by (intro state_invariant.intro store_invariant_axioms pair_Reconcile serve_keeps) (simp_all add: preserves_def)

end

end
