(* ===== verification/HttpDemo.thy ===== *)
theory HttpDemo
  imports HttpInv
begin

text \<open>
  The demo installation behind its handler: \<open>root\<close> is signed in, the identity provider and the pods are
  the ones of the component theories.
\<close>

definition demo_world :: "(cluster, unit) world" where
  "demo_world = \<lparr>wd_Env = demo_env, wd_Parsers = demo_parsers, wd_Kube = demo_api, wd_IdP = demo_idp, wd_Times = demo_times,
     wd_Pod = (\<lambda>_. Some demo_answer), wd_Static = (\<lambda>p. text_answer p), wd_Now = 10,
     wd_Rand = (\<lambda>n. Some (CHR ''r'' # show_nat n)), wd_Secret = (\<lambda>_. Some ''secret''), wd_UUID = ''d4'', wd_ErrorText = (\<lambda>_. [])\<rparr>"

definition demo_server :: server where
  "demo_server = \<lparr>hs_Config = demo_config, hs_Auth = demo_manager, hs_OIDC = demo_oidc, hs_Controller = demo_controller\<rparr>"

definition demo_admin_row :: session_row where
  "demo_admin_row = demo_session_row\<lparr>s_user_id := ''a1''\<rparr>"

definition demo_admin_store :: store where
  "demo_admin_store = demo_store\<lparr>db := demo_db\<lparr>sessions := [demo_admin_row]\<rparr>\<rparr>"

definition demo_admin_plane :: "cluster plane" where
  "demo_admin_plane = demo_plane\<lparr>pl_store := demo_admin_store\<rparr>"

text \<open>A form that \<open>root\<close> posts.\<close>

definition demo_post :: "string \<Rightarrow> (string \<times> string) list \<Rightarrow> request" where
  "demo_post path form = (demo_request (cookie_text demo_env demo_manager demo_token))
     \<lparr>rq_Path := path, rq_RequestURI := path, rq_Form := (''csrf'', RawEncode url_alphabet ''bbbb'') # form\<rparr>"

lemma demo_world_simps [simp]:
  "wd_Env demo_world = demo_env" "wd_Kube demo_world = demo_api" "wd_Now demo_world = 10"
  "hs_Auth demo_server = demo_manager"
  by (simp_all add: demo_world_def demo_server_def)

lemma demo_admin_plane_simps [simp]:
  "pl_store demo_admin_plane = demo_admin_store" "users (db demo_admin_store) = [demo_root, demo_ann]" "faults demo_admin_store = []"
  by (simp_all add: demo_admin_plane_def demo_admin_store_def)

lemma demo_foreign: "foreign_answers demo_world"
  by (simp add: foreign_answers_def demo_world_def demo_answer_def clean_def text_answer_def)

lemma demo_admin_inv: "db_inv demo_env (db demo_admin_store)"
  unfolding demo_admin_store_def
  using db_inv_tables(3) [OF demo_db_inv, of "[demo_admin_row]"]
  by (simp add: sessions_ok_def demo_admin_row_def demo_session_row_def ids_def demo_rows)

lemma demo_post_simps [simp]:
  "rq_Method (demo_post path form) = ''POST''" "rq_Path (demo_post path form) = path" "rq_User (demo_post path form) = None"
  "rq_RemoteAddr (demo_post path form) = ''10.0.0.1:4000''"
  "FormValue ((demo_post path form)\<lparr>rq_User := u\<rparr>) k = first_value k ((''csrf'', RawEncode url_alphabet ''bbbb'') # form)"
  "FormValue (demo_post path form) k = first_value k ((''csrf'', RawEncode url_alphabet ''bbbb'') # form)"
  "HeaderGet ((demo_post path form)\<lparr>rq_User := u\<rparr>) h = []"
  by (simp_all add: demo_post_def demo_request_def FormValue_def HeaderGet_def first_value_def)

lemma demo_admin_session:
  assumes "CookieOf r CookieName = Some (cookie_text demo_env demo_manager demo_token)"
  shows "request_session demo_env demo_manager 10 r demo_admin_store
     = (Inr (Some (scanUser demo_root, Hash demo_env (RawEncode url_alphabet ''bbbb''), 9 + sessionLifetime)), demo_admin_store)"
proof -
  have nodot: "CHR ''.'' \<notin> set demo_token" unfolding demo_token_def by (rule url_no_dot)
  have "Session 10 (Hash demo_env demo_token) demo_admin_store
     = (Inr (scanUser demo_root, Hash demo_env (RawEncode url_alphabet ''bbbb''), 9 + sessionLifetime), demo_admin_store)"
    by (simp add: Session_def andThen_def fetch_no_faults attempt_apply stmt_no_faults demo_admin_store_def session_join_def
        demo_admin_row_def demo_session_row_def demo_rows sessionLifetime_def scanUser_def update_where_def five_minutes_def)
  then show ?thesis unfolding request_session_cookie [OF assms nodot] by simp
qed

lemma demo_post_cookie:
  "CookieOf (demo_post path form) CookieName = Some (cookie_text demo_env demo_manager demo_token)"
  "CookieOf ((demo_post path form)\<lparr>rq_User := u\<rparr>) CookieName = Some (cookie_text demo_env demo_manager demo_token)"
  by (simp_all add: CookieOf_def demo_post_def demo_request_def)

lemma demo_post_csrf:
  "csrf demo_world demo_server ((demo_post path form)\<lparr>rq_User := u\<rparr>) k demo_admin_plane = k demo_admin_plane"
  by (simp add: csrf_def CSRFValid_def andThen_def use_store_run demo_admin_session [OF demo_post_cookie(2)] Let_def first_value_def)
    (simp add: demo_admin_plane_def)

lemma demo_post_handled:
  assumes "mux_redirect ''POST'' path = None" "route_of ''POST'' (segments path) = rt"
  shows "snd (Handler demo_world demo_server (demo_post path form) demo_admin_plane)
     = snd (dispatch demo_world demo_server rt ((demo_post path form)\<lparr>rq_User := Some (scanUser demo_root)\<rparr>) demo_admin_plane)"
proof -
  let ?x = "(demo_post path form)\<lparr>rq_User := Some (scanUser demo_root)\<rparr>"
  have "use_store (Middleware demo_env demo_manager 10 ret (demo_post path form)) demo_admin_plane = (Inr ?x, demo_admin_plane)"
    by (simp add: Middleware_def User_def andThen_def use_store_run demo_admin_session [OF demo_post_cookie(1)])
  then show ?thesis using assms
    by (cases "dispatch demo_world demo_server rt ?x demo_admin_plane")
      (simp add: Handler_def securityHeaders_def with_session_def andThen_def mux_def split: sum.split)
qed

end
