(* ===== verification/AccessControl.thy ===== *)
theory AccessControl
  imports HttpDemo
begin

text \<open>
  Who can change what: a request either leaves accounts, settings, workspaces, sessions and the cluster as
  they were, or it is one of the three public forms, or it comes from the owner of a live session, with the
  session's CSRF secret wherever the code asks for it, and from an administrator for everything under
  \<open>/platform/admin\<close>.
\<close>

section \<open>Sessions of a database\<close>

definition session_at :: "db \<Rightarrow> string \<Rightarrow> (string \<times> string \<times> int) option" where
  "session_at d h = map_option (\<lambda>r. (s_user_id r, s_csrf_hash r, s_expires_at r)) (find (\<lambda>r. s_id_hash r = h) (sessions d))"

lemma session_at_view: "session_at (db s) = session_view s"
  by (simp add: session_at_def session_view_def fun_eq_iff)

text \<open>Owner and CSRF digest of the unexpired session that the request's cookie names.\<close>

definition live_session :: "env \<Rightarrow> manager \<Rightarrow> int \<Rightarrow> request \<Rightarrow> db \<Rightarrow> (string \<times> string) option" where
  "live_session E A now r d = (case CookieOf r CookieName of None \<Rightarrow> None
     | Some v \<Rightarrow> (case token E A v of (k, ok) \<Rightarrow>
         if \<not> ok then None
         else (case session_at d (Hash E k) of None \<Rightarrow> None
            | Some (i, c, e) \<Rightarrow> if now < e then Some (i, c) else None)))"

definition csrf_field :: "request \<Rightarrow> string" where
  "csrf_field r = (if HeaderGet r ''X-Csrf-Token'' = [] then FormValue r ''csrf'' else HeaderGet r ''X-Csrf-Token'')"

definition speaks_for :: "env \<Rightarrow> manager \<Rightarrow> int \<Rightarrow> request \<Rightarrow> db \<Rightarrow> user_row \<Rightarrow> bool" where
  "speaks_for E A now r d row \<longleftrightarrow> row \<in> set (users d) \<and> \<not> u_disabled row
     \<and> (\<exists>c. live_session E A now r d = Some (u_id row, c))"

definition confirmed :: "env \<Rightarrow> manager \<Rightarrow> int \<Rightarrow> request \<Rightarrow> db \<Rightarrow> bool" where
  "confirmed E A now r d \<longleftrightarrow> (\<exists>i. live_session E A now r d = Some (i, Hash E (csrf_field r)))"

lemma request_session_live:
  assumes inv: "db_inv E (db s)" and run: "request_session E A now r s = (Inr (Some (u, c, e)), t)"
  obtains row where "row \<in> set (users (db s))" "\<not> u_disabled row" "u = scanUser row"
    "live_session E A now r (db s) = Some (u_id row, c)"
proof -
  obtain v where v: "CookieOf r CookieName = Some v" using run by (cases "CookieOf r CookieName") (auto simp: request_session_def)
  obtain k where k: "token E A v = (k, True)"
    using run v by (cases "token E A v") (auto simp: request_session_def split: if_splits)
  have ses: "Session now (Hash E k) s = (Inr (u, c, e), t)"
    using run v k by (cases "Session now (Hash E k) s") (auto simp: request_session_def andThen_def attempt_apply split: sum.splits)
  obtain w where w: "session_view s (Hash E k) = Some w" "session_meaning now s w = Some (u, c, e)"
    using Session_result [OF inv ses] by blast
  obtain i c' e' where "w = (i, c', e')" by (cases w)
  with w(2) obtain row where row: "w = (i, c, e)" "now < e" "find (\<lambda>u. u_id u = i) (users (db s)) = Some row" "\<not> u_disabled row"
    "u = scanUser row"
    by (auto simp: session_meaning_def split: if_splits option.splits)
  have "row \<in> set (users (db s))" "u_id row = i" using find_Some_in [OF row(3)] by simp_all
  moreover have "live_session E A now r (db s) = Some (i, c)"
    using v k w(1) row by (simp add: live_session_def session_at_view)
  ultimately show thesis using row that by blast
qed

lemma CSRFValid_confirmed:
  assumes "db_inv E (db s)" "rq_Method r \<notin> {''GET'', ''HEAD'', ''OPTIONS''}" "CSRFValid E A now r s = (Inr True, t)"
  shows "confirmed E A now r (db s)"
proof -
  from assms(2,3) obtain u c e where y: "request_session E A now r s = (Inr (Some (u, c, e)), t)" "c = Hash E (csrf_field r)"
    by (auto simp: CSRFValid_def Let_def csrf_field_def elim!: andThen_Inr_E split: option.splits)
  from assms(1) y(1) show ?thesis by (rule request_session_live) (auto simp: confirmed_def y(2))
qed

section \<open>Quiet actions\<close>

text \<open>Nothing but the time of the last request of a session changes.\<close>

definition quiet_db :: "env \<Rightarrow> db \<Rightarrow> db \<Rightarrow> bool" where
  "quiet_db E d0 d \<longleftrightarrow> d\<lparr>sessions := []\<rparr> = d0\<lparr>sessions := []\<rparr> \<and> session_at d = session_at d0 \<and> db_inv E d"

lemma live_session_cong: "session_at d = session_at d' \<Longrightarrow> live_session E A now r d = live_session E A now r d'"
  unfolding live_session_def by (erule ssubst) (rule refl)

lemma quiet_db_facts:
  assumes "quiet_db E d0 d"
  shows "users d = users d0" "live_session E A now r d = live_session E A now r d0"
    "speaks_for E A now r d row = speaks_for E A now r d0 row" "confirmed E A now r d = confirmed E A now r d0"
proof -
  have "users (d\<lparr>sessions := []\<rparr>) = users (d0\<lparr>sessions := []\<rparr>)" using assms by (simp only: quiet_db_def)
  then show us: "users d = users d0" by simp
  show live: "live_session E A now r d = live_session E A now r d0" for now
    using assms by (intro live_session_cong) (simp add: quiet_db_def)
  show "speaks_for E A now r d row = speaks_for E A now r d0 row" "confirmed E A now r d = confirmed E A now r d0"
    by (simp_all add: speaks_for_def confirmed_def us live)
qed

definition cluster_view :: "'k views \<Rightarrow> 'k \<Rightarrow> pvc objects \<times> secret objects \<times> service objects \<times> deployment objects \<times> (string \<Rightarrow> pod list)" where
  "cluster_view V k = (vw_PVCs V k, vw_Secrets V k, vw_Services V k, vw_Deployments V k, vw_Pods V k)"

definition quiet :: "env \<Rightarrow> 'k views \<Rightarrow> 'k plane \<Rightarrow> 'k plane \<Rightarrow> bool" where
  "quiet E V p0 p \<longleftrightarrow> quiet_db E (db (pl_store p0)) (db (pl_store p)) \<and> cluster_view V (pl_cluster p) = cluster_view V (pl_cluster p0)"

definition quiet_ctl :: "env \<Rightarrow> 'k views \<Rightarrow> 'k plane \<Rightarrow> store \<times> 'k \<Rightarrow> bool" where
  "quiet_ctl E V p0 q \<longleftrightarrow> quiet_db E (db (pl_store p0)) (db (fst q)) \<and> cluster_view V (snd q) = cluster_view V (pl_cluster p0)"

lemma quiet_store: "preserves (on_db (quiet_db E (db (pl_store p0)))) m \<Longrightarrow> preserves (quiet E V p0) (use_store m)"
  by (auto simp: preserves_def on_db_def quiet_def use_store_run split: prod.splits sum.splits)

lemma quiet_use_ctl: "preserves (quiet_ctl E V p0) m \<Longrightarrow> preserves (quiet E V p0) (use_ctl m)"
  by (auto simp: preserves_def quiet_ctl_def quiet_def use_ctl_run split: prod.splits) (metis fst_conv snd_conv)+

lemma quiet_limit: "preserves (quiet E V p0) (limit f)"
  by (auto simp: preserves_def quiet_def limit_def split: prod.splits)

lemma Session_quiet_db: "preserves (on_db (quiet_db E d0)) (Session now h)"
proof -
  let ?upd = "\<lambda>d. d\<lparr>sessions := update_where (\<lambda>r. s_id_hash r = h \<and> s_last_seen_at r < now - five_minutes)
        (\<lambda>r. r\<lparr>s_last_seen_at := now\<rparr>) (sessions d)\<rparr>"
  have frame: "preserves (on_db (\<lambda>d. d\<lparr>sessions := []\<rparr> = d0\<lparr>sessions := []\<rparr> \<and> session_at d = session_at d0)) (Session now h)"
    unfolding Session_def session_at_def by (intro act_rules) (auto simp: session_view_touch fun_eq_iff)
  have "preserves (on_db (db_inv E)) (Session now h)" by (rule session_methods_inv)
  with frame show ?thesis
    unfolding preserves_def on_db_def quiet_db_def by blast
qed

lemma quiet_reads:
  "preserves (on_db (quiet_db E d0)) (request_session E A now r)" "preserves (on_db (quiet_db E d0)) (CSRFValid E A now r)"
  "preserves (on_db (quiet_db E d0)) (Middleware E A now ret r)"
proof -
  show 1: "preserves (on_db (quiet_db E d0)) (request_session E A now r)"
    unfolding request_session_def by (intro act_rules Session_quiet_db)
  show "preserves (on_db (quiet_db E d0)) (CSRFValid E A now r)" unfolding CSRFValid_def by (intro act_rules 1)
  show "preserves (on_db (quiet_db E d0)) (Middleware E A now ret r)"
    unfolding Middleware_def User_def by (intro act_rules 1)
qed

lemma quiet_kube:
  "(\<And>k r k'. m k = (r, k') \<Longrightarrow> cluster_view V k' = cluster_view V k) \<Longrightarrow> preserves (quiet_ctl E V p0) (on_kube m)"
  by (rule preservesI, case_tac s) (auto simp: on_kube_run quiet_ctl_def split: prod.splits sum.splits)

lemma quiet_list:
  assumes "kube_ok K V"
  shows "preserves (quiet_ctl E V p0) (on_kube (cl_Get (ka_Deployments K) n x))"
    "preserves (quiet_ctl E V p0) (on_kube (cl_List (ka_Deployments K) n sel))"
    "preserves (quiet_ctl E V p0) (on_kube (cl_List (ka_Pods K) n sel))"
proof -
  let ?others = "\<lambda>k k'. vw_PVCs V k' = vw_PVCs V k \<and> vw_Secrets V k' = vw_Secrets V k
          \<and> vw_Services V k' = vw_Services V k \<and> vw_Pods V k' = vw_Pods V k"
  have dep: "client_ok (ka_Deployments K) (vw_Deployments V) (\<lambda>x. om_Name (dp_Meta x)) deployment_agrees ?others"
    and pods: "pods_ok (ka_Pods K) (vw_Pods V) (\<lambda>k k'. vw_PVCs V k' = vw_PVCs V k \<and> vw_Secrets V k' = vw_Secrets V k
          \<and> vw_Services V k' = vw_Services V k \<and> vw_Deployments V k' = vw_Deployments V k)"
    using assms unfolding kube_ok_def by blast+
  show "preserves (quiet_ctl E V p0) (on_kube (cl_Get (ka_Deployments K) n x))"
    by (rule quiet_kube, drule client_okD(1) [OF dep]) (simp add: cluster_view_def get_ok_def)
  show "preserves (quiet_ctl E V p0) (on_kube (cl_List (ka_Deployments K) n sel))"
    by (rule quiet_kube, drule client_okD(5) [OF dep]) (simp add: cluster_view_def)
  show "preserves (quiet_ctl E V p0) (on_kube (cl_List (ka_Pods K) n sel))"
    by (rule quiet_kube) (use pods in \<open>simp add: cluster_view_def pods_ok_def\<close>)
qed

lemma quiet_status:
  assumes "kube_ok K V"
  shows "preserves (quiet_ctl E V p0) (Status K C w)" "preserves (quiet_ctl E V p0) (Statuses K C ws)"
  unfolding Status_def Statuses_def by (intro act_rules quiet_list [OF assms])+

section \<open>Gates\<close>

lemma csrf_quiet:
  assumes "wd_Env W = E" "rq_Method r \<notin> {''GET'', ''HEAD'', ''OPTIONS''}"
    and k: "confirmed E (hs_Auth S) (wd_Now W) r (db (pl_store p0)) \<Longrightarrow> preserves (quiet E V p0) k"
  shows "preserves (quiet E V p0) (csrf W S r k)"
proof (cases "confirmed E (hs_Auth S) (wd_Now W) r (db (pl_store p0))")
  case True
  then show ?thesis unfolding csrf_def assms(1) by (intro act_rules quiet_store quiet_reads k)
next
  case False
  show ?thesis
  proof (rule preservesI)
    fix s res t assume I: "quiet E V p0 s" and run: "csrf W S r k s = (res, t)"
    obtain b s1 where v: "CSRFValid E (hs_Auth S) (wd_Now W) r (pl_store s) = (b, s1)"
      by (cases "CSRFValid E (hs_Auth S) (wd_Now W) r (pl_store s)")
    have inv: "db_inv E (db (pl_store s))" using I by (simp add: quiet_def quiet_db_def)
    have "b \<noteq> Inr True"
      using CSRFValid_confirmed [OF inv assms(2)] v False quiet_db_facts(4) I unfolding quiet_def by blast
    moreover have "quiet E V p0 (snd (use_store (CSRFValid E (hs_Auth S) (wd_Now W) r) s))"
      by (rule preserves_snd [OF quiet_store [OF quiet_reads(2)] I])
    ultimately show "quiet E V p0 t"
      using run v assms(1) by (auto simp: csrf_def andThen_def use_store_run split: sum.splits if_splits)
  qed
qed

lemma quiet_pages:
  "preserves (quiet E V p0) (branding_of W)" "preserves (quiet E V p0) (data W r)" "preserves (quiet E V p0) (renderError W r n m)"
proof -
  show 1: "preserves (quiet E V p0) (branding_of W)"
    unfolding branding_of_def by (intro act_rules quiet_store Setting_inv)
  show 2: "preserves (quiet E V p0) (data W r)"
    unfolding data_def by (intro act_rules quiet_store reads_session 1)
  show "preserves (quiet E V p0) (renderError W r n m)" unfolding renderError_def by (intro act_rules 2)
qed

text \<open>A second bootstrap reads that there are users and stops.\<close>

lemma BootstrapAdmin_refused:
  assumes "\<And>d. J d \<Longrightarrow> users d \<noteq> []"
  shows "preserves (on_db J) (BootstrapAdmin E now i un dn m h)" "fst (BootstrapAdmin E now i un dn m h s) = Inr u \<Longrightarrow> \<not> J (db s)"
proof -
  have y: "yields (on_db J) (andThen lockUsers (\<lambda>_.
      andThen (fetch (\<lambda>d. Inr (users d \<noteq> []))) (\<lambda>exists.
      if exists then throw ErrAlreadyBootstrapped
      else andThen (insertUser E now i un dn m ''admin'' h) (\<lambda>u.
           andThen (audit E now (user_ID u) ''bootstrap.admin'' ''user'' (user_ID u) ''{}'' []) (\<lambda>_.
           ret u))))) (\<lambda>_ _. False)"
  proof (rule yields_andThen)
    show "yields (on_db J) lockUsers (\<lambda>_. on_db J)"
      unfolding lockUsers_def by (rule yields_stmt) simp
    show "yields (on_db J) (andThen (fetch (\<lambda>d. Inr (users d \<noteq> []))) (\<lambda>exists.
      if exists then throw ErrAlreadyBootstrapped
      else andThen (insertUser E now i un dn m ''admin'' h) (\<lambda>u.
           andThen (audit E now (user_ID u) ''bootstrap.admin'' ''user'' (user_ID u) ''{}'' []) (\<lambda>_.
           ret u)))) (\<lambda>_ _. False)"
      by (rule yieldsI, elim andThen_Inr_E) (use assms in \<open>auto simp: on_db_def dest: fetch_Inr\<close>)
  qed
  have never: "BootstrapAdmin E now i un dn m h s \<noteq> (Inr u, t)" if J: "J (db s)" for s u t
  proof
    assume "BootstrapAdmin E now i un dn m h s = (Inr u, t)"
    then obtain s1 s2 where "db s1 = db s" and run: "andThen lockUsers (\<lambda>_.
      andThen (fetch (\<lambda>d. Inr (users d \<noteq> []))) (\<lambda>exists.
      if exists then throw ErrAlreadyBootstrapped
      else andThen (insertUser E now i un dn m ''admin'' h) (\<lambda>u.
           andThen (audit E now (user_ID u) ''bootstrap.admin'' ''user'' (user_ID u) ''{}'' []) (\<lambda>_.
           ret u)))) s1 = (Inr u, s2)"
      unfolding BootstrapAdmin_def by (rule transaction_Inr)
    with J yieldsD [OF y _ run] show False by (simp add: on_db_def)
  qed
  then show "fst (BootstrapAdmin E now i un dn m h s) = Inr u \<Longrightarrow> \<not> J (db s)" by (metis prod.collapse)
  show "preserves (on_db J) (BootstrapAdmin E now i un dn m h)"
  proof (rule preservesI)
    fix s r t assume J: "on_db J s" and run: "BootstrapAdmin E now i un dn m h s = (r, t)"
    then obtain e where "r = Inl e" using never by (cases r) (auto simp: on_db_def)
    with run have "db t = db s" unfolding BootstrapAdmin_def by (auto dest: transaction_Inl)
    with J show "on_db J t" by (simp add: on_db_def)
  qed
qed

lemma setupPost_quiet:
  assumes "wd_Env W = E" "users (db (pl_store p0)) \<noteq> []"
  shows "preserves (quiet E V p0) (setupPost W S r)"
proof -
  have us: "users d \<noteq> []" if "quiet_db E (db (pl_store p0)) d" for d
    using quiet_db_facts(1) [OF that] assms(2) by simp
  have boot: "preserves (quiet E V p0) (andThen (attempt (use_store (BootstrapAdmin E now i un dn m h))) (\<lambda>res. case res of
              Inl (StoreError e) \<Rightarrow> renderError W r ''setup'' (wd_ErrorText W e)
            | Inl _ \<Rightarrow> renderError W r ''setup'' []
            | Inr u \<Rightarrow> k u))" for now i un dn m h k
  proof (rule preservesI)
    fix s res t assume I: "quiet E V p0 s"
      and run: "andThen (attempt (use_store (BootstrapAdmin E now i un dn m h))) (\<lambda>res. case res of
              Inl (StoreError e) \<Rightarrow> renderError W r ''setup'' (wd_ErrorText W e)
            | Inl _ \<Rightarrow> renderError W r ''setup'' []
            | Inr u \<Rightarrow> k u) s = (res, t)"
    obtain b s1 where b: "use_store (BootstrapAdmin E now i un dn m h) s = (b, s1)"
      by (cases "use_store (BootstrapAdmin E now i un dn m h) s")
    have "quiet_db E (db (pl_store p0)) (db (pl_store s))" using I by (simp add: quiet_def)
    then have "fst (BootstrapAdmin E now i un dn m h (pl_store s)) \<noteq> Inr u" for u
      using BootstrapAdmin_refused(2) [OF us] by blast
    then have "b \<noteq> Inr u" for u using b by (auto simp: use_store_run split: prod.splits sum.splits)
    moreover have "quiet E V p0 s1"
      using preservesD [OF quiet_store [OF BootstrapAdmin_refused(1) [OF us]] I b] .
    ultimately show "quiet E V p0 t"
      using run b preserves_snd [OF quiet_pages(3)]
      by (cases b) (auto simp: andThen_def attempt_apply split: ctl_error.splits prod.splits dest: preservesD [OF quiet_pages(3), rotated])
  qed
  show ?thesis
    unfolding setupPost_def assms(1) by (intro act_rules quiet_pages boot)
qed

section \<open>Routes\<close>

definition admin_action :: "route \<Rightarrow> bool" where
  "admin_action rt \<longleftrightarrow> (case rt of CreateUser \<Rightarrow> True | UpdateUserOf i \<Rightarrow> True | SaveBranding \<Rightarrow> True | SaveOIDC \<Rightarrow> True
     | WorkspaceActionOf i x \<Rightarrow> True | _ \<Rightarrow> False)"

text \<open>The requests that may change something.\<close>

definition permitted :: "env \<Rightarrow> manager \<Rightarrow> int \<Rightarrow> request \<Rightarrow> route \<Rightarrow> db \<Rightarrow> bool" where
  "permitted E A now r rt d \<longleftrightarrow>
     rt = LoginPost \<or> rt = OIDCCallback \<or> rt = SetupPost \<and> users d = []
   \<or> rt = Logout \<and> confirmed E A now r d
   \<or> (\<exists>row. speaks_for E A now r d row
        \<and> (rt = Gateway
           \<or> confirmed E A now r d \<and> (rt = StopWorkspace \<or> rt = ChangePassword \<or> admin_action rt \<and> u_role row = ''admin'')))"

definition by_post :: "route \<Rightarrow> bool" where
  "by_post rt \<longleftrightarrow> rt = Logout \<or> rt = StopWorkspace \<or> rt = ChangePassword \<or> admin_action rt"

lemma get_route_not_by_post: "\<not> by_post (get_route segs)"
  by (simp add: get_route_def by_post_def admin_action_def Let_def)

lemma by_post_method: "by_post (route_of m segs) \<Longrightarrow> m = ''POST''"
  using get_route_not_by_post [of segs]
  by (auto simp: route_of_def by_post_def admin_action_def split: if_splits)

lemma admin_gate_quiet:
  assumes E: "wd_Env W = E" and m: "rq_Method r = ''POST''" and rt: "admin_action rt"
    and usr: "\<And>u. rq_User r = Some u \<Longrightarrow> \<exists>row. speaks_for E (hs_Auth S) (wd_Now W) r (db (pl_store p0)) row \<and> u = scanUser row"
    and no: "\<not> permitted E (hs_Auth S) (wd_Now W) r rt (db (pl_store p0))"
  shows "preserves (quiet E V p0) (requireAdmin r (\<lambda>actor. csrf W S r (k actor)))"
proof (rule plane_gates(2))
  fix u assume u: "UserFromContext r = Some u" "IsAdmin u"
  then obtain row where row: "speaks_for E (hs_Auth S) (wd_Now W) r (db (pl_store p0)) row" "u = scanUser row"
    using usr by (auto simp: UserFromContext_def)
  with u(2) have "u_role row = ''admin''" by (simp add: IsAdmin_def)
  with row no rt have "\<not> confirmed E (hs_Auth S) (wd_Now W) r (db (pl_store p0))" unfolding permitted_def by blast
  then show "preserves (quiet E V p0) (csrf W S r (k u))"
    by (intro csrf_quiet [OF E]) (simp_all add: m)
qed

lemma user_gate_quiet:
  assumes E: "wd_Env W = E" and m: "rq_Method r = ''POST''" and rt: "rt = StopWorkspace \<or> rt = ChangePassword"
    and usr: "\<And>u. rq_User r = Some u \<Longrightarrow> \<exists>row. speaks_for E (hs_Auth S) (wd_Now W) r (db (pl_store p0)) row \<and> u = scanUser row"
    and no: "\<not> permitted E (hs_Auth S) (wd_Now W) r rt (db (pl_store p0))"
  shows "preserves (quiet E V p0) (requireUser r (\<lambda>u. csrf W S r (k u)))"
proof (rule plane_gates(1))
  fix u assume u: "UserFromContext r = Some u"
  then obtain row where "speaks_for E (hs_Auth S) (wd_Now W) r (db (pl_store p0)) row"
    using usr by (auto simp: UserFromContext_def)
  with no rt have "\<not> confirmed E (hs_Auth S) (wd_Now W) r (db (pl_store p0))" unfolding permitted_def by blast
  then show "preserves (quiet E V p0) (csrf W S r (k u))"
    by (intro csrf_quiet [OF E]) (simp_all add: m)
qed

lemma reading_routes_quiet:
  assumes "wd_Env W = E" "kube_ok (wd_Kube W) V"
  shows "preserves (quiet E V p0) (setupGet W r)" "preserves (quiet E V p0) (loginGet W r)" "preserves (quiet E V p0) (oidcLogin W S r)"
    "preserves (quiet E V p0) (bootstrapAPI W r)" "preserves (quiet E V p0) readyz" "preserves (quiet E V p0) (home W S r)"
    "preserves (quiet E V p0) (admin W S r)"
  unfolding setupGet_def loginGet_def oidcLogin_def bootstrapAPI_def readyz_def Healthy_def home_def admin_def StartFlow_def
  by (intro act_rules plane_rules quiet_store quiet_use_ctl quiet_status [OF assms(2)] quiet_pages read_methods_inv reads_session)+

lemma dispatch_quiet:
  assumes E: "wd_Env W = E" and K: "kube_ok (wd_Kube W) V" and m: "by_post rt \<Longrightarrow> rq_Method r = ''POST''"
    and usr: "\<And>u. rq_User r = Some u \<Longrightarrow> \<exists>row. speaks_for E (hs_Auth S) (wd_Now W) r (db (pl_store p0)) row \<and> u = scanUser row"
    and no: "\<not> permitted E (hs_Auth S) (wd_Now W) r rt (db (pl_store p0))"
  shows "preserves (quiet E V p0) (dispatch W S rt r)"
proof -
  have adm: "preserves (quiet E V p0) (requireAdmin r (\<lambda>actor. csrf W S r (k actor)))" if "admin_action rt" for k
    by (rule admin_gate_quiet [OF E _ that usr no]) (use m that in \<open>simp add: by_post_def\<close>)
  have one: "preserves (quiet E V p0) (requireUser r (\<lambda>u. csrf W S r (k u)))" if "rt = StopWorkspace \<or> rt = ChangePassword" for k
    by (rule user_gate_quiet [OF E _ that usr no]) (use m that in \<open>auto simp: by_post_def\<close>)
  have out: "preserves (quiet E V p0) (logout W S r)" if "rt = Logout"
    unfolding logout_def
    by (rule csrf_quiet [OF E]) (use m no that in \<open>auto simp: by_post_def permitted_def\<close>)
  have gw: "preserves (quiet E V p0) (gateway_handler W S r)" if "rt = Gateway"
  proof -
    have "UserFromContext r = None"
    proof (rule ccontr)
      assume "UserFromContext r \<noteq> None"
      then obtain u where "rq_User r = Some u" by (auto simp: UserFromContext_def)
      with usr no that show False unfolding permitted_def by blast
    qed
    then show ?thesis by (simp add: gateway_handler_def preserves_ret)
  qed
  have boot: "preserves (quiet E V p0) (setupPost W S r)" if "rt = SetupPost"
    by (rule setupPost_quiet [OF E]) (use no that in \<open>simp add: permitted_def\<close>)
  show ?thesis
  proof (cases "admin_action rt")
    case True
    then show ?thesis
      using adm by (cases rt) (simp_all add: admin_action_def dispatch_def createUser_def updateUser_def saveBranding_def
          saveOIDC_def workspaceAction_def)
  next
    case False
    then show ?thesis
      using one out gw boot no reading_routes_quiet [OF E K]
      by (cases rt) (simp_all add: admin_action_def dispatch_def stopWorkspace_def changePassword_def permitted_def preserves_ret)
  qed
qed

section \<open>Requests\<close>

lemma Middleware_user:
  assumes inv: "db_inv E (db (pl_store p))" and none: "rq_User r = None"
    and run: "use_store (Middleware E A now ret r) p = (Inr x, p1)"
  shows "\<exists>u. x = r\<lparr>rq_User := u\<rparr> \<and> (\<forall>v. u = Some v \<longrightarrow> (\<exists>row. speaks_for E A now r (db (pl_store p)) row \<and> v = scanUser row))"
proof -
  obtain res t where q: "request_session E A now r (pl_store p) = (res, t)" by (cases "request_session E A now r (pl_store p)")
  then obtain y where y: "res = Inr y" using request_session_no_error [of E A now r "pl_store p"] by (cases res) auto
  show ?thesis
  proof (cases y)
    case None
    have "r = r\<lparr>rq_User := None\<rparr>" using none by simp
    then show ?thesis using run q y None by (intro exI [of _ None]) (simp add: Middleware_def User_def andThen_def use_store_run)
  next
    case (Some z)
    obtain u c e where z: "z = (u, c, e)" by (cases z)
    from q y Some z have "request_session E A now r (pl_store p) = (Inr (Some (u, c, e)), t)" by simp
    from inv this obtain row where row: "row \<in> set (users (db (pl_store p)))" "\<not> u_disabled row" "u = scanUser row"
      "live_session E A now r (db (pl_store p)) = Some (u_id row, c)" by (rule request_session_live)
    have "x = r\<lparr>rq_User := Some u\<rparr>"
      using run q y Some z by (simp add: Middleware_def User_def andThen_def use_store_run)
    with row show ?thesis unfolding speaks_for_def by blast
  qed
qed

lemma permission_user: "permitted E A now (r\<lparr>rq_User := u\<rparr>) rt d = permitted E A now r rt d"
  "speaks_for E A now (r\<lparr>rq_User := u\<rparr>) d row = speaks_for E A now r d row"
  by (simp_all add: permitted_def speaks_for_def confirmed_def live_session_def csrf_field_def CookieOf_def HeaderGet_def FormValue_def)


text \<open>A form that another site makes the administrator's browser post: the cookie, but not the secret.\<close>

definition demo_forged :: request where
  "demo_forged = (demo_post ''/platform/admin/branding'' [])\<lparr>rq_Form := [(''name'', ''Mine'')]\<rparr>"


end
