(* ===== verification/Migrate.thy ===== *)
theory Migrate
  imports Demo
begin

text \<open>
  \<open>internal/database/database.go\<close>: \<open>Migrate\<close>. An installation is the store with the table
  \<open>schema_migrations\<close> (\<open>None\<close> before it exists). A migration file is its name and what PostgreSQL does
  with its text; a database without tables is the empty one, so that \<open>CREATE TABLE IF NOT EXISTS\<close> changes
  nothing. Every statement is a round trip and takes an entry of \<open>faults\<close>. The advisory lock makes
  concurrent runs wait for each other: one run is atomic for another, and the lock is a round trip here.
\<close>

record installation =
  in_Versions :: "string list option"
  in_Store :: store

record migration =
  mi_Name :: string
  mi_IsDir :: bool
  mi_Script :: "db \<Rightarrow> db_error + db"

datatype migrate_error = Plain db_error | MigrationFailed string db_error

type_synonym 'a ddl = "(installation, db_error, 'a) act"

definition exec :: "(string list option \<Rightarrow> db \<Rightarrow> db_error + ('a \<times> string list option \<times> db)) \<Rightarrow> 'a ddl" where
  "exec f = (\<lambda>s.
     case stmt (\<lambda>d. case f (in_Versions s) d of Inl e \<Rightarrow> Inl e | Inr (x, v, d') \<Rightarrow> Inr ((x, v), d')) (in_Store s) of
       (Inl e, t) \<Rightarrow> (Inl e, s\<lparr>in_Store := t\<rparr>)
     | (Inr (x, v), t) \<Rightarrow> (Inr x, s\<lparr>in_Versions := v, in_Store := t\<rparr>))"

definition round_trip :: "unit ddl" where
  "round_trip = exec (\<lambda>v d. Inr ((), v, d))"

section \<open>Statements\<close>

definition create_versions :: "unit ddl" where
  "create_versions = exec (\<lambda>v d. Inr ((), Some (case v of None \<Rightarrow> [] | Some vs \<Rightarrow> vs), d))"

definition is_applied :: "string \<Rightarrow> bool ddl" where
  "is_applied name = exec (\<lambda>v d. case v of None \<Rightarrow> Inl (Message ''relation does not exist'')
     | Some vs \<Rightarrow> Inr (name \<in> set vs, v, d))"

definition run_script :: "(db \<Rightarrow> db_error + db) \<Rightarrow> unit ddl" where
  "run_script f = exec (\<lambda>v d. case f d of Inl e \<Rightarrow> Inl e | Inr d' \<Rightarrow> Inr ((), v, d'))"

definition insert_version :: "string \<Rightarrow> unit ddl" where
  "insert_version name = exec (\<lambda>v d. case v of None \<Rightarrow> Inl (Message ''relation does not exist'')
     | Some vs \<Rightarrow> Inr ((), Some (if name \<in> set vs then vs else vs @ [name]), d))"

text \<open>\<open>ROLLBACK\<close>, asked for or by the loss of the connection.\<close>

definition rolled_back :: "installation \<Rightarrow> installation \<Rightarrow> installation" where
  "rolled_back s t = t\<lparr>in_Versions := in_Versions s, in_Store := (in_Store t)\<lparr>db := db (in_Store s)\<rparr>\<rparr>"

definition apply_migration :: "migration \<Rightarrow> (installation, migrate_error, unit) act" where
  "apply_migration m = (\<lambda>s. case round_trip s of
       (Inl e, s1) \<Rightarrow> (Inl (Plain e), s1)
     | (Inr _, s1) \<Rightarrow>
         (case andThen (run_script (mi_Script m)) (\<lambda>_. insert_version (mi_Name m)) s1 of
            (Inl e, s2) \<Rightarrow> (Inl (MigrationFailed (mi_Name m) e), rolled_back s (snd (round_trip s2)))
          | (Inr _, s2) \<Rightarrow>
              (case round_trip s2 of
                 (Inl e, s3) \<Rightarrow> (Inl (Plain e), rolled_back s s3)
               | (Inr _, s3) \<Rightarrow> (Inr (), s3))))"

section \<open>The loop\<close>

fun migrate_each :: "migration list \<Rightarrow> (installation, migrate_error, unit) act" where
  "migrate_each [] = ret ()"
| "migrate_each (m # ms) =
     (if mi_IsDir m \<or> \<not> HasSuffix (mi_Name m) ''.sql'' then migrate_each ms
      else andThen (mapErr Plain (is_applied (mi_Name m))) (\<lambda>applied.
           if applied then migrate_each ms
           else andThen (apply_migration m) (\<lambda>_. migrate_each ms)))"

text \<open>The deferred unlock runs whatever happens after the lock, and its error is dropped.\<close>

definition Migrate :: "migration list \<Rightarrow> (installation, migrate_error, unit) act" where
  "Migrate entries = andThen (mapErr Plain round_trip) (\<lambda>_.
     andThen (mapErr Plain round_trip) (\<lambda>_. \<lambda>s.
       case andThen (mapErr Plain create_versions) (\<lambda>_. migrate_each entries) s of
         (r, t) \<Rightarrow> (r, snd (round_trip t))))"

text \<open>The two files: tables and indexes that exist are left alone; the unique index of the second file
  cannot be built over an account with two identities of one issuer.\<close>

definition migration_files :: "migration list" where
  "migration_files =
     [\<lparr>mi_Name = ''001_initial.sql'', mi_IsDir = False, mi_Script = Inr\<rparr>,
      \<lparr>mi_Name = ''002_workspace_configuration.sql'', mi_IsDir = False,
       mi_Script = (\<lambda>d. if distinct (map (\<lambda>i. (i_issuer i, i_user_id i)) (identities d)) then Inr d else Inl DuplicateKey)\<rparr>]"

section \<open>What a statement does\<close>

text \<open>The versions on record and the data: the part of an installation that a failed statement leaves alone.\<close>

definition versions :: "installation \<Rightarrow> string list" where
  "versions s = (case in_Versions s of None \<Rightarrow> [] | Some vs \<Rightarrow> vs)"

definition content :: "installation \<Rightarrow> db" where
  "content s = db (in_Store s)"

definition same_content :: "installation \<Rightarrow> installation \<Rightarrow> bool" where
  "same_content s t \<longleftrightarrow> in_Versions t = in_Versions s \<and> content t = content s"

lemma exec_cases:
  assumes "exec f s = (r, t)"
  obtains (failed) e where "r = Inl e" "same_content s t"
  | (finished) x where "f (in_Versions s) (content s) = Inr (x, in_Versions t, content t)" "r = Inr x"
  using assms
  by (auto simp: exec_def same_content_def content_def stmt_def Let_def split: if_splits sum.splits prod.splits)

lemma round_trip_same: "round_trip s = (r, t) \<Longrightarrow> same_content s t"
  by (auto simp: round_trip_def same_content_def elim!: exec_cases)

lemma round_trip_snd: "same_content s (snd (round_trip s))"
  by (rule round_trip_same) (rule prod.collapse [symmetric])

lemma same_content_trans: "same_content s t \<Longrightarrow> same_content t u \<Longrightarrow> same_content s u"
  by (simp add: same_content_def)

lemma same_content_versions: "same_content s t \<Longrightarrow> versions t = versions s \<and> content t = content s"
  by (simp add: same_content_def versions_def)

lemma rolled_back_same: "same_content s (rolled_back s t)"
  by (simp add: same_content_def rolled_back_def content_def)

lemma apply_migration_cases:
  assumes "apply_migration m s = (r, t)" "mi_Name m \<notin> set (versions s)"
  obtains (failed) e where "r = Inl e" "same_content s t"
  | (applied) "r = Inr ()" "mi_Script m (content s) = Inr (content t)" "in_Versions t = Some (versions s @ [mi_Name m])"
proof -
  obtain r1 s1 where b: "round_trip s = (r1, s1)" by (cases "round_trip s")
  note 1 = round_trip_same [OF b]
  show thesis
  proof (cases r1)
    case (Inl e)
    with assms b 1 show ?thesis by (intro failed) (auto simp: apply_migration_def)
  next
    case (Inr u)
    obtain r2 s2 where body: "andThen (run_script (mi_Script m)) (\<lambda>_. insert_version (mi_Name m)) s1 = (r2, s2)"
      by (cases "andThen (run_script (mi_Script m)) (\<lambda>_. insert_version (mi_Name m)) s1")
    show ?thesis
    proof (cases r2)
      case (Inl e)
      with assms b Inr body rolled_back_same show ?thesis by (intro failed) (auto simp: apply_migration_def)
    next
      case r2: (Inr v)
      with body obtain s' x y where s': "run_script (mi_Script m) s1 = (Inr x, s')" "insert_version (mi_Name m) s' = (Inr y, s2)"
        by (auto elim: andThen_Inr_E)
      have script: "mi_Script m (content s) = Inr (content s')" "in_Versions s' = in_Versions s"
        using s'(1) 1 unfolding run_script_def same_content_def by (auto elim!: exec_cases split: sum.splits)
      with s'(2) assms(2) have ins: "in_Versions s2 = Some (versions s @ [mi_Name m])" "content s2 = content s'"
        unfolding insert_version_def by (auto simp: versions_def elim!: exec_cases split: option.splits)
      obtain r3 s3 where c: "round_trip s2 = (r3, s3)" by (cases "round_trip s2")
      note 3 = round_trip_same [OF c]
      show ?thesis
      proof (cases r3)
        case (Inl e)
        with assms b Inr body r2 c rolled_back_same show ?thesis by (intro failed) (auto simp: apply_migration_def)
      next
        case (Inr w)
        with assms b \<open>r1 = Inr u\<close> body r2 c have "r = Inr ()" "t = s3" by (auto simp: apply_migration_def)
        with script ins 3 show ?thesis by (intro applied) (simp_all add: same_content_def)
      qed
    qed
  qed
qed

section \<open>Progress\<close>

text \<open>The migrations still to run, and what a sequence of scripts makes of the data.\<close>

definition pending :: "string list \<Rightarrow> migration list \<Rightarrow> migration list" where
  "pending vs entries = filter (\<lambda>m. \<not> mi_IsDir m \<and> HasSuffix (mi_Name m) ''.sql'' \<and> mi_Name m \<notin> set vs) entries"

fun run_scripts :: "migration list \<Rightarrow> db \<Rightarrow> db_error + db" where
  "run_scripts [] d = Inr d"
| "run_scripts (m # ms) d = (case mi_Script m d of Inl e \<Rightarrow> Inl e | Inr d' \<Rightarrow> run_scripts ms d')"

lemma pending_snoc: "n \<notin> set (map mi_Name ms) \<Longrightarrow> pending (vs @ [n]) ms = pending vs ms"
  unfolding pending_def by (rule filter_cong) auto

text \<open>A run that got as far as the first \<open>k\<close> pending migrations.\<close>

definition progress :: "migration list \<Rightarrow> installation \<Rightarrow> installation \<Rightarrow> nat \<Rightarrow> bool" where
  "progress entries s t k \<longleftrightarrow> k \<le> length (pending (versions s) entries)
     \<and> versions t = versions s @ map mi_Name (take k (pending (versions s) entries))
     \<and> run_scripts (take k (pending (versions s) entries)) (content s) = Inr (content t)"

lemma progress_same: "same_content s t \<Longrightarrow> progress entries s t 0"
  by (simp add: progress_def same_content_versions)

lemma migrate_each_progress:
  assumes "migrate_each entries s = (r, t)" "distinct (map mi_Name entries)"
  shows "\<exists>k. progress entries s t k \<and> (r = Inr () \<longrightarrow> k = length (pending (versions s) entries))"
  using assms
proof (induction entries arbitrary: s)
  case Nil
  then show ?case by (auto simp: progress_def pending_def)
next
  case (Cons m ms)
  show ?case
  proof (cases "mi_IsDir m \<or> \<not> HasSuffix (mi_Name m) ''.sql''")
    case True
    then have "pending (versions s) (m # ms) = pending (versions s) ms" by (auto simp: pending_def)
    with Cons True show ?thesis by (simp add: progress_def)
  next
    case sql: False
    obtain r1 s1 where q: "is_applied (mi_Name m) s = (r1, s1)" by (cases "is_applied (mi_Name m) s")
    have same: "same_content s s1" and r1: "r1 = Inr x \<Longrightarrow> x = (mi_Name m \<in> set (versions s))" for x
      using q unfolding is_applied_def
      by (auto simp: same_content_def versions_def elim!: exec_cases split: option.splits)
    note v = same_content_versions [OF same]
    show ?thesis
    proof (cases r1)
      case (Inl e)
      with Cons.prems sql q have "r = Inl (Plain e)" "t = s1" by (auto simp: andThen_def mapErr_def)
      with progress_same [OF same] show ?thesis by blast
    next
      case (Inr a)
      show ?thesis
      proof (cases a)
        case True
        with r1 Inr have "pending (versions s) (m # ms) = pending (versions s) ms" by (auto simp: pending_def)
        moreover have "migrate_each ms s1 = (r, t)"
          using Cons.prems(1) sql q Inr True by (simp add: andThen_def mapErr_def)
        ultimately show ?thesis using Cons.IH [of s1] Cons.prems(2) v by (simp add: progress_def)
      next
        case False
        with r1 Inr have new: "mi_Name m \<notin> set (versions s)" by blast
        then have pend: "pending (versions s) (m # ms) = m # pending (versions s) ms" using sql by (auto simp: pending_def)
        obtain r2 s2 where ap: "apply_migration m s1 = (r2, s2)" by (cases "apply_migration m s1")
        have rest: "(case r2 of Inl e \<Rightarrow> (Inl e, s2) | Inr _ \<Rightarrow> migrate_each ms s2) = (r, t)"
          using Cons.prems(1) sql q Inr False ap by (auto simp: andThen_def mapErr_def split: sum.splits)
        have new1: "mi_Name m \<notin> set (versions s1)" using new v by simp
        from ap new1 show ?thesis
        proof (cases rule: apply_migration_cases)
          case (failed e)
          with rest have "r = Inl e" "t = s2" by auto
          with progress_same [OF same_content_trans [OF same failed(2)]] show ?thesis by blast
        next
          case applied
          then have vs2: "versions s2 = versions s @ [mi_Name m]" using v by (simp add: versions_def)
          have "pending (versions s2) ms = pending (versions s) ms"
            unfolding vs2 using Cons.prems(2) by (intro pending_snoc) auto
          moreover from rest applied(1) have "migrate_each ms s2 = (r, t)" by simp
          with Cons.IH [of s2] Cons.prems(2) obtain k where
            "progress ms s2 t k" "r = Inr () \<longrightarrow> k = length (pending (versions s2) ms)" by auto
          ultimately have "progress (m # ms) s t (Suc k) \<and> (r = Inr () \<longrightarrow> Suc k = length (pending (versions s) (m # ms)))"
            using applied(2) v by (simp add: progress_def pend vs2)
          then show ?thesis by blast
        qed
      qed
    qed
  qed
qed

lemma Migrate_progress:
  assumes "Migrate entries s = (r, t)" "distinct (map mi_Name entries)"
  shows "\<exists>k. progress entries s t k \<and> (r = Inr () \<longrightarrow> k = length (pending (versions s) entries))"
proof -
  obtain r1 s1 where q1: "round_trip s = (r1, s1)" by (cases "round_trip s")
  obtain r2 s2 where q2: "round_trip s1 = (r2, s2)" by (cases "round_trip s1")
  note same = round_trip_same [OF q1] same_content_trans [OF round_trip_same [OF q1] round_trip_same [OF q2]]
  show ?thesis
  proof (cases "(\<exists>e. r1 = Inl e) \<or> (\<exists>e. r2 = Inl e)")
    case True
    with assms(1) q1 q2 have "t = s1 \<and> (\<exists>e. r = Inl e) \<or> t = s2 \<and> (\<exists>e. r = Inl e)"
      by (auto simp: Migrate_def andThen_def mapErr_def split: sum.splits)
    with progress_same same show ?thesis by blast
  next
    case False
    then have ok: "r1 = Inr ()" "r2 = Inr ()" by (cases r1; cases r2; simp)+
    obtain r3 s3 where q3: "andThen (mapErr Plain create_versions) (\<lambda>_. migrate_each entries) s2 = (r3, s3)"
      by (cases "andThen (mapErr Plain create_versions) (\<lambda>_. migrate_each entries) s2")
    have end_run: "r = r3" "t = snd (round_trip s3)"
      using assms(1) q1 q2 q3 ok by (auto simp: Migrate_def andThen_def mapErr_def)
    obtain r4 s4 where q4: "create_versions s2 = (r4, s4)" by (cases "create_versions s2")
    then have "versions s4 = versions s2 \<and> content s4 = content s2"
      unfolding create_versions_def by (auto simp: versions_def same_content_def elim!: exec_cases split: option.splits)
    then have v: "versions s4 = versions s" "content s4 = content s" using same_content_versions [OF same(2)] by simp_all
    have "\<exists>k. progress entries s s3 k \<and> (r3 = Inr () \<longrightarrow> k = length (pending (versions s) entries))"
    proof (cases r4)
      case (Inl e)
      with q3 q4 have "s3 = s4" "\<exists>e. r3 = Inl e" by (auto simp: andThen_def mapErr_def)
      with v show ?thesis by (intro exI [of _ 0]) (auto simp: progress_def)
    next
      case (Inr u)
      with q3 q4 have "migrate_each entries s4 = (r3, s3)" by (simp add: andThen_def mapErr_def)
      from migrate_each_progress [OF this assms(2)] v show ?thesis by (simp add: progress_def)
    qed
    moreover have "versions t = versions s3" "content t = content s3"
      using same_content_versions [OF round_trip_snd] by (simp_all add: end_run(2))
    ultimately show ?thesis by (simp add: progress_def end_run(1))
  qed
qed

text \<open>C14: \<open>Migrate\<close> may be stopped anywhere and started again. Whatever fails (any statement, any script), the
  versions on record are the old ones followed by the names of the first \<open>k\<close> pending migrations in
  directory order, and the data are what exactly these \<open>k\<close> scripts make of the old data: no migration is
  half done, recorded without being run, run twice or run out of order. If \<open>Migrate\<close> succeeds, none is
  left.\<close>

theorem migrate_is_resumable:
  assumes "distinct (map mi_Name entries)" and "Migrate entries s = (r, t)"
  shows "\<exists>k \<le> length (pending (versions s) entries).
     versions t = versions s @ map mi_Name (take k (pending (versions s) entries))
     \<and> run_scripts (take k (pending (versions s) entries)) (content s) = Inr (content t)
     \<and> (r = Inr () \<longrightarrow> pending (versions t) entries = [])"
proof -
  obtain k where k: "progress entries s t k" "r = Inr () \<longrightarrow> k = length (pending (versions s) entries)"
    using Migrate_progress [OF assms(2,1)] by blast
  have "pending (versions t) entries = []" if "r = Inr ()"
  proof -
    have "versions t = versions s @ map mi_Name (pending (versions s) entries)" using k that by (simp add: progress_def)
    then show ?thesis by (force simp: pending_def filter_empty_conv)
  qed
  with k(1) show ?thesis unfolding progress_def by blast
qed

section \<open>The two files\<close>

definition new_installation :: installation where
  "new_installation = \<lparr>in_Versions = None, in_Store = \<lparr>db = empty_db, audit_seq = 1, faults = []\<rparr>\<rparr>"

lemma exec_no_faults:
  "faults (in_Store s) = [] \<Longrightarrow> exec f s = (case f (in_Versions s) (content s) of Inl e \<Rightarrow> (Inl e, s)
     | Inr (x, v, d) \<Rightarrow> (Inr x, s\<lparr>in_Versions := v, in_Store := (in_Store s)\<lparr>db := d\<rparr>\<rparr>))"
  by (auto simp: exec_def stmt_no_faults content_def split: sum.splits prod.splits)

lemma new_installation_migrates:
  "\<exists>t. Migrate migration_files new_installation = (Inr (), t)
     \<and> in_Versions t = Some [''001_initial.sql'', ''002_workspace_configuration.sql'']"
  by (simp add: Migrate_def migration_files_def andThen_def mapErr_def round_trip_def create_versions_def is_applied_def
      apply_migration_def run_script_def insert_version_def exec_no_faults new_installation_def content_def HasSuffix_def
      empty_db_def)

theorem migrate_is_resumable_witness:
  "\<exists>t. Migrate migration_files new_installation = (Inr (), t) \<and> pending (versions t) migration_files = []
     \<and> content t = empty_db"
proof -
  obtain t where t: "Migrate migration_files new_installation = (Inr (), t)" using new_installation_migrates by blast
  have "distinct (map mi_Name migration_files)" by (simp add: migration_files_def)
  from migrate_is_resumable [OF this t] obtain k where
    "run_scripts (take k (pending (versions new_installation) migration_files)) empty_db = Inr (content t)"
    and p: "pending (versions t) migration_files = []"
    by (auto simp: new_installation_def content_def)
  moreover have "run_scripts ms empty_db = Inr d \<Longrightarrow> d = empty_db" if "set ms \<subseteq> set migration_files" for ms d
    using that by (induction ms) (auto simp: migration_files_def empty_db_def)
  moreover have "set (take k (pending (versions new_installation) migration_files)) \<subseteq> set migration_files"
    by (auto simp: pending_def dest: in_set_takeD)
  ultimately show ?thesis using t by blast
qed

lemma no_faults_put [simp]:
  "faults (in_Store (s\<lparr>in_Versions := v, in_Store := (in_Store s)\<lparr>db := d\<rparr>\<rparr>)) = faults (in_Store s)"
  by simp

lemma apply_no_faults:
  assumes "faults (in_Store s) = []" "mi_Script m (content s) = Inr (content s)" "in_Versions s = Some vs" "mi_Name m \<notin> set vs"
  shows "apply_migration m s = (Inr (), s\<lparr>in_Versions := Some (vs @ [mi_Name m])\<rparr>)"
proof -
  have put: "s\<lparr>in_Versions := v, in_Store := (in_Store s)\<lparr>db := db (in_Store s)\<rparr>\<rparr> = s\<lparr>in_Versions := v\<rparr>" for v by simp
  show ?thesis using assms
    by (simp add: apply_migration_def andThen_def run_script_def insert_version_def round_trip_def exec_no_faults content_def)
qed

lemma migrate_each_no_faults:
  assumes "faults (in_Store s) = []" "in_Versions s = Some vs" "\<forall>m \<in> set entries. mi_Script m (content s) = Inr (content s)"
  shows "\<exists>ws. migrate_each entries s = (Inr (), s\<lparr>in_Versions := Some ws\<rparr>) \<and> set vs \<subseteq> set ws
     \<and> (\<forall>m \<in> set entries. \<not> mi_IsDir m \<and> HasSuffix (mi_Name m) ''.sql'' \<longrightarrow> mi_Name m \<in> set ws)"
  using assms
proof (induction entries arbitrary: s vs)
  case Nil
  then show ?case by (intro exI [of _ vs]) auto
next
  case (Cons m ms)
  have rest: "\<exists>ws. migrate_each ms (s\<lparr>in_Versions := Some us\<rparr>) = (Inr (), s\<lparr>in_Versions := Some ws\<rparr>) \<and> set us \<subseteq> set ws
     \<and> (\<forall>m \<in> set ms. \<not> mi_IsDir m \<and> HasSuffix (mi_Name m) ''.sql'' \<longrightarrow> mi_Name m \<in> set ws)" for us
    using Cons.IH [of "s\<lparr>in_Versions := Some us\<rparr>" us] Cons.prems by (simp add: content_def)
  have same: "s\<lparr>in_Versions := Some vs\<rparr> = s" using Cons.prems(2) by simp
  have q: "is_applied (mi_Name m) s = (Inr (mi_Name m \<in> set vs), s)"
    using Cons.prems(1,2) by (simp add: is_applied_def exec_no_faults content_def)
  consider "mi_IsDir m \<or> \<not> HasSuffix (mi_Name m) ''.sql''" | "\<not> (mi_IsDir m \<or> \<not> HasSuffix (mi_Name m) ''.sql'')" "mi_Name m \<in> set vs"
    | "\<not> (mi_IsDir m \<or> \<not> HasSuffix (mi_Name m) ''.sql'')" "mi_Name m \<notin> set vs" by blast
  then show ?case
  proof cases
    case 1
    with rest [of vs] same show ?thesis by auto
  next
    case 2
    with rest [of vs] same q show ?thesis by (auto simp: andThen_def mapErr_def)
  next
    case 3
    have "apply_migration m s = (Inr (), s\<lparr>in_Versions := Some (vs @ [mi_Name m])\<rparr>)"
      using Cons.prems 3 by (intro apply_no_faults) simp_all
    with rest [of "vs @ [mi_Name m]"] q 3 show ?thesis by (auto simp: andThen_def mapErr_def)
  qed
qed

lemma Migrate_no_faults:
  assumes "faults (in_Store s) = []" and "db_inv E (content s)"
  obtains ws where "Migrate migration_files s = (Inr (), s\<lparr>in_Versions := Some ws\<rparr>)"
    "{''001_initial.sql'', ''002_workspace_configuration.sql''} \<subseteq> set ws"
proof -
  have rt: "round_trip u = (Inr (), u)" if "faults (in_Store u) = []" for u
    using that by (simp add: round_trip_def exec_no_faults content_def)
  have create: "create_versions s = (Inr (), s\<lparr>in_Versions := Some (versions s)\<rparr>)"
    using assms(1) by (simp add: create_versions_def exec_no_faults content_def versions_def)
  have "distinct (map (\<lambda>i. (i_issuer i, i_user_id i)) (identities (content s)))"
    using assms(2) by (simp add: db_inv_def db_ok_def identities_ok_def)
  then have scripts: "\<forall>m \<in> set migration_files. mi_Script m (content s) = Inr (content s)"
    by (simp add: migration_files_def)
  let ?s = "s\<lparr>in_Versions := Some (versions s)\<rparr>"
  have "\<exists>ws. migrate_each migration_files ?s = (Inr (), ?s\<lparr>in_Versions := Some ws\<rparr>) \<and> set (versions s) \<subseteq> set ws
     \<and> (\<forall>m \<in> set migration_files. \<not> mi_IsDir m \<and> HasSuffix (mi_Name m) ''.sql'' \<longrightarrow> mi_Name m \<in> set ws)"
    by (rule migrate_each_no_faults) (use assms(1) scripts in \<open>simp_all add: content_def\<close>)
  then obtain ws where ws: "migrate_each migration_files ?s = (Inr (), s\<lparr>in_Versions := Some ws\<rparr>)"
    "\<forall>m \<in> set migration_files. \<not> mi_IsDir m \<and> HasSuffix (mi_Name m) ''.sql'' \<longrightarrow> mi_Name m \<in> set ws" by auto
  have "{''001_initial.sql'', ''002_workspace_configuration.sql''} \<subseteq> set ws"
    using ws(2) by (simp add: migration_files_def HasSuffix_def)
  moreover have "Migrate migration_files s = (Inr (), s\<lparr>in_Versions := Some ws\<rparr>)"
    using assms(1) by (simp add: Migrate_def andThen_def mapErr_def rt create ws(1))
  ultimately show thesis using that by blast
qed

text \<open>C35: A start over a healthy database succeeds and changes no data. If no round trip fails and the tables satisfy
  their constraints, \<open>Migrate\<close> with the repository's two files succeeds from any state of
  \<open>schema_migrations\<close>; afterwards both files are on record and every row is as before.\<close>

theorem migrate_succeeds:
  assumes "faults (in_Store s) = []" and "db_inv E (content s)"
  shows "\<exists>t. Migrate migration_files s = (Inr (), t) \<and> content t = content s
     \<and> {''001_initial.sql'', ''002_workspace_configuration.sql''} \<subseteq> set (versions t)"
  by (rule Migrate_no_faults [OF assms]) (simp add: content_def versions_def)

theorem migrate_succeeds_witness:
  "\<exists>t. Migrate migration_files \<lparr>in_Versions = Some [''001_initial.sql''], in_Store = demo_store\<rparr> = (Inr (), t)
     \<and> content t = demo_db"
  using migrate_succeeds [of "\<lparr>in_Versions = Some [''001_initial.sql''], in_Store = demo_store\<rparr>" demo_env] demo_db_inv
  by (auto simp: content_def)

end
