(* ===== verification/Provision.thy ===== *)
theory Provision
  imports Migrate Oidc HttpServer
begin

text \<open>
  \<open>cmd/provision/main.go\<close>: the command that creates or updates accounts from a manifest, and
  \<open>database.Open\<close>. \<open>command\<close> holds what the command meets: the environment variables, whether
  \<open>pgxpool\<close> accepts the database URL, the JSON value at the start of the input (\<open>json.Decoder\<close>; \<open>None\<close>
  for malformed input), the text of the last member \<open>opencodeConfig\<close> of the \<open>i\<close>-th user (a
  \<open>json.RawMessage\<close> is the text as written), clock, fresh identifiers and nonces by position. The result is
  the report that \<open>run\<close> prints; an error of the output stream is not modelled.
\<close>

record 'p command =
  cm_Env :: env
  cm_Parsers :: parsers
  cm_IdP :: "'p idp"
  cm_Getenv :: "string \<Rightarrow> string"
  cm_PoolConfig :: "string \<Rightarrow> bool"
  cm_FirstValue :: "string \<Rightarrow> json option"
  cm_RawConfig :: "string \<Rightarrow> nat \<Rightarrow> string"
  cm_Time :: "nat \<Rightarrow> int"
  cm_UUID :: "nat \<Rightarrow> string"
  cm_Nonce :: "nat \<Rightarrow> string option"

section \<open>The manifest\<close>

record userSeed =
  sd_Username :: string
  sd_DisplayName :: string
  sd_Email :: string
  sd_Role :: string
  sd_Disabled :: bool
  sd_OpenCodeConfig :: string
  sd_APIKey :: string

record oidcSeed =
  od_Issuer :: string
  od_ClientID :: string
  od_ClientSecret :: string
  od_Scopes :: "string list"
  od_AllowedDomains :: "string list"
  od_AdminGroups :: "string list"
  od_AutoProvision :: bool
  od_LinkByEmail :: bool
  od_Enabled :: bool

record manifest =
  mf_Version :: int
  mf_Users :: "userSeed list"
  mf_OIDC :: "oidcSeed option"

definition zero_seed :: userSeed where
  "zero_seed = \<lparr>sd_Username = [], sd_DisplayName = [], sd_Email = [], sd_Role = [], sd_Disabled = False,
     sd_OpenCodeConfig = [], sd_APIKey = []\<rparr>"

definition zero_oidc_seed :: oidcSeed where
  "zero_oidc_seed = \<lparr>od_Issuer = [], od_ClientID = [], od_ClientSecret = [], od_Scopes = [], od_AllowedDomains = [],
     od_AdminGroups = [], od_AutoProvision = False, od_LinkByEmail = False, od_Enabled = False\<rparr>"

definition zero_manifest :: manifest where
  "zero_manifest = \<lparr>mf_Version = 0, mf_Users = [], mf_OIDC = None\<rparr>"

definition seed_fields :: "string \<Rightarrow> userSeed fields" where
  "seed_fields raw = [(''username'', string_field sd_Username_update), (''displayName'', string_field sd_DisplayName_update),
     (''email'', string_field sd_Email_update), (''role'', string_field sd_Role_update),
     (''disabled'', bool_field sd_Disabled_update), (''opencodeConfig'', \<lambda>_ r. (r\<lparr>sd_OpenCodeConfig := raw\<rparr>, True)),
     (''apiKey'', string_field sd_APIKey_update)]"

definition oidc_seed_fields :: "oidcSeed fields" where
  "oidc_seed_fields = [(''issuer'', string_field od_Issuer_update), (''clientId'', string_field od_ClientID_update),
     (''clientSecret'', string_field od_ClientSecret_update), (''scopes'', strings_field od_Scopes_update),
     (''allowedDomains'', strings_field od_AllowedDomains_update), (''adminGroups'', strings_field od_AdminGroups_update),
     (''autoProvision'', bool_field od_AutoProvision_update), (''linkExistingUsersByEmail'', bool_field od_LinkByEmail_update),
     (''enabled'', bool_field od_Enabled_update)]"

text \<open>The elements of \<open>users\<close>; those of an earlier member of the same name are decoded over.\<close>

fun decode_seeds :: "(nat \<Rightarrow> string) \<Rightarrow> nat \<Rightarrow> userSeed list \<Rightarrow> json list \<Rightarrow> userSeed list \<times> bool" where
  "decode_seeds raw i old [] = ([], True)"
| "decode_seeds raw i old (j # js) =
     (case decode_object True (seed_fields (raw i)) j (case old of [] \<Rightarrow> zero_seed | x # _ \<Rightarrow> x) of
        (x, ok) \<Rightarrow> (case decode_seeds raw (Suc i) (tl old) js of (xs, oks) \<Rightarrow> (x # xs, ok \<and> oks)))"

definition users_field :: "(nat \<Rightarrow> string) \<Rightarrow> manifest setter" where
  "users_field raw j m = (case j of
       JArr js \<Rightarrow> (case decode_seeds raw 0 (mf_Users m) js of (xs, ok) \<Rightarrow> (m\<lparr>mf_Users := xs\<rparr>, ok))
     | JNull \<Rightarrow> (m\<lparr>mf_Users := []\<rparr>, True) | _ \<Rightarrow> (m, False))"

text \<open>A pointer: \<open>null\<close> is nil, anything else is decoded into the value pointed to.\<close>

definition oidc_field :: "manifest setter" where
  "oidc_field j m = (if j = JNull then (m\<lparr>mf_OIDC := None\<rparr>, True)
     else (case decode_object True oidc_seed_fields j (case mf_OIDC m of None \<Rightarrow> zero_oidc_seed | Some x \<Rightarrow> x) of
        (x, ok) \<Rightarrow> (m\<lparr>mf_OIDC := Some x\<rparr>, ok)))"

definition manifest_fields :: "(nat \<Rightarrow> string) \<Rightarrow> manifest fields" where
  "manifest_fields raw = [(''version'', int_field mf_Version_update), (''users'', users_field raw), (''oidc'', oidc_field)]"

definition decode_manifest :: "'p command \<Rightarrow> string \<Rightarrow> manifest option" where
  "decode_manifest M input =
     (let limited = take (32 * 2 ^ 20) input in
      case cm_FirstValue M limited of
        None \<Rightarrow> None
      | Some j \<Rightarrow> (case decode_object True (manifest_fields (cm_RawConfig M limited)) j zero_manifest of
           (m, ok) \<Rightarrow> if ok then Some m else None))"

section \<open>The command\<close>

datatype provision_error =
    LoadFailed string
  | OpenFailed db_error
  | MigrateFailed migrate_error
  | DecodeFailed
  | WrongVersion
  | ListFailed db_error
  | NoAdministrator
  | InvalidAccount nat
  | InvalidRole nat
  | ProvisionFailed string db_error
  | ConfigureFailed string db_error
  | OIDCFailed db_error

type_synonym 'a provisioning = "(installation, provision_error, 'a) act"

definition in_db :: "(db_error \<Rightarrow> provision_error) \<Rightarrow> 'a query \<Rightarrow> 'a provisioning" where
  "in_db wrap m = within in_Store (\<lambda>t s. s\<lparr>in_Store := t\<rparr>) (mapErr wrap m)"

text \<open>\<open>database.Open\<close>: the pool, a ping, AES-GCM under the key.\<close>

definition Open :: "(string \<Rightarrow> bool) \<Rightarrow> string \<Rightarrow> string \<Rightarrow> unit ddl" where
  "Open pool_ok databaseURL encryptionKey =
     (if \<not> pool_ok databaseURL then throw (Message ''cannot parse the database URL'')
      else andThen round_trip (\<lambda>_.
           if length encryptionKey \<notin> {16, 24, 32} then throw (Message ''crypto/aes: invalid key size'') else ret ()))"

definition seed_input :: "userSeed \<Rightarrow> provision_input" where
  "seed_input seed = \<lparr>pi_Username = TrimSpace (sd_Username seed), pi_DisplayName = TrimSpace (sd_DisplayName seed),
     pi_Email = TrimSpace (sd_Email seed), pi_Role = sd_Role seed, pi_Disabled = sd_Disabled seed\<rparr>"

definition provision_seed :: "'p command \<Rightarrow> string \<Rightarrow> nat \<Rightarrow> userSeed \<Rightarrow> unit provisioning" where
  "provision_seed M actor index seed =
     (let username = TrimSpace (sd_Username seed); mail = TrimSpace (sd_Email seed) in
      if \<not> usernamePattern username \<or> \<not> Contains mail ''@'' then throw (InvalidAccount index)
      else if sd_Role seed \<noteq> ''admin'' \<and> sd_Role seed \<noteq> ''user'' then throw (InvalidRole index)
      else andThen (in_db (ProvisionFailed mail) (ProvisionUser (cm_Env M) (cm_Time M (2 * index)) (cm_UUID M index) actor
                      (seed_input seed))) (\<lambda>u.
           in_db (ConfigureFailed mail) (SetWorkspaceConfiguration (cm_Env M) (cm_Time M (2 * index + 1))
             (cm_Nonce M (2 * index)) (cm_Nonce M (2 * index + 1)) actor (user_ID u) (sd_OpenCodeConfig seed) (sd_APIKey seed))))"

fun provision_each :: "'p command \<Rightarrow> string \<Rightarrow> nat \<Rightarrow> userSeed list \<Rightarrow> nat provisioning" where
  "provision_each M actor index [] = ret index"
| "provision_each M actor index (seed # seeds) =
     andThen (provision_seed M actor index seed) (\<lambda>_. provision_each M actor (Suc index) seeds)"

definition seed_settings :: "oidcSeed \<Rightarrow> oidc_settings" where
  "seed_settings o1 = zero_oidc_settings\<lparr>os_Enabled := od_Enabled o1, os_Issuer := od_Issuer o1, os_ClientID := od_ClientID o1,
     os_ClientSecret := od_ClientSecret o1, os_Scopes := od_Scopes o1, os_AutoProvision := od_AutoProvision o1,
     os_LinkByEmail := od_LinkByEmail o1, os_AllowedDomains := od_AllowedDomains o1, os_AdminGroups := od_AdminGroups o1\<rparr>"

definition provision_oidc :: "'p command \<Rightarrow> string \<Rightarrow> nat \<Rightarrow> oidcSeed option \<Rightarrow> unit provisioning" where
  "provision_oidc M actor n seed = (case seed of
       None \<Rightarrow> ret ()
     | Some o1 \<Rightarrow> in_db OIDCFailed (Save (cm_Env M) (cm_IdP M) (cm_Time M (2 * n)) (cm_Nonce M (2 * n)) actor
         (seed_settings o1) ''provisioning-command''))"

definition first_admin :: "user list \<Rightarrow> string" where
  "first_admin us = (case find IsAdmin us of None \<Rightarrow> [] | Some u \<Rightarrow> user_ID u)"

definition provision_manifest :: "'p command \<Rightarrow> manifest \<Rightarrow> (nat \<times> bool) provisioning" where
  "provision_manifest M mf =
     andThen (in_db ListFailed ListUsers) (\<lambda>us.
     let actor = first_admin us in
     if actor = [] then throw NoAdministrator
     else andThen (provision_each M actor 0 (mf_Users mf)) (\<lambda>provisioned.
          andThen (provision_oidc M actor (length (mf_Users mf)) (mf_OIDC mf)) (\<lambda>_.
          ret (provisioned, mf_OIDC mf \<noteq> None))))"

definition run :: "'p command \<Rightarrow> string \<Rightarrow> (nat \<times> bool) provisioning" where
  "run M input = (case Load (cm_Env M) (cm_Parsers M) (cm_Getenv M) of
       Inl e \<Rightarrow> throw (LoadFailed e)
     | Inr cfg \<Rightarrow>
         andThen (mapErr OpenFailed (Open (cm_PoolConfig M) (cf_DatabaseURL cfg) (cf_EncryptionKey cfg))) (\<lambda>_.
         andThen (mapErr MigrateFailed (Migrate migration_files)) (\<lambda>_.
         case decode_manifest M input of
           None \<Rightarrow> throw DecodeFailed
         | Some mf \<Rightarrow> if mf_Version mf \<noteq> 1 then throw WrongVersion else provision_manifest M mf)))"

end
