(* ===== verification/ConfigProps.thy ===== *)
theory ConfigProps
  imports Config Demo
begin

text \<open>
  What \<open>Load\<close> guarantees about a configuration it returns, and to the rest of the program: the ranges
  and formats that the controller, the session manager and the store rely on.
\<close>

lemma env_or_nonempty: "fallback \<noteq> [] \<Longrightarrow> env_or getenv name fallback \<noteq> []"
  by (simp add: env_or_def Let_def)

lemma key_length:
  assumes "\<forall>s. length (sha256 E s) = 32" "key E getenv name = Inr k"
  shows "length k = 32 \<and> 32 \<le> length (getenv name)"
  using assms by (auto simp: key_def Let_def split: if_splits option.splits)

lemma string_members_keys: "string_members ms = Some kvs \<Longrightarrow> map fst kvs = map fst ms"
  by (induction ms arbitrary: kvs rule: string_members.induct) (auto split: option.splits)

lemma node_selector_labels:
  assumes "node_selector E v = Inr sel" "sel k = Some x"
  shows "TrimSpace k \<noteq> [] \<and> TrimSpace x \<noteq> []"
proof -
  from assms obtain kvs where kvs: "sel = map_of (rev kvs)"
    "\<not> list_ex (\<lambda>k. TrimSpace k = [] \<or> TrimSpace (the (sel k)) = []) (map fst kvs)"
    by (auto simp: node_selector_def Let_def split: if_splits option.splits)
  from assms(2) kvs(1) have "k \<in> set (map fst kvs)" by (force dest: map_of_SomeD)
  with kvs(2) assms(2) show ?thesis by (auto simp: list_ex_iff)
qed

lemma Load_result:
  assumes "Load E P getenv = Inr c"
  obtains u port where "url_Parse P (env_or getenv ''PUBLIC_URL'' ''http://localhost:8080'') = Some u"
    "cf_PublicURL c = u" "url_Host u \<noteq> []" "url_Scheme u = ''http'' \<or> url_Scheme u = ''https''"
    "key E getenv ''SESSION_SECRET'' = Inr (cf_SessionKey c)" "key E getenv ''ENCRYPTION_KEY'' = Inr (cf_EncryptionKey c)"
    "\<not> (wk_Port (cf_Workspace c) < 1 \<or> wk_Port (cf_Workspace c) > 65535)" "\<not> wk_ReconcileInterval (cf_Workspace c) \<le> 0"
    "node_selector E (getenv ''WORKSPACE_NODE_SELECTOR'') = Inr (wk_NodeSelector (cf_Workspace c))"
    "cf_DatabaseURL c \<noteq> []" "cf_CookieSecure c = (url_Scheme u = ''https'')"
    "wk_Image (cf_Workspace c) = env_or getenv ''WORKSPACE_IMAGE'' ''ghcr.io/ricsam/opencode-workspace:latest''"
    "cf_Namespace c = env_or getenv ''POD_NAMESPACE'' ''opencode-workspaces''"
  using assms unfolding Load_def
  by (simp only: Let_def split: option.split_asm sum.split_asm if_split_asm) auto

text \<open>C22: A configuration that \<open>Load\<close> returns is usable: the public URL is absolute and http or https, cookies
  are marked secure exactly for https, both keys have the 32 bytes AES-256 needs and come from secrets of at least 32
  characters, the workspace port is a TCP port (so that it fits Go's \<open>int32\<close>), the reconcile interval is
  positive (\<open>time.NewTicker\<close> panics otherwise), node labels and values are not blank, and database URL,
  image and namespace are set.\<close>

theorem load_returns_usable_configuration:
  assumes "\<forall>s. length (sha256 E s) = 32" and load: "Load E P getenv = Inr c"
  shows "url_Host (cf_PublicURL c) \<noteq> [] \<and> url_Scheme (cf_PublicURL c) \<in> {''http'', ''https''}
     \<and> cf_CookieSecure c = (url_Scheme (cf_PublicURL c) = ''https'')
     \<and> length (cf_SessionKey c) = 32 \<and> length (cf_EncryptionKey c) = 32
     \<and> 32 \<le> length (getenv ''SESSION_SECRET'') \<and> 32 \<le> length (getenv ''ENCRYPTION_KEY'')
     \<and> 1 \<le> wk_Port (cf_Workspace c) \<and> wk_Port (cf_Workspace c) \<le> 65535
     \<and> 0 < wk_ReconcileInterval (cf_Workspace c)
     \<and> (\<forall>k v. wk_NodeSelector (cf_Workspace c) k = Some v \<longrightarrow> TrimSpace k \<noteq> [] \<and> TrimSpace v \<noteq> [])
     \<and> cf_DatabaseURL c \<noteq> [] \<and> wk_Image (cf_Workspace c) \<noteq> [] \<and> cf_Namespace c \<noteq> []"
  using load
proof (rule Load_result)
  fix u assume *: "cf_PublicURL c = u" "url_Host u \<noteq> []" "url_Scheme u = ''http'' \<or> url_Scheme u = ''https''"
    "key E getenv ''SESSION_SECRET'' = Inr (cf_SessionKey c)" "key E getenv ''ENCRYPTION_KEY'' = Inr (cf_EncryptionKey c)"
    "\<not> (wk_Port (cf_Workspace c) < 1 \<or> wk_Port (cf_Workspace c) > 65535)" "\<not> wk_ReconcileInterval (cf_Workspace c) \<le> 0"
    "node_selector E (getenv ''WORKSPACE_NODE_SELECTOR'') = Inr (wk_NodeSelector (cf_Workspace c))"
    "cf_DatabaseURL c \<noteq> []" "cf_CookieSecure c = (url_Scheme u = ''https'')"
    "wk_Image (cf_Workspace c) = env_or getenv ''WORKSPACE_IMAGE'' ''ghcr.io/ricsam/opencode-workspace:latest''"
    "cf_Namespace c = env_or getenv ''POD_NAMESPACE'' ''opencode-workspaces''"
  then show ?thesis
    using key_length [OF assms(1)] node_selector_labels [OF *(8)] env_or_nonempty by (auto simp: not_less)
qed

definition demo_getenv :: "string \<Rightarrow> string" where
  "demo_getenv name = (if name = ''SESSION_SECRET'' then replicate 32 (CHR ''s'') else if name = ''ENCRYPTION_KEY'' then replicate 32 (CHR ''e'')
     else if name = ''DATABASE_URL'' then ''postgres'' else [])"

definition demo_url_parsers :: parsers where
  "demo_url_parsers = \<lparr>url_Parse = (\<lambda>s. Some \<lparr>url_Scheme = take 4 s, url_Host = drop 7 s, url_String = s\<rparr>), ParseDuration = (\<lambda>s. Some 15)\<rparr>"

lemma demo_key: "length (getenv name) = 32 \<Longrightarrow> \<exists>k. key demo_env getenv name = Inr k"
  by (simp add: key_def Let_def split: option.split)

lemma demo_load:
  obtains c where "Load demo_env demo_url_parsers demo_getenv = Inr c" "wk_Port (cf_Workspace c) = 4096" "\<not> cf_CookieSecure c"
proof -
  obtain k1 where k1: "key demo_env demo_getenv ''SESSION_SECRET'' = Inr k1" using demo_key by (metis demo_getenv_def length_replicate)
  obtain k2 where k2: "key demo_env demo_getenv ''ENCRYPTION_KEY'' = Inr k2"
    using demo_key [of demo_getenv "''ENCRYPTION_KEY''"] by (auto simp: demo_getenv_def)
  have unset: "env_or demo_getenv name fallback = fallback" if "name \<notin> {''SESSION_SECRET'', ''ENCRYPTION_KEY'', ''DATABASE_URL''}" for name fallback
    using that by (simp add: env_or_def demo_getenv_def)
  have ps: "url_Parse demo_url_parsers ''http://localhost:8080'' = Some \<lparr>url_Scheme = ''http'', url_Host = ''localhost:8080'', url_String = ''http://localhost:8080''\<rparr>"
    "ParseDuration demo_url_parsers d = Some 15" for d
    by (simp_all add: demo_url_parsers_def)
  have port: "Atoi ''4096'' = Some 4096" by (simp add: Atoi_def is_digit_def)
  have sel: "node_selector demo_env (demo_getenv ''WORKSPACE_NODE_SELECTOR'') = Inr Map.empty"
    by (simp add: node_selector_def demo_getenv_def)
  have db: "TrimSpace (demo_getenv ''DATABASE_URL'') = ''postgres''"
    by (simp add: demo_getenv_def TrimSpace_def ascii_space_def wide_space2_def wide_space3_def)
  obtain c where c: "Load demo_env demo_url_parsers demo_getenv = Inr c" "wk_Port (cf_Workspace c) = 4096" "\<not> cf_CookieSecure c"
    by (simp add: Load_def unset ps k1 k2 port sel db Let_def)
  then show thesis by (rule that)
qed

theorem load_returns_usable_configuration_witness:
  "\<exists>c. Load demo_env demo_url_parsers demo_getenv = Inr c \<and> wk_Port (cf_Workspace c) = 4096
     \<and> length (cf_EncryptionKey c) = 32 \<and> \<not> cf_CookieSecure c"
proof -
  obtain c where c: "Load demo_env demo_url_parsers demo_getenv = Inr c" "wk_Port (cf_Workspace c) = 4096" "\<not> cf_CookieSecure c"
    by (rule demo_load)
  have "\<forall>s. length (sha256 demo_env s) = 32" by simp
  from load_returns_usable_configuration [OF this c(1)] c show ?thesis by blast
qed

end
