(* ===== verification/ProvisionRun.thy ===== *)
theory ProvisionRun
  imports Provision StoreFrames ConfigProps
begin

text \<open>
  What a run of the provisioning command does to an installation: which failures leave it as it was, that
  it keeps the database well formed and never removes the last administrator, and that a run that
  succeeds has carried out the whole manifest.
\<close>

section \<open>Invariants of the installation\<close>

definition on_content :: "(db \<Rightarrow> bool) \<Rightarrow> installation \<Rightarrow> bool" where
  "on_content J s \<longleftrightarrow> J (content s)"

lemma content_in_db: "preserves (on_db J) m \<Longrightarrow> preserves (on_content J) (in_db wrap m)"
  by (auto simp: preserves_def on_content_def on_db_def content_def in_db_def within_def mapErr_def
      split: prod.splits sum.splits)

lemma run_scripts_files:
  "set ms \<subseteq> set migration_files \<Longrightarrow> run_scripts ms d = Inr d' \<Longrightarrow> d' = d"
  by (induction ms) (auto simp: migration_files_def split: if_splits)

lemma Migrate_content:
  assumes "Migrate migration_files s = (r, t)"
  shows "content t = content s"
proof -
  have "distinct (map mi_Name migration_files)" by (simp add: migration_files_def)
  from Migrate_progress [OF assms this] obtain k
    where "run_scripts (take k (pending (versions s) migration_files)) (content s) = Inr (content t)"
    by (auto simp: progress_def)
  moreover have "set (take k (pending (versions s) migration_files)) \<subseteq> set migration_files"
    by (auto simp: pending_def dest: in_set_takeD)
  ultimately show ?thesis using run_scripts_files by blast
qed

lemma Open_content: "Open ok url k s = (r, t) \<Longrightarrow> content t = content s"
  by (auto simp: Open_def andThen_def split: if_splits prod.splits sum.splits dest!: round_trip_same dest: same_content_versions)

lemma startup_keeps:
  "preserves (on_content J) (mapErr f (Open ok url k))" "preserves (on_content J) (mapErr g (Migrate migration_files))"
  by (intro preserves_mapErr preservesI; simp add: on_content_def Open_content Migrate_content)+

lemma in_db_cases:
  assumes "in_db wrap m s = (r, t)"
  obtains (failed) e where "m (in_Store s) = (Inl e, in_Store t)" "r = Inl (wrap e)"
  | (finished) x where "m (in_Store s) = (Inr x, in_Store t)" "r = Inr x"
  using assms by (auto simp: in_db_def within_def mapErr_def split: prod.splits sum.splits)

section \<open>The administrator who runs it\<close>

lemma ProvisionUser_keeps_actor:
  assumes "uuid_ok E" "pi_Email inp \<noteq> []"
  shows "preserves (on_db (\<lambda>d. db_inv E d \<and> enabled_admin a d)) (ProvisionUser E now i a inp)"
proof (rule preservesI)
  fix s r t assume I: "on_db (\<lambda>d. db_inv E d \<and> enabled_admin a d) s" and run: "ProvisionUser E now i a inp s = (r, t)"
  have inv: "db_inv E (db s)" and adm: "enabled_admin a (db s)" using I by (simp_all add: on_db_def)
  have inv': "db_inv E (db t)"
    using preservesD [OF ProvisionUser_inv [OF assms(1)] _ run] inv by (simp add: on_db_def)
  have "enabled_admin a (db t)"
  proof (cases r)
    case (Inl e)
    with run adm show ?thesis unfolding ProvisionUser_def by (auto dest: transaction_Inl)
  next
    case (Inr u)
    have "a \<in> ids (db s)" using adm by (auto simp: enabled_admin_def ids_def)
    from ProvisionUser_upsert [OF assms(1) inv this assms(2) run [unfolded Inr]] obtain row
      where row: "row \<in> set (users (db t))"
        "if u_id row = a then u_role row = ''admin'' \<and> \<not> u_disabled row
         else u_role row = pi_Role inp \<and> u_disabled row = pi_Disabled inp"
        "\<forall>x. u_id x \<noteq> u_id row \<longrightarrow> (x \<in> set (users (db t)) \<longleftrightarrow> x \<in> set (users (db s)))" by blast
    from adm obtain x where "x \<in> set (users (db s))" "u_id x = a" "u_role x = ''admin''" "\<not> u_disabled x"
      by (auto simp: enabled_admin_def)
    then show ?thesis unfolding enabled_admin_def
      using row(1,3) row(2) [unfolded if_bool_eq_conj] by (cases "u_id row = a") metis+
  qed
  with inv' show "on_db (\<lambda>d. db_inv E d \<and> enabled_admin a d) t" by (simp add: on_db_def)
qed

lemma preserves_conj: "preserves (on_db J) m \<Longrightarrow> preserves (on_db K) m \<Longrightarrow> preserves (on_db (\<lambda>d. J d \<and> K d)) m"
  by (auto simp: preserves_def on_db_def)

lemma SetWorkspaceConfiguration_keeps_admin:
  "preserves (on_db (enabled_admin b)) (SetWorkspaceConfiguration E now n1 n2 a i doc k)"
  unfolding SetWorkspaceConfiguration_def
  by (intro act_rules audit_keeps_admin keeps_admin_stmt) (auto dest: sql_users_frame)

lemma Contains_nonempty: "Contains s sub \<Longrightarrow> sub \<noteq> [] \<Longrightarrow> s \<noteq> []"
  by auto

lemma provision_seed_keeps:
  assumes "uuid_ok (cm_Env M)"
  shows "preserves (on_content (\<lambda>d. db_inv (cm_Env M) d \<and> enabled_admin a d)) (provision_seed M a i seed)"
proof (cases "Contains (TrimSpace (sd_Email seed)) ''@''")
  case True
  then have "pi_Email (seed_input seed) \<noteq> []" by (auto simp: seed_input_def)
  then show ?thesis
    unfolding provision_seed_def Let_def
    by (intro act_rules content_in_db ProvisionUser_keeps_actor [OF assms] preserves_conj
        SetWorkspaceConfiguration_inv SetWorkspaceConfiguration_keeps_admin)
next
  case False
  then show ?thesis by (simp add: provision_seed_def Let_def preserves_throw)
qed

lemma provision_each_keeps:
  assumes "uuid_ok (cm_Env M)"
  shows "preserves (on_content (\<lambda>d. db_inv (cm_Env M) d \<and> enabled_admin a d)) (provision_each M a i seeds)"
  by (induction seeds arbitrary: i) (auto intro!: act_rules provision_seed_keeps [OF assms])

lemma Save_keeps: "preserves (on_db (\<lambda>d. db_inv E d \<and> enabled_admin a d)) (Save E I now n b st remote)"
  unfolding Save_def
  by (intro act_rules preserves_conj SetSetting_inv other_methods_keep_admin)

lemma provision_oidc_keeps:
  "preserves (on_content (\<lambda>d. db_inv (cm_Env M) d \<and> enabled_admin a d)) (provision_oidc M a n seed)"
  unfolding provision_oidc_def by (intro act_rules content_in_db Save_keeps)

lemma first_admin_enabled:
  assumes "ListUsers s = (Inr us, t)" "first_admin us \<noteq> []"
  shows "enabled_admin (first_admin us) (db s)"
proof -
  from assms(1) have us: "us = map scanUser (sort_key u_created_at (users (db s)))"
    by (auto simp: ListUsers_def dest: fetch_Inr)
  from assms(2) obtain u where u: "find IsAdmin us = Some u" by (auto simp: first_admin_def split: option.splits)
  then have "u \<in> set us" "IsAdmin u" by (auto dest: find_Some_in)
  then show ?thesis using u us by (auto simp: enabled_admin_def first_admin_def IsAdmin_def)
qed

lemma provision_manifest_keeps:
  assumes "uuid_ok (cm_Env M)" "db_inv (cm_Env M) (content s)" "provision_manifest M mf s = (r, t)"
  shows "db_inv (cm_Env M) (content t) \<and> (has_admin (content s) \<longrightarrow> has_admin (content t))"
proof -
  obtain r1 s1 where q: "in_db ListFailed ListUsers s = (r1, s1)" by (cases "in_db ListFailed ListUsers s")
  have same: "content s1 = content s"
    using q unfolding content_def by (elim in_db_cases) (auto simp: ListUsers_def dest: fetch_db)
  show ?thesis
  proof (cases "\<exists>us. r1 = Inr us \<and> first_admin us \<noteq> []")
    case True
    then obtain us where us: "r1 = Inr us" "first_admin us \<noteq> []" by blast
    let ?I = "\<lambda>d. db_inv (cm_Env M) d \<and> enabled_admin (first_admin us) d"
    from q us(1) have "ListUsers (in_Store s) = (Inr us, in_Store s1)" by (auto elim: in_db_cases)
    from first_admin_enabled [OF this us(2)] have "enabled_admin (first_admin us) (content s)" by (simp add: content_def)
    with assms(2) same have "on_content ?I s1" by (simp add: on_content_def)
    moreover have "andThen (provision_each M (first_admin us) 0 (mf_Users mf)) (\<lambda>provisioned.
          andThen (provision_oidc M (first_admin us) (length (mf_Users mf)) (mf_OIDC mf)) (\<lambda>_.
          ret (provisioned, mf_OIDC mf \<noteq> None))) s1 = (r, t)"
      using assms(3) q us by (simp add: provision_manifest_def andThen_def Let_def)
    moreover have "preserves (on_content ?I) (andThen (provision_each M (first_admin us) 0 (mf_Users mf)) (\<lambda>provisioned.
          andThen (provision_oidc M (first_admin us) (length (mf_Users mf)) (mf_OIDC mf)) (\<lambda>_.
          ret (provisioned, mf_OIDC mf \<noteq> None))))"
      by (intro preserves_andThen preserves_ret provision_each_keeps [OF assms(1)] provision_oidc_keeps)
    ultimately have "on_content ?I t" by (rule preservesD [rotated])
    then show ?thesis by (auto simp: on_content_def has_admin_def)
  next
    case False
    with assms(3) q have "t = s1" by (auto simp: provision_manifest_def andThen_def Let_def split: sum.splits if_splits)
    with same assms(2) show ?thesis by simp
  qed
qed

text \<open>Errors that reject an entry of the manifest, and errors before the first entry.\<close>

fun stopped_at :: "provision_error \<Rightarrow> nat option" where
  "stopped_at (InvalidAccount k) = Some k"
| "stopped_at (InvalidRole k) = Some k"
| "stopped_at _ = None"

text \<open>How far a run got when it failed, in the order of \<open>run\<close>.\<close>

datatype stage = AtConfiguration | AtDatabase | AtManifest | AtAccounts | AtOIDC

fun stage_rank :: "stage \<Rightarrow> nat" where
  "stage_rank AtConfiguration = 0"
| "stage_rank AtDatabase = 1"
| "stage_rank AtManifest = 2"
| "stage_rank AtAccounts = 3"
| "stage_rank AtOIDC = 4"

lemma stage_rank_inject: "stage_rank x = stage_rank y \<Longrightarrow> x = y"
  by (cases x; cases y) simp_all

instantiation stage :: linorder
begin

definition less_eq_stage :: "stage \<Rightarrow> stage \<Rightarrow> bool" where
  [simp]: "less_eq_stage x y \<longleftrightarrow> stage_rank x \<le> stage_rank y"

definition less_stage :: "stage \<Rightarrow> stage \<Rightarrow> bool" where
  [simp]: "less_stage x y \<longleftrightarrow> stage_rank x < stage_rank y"

instance
  by standard (auto intro: stage_rank_inject)

end

fun stage_of :: "provision_error \<Rightarrow> stage" where
  "stage_of (LoadFailed e) = AtConfiguration"
| "stage_of (OpenFailed e) = AtDatabase"
| "stage_of (MigrateFailed e) = AtDatabase"
| "stage_of DecodeFailed = AtManifest"
| "stage_of WrongVersion = AtManifest"
| "stage_of (ListFailed e) = AtManifest"
| "stage_of NoAdministrator = AtManifest"
| "stage_of (InvalidAccount k) = AtAccounts"
| "stage_of (InvalidRole k) = AtAccounts"
| "stage_of (ProvisionFailed m e) = AtAccounts"
| "stage_of (ConfigureFailed m e) = AtAccounts"
| "stage_of (OIDCFailed e) = AtOIDC"

section \<open>The run\<close>

text \<open>A run either stops before the accounts, with the data as they were, or is the run of a decoded manifest.\<close>

lemma run_cases:
  assumes "run M input s = (r, t)"
  obtains (stopped) e where "r = Inl e" "stage_of e < AtAccounts" "stopped_at e = None" "content t = content s"
  | (started) mf s1 where "decode_manifest M input = Some mf" "mf_Version mf = 1" "content s1 = content s"
      "provision_manifest M mf s1 = (r, t)"
proof (cases "Load (cm_Env M) (cm_Parsers M) (cm_Getenv M)")
  case (Inl e)
  with assms show thesis by (intro stopped) (auto simp: run_def)
next
  case (Inr cfg)
  obtain r1 s1 where o1: "Open (cm_PoolConfig M) (cf_DatabaseURL cfg) (cf_EncryptionKey cfg) s = (r1, s1)"
    by (cases "Open (cm_PoolConfig M) (cf_DatabaseURL cfg) (cf_EncryptionKey cfg) s")
  obtain r2 s2 where m: "Migrate migration_files s1 = (r2, s2)" by (cases "Migrate migration_files s1")
  note same = Open_content [OF o1] Migrate_content [OF m]
  show thesis
  proof (cases "(\<exists>x. r1 = Inr x) \<and> (\<exists>y. r2 = Inr y) \<and> (\<exists>mf. decode_manifest M input = Some mf \<and> mf_Version mf = 1)")
    case True
    then obtain mf where "decode_manifest M input = Some mf" "mf_Version mf = 1" by blast
    moreover from this True assms Inr o1 m have "provision_manifest M mf s2 = (r, t)"
      by (auto simp: run_def andThen_def mapErr_def)
    ultimately show thesis using same by (intro started [of mf s2]) simp_all
  next
    case False
    with assms Inr o1 m have "(\<exists>e. r = Inl e \<and> stage_of e < AtAccounts \<and> stopped_at e = None) \<and> (t = s1 \<or> t = s2)"
      by (cases r1; cases r2; cases "decode_manifest M input") (auto simp: run_def andThen_def mapErr_def split: if_splits)
    with same show thesis by (auto intro: stopped)
  qed
qed

lemma provision_run_keeps:
  assumes "uuid_ok (cm_Env M)" "db_inv (cm_Env M) (content s)" "run M input s = (r, t)"
  shows "db_inv (cm_Env M) (content t) \<and> (has_admin (content s) \<longrightarrow> has_admin (content t))"
  using assms(3)
proof (cases rule: run_cases)
  case (stopped e)
  with assms(2) show ?thesis by simp
next
  case (started mf s1)
  with provision_manifest_keeps [OF assms(1) _ started(4)] assms(2) show ?thesis by simp
qed

text \<open>Provisioning never locks anybody out of administration: after a run of the command, whatever
  the manifest says and wherever the run stops, the database is well formed, and if there was an enabled
  administrator there still is one.\<close>

theorem provisioning_keeps_administrator:
  assumes "uuid_ok (cm_Env M)" "db_inv (cm_Env M) (content s)" "run M input s = (r, t)"
  shows "db_inv (cm_Env M) (content t) \<and> (has_admin (content s) \<longrightarrow> has_admin (content t))"
  by (rule provision_run_keeps [OF assms])

text \<open>At the demo installation: \<open>root\<close> provisions \<open>ann\<close> as an administrator.\<close>

definition demo_seed_json :: json where
  "demo_seed_json = JObj [(''username'', JStr ''ann''), (''email'', JStr ''ann@x.io''), (''role'', JStr ''admin''),
     (''opencodeConfig'', JObj []), (''apiKey'', JStr ''k'')]"

definition demo_command :: "unit command" where
  "demo_command = \<lparr>cm_Env = demo_env, cm_Parsers = demo_url_parsers, cm_IdP = \<lparr>NewProvider = (\<lambda>_. None), AuthCodeURL = (\<lambda>_ _ _ _ _. []),
       Exchange = (\<lambda>_ _ _ _. None), VerifyIDToken = (\<lambda>_ _ _. None)\<rparr>, cm_Getenv = demo_getenv, cm_PoolConfig = (\<lambda>_. True),
     cm_FirstValue = (\<lambda>_. Some (JObj [(''version'', JNum 1), (''users'', JArr [demo_seed_json])])), cm_RawConfig = (\<lambda>_ _. ''{}''),
     cm_Time = (\<lambda>n. 20 + int n), cm_UUID = (\<lambda>n. CHR ''f'' # show_nat n), cm_Nonce = (\<lambda>_. Some ''nonce-000001'')\<rparr>"

definition demo_installation :: installation where
  "demo_installation = \<lparr>in_Versions = None, in_Store = demo_store\<rparr>"

theorem provisioning_keeps_administrator_witness:
  "\<exists>r t. run demo_command ''{}'' demo_installation = (r, t) \<and> has_admin (content t)"
proof -
  obtain r t where run: "run demo_command ''{}'' demo_installation = (r, t)" by fastforce
  have "db_inv (cm_Env demo_command) (content demo_installation)" "uuid_ok (cm_Env demo_command)"
    by (simp_all add: demo_command_def demo_installation_def content_def demo_db_inv demo_uuid_ok)
  moreover have "has_admin (content demo_installation)"
    by (auto simp: has_admin_def enabled_admin_def demo_installation_def content_def demo_rows)
  ultimately have "has_admin (content t)" using provisioning_keeps_administrator [OF _ _ run] by blast
  with run show ?thesis by blast
qed

section \<open>The manifest is carried out\<close>

definition carried_out :: "env \<Rightarrow> string \<Rightarrow> userSeed \<Rightarrow> db \<Rightarrow> bool" where
  "carried_out E actor seed d \<longleftrightarrow> (\<exists>row \<in> set (users d). same_email E (TrimSpace (sd_Email seed)) row
     \<and> u_username row = TrimSpace (sd_Username seed) \<and> u_display_name row = TrimSpace (sd_DisplayName seed)
     \<and> (if u_id row = actor then u_role row = ''admin'' \<and> \<not> u_disabled row
        else u_role row = sd_Role seed \<and> u_disabled row = sd_Disabled seed)
     \<and> sealed_configuration E d (u_id row) (sd_OpenCodeConfig seed) (sd_APIKey seed))"

lemma ProvisionUser_configurations:
  "preserves (on_db (\<lambda>d. configurations d = cs)) (ProvisionUser E now i a inp)"
  unfolding ProvisionUser_def insertUser_def user_by_email_def
  by (intro act_rules audit_frame)
    (auto simp: sql_insert_user_def sql_insert_credential_def sql_insert_workspace_def sql_update_profile_def
      sql_disable_user_def Let_def split: sum.splits if_splits option.splits)

lemma ProvisionUser_frame:
  assumes "uuid_ok E" and inv: "db_inv E (db s)" and row: "row \<in> set (users (db s))" "\<not> same_email E (pi_Email inp) row"
    and run: "ProvisionUser E now i a inp s = (r, t)"
  shows "row \<in> set (users (db t)) \<and> configurations (db t) = configurations (db s) \<and> (\<forall>u. r = Inr u \<longrightarrow> user_ID u \<noteq> u_id row)"
proof -
  have cs: "configurations (db t) = configurations (db s)"
    using preservesD [OF ProvisionUser_configurations _ run, of "configurations (db s)"] by (simp add: on_db_def)
  show ?thesis
  proof (cases r)
    case (Inl e)
    with run have "db t = db s" unfolding ProvisionUser_def by (auto dest: transaction_Inl)
    with row Inl show ?thesis by simp
  next
    case (Inr u)
    have "on_db (\<lambda>d. accounts_are (users (db s)) (credentials (db s)) d \<and> (\<forall>r \<in> set (users (db s)). uuid_canonical E (u_id r))) s"
      using users_ok_canonical [OF inv] by (simp add: on_db_def)
    from yieldsD [OF ProvisionUser_result [OF assms(1)] this run [unfolded Inr]]
    have res: "provisioned E now i a inp (users (db s)) (users (db t)) u" by (simp add: on_db_def)
    show ?thesis
    proof (cases "find (same_email E (pi_Email inp)) (users (db s))")
      case None
      with res obtain r0 where "new_row E i (pi_Username inp) (pi_DisplayName inp) (pi_Email inp) (pi_Role inp) (users (db s)) r0"
        "user_ID u = u_id r0" and us: "\<exists>y. users (db t) = users (db s) @ [y]"
        by (auto simp: provisioned_def)
      moreover from us have "set (users (db s)) \<subseteq> set (users (db t))" by auto
      ultimately show ?thesis using row cs Inr by (auto simp: new_row_def matches_iff)
    next
      case (Some r0)
      then have r0: "r0 \<in> set (users (db s))" "same_email E (pi_Email inp) r0" by (auto dest: find_Some_in)
      then have "u_id row \<noteq> u_id r0" using users_same_id [OF inv row(1) r0(1)] row(2) by blast
      with res Some row cs Inr show ?thesis by (auto simp: provisioned_def set_update_where)
    qed
  qed
qed

lemma same_email_lower: "same_email E a row \<Longrightarrow> same_email E b row \<Longrightarrow> pg_lower E a = pg_lower E b"
  by (auto simp: same_email_key)

definition mail_of :: "env \<Rightarrow> userSeed \<Rightarrow> string" where
  "mail_of E seed = pg_lower E (TrimSpace (sd_Email seed))"

text \<open>One seed, in two calls; the second is made only if the first succeeds.\<close>

lemma provision_seed_cases:
  assumes "provision_seed M a i seed s = (r, t)"
  obtains (refused) "r = Inl (InvalidAccount i) \<or> r = Inl (InvalidRole i)" "t = s"
  | (account) e where "r = Inl (ProvisionFailed (TrimSpace (sd_Email seed)) e)" "pi_Email (seed_input seed) \<noteq> []"
      "ProvisionUser (cm_Env M) (cm_Time M (2 * i)) (cm_UUID M i) a (seed_input seed) (in_Store s) = (Inl e, in_Store t)"
  | (configure) u r1 and s1 :: installation where "pi_Email (seed_input seed) \<noteq> []"
      "ProvisionUser (cm_Env M) (cm_Time M (2 * i)) (cm_UUID M i) a (seed_input seed) (in_Store s) = (Inr u, in_Store s1)"
      "SetWorkspaceConfiguration (cm_Env M) (cm_Time M (2 * i + 1)) (cm_Nonce M (2 * i)) (cm_Nonce M (2 * i + 1)) a (user_ID u)
         (sd_OpenCodeConfig seed) (sd_APIKey seed) (in_Store s1) = (r1, in_Store t)"
      "r = (case r1 of Inl e \<Rightarrow> Inl (ConfigureFailed (TrimSpace (sd_Email seed)) e) | Inr _ \<Rightarrow> Inr ())"
proof (cases "\<not> usernamePattern (TrimSpace (sd_Username seed)) \<or> \<not> Contains (TrimSpace (sd_Email seed)) ''@''
    \<or> sd_Role seed \<noteq> ''admin'' \<and> sd_Role seed \<noteq> ''user''")
  case True
  with assms show thesis by (intro refused) (auto simp: provision_seed_def Let_def split: if_splits)
next
  case False
  have mail: "pi_Email (seed_input seed) \<noteq> []" using False by (auto simp: seed_input_def)
  let ?m = "in_db (ProvisionFailed (TrimSpace (sd_Email seed)))
      (ProvisionUser (cm_Env M) (cm_Time M (2 * i)) (cm_UUID M i) a (seed_input seed))"
  let ?c = "\<lambda>u. in_db (ConfigureFailed (TrimSpace (sd_Email seed))) (SetWorkspaceConfiguration (cm_Env M) (cm_Time M (2 * i + 1))
      (cm_Nonce M (2 * i)) (cm_Nonce M (2 * i + 1)) a (user_ID u) (sd_OpenCodeConfig seed) (sd_APIKey seed))"
  obtain r1 s1 where m: "?m s = (r1, s1)" by (cases "?m s")
  have body: "andThen ?m ?c s = (r, t)" using assms False by (simp add: provision_seed_def Let_def split: if_splits)
  from m show thesis
  proof (cases rule: in_db_cases)
    case (failed e)
    with body m mail show thesis by (intro account [of e]) (auto simp: andThen_def)
  next
    case (finished u)
    with body m have "?c u s1 = (r, t)" by (simp add: andThen_def)
    then show thesis
    proof (cases rule: in_db_cases)
      case 1: (failed e)
      with finished mail show thesis by (intro configure [of u s1 "Inl e"]) simp_all
    next
      case 2: (finished x)
      with finished mail show thesis by (intro configure [of u s1 "Inr x"]) simp_all
    qed
  qed
qed

lemma SetWorkspaceConfiguration_frame:
  assumes "crypto_ok E" "\<And>n. n1 = Some n \<Longrightarrow> length n = nonce_size" "\<And>n. n2 = Some n \<Longrightarrow> length n = nonce_size"
    and "pg_uuid E i = Some i" and run: "SetWorkspaceConfiguration E now n1 n2 a i doc k s = (r, t)"
  shows "users (db t) = users (db s)
     \<and> (\<forall>v. v \<noteq> i \<longrightarrow> find (\<lambda>c. f_user_id c = v) (configurations (db t)) = find (\<lambda>c. f_user_id c = v) (configurations (db s)))
     \<and> (\<forall>x. r = Inr x \<longrightarrow> sealed_configuration E (db t) i doc k)"
proof (cases r)
  case (Inl e)
  with run have "db t = db s"
    unfolding SetWorkspaceConfiguration_def
    by (auto simp: andThen_def lift_def split: if_splits sum.splits dest: transaction_Inl)
  with Inl show ?thesis by simp
next
  case (Inr x)
  then obtain m1 m2 where n: "n1 = Some m1" "n2 = Some m2"
    using run by (cases n1; cases n2) (auto simp: SetWorkspaceConfiguration_def encrypt_def andThen_def split: if_splits)
  have "length m1 = nonce_size" "length m2 = nonce_size" using assms(2,3) n by simp_all
  from SetWorkspaceConfiguration_result [OF assms(1) this assms(4)] run n Inr show ?thesis by simp
qed

lemma sealed_cong: "find (\<lambda>c. f_user_id c = u) (configurations d') = find (\<lambda>c. f_user_id c = u) (configurations d) \<Longrightarrow>
    sealed_configuration E d' u doc k = sealed_configuration E d u doc k"
  by (simp add: sealed_configuration_def)

lemma carried_outI:
  "carried_out E a seed d \<Longrightarrow> (\<And>row. row \<in> set (users d) \<Longrightarrow> same_email E (TrimSpace (sd_Email seed)) row \<Longrightarrow>
      row \<in> set (users d') \<and> find (\<lambda>c. f_user_id c = u_id row) (configurations d') = find (\<lambda>c. f_user_id c = u_id row) (configurations d))
   \<Longrightarrow> carried_out E a seed d'"
  unfolding carried_out_def by (elim bexE conjE) (metis sealed_cong)

definition nonces_ok :: "'p command \<Rightarrow> bool" where
  "nonces_ok M \<longleftrightarrow> (\<forall>k n. cm_Nonce M k = Some n \<longrightarrow> length n = nonce_size)"

lemma provision_seed_effect:
  assumes ok: "uuid_ok (cm_Env M)" "crypto_ok (cm_Env M)" "nonces_ok M"
    and inv: "db_inv (cm_Env M) (content s)" and a: "a \<in> ids (content s)"
    and run: "provision_seed M a i seed s = (r, t)"
  shows "db_inv (cm_Env M) (content t) \<and> a \<in> ids (content t)
     \<and> (r = Inr () \<longrightarrow> carried_out (cm_Env M) a seed (content t))
     \<and> (\<forall>other. mail_of (cm_Env M) other \<noteq> mail_of (cm_Env M) seed \<longrightarrow> carried_out (cm_Env M) a other (content s)
          \<longrightarrow> carried_out (cm_Env M) a other (content t))"
  using run
proof (cases rule: provision_seed_cases)
  case refused
  with inv a show ?thesis by auto
next
  case (account e)
  then have "content t = content s" unfolding content_def ProvisionUser_def by (auto dest: transaction_Inl)
  with account(1) inv a show ?thesis by simp
next
  case (configure u r1 s1)
  let ?E = "cm_Env M"
  have inv': "db_inv ?E (db (in_Store s))" "a \<in> ids (db (in_Store s))" using inv a by (simp_all add: content_def)
  from ProvisionUser_upsert [OF ok(1) inv' configure(1,2)] obtain row where
    row: "row \<in> set (users (db (in_Store s1)))" "u_id row = user_ID u" "same_email ?E (pi_Email (seed_input seed)) row"
      "u_username row = pi_Username (seed_input seed)" "u_display_name row = pi_DisplayName (seed_input seed)"
      "if u_id row = a then u_role row = ''admin'' \<and> \<not> u_disabled row
         else u_role row = pi_Role (seed_input seed) \<and> u_disabled row = pi_Disabled (seed_input seed)"
      "\<forall>x. u_id x \<noteq> u_id row \<longrightarrow> (x \<in> set (users (db (in_Store s1))) \<longleftrightarrow> x \<in> set (users (db (in_Store s))))"
    by blast
  have inv1: "db_inv ?E (db (in_Store s1))"
    using preservesD [OF ProvisionUser_inv [OF ok(1)] _ configure(2)] inv' by (simp add: on_db_def)
  have inv2: "db_inv ?E (db (in_Store t))"
    using preservesD [OF SetWorkspaceConfiguration_inv _ configure(3)] inv1 by (simp add: on_db_def)
  have a1: "a \<in> ids (db (in_Store s1))"
  proof (cases "u_id row = a")
    case True
    with row(1) show ?thesis by (auto simp: ids_def)
  next
    case False
    from inv'(2) obtain x where "x \<in> set (users (db (in_Store s)))" "u_id x = a" by (auto simp: ids_def)
    with False row(7) show ?thesis by (auto simp: ids_def)
  qed
  have can: "pg_uuid ?E (user_ID u) = Some (user_ID u)"
    using users_ok_canonical [OF inv1 row(1)] row(2) by (simp add: uuid_canonical_def)
  note frame = SetWorkspaceConfiguration_frame [OF ok(2) _ _ can configure(3)]
  have nonces: "length n = nonce_size" if "cm_Nonce M k = Some n" for k n using ok(3) that by (simp add: nonces_ok_def)
  note frame = frame [OF nonces nonces]
  have "carried_out ?E a seed (content t)" if "r = Inr ()"
  proof -
    have "r1 = Inr ()" using configure(4) that by (auto split: sum.splits)
    with frame have "sealed_configuration ?E (db (in_Store t)) (u_id row) (sd_OpenCodeConfig seed) (sd_APIKey seed)"
      "users (db (in_Store t)) = users (db (in_Store s1))" using row(2) by auto
    with row show ?thesis
      unfolding carried_out_def content_def by (intro bexI [of _ row]) (auto simp: seed_input_def)
  qed
  moreover have "carried_out ?E a other (content t)"
    if "mail_of ?E other \<noteq> mail_of ?E seed" "carried_out ?E a other (content s)" for other
    using that(2)
  proof (rule carried_outI)
    fix x assume x: "x \<in> set (users (content s))" "same_email ?E (TrimSpace (sd_Email other)) x"
    have "\<not> same_email ?E (pi_Email (seed_input seed)) x"
      using same_email_lower [OF x(2)] that(1) by (auto simp: mail_of_def seed_input_def)
    from ProvisionUser_frame [OF ok(1) inv'(1) x(1) [unfolded content_def] this configure(2)]
    have "x \<in> set (users (db (in_Store s1)))" "configurations (db (in_Store s1)) = configurations (db (in_Store s))" "u_id x \<noteq> user_ID u"
      by auto
    with frame show "x \<in> set (users (content t)) \<and> find (\<lambda>c. f_user_id c = u_id x) (configurations (content t))
        = find (\<lambda>c. f_user_id c = u_id x) (configurations (content s))"
      by (simp add: content_def)
  qed
  moreover have "a \<in> ids (content t)" using a1 frame by (simp add: ids_def content_def)
  ultimately show ?thesis using inv2 by (auto simp: content_def)
qed

text \<open>The loop: how far it got, and that what it did stays done.\<close>

lemma provision_each_error: "provision_each M a i seeds s = (Inl e, t) \<Longrightarrow> stage_of e = AtAccounts"
proof (induction seeds arbitrary: i s)
  case (Cons seed seeds)
  obtain r1 s1 where one: "provision_seed M a i seed s = (r1, s1)" by (cases "provision_seed M a i seed s")
  have "stage_of e1 = AtAccounts" if "r1 = Inl e1" for e1
    using one unfolding that by (cases rule: provision_seed_cases) (auto split: sum.splits)
  with Cons one show ?case by (cases r1) (auto simp: andThen_def)
qed simp

lemma provision_each_effect:
  assumes ok: "uuid_ok (cm_Env M)" "crypto_ok (cm_Env M)" "nonces_ok M"
    and "db_inv (cm_Env M) (content s)" "a \<in> ids (content s)" "distinct (map (mail_of (cm_Env M)) (before @ seeds))"
    and "\<forall>seed \<in> set before. carried_out (cm_Env M) a seed (content s)"
    and "provision_each M a i seeds s = (r, t)"
  shows "\<exists>k \<le> length seeds. (\<forall>seed \<in> set (before @ take k seeds). carried_out (cm_Env M) a seed (content t))
     \<and> (\<forall>n. r = Inr n \<longrightarrow> k = length seeds \<and> n = i + k) \<and> (\<forall>e n. r = Inl e \<longrightarrow> stopped_at e = Some n \<longrightarrow> n = i + k)"
  using assms(4-)
proof (induction seeds arbitrary: i s before)
  case Nil
  then show ?case by auto
next
  case (Cons seed seeds)
  obtain r1 s1 where one: "provision_seed M a i seed s = (r1, s1)" by (cases "provision_seed M a i seed s")
  note eff = provision_seed_effect [OF ok Cons.prems(1,2) one]
  have "mail_of (cm_Env M) seed \<notin> mail_of (cm_Env M) ` set before" using Cons.prems(3) by auto
  then have "mail_of (cm_Env M) other \<noteq> mail_of (cm_Env M) seed" if "other \<in> set before" for other
    using that by (metis imageI)
  with eff Cons.prems(4) have kept: "\<forall>other \<in> set before. carried_out (cm_Env M) a other (content s1)" by blast
  show ?case
  proof (cases r1)
    case (Inl e)
    with Cons.prems(5) one have rt: "r = Inl e" "t = s1" by (auto simp: andThen_def)
    have "n = i" if "stopped_at e = Some n" for n
      using one unfolding Inl by (cases rule: provision_seed_cases) (use that in \<open>auto split: sum.splits\<close>)
    with kept rt show ?thesis by (intro exI [of _ 0]) auto
  next
    case (Inr x)
    with Cons.prems(5) one have rest: "provision_each M a (Suc i) seeds s1 = (r, t)" by (simp add: andThen_def)
    have "\<exists>k \<le> length seeds. (\<forall>sd \<in> set ((before @ [seed]) @ take k seeds). carried_out (cm_Env M) a sd (content t))
     \<and> (\<forall>n. r = Inr n \<longrightarrow> k = length seeds \<and> n = Suc i + k) \<and> (\<forall>e n. r = Inl e \<longrightarrow> stopped_at e = Some n \<longrightarrow> n = Suc i + k)"
      by (rule Cons.IH [OF _ _ _ _ rest]) (use eff kept Cons.prems(3) Inr in auto)
    then obtain k where "k \<le> length seeds" "\<forall>sd \<in> set ((before @ [seed]) @ take k seeds). carried_out (cm_Env M) a sd (content t)"
      "\<forall>n. r = Inr n \<longrightarrow> k = length seeds \<and> n = Suc i + k" "\<forall>e n. r = Inl e \<longrightarrow> stopped_at e = Some n \<longrightarrow> n = Suc i + k"
      by blast
    then show ?thesis by (intro exI [of _ "Suc k"]) auto
  qed
qed

lemma SetSetting_frame: "preserves (on_db (\<lambda>d. users d = us \<and> configurations d = cs)) (SetSetting E now n a k j enc remote)"
  unfolding SetSetting_def
  by (intro act_rules audit_frame) (auto simp: sql_upsert_setting_def split: sum.splits)

lemma carried_out_cong: "users d' = users d \<Longrightarrow> configurations d' = configurations d \<Longrightarrow> carried_out E a seed d' = carried_out E a seed d"
  by (simp add: carried_out_def sealed_configuration_def)

lemma provision_oidc_frame:
  assumes "provision_oidc M a n seed s = (r, t)"
  shows "users (content t) = users (content s) \<and> configurations (content t) = configurations (content s)"
proof -
  have "preserves (on_content (\<lambda>d. users d = users (content s) \<and> configurations d = configurations (content s))) (provision_oidc M a n seed)"
    unfolding provision_oidc_def Save_def by (intro act_rules content_in_db SetSetting_frame)
  from preservesD [OF this _ assms] show ?thesis by (simp add: on_content_def)
qed

lemma provision_oidc_not_stopped: "provision_oidc M a n seed s = (Inl e, t) \<Longrightarrow> stopped_at e = None \<and> stage_of e = AtOIDC"
  by (auto simp: provision_oidc_def in_db_def within_def mapErr_def split: option.splits prod.splits sum.splits)

lemma provision_manifest_effect:
  assumes ok: "uuid_ok (cm_Env M)" "crypto_ok (cm_Env M)" "nonces_ok M"
    and inv: "db_inv (cm_Env M) (content s)" and mails: "distinct (map (mail_of (cm_Env M)) (mf_Users mf))"
    and run: "provision_manifest M mf s = (r, t)"
  shows "(\<exists>e. r = Inl e \<and> stopped_at e = None \<and> stage_of e < AtAccounts \<and> content t = content s)
     \<or> (\<exists>a k. enabled_admin a (content s) \<and> k \<le> length (mf_Users mf)
        \<and> (\<forall>seed \<in> set (take k (mf_Users mf)). carried_out (cm_Env M) a seed (content t))
        \<and> (\<forall>n oidc. r = Inr (n, oidc) \<longrightarrow> k = length (mf_Users mf) \<and> n = k \<and> oidc = (mf_OIDC mf \<noteq> None))
        \<and> (\<forall>e n. r = Inl e \<longrightarrow> stopped_at e = Some n \<longrightarrow> n = k)
        \<and> (\<forall>e. r = Inl e \<longrightarrow> AtAccounts \<le> stage_of e \<and> (AtAccounts < stage_of e \<longrightarrow> k = length (mf_Users mf))))"
proof -
  obtain r1 s1 where q: "in_db ListFailed ListUsers s = (r1, s1)" by (cases "in_db ListFailed ListUsers s")
  have same: "content s1 = content s"
    using q unfolding content_def by (elim in_db_cases) (auto simp: ListUsers_def dest: fetch_db)
  show ?thesis
  proof (cases "\<exists>us. r1 = Inr us \<and> first_admin us \<noteq> []")
    case False
    have "(\<exists>e. r1 = Inl (ListFailed e)) \<or> (\<exists>us. r1 = Inr us)" using q by (auto elim: in_db_cases)
    with False run q have "t = s1 \<and> (\<exists>e. r = Inl e \<and> stopped_at e = None \<and> stage_of e < AtAccounts)"
      by (auto simp: provision_manifest_def andThen_def Let_def split: if_splits)
    with same show ?thesis by auto
  next
    case True
    then obtain us where us: "r1 = Inr us" "first_admin us \<noteq> []" by blast
    let ?a = "first_admin us"
    from q us(1) have "ListUsers (in_Store s) = (Inr us, in_Store s1)" by (auto elim: in_db_cases)
    from first_admin_enabled [OF this us(2)] have adm: "enabled_admin ?a (content s)" by (simp add: content_def)
    then have a: "?a \<in> ids (content s1)" using same by (metis enabled_admin_def user_in_ids)
    obtain r2 s2 where each: "provision_each M ?a 0 (mf_Users mf) s1 = (r2, s2)" by (cases "provision_each M ?a 0 (mf_Users mf) s1")
    obtain k where k: "k \<le> length (mf_Users mf)" "\<forall>seed \<in> set (take k (mf_Users mf)). carried_out (cm_Env M) ?a seed (content s2)"
      "\<forall>n. r2 = Inr n \<longrightarrow> k = length (mf_Users mf) \<and> n = k" "\<forall>e n. r2 = Inl e \<longrightarrow> stopped_at e = Some n \<longrightarrow> n = k"
      using provision_each_effect [OF ok _ a _ _ each, of "[]"] inv mails same by auto
    obtain r3 s3 where oidc: "provision_oidc M ?a (length (mf_Users mf)) (mf_OIDC mf) s2 = (r3, s3)"
      by (cases "provision_oidc M ?a (length (mf_Users mf)) (mf_OIDC mf) s2")
    have tail: "(case r2 of Inl e \<Rightarrow> (Inl e, s2) | Inr n \<Rightarrow> (case r3 of Inl e \<Rightarrow> (Inl e, s3) | Inr _ \<Rightarrow> (Inr (n, mf_OIDC mf \<noteq> None), s3))) = (r, t)"
      using run q us each oidc by (auto simp: provision_manifest_def andThen_def Let_def split: sum.splits)
    have oidc_error: "stopped_at e = None \<and> stage_of e = AtOIDC" if "r3 = Inl e" for e
      using provision_oidc_not_stopped oidc that by blast
    have each_error: "stage_of e = AtAccounts" if "r2 = Inl e" for e
      using provision_each_error each that by blast
    have "\<forall>seed \<in> set (take k (mf_Users mf)). carried_out (cm_Env M) ?a seed (content t)"
      using tail k(2) carried_out_cong [of "content s3" "content s2"] provision_oidc_frame [OF oidc] by (auto split: sum.splits)
    moreover have "\<forall>n o1. r = Inr (n, o1) \<longrightarrow> k = length (mf_Users mf) \<and> n = k \<and> o1 = (mf_OIDC mf \<noteq> None)"
      using tail k(3) by (auto split: sum.splits)
    moreover have "\<forall>e n. r = Inl e \<longrightarrow> stopped_at e = Some n \<longrightarrow> n = k"
      using tail k(4) oidc_error by (auto split: sum.splits)
    moreover have "\<forall>e. r = Inl e \<longrightarrow> AtAccounts \<le> stage_of e \<and> (AtAccounts < stage_of e \<longrightarrow> k = length (mf_Users mf))"
      using tail each_error oidc_error k(3) by (auto split: sum.splits)
    ultimately show ?thesis using adm k(1) by blast
  qed
qed



section \<open>The demo run\<close>

definition demo_seed :: userSeed where
  "demo_seed = \<lparr>sd_Username = ''ann'', sd_DisplayName = [], sd_Email = ''ann@x.io'', sd_Role = ''admin'', sd_Disabled = False,
     sd_OpenCodeConfig = ''{}'', sd_APIKey = ''k''\<rparr>"

lemma demo_command_simps [simp]:
  "cm_Env demo_command = demo_env" "cm_RawConfig demo_command t i = ''{}''" "cm_Time demo_command n = 20 + int n"
  "cm_Nonce demo_command n = Some ''nonce-000001''" "cm_Parsers demo_command = demo_url_parsers" "cm_Getenv demo_command = demo_getenv"
  "cm_FirstValue demo_command t = Some (JObj [(''version'', JNum 1), (''users'', JArr [demo_seed_json])])"
  by (simp_all add: demo_command_def)

lemma demo_seed_fields:
  "find_field (seed_fields raw) ''username'' = Some (string_field sd_Username_update)"
  "find_field (seed_fields raw) ''email'' = Some (string_field sd_Email_update)"
  "find_field (seed_fields raw) ''role'' = Some (string_field sd_Role_update)"
  "find_field (seed_fields raw) ''opencodeConfig'' = Some (\<lambda>_ r. (r\<lparr>sd_OpenCodeConfig := raw\<rparr>, True))"
  "find_field (seed_fields raw) ''apiKey'' = Some (string_field sd_APIKey_update)"
  "find_field (manifest_fields raws) ''version'' = Some (int_field mf_Version_update)"
  "find_field (manifest_fields raws) ''users'' = Some (users_field raws)"
  by (simp_all add: seed_fields_def manifest_fields_def find_field_def ascii_lower_def)

lemma demo_decode: "decode_manifest demo_command input = Some \<lparr>mf_Version = 1, mf_Users = [demo_seed], mf_OIDC = None\<rparr>"
  by (simp add: decode_manifest_def decode_object_def demo_seed_fields int_field_def users_field_def
      demo_seed_json_def zero_manifest_def zero_seed_def string_field_def demo_seed_def Let_def)

lemma demo_trims:
  "TrimSpace ''ann'' = ''ann''" "TrimSpace ''ann@x.io'' = ''ann@x.io''" "TrimSpace ''k'' = ''k''" "Contains ''ann@x.io'' ''@''"
  "usernamePattern ''ann''"
  by (simp_all add: TrimSpace_def ascii_space_def wide_space2_def wide_space3_def HasPrefix_def usernamePattern_def
      username_char_def is_lower_def)

lemma demo_provision_seed:
  "fst (provision_seed demo_command ''a1'' 0 demo_seed (demo_installation\<lparr>in_Versions := v\<rparr>)) = Inr ()"
proof -
  have "\<exists>u t. ProvisionUser demo_env 20 (cm_UUID demo_command 0) ''a1'' (seed_input demo_seed) demo_store = (Inr u, t) \<and> user_ID u = ''b2''
     \<and> users (db t) = [demo_root, demo_ann\<lparr>u_display_name := [], u_role := ''admin'', u_updated_at := 20\<rparr>]
     \<and> faults t = [] \<and> configurations (db t) = []"
    by (simp add: ProvisionUser_def user_by_email_def audit_def run_defs sql_update_profile_def same_email_def
      same_username_def seed_input_def demo_seed_def demo_trims demo_rows ascii_lower_def matches_def update_where_def valid_role_def
      user_ref_def nullUUID_def)
  then obtain u t where t: "ProvisionUser demo_env 20 (cm_UUID demo_command 0) ''a1'' (seed_input demo_seed) demo_store = (Inr u, t)"
    "user_ID u = ''b2''" "users (db t) = [demo_root, demo_ann\<lparr>u_display_name := [], u_role := ''admin'', u_updated_at := 20\<rparr>]"
    "faults t = []" "configurations (db t) = []" by blast
  have "fst (SetWorkspaceConfiguration demo_env 21 (Some ''nonce-000001'') (Some ''nonce-000001'') ''a1'' ''b2'' ''{}'' ''k'' t) = Inr ()"
    using t(3-5) by (simp add: SetWorkspaceConfiguration_def encrypt_def is_json_object_def demo_trims
      audit_def run_defs sql_upsert_configuration_def upsert_def matches_def demo_rows ascii_lower_def user_ref_def nullUUID_def)
  then obtain t2 where t2: "SetWorkspaceConfiguration demo_env 21 (Some ''nonce-000001'') (Some ''nonce-000001'') ''a1'' ''b2'' ''{}'' ''k'' t = (Inr (), t2)"
    by (metis prod.collapse)
  have "sd_Username demo_seed = ''ann''" "sd_Email demo_seed = ''ann@x.io''" "sd_Role demo_seed = ''admin''"
    "sd_OpenCodeConfig demo_seed = ''{}''" "sd_APIKey demo_seed = ''k''" by (simp_all add: demo_seed_def)
  then show ?thesis using t(1,2) t2
    by (simp add: provision_seed_def demo_trims in_db_def within_def mapErr_def andThen_def demo_installation_def Let_def HasPrefix_def)
qed

lemma demo_started:
  assumes "faults (in_Store s) = []" "content s = demo_db"
  obtains c ws where "Load demo_env demo_url_parsers demo_getenv = Inr c"
    "Open (cm_PoolConfig demo_command) (cf_DatabaseURL c) (cf_EncryptionKey c) s = (Inr (), s)"
    "Migrate migration_files s = (Inr (), s\<lparr>in_Versions := Some ws\<rparr>)"
proof -
  obtain c where c: "Load demo_env demo_url_parsers demo_getenv = Inr c" by (rule demo_load)
  have "length (cf_EncryptionKey c) = 32"
    using c key_length [of demo_env demo_getenv "''ENCRYPTION_KEY''"] by (auto elim: Load_result)
  then have o1: "Open (cm_PoolConfig demo_command) (cf_DatabaseURL c) (cf_EncryptionKey c) s = (Inr (), s)"
    using assms by (simp add: Open_def andThen_def round_trip_def exec_no_faults content_def demo_command_def)
  have "db_inv demo_env (content s)" using assms(2) demo_db_inv by simp
  with assms(1) obtain ws where "Migrate migration_files s = (Inr (), s\<lparr>in_Versions := Some ws\<rparr>)" by (rule Migrate_no_faults)
  with c o1 show thesis by (rule that)
qed

lemma demo_run: "fst (run demo_command input demo_installation) = Inr (1, False)"
proof -
  have "faults (in_Store demo_installation) = []" "content demo_installation = demo_db"
    by (simp_all add: demo_installation_def content_def)
  then obtain c ws where c: "Load demo_env demo_url_parsers demo_getenv = Inr c"
    "Open (cm_PoolConfig demo_command) (cf_DatabaseURL c) (cf_EncryptionKey c) demo_installation = (Inr (), demo_installation)"
    "Migrate migration_files demo_installation = (Inr (), demo_installation\<lparr>in_Versions := Some ws\<rparr>)" by (rule demo_started)
  let ?s = "demo_installation\<lparr>in_Versions := Some ws\<rparr>"
  obtain t where t: "provision_seed demo_command ''a1'' 0 demo_seed ?s = (Inr (), t)"
    using demo_provision_seed by (metis prod.collapse)
  have list: "in_db ListFailed ListUsers ?s = (Inr [scanUser demo_root, scanUser demo_ann], ?s)"
    by (simp add: in_db_def within_def mapErr_def ListUsers_def fetch_no_faults demo_installation_def demo_rows)
  have "first_admin [scanUser demo_root, scanUser demo_ann] = ''a1''"
    by (simp add: first_admin_def IsAdmin_def scanUser_def demo_rows)
  with t list show ?thesis
    by (simp add: run_def demo_decode provision_manifest_def provision_oidc_def andThen_def mapErr_def c Let_def)
qed

lemma demo_hypotheses: "uuid_ok (cm_Env demo_command)" "crypto_ok (cm_Env demo_command)" "nonces_ok demo_command"
  "db_inv (cm_Env demo_command) (content demo_installation)"
  by (simp_all add: demo_uuid_ok demo_crypto_ok nonces_ok_def nonce_size_def content_def demo_installation_def demo_db_inv)


text \<open>A manifest of another version.\<close>

definition demo_old_command :: "unit command" where
  "demo_old_command = demo_command\<lparr>cm_FirstValue := (\<lambda>_. Some (JObj [(''version'', JNum 2)]))\<rparr>"

lemma demo_old_decode: "decode_manifest demo_old_command input = Some \<lparr>mf_Version = 2, mf_Users = [], mf_OIDC = None\<rparr>"
  by (simp add: demo_old_command_def decode_manifest_def decode_object_def demo_seed_fields int_field_def zero_manifest_def Let_def)

lemma demo_old_run: "fst (run demo_old_command input demo_installation) = Inl WrongVersion"
proof -
  have "faults (in_Store demo_installation) = []" "content demo_installation = demo_db"
    by (simp_all add: demo_installation_def content_def)
  then obtain c ws where c: "Load demo_env demo_url_parsers demo_getenv = Inr c"
    "Open (cm_PoolConfig demo_command) (cf_DatabaseURL c) (cf_EncryptionKey c) demo_installation = (Inr (), demo_installation)"
    "Migrate migration_files demo_installation = (Inr (), demo_installation\<lparr>in_Versions := Some ws\<rparr>)" by (rule demo_started)
  have "cm_Env demo_old_command = demo_env" "cm_Parsers demo_old_command = demo_url_parsers" "cm_Getenv demo_old_command = demo_getenv"
    "cm_PoolConfig demo_old_command = cm_PoolConfig demo_command" by (simp_all add: demo_old_command_def)
  then show ?thesis
    by (simp add: run_def demo_old_decode andThen_def mapErr_def c)
qed


end
