(* ===== verification/CacheInv.thy ===== *)
theory CacheInv
  imports HttpInv ProvisionRun
begin

text \<open>
  The gateway's cache as an invariant of the whole program: every handler, the reconcile loop and the
  provisioning command keep it, because workspaces keep their resource names and secrets their
  passwords. The second half is what the provisioning command leaves alone.
\<close>

section \<open>The cache\<close>

text \<open>The cache is sound, and store and cluster have only grown since they were \<open>d0\<close> and \<open>k0\<close>.\<close>

definition sound_since :: "env \<Rightarrow> parsers \<Rightarrow> 'k views \<Rightarrow> controller \<Rightarrow> db \<Rightarrow> 'k \<Rightarrow> db \<Rightarrow> 'k \<Rightarrow> gateway \<Rightarrow> bool" where
  "sound_since E P V C d0 k0 d k g \<longleftrightarrow> grows V d0 k0 d k
     \<and> (\<forall>i b. gw_backends g i = Some b \<longrightarrow> backend_of E P V C i b d k)"

lemma sound_since_start: "on_state (sound_since E P V C (db (pl_store p)) (pl_cluster p)) p = cache_ok E P V C p"
  by (simp add: cache_ok_def sound_since_def on_state_def)

lemma sound_since_run:
  "on_state (sound_since E P V C (db (pl_store p)) (pl_cluster p)) p'
     \<longleftrightarrow> grows V (db (pl_store p)) (pl_cluster p) (db (pl_store p')) (pl_cluster p') \<and> cache_ok E P V C p'"
  by (simp add: cache_ok_def sound_since_def on_state_def)

lemma sound_since_grows: "sound_since E P V C d0 k0 d k g \<Longrightarrow> grows V d k d' k' \<Longrightarrow> sound_since E P V C d0 k0 d' k' g"
  by (auto simp: sound_since_def intro: grows_trans backend_of_grows)

lemma sound_store:
  "(\<And>u n. preserves (on_db (named u n)) m) \<Longrightarrow> preserves (on_db (\<lambda>d. ok \<longrightarrow> sound_since E P V C d0 k0 d k g)) m"
  by (rule preservesI) (auto simp: on_db_def intro: sound_since_grows named_grows)

lemma sound_steady:
  "(ok \<Longrightarrow> steady V m) \<Longrightarrow> preserves (on_pair (\<lambda>d k. ok \<longrightarrow> sound_since E P V C d0 k0 d k g)) m"
  by (rule preservesI) (auto simp: on_pair_def dest!: steadyD intro: sound_since_grows)

lemma sound_call:
  "(\<And>k r k'. ok \<Longrightarrow> m k = (r, k') \<Longrightarrow> vw_Secrets V k' = vw_Secrets V k) \<Longrightarrow>
   preserves (\<lambda>k. ok \<longrightarrow> sound_since E P V C d0 k0 d k g) m"
  by (rule preservesI) (auto intro: sound_since_grows)

lemma secrets_left_alone:
  assumes "kube_ok K V"
  shows "cl_Get (ka_Deployments K) n x k = (r1, k') \<Longrightarrow> vw_Secrets V k' = vw_Secrets V k"
    and "cl_List (ka_Deployments K) n sel k = (r2, k') \<Longrightarrow> vw_Secrets V k' = vw_Secrets V k"
    and "cl_List (ka_Pods K) n sel k = (r3, k') \<Longrightarrow> vw_Secrets V k' = vw_Secrets V k"
    and "cl_Delete (ka_PVCs K) n x k = (r4, k') \<Longrightarrow> vw_Secrets V k' = vw_Secrets V k"
proof -
  note dep = kube_okD(4) [OF assms] and pvc = kube_okD(1) [OF assms]
  show "cl_Get (ka_Deployments K) n x k = (r1, k') \<Longrightarrow> vw_Secrets V k' = vw_Secrets V k" using client_okD(1) [OF dep] by blast
  show "cl_List (ka_Deployments K) n sel k = (r2, k') \<Longrightarrow> vw_Secrets V k' = vw_Secrets V k" using client_okD(5) [OF dep] by blast
  show "cl_List (ka_Pods K) n sel k = (r3, k') \<Longrightarrow> vw_Secrets V k' = vw_Secrets V k"
    using assms unfolding kube_ok_def pods_ok_def by blast
  show "cl_Delete (ka_PVCs K) n x k = (r4, k') \<Longrightarrow> vw_Secrets V k' = vw_Secrets V k" using client_okD(4) [OF pvc] by blast
qed

lemma sound_methods: "store_invariant E (\<lambda>d. ok \<longrightarrow> sound_since E P V C d0 k0 d k g)"
  by unfold_locales (rule sound_store, rule accounts_keep_named sessions_keep_named workspaces_keep_named)+

lemma sound_serve:
  "preserves (on_state (\<lambda>d k g. kube_ok K V \<longrightarrow> sound_since E P V C d0 k0 d k g)) (ServeHTTP E P K C rnd rt now r u)"
proof (rule preservesI)
  fix p q p' assume I: "on_state (\<lambda>d k g. kube_ok K V \<longrightarrow> sound_since E P V C d0 k0 d k g) p"
    and run: "ServeHTTP E P K C rnd rt now r u p = (q, p')"
  have "kube_ok K V \<Longrightarrow> sound_run E P V C p p'" using ServeHTTP_sound [OF _ run] by blast
  with I show "on_state (\<lambda>d k g. kube_ok K V \<longrightarrow> sound_since E P V C d0 k0 d k g) p'"
    by (auto simp: on_state_def sound_since_def sound_run_def cache_ok_def intro: grows_trans)
qed

interpretation cache: state_invariant E K P C "\<lambda>d k g. kube_ok K V \<longrightarrow> sound_since E P V C d0 k0 d k g" for E K P C V d0 k0
proof (rule state_invariant.intro)
  show "preserves (on_pair (\<lambda>d k. kube_ok K V \<longrightarrow> sound_since E P V C d0 k0 d k g)) (Reconcile E K C rnd w)" for g rnd w
    by (rule sound_steady) (rule steady_Reconcile)
qed (rule sound_methods sound_serve sound_call, (erule secrets_left_alone, assumption)?)+

text \<open>So everything that runs on a sound cache keeps it and only grows store and cluster.\<close>

lemma sound_snd:
  assumes "\<And>d0 k0. preserves (on_state (\<lambda>d k g. ok \<longrightarrow> sound_since E P V C d0 k0 d k g)) m" "ok" "cache_ok E P V C p"
  shows "sound_run E P V C p (snd (m p))"
  using preserves_snd [OF assms(1) [of "db (pl_store p)" "pl_cluster p"], of p] assms(2,3)
  by (simp add: on_state_def sound_since_def sound_run_def cache_ok_def)

lemma served_sound:
  assumes "kube_ok (wd_Kube W) V" "cache_ok (wd_Env W) (wd_Parsers W) V (hs_Controller S) p"
  shows "sound_run (wd_Env W) (wd_Parsers W) V (hs_Controller S) p (snd (mux W S r p))"
    and "sound_run (wd_Env W) (wd_Parsers W) V (hs_Controller S) p (snd (Handler W S r p))"
proof -
  have upd: "preserves (on_db (\<lambda>d. kube_ok (wd_Kube W) V \<longrightarrow> sound_since (wd_Env W) (wd_Parsers W) V (hs_Controller S) d0 k0 d k g))
      (UpdateUser (wd_Env W) now a i dn m rol dis h remote)" for now a i dn m rol dis h remote d0 k0 k g
    by (rule sound_store) (rule accounts_keep_named)
  show "sound_run (wd_Env W) (wd_Parsers W) V (hs_Controller S) p (snd (mux W S r p))"
    by (rule sound_snd [OF cache.served_keeps [OF refl refl refl refl upd] assms])
  show "sound_run (wd_Env W) (wd_Parsers W) V (hs_Controller S) p (snd (Handler W S r p))"
    by (rule sound_snd [OF cache.Handler_keeps [OF refl refl refl refl upd] assms])
qed

lemma loop_sound:
  assumes "kube_ok K V" "cache_ok E P V C p"
  shows "sound_run E P V C p (snd (use_ctl (Run E K C rnd now ticks) p))"
  by (rule sound_snd [OF _ assms]) (rule plane_ctl, rule cache.loop_keeps(2))

lemma middleware_sound:
  assumes "use_store (Middleware E A now ret r) p = (res, p')"
  shows "sound_run E P V C p p'"
  by (rule use_store_sound [OF named_grows assms]) (rule names.request_reads)

section \<open>Provisioning\<close>

lemma provision_keeps_named: "preserves (on_content (named u n)) (run M input)"
proof -
  have each: "preserves (on_content (named u n)) (provision_each M a i seeds)" for a i seeds
  proof (induction seeds arbitrary: i)
    case (Cons seed seeds)
    have "preserves (on_content (named u n)) (provision_seed M a i seed)"
      unfolding provision_seed_def Let_def by (intro act_rules content_in_db accounts_keep_named)
    with Cons show ?case by (auto intro: act_rules)
  qed (simp add: act_rules)
  show ?thesis
    unfolding run_def provision_manifest_def provision_oidc_def Save_def Let_def
    by (intro act_rules startup_keeps content_in_db each workspaces_keep_named read_methods_inv)
qed

lemma provision_sound:
  assumes "run M input \<lparr>in_Versions = vs, in_Store = pl_store p\<rparr> = (res, t)"
  shows "sound_run E P V C p (p\<lparr>pl_store := in_Store t\<rparr>)"
proof (rule soundI)
  show "grows V (db (pl_store p)) (pl_cluster p) (db (pl_store (p\<lparr>pl_store := in_Store t\<rparr>))) (pl_cluster (p\<lparr>pl_store := in_Store t\<rparr>))"
    using preservesD [OF provision_keeps_named _ assms] by (simp add: grows_def on_content_def content_def)
qed simp

end
