(* ===== verification/System.thy ===== *)
theory System
  imports HttpDemo CacheInv
begin

text \<open>
  The control plane as a whole: requests, handled one after the other, passes of the reconcile loop and
  runs of the provisioning command, over one state. What holds in every reachable state.
\<close>

section \<open>Steps\<close>

text \<open>The account that \<open>updateUser\<close> is asked to change is named by its identifier as the database prints
  it (PostgreSQL reads other spellings, too: see \<open>uppercase_id_demotes\<close>).\<close>

definition canonical_target :: "env \<Rightarrow> request \<Rightarrow> bool" where
  "canonical_target E r \<longleftrightarrow> (case route_of (rq_Method r) (segments (rq_Path r)) of
     UpdateUserOf i \<Rightarrow> pg_uuid E (path_unescape i) \<in> {None, Some (path_unescape i)} | _ \<Rightarrow> True)"

text \<open>\<open>P\<close> and \<open>S\<close> are the URL parser and the configuration of the one running server.\<close>

inductive system_step :: "env \<Rightarrow> 'k kube_api \<Rightarrow> parsers \<Rightarrow> server \<Rightarrow> 'p itself \<Rightarrow> 'k plane \<Rightarrow> 'k plane \<Rightarrow> bool" for E K P S ty where
  request: "wd_Env W = E \<Longrightarrow> wd_Kube W = K \<Longrightarrow> wd_Parsers W = P \<Longrightarrow> rq_User r = None \<Longrightarrow> canonical_target E r \<Longrightarrow> ty = TYPE('p) \<Longrightarrow>
    system_step E K P S ty p (snd (Handler (W :: ('k, 'p) world) S r p))"
| passes: "system_step E K P S ty p (snd (use_ctl (Run E K (hs_Controller S) rnd now ticks) p))"
| provisions: "cm_Env M = E \<Longrightarrow> run (M :: 'p command) input \<lparr>in_Versions = vs, in_Store = pl_store p\<rparr> = (res, t) \<Longrightarrow>
    system_step E K P S ty p (p\<lparr>pl_store := in_Store t\<rparr>)"

inductive system_reachable :: "env \<Rightarrow> 'k kube_api \<Rightarrow> parsers \<Rightarrow> server \<Rightarrow> 'p itself \<Rightarrow> 'k plane \<Rightarrow> 'k plane \<Rightarrow> bool" for E K P S ty p0 where
  start: "system_reachable E K P S ty p0 p0"
| step: "system_reachable E K P S ty p0 p \<Longrightarrow> system_step E K P S ty p q \<Longrightarrow> system_reachable E K P S ty p0 q"

inductive_cases system_stepE: "system_step E K P S ty p q"

lemma system_invariant:
  assumes "system_reachable E K P S ty p0 p" "I p0" "\<And>p q. I p \<Longrightarrow> system_step E K P S ty p q \<Longrightarrow> I q"
  shows "I p"
  using assms(1) by induction (use assms(2,3) in blast)+

section \<open>One request\<close>

lemma Middleware_result:
  assumes inv: "db_inv E (db (pl_store p))" and run: "use_store (Middleware E A now ret r) p = (Inr x, p1)"
  shows "users (db (pl_store p1)) = users (db (pl_store p)) \<and> db_inv E (db (pl_store p1))
    \<and> (x = r \<or> (\<exists>row \<in> set (users (db (pl_store p))). \<not> u_disabled row \<and> x = r\<lparr>rq_User := Some (scanUser row)\<rparr>))"
proof -
  obtain res t where u: "User E A now r (pl_store p) = (res, t)" by (cases "User E A now r (pl_store p)")
  note session = User_session [OF inv u]
  then obtain y where y: "res = Inr y" by blast
  have p1: "p1 = p\<lparr>pl_store := t\<rparr>" "x = (case y of None \<Rightarrow> r | Some v \<Rightarrow> r\<lparr>rq_User := Some v\<rparr>)"
    using run y u by (auto simp: use_store_run Middleware_def andThen_def split: option.splits)
  have "preserves (on_db (db_inv E)) (User E A now r)"
    unfolding User_def request_session_def by (intro act_rules store_inv)
  from preservesD [OF this _ u] inv have "db_inv E (db t)" by (simp add: on_db_def)
  with session y p1 show ?thesis by (cases y) auto
qed

lemma route_user: "route_of (rq_Method (r\<lparr>rq_User := u\<rparr>)) (segments (rq_Path (r\<lparr>rq_User := u\<rparr>)))
    = route_of (rq_Method r) (segments (rq_Path r))"
  by simp

section \<open>The database stays well formed\<close>

lemma served_inv:
  assumes "uuid_ok E" "wd_Env W = E" "kube_ok (wd_Kube W) V"
  shows "preserves (on_plane (\<lambda>d. db_inv E d)) (mux W S r)" "preserves (on_plane (\<lambda>d. db_inv E d)) (Handler W S r)"
proof -
  note served = state_invariant.served_keeps [OF wellformed.state [OF assms(3)] assms(2) refl refl refl]
  note Handler = state_invariant.Handler_keeps [OF wellformed.state [OF assms(3)] assms(2) refl refl refl]
  have "preserves (on_plane (\<lambda>d. uuid_ok E \<longrightarrow> db_inv E d)) (mux W S r)"
    by (rule served) (rule preserves_when, rule UpdateUser_inv)
  moreover have "preserves (on_plane (\<lambda>d. uuid_ok E \<longrightarrow> db_inv E d)) (Handler W S r)"
    by (rule Handler) (rule preserves_when, rule UpdateUser_inv)
  ultimately show "preserves (on_plane (\<lambda>d. db_inv E d)) (mux W S r)" "preserves (on_plane (\<lambda>d. db_inv E d)) (Handler W S r)"
    using assms(1) by (simp_all add: on_state_def)
qed

section \<open>There is always an administrator\<close>

lemma UpdateUser_keeps_admin:
  assumes "\<And>v. pg_uuid E i = Some v \<Longrightarrow> v \<noteq> b \<or> rol = ''admin'' \<and> \<not> dis"
  shows "preserves (on_db (enabled_admin b)) (UpdateUser E now a i dn m rol dis h remote)"
proof -
  have "enabled_admin b d'" if "enabled_admin b d" "sql_update_user E now i dn m rol dis d = Inr (x, d')" for d x d'
  proof (cases "pg_uuid E i")
    case None
    with that show ?thesis by (simp add: sql_update_user_def uuid_arg_def)
  next
    case (Some v)
    with that consider "d' = d" | "users d' = update_where (\<lambda>x. u_id x = v) (\<lambda>x. x\<lparr>u_display_name := dn, u_email := nullif m,
        u_role := rol, u_disabled := dis, u_updated_at := now\<rparr>) (users d)"
      by (auto simp: sql_update_user_def uuid_arg_def split: if_splits)
    then show ?thesis
    proof cases
      case 2
      show ?thesis by (rule enabled_admin_map [OF that(1) 2]) (use assms [OF Some] in auto)
    qed (use that in simp)
  qed
  then show ?thesis
    unfolding UpdateUser_def
    by (intro act_rules preserves_stmt audit_keeps_admin keeps_admin_stmt)
      (auto simp: sql_upsert_credential_def split: sum.splits if_splits)
qed

lemma dispatch_keeps_admin:
  assumes W: "wd_Env W = E" "kube_ok (wd_Kube W) V" and inv: "db_inv E (db (pl_store p))" and adm: "has_admin (db (pl_store p))"
    and target: "\<And>i v. rt = UpdateUserOf i \<Longrightarrow> pg_uuid E (path_unescape i) = Some v \<Longrightarrow> path_unescape i = v"
    and usr: "\<And>u. rq_User r = Some u \<Longrightarrow> \<exists>row \<in> set (users (db (pl_store p))). \<not> u_disabled row \<and> u = scanUser row"
  shows "has_admin (db (pl_store (snd (dispatch W S rt r p))))"
proof -
  from adm obtain b where b: "enabled_admin b (db (pl_store p))" by (auto simp: has_admin_def)
  have keep: ?thesis if "enabled_admin c (db (pl_store p))" "preserves (on_plane (enabled_admin c)) (dispatch W S rt r)" for c
    using preserves_snd [OF that(2), of p] that(1) by (auto simp: on_state_def has_admin_def)
  consider i where "rt = UpdateUserOf i" | "rt = ChangePassword" | "\<And>i. rt \<noteq> UpdateUserOf i" "rt \<noteq> ChangePassword" by blast
  then show ?thesis
  proof cases
    case (1 i)
    show ?thesis
    proof (cases "\<exists>u. rq_User r = Some u \<and> IsAdmin u")
      case False
      then have "preserves (on_plane (enabled_admin b)) (updateUser W S (path_unescape i) r)"
        by (intro state_invariant.updateUser_keeps [OF admins.state [OF W(2)] W(1)]) auto
      with 1 b show ?thesis by (intro keep [of b]) (simp_all add: dispatch_def)
    next
      case True
      then obtain u where u: "rq_User r = Some u" "IsAdmin u" by blast
      from usr [OF u(1)] u(2) have actor: "enabled_admin (user_ID u) (db (pl_store p))"
        by (auto simp: enabled_admin_def IsAdmin_def)
      have "preserves (on_plane (enabled_admin (user_ID u))) (updateUser W S (path_unescape i) r)"
        by (rule state_invariant.updateUser_keeps [OF admins.state [OF W(2)] W(1)]; rule UpdateUser_keeps_admin) (use u target [OF 1] in auto)
      with 1 actor show ?thesis by (intro keep [of "user_ID u"]) (simp_all add: dispatch_def)
    qed
  next
    case 2
    have "preserves (on_plane (enabled_admin b)) (changePassword W S r)"
    proof (rule state_invariant.changePassword_keeps [OF admins.state [OF W(2)] W(1)], rule UpdateUser_keeps_admin)
      fix u v assume u: "rq_User r = Some u" and v: "pg_uuid E (user_ID u) = Some v"
      from usr [OF u] obtain row where row: "row \<in> set (users (db (pl_store p)))" "\<not> u_disabled row" "u = scanUser row" by blast
      with v users_ok_canonical [OF inv row(1)] have "v = u_id row" by (simp add: uuid_canonical_def)
      moreover obtain w where w: "w \<in> set (users (db (pl_store p)))" "u_id w = b" "u_role w = ''admin''"
        using b by (auto simp: enabled_admin_def)
      moreover have "w = row" if "v = b"
        using users_same_id [OF inv w(1) row(1)] that \<open>v = u_id row\<close> w(2) by simp
      ultimately show "v \<noteq> b \<or> user_Role u = ''admin'' \<and> \<not> user_Disabled u" using row by auto
    qed
    with 2 b show ?thesis by (intro keep [of b]) (simp_all add: dispatch_def)
  next
    case 3
    then show ?thesis by (intro keep [OF b] state_invariant.dispatch_keeps [OF admins.state [OF W(2)] W(1) refl refl refl])
  qed
qed

lemma mux_keeps_admin:
  assumes "wd_Env W = E" "kube_ok (wd_Kube W) V" "db_inv E (db (pl_store p))" "has_admin (db (pl_store p))" "canonical_target E r"
    and "\<And>u. rq_User r = Some u \<Longrightarrow> \<exists>row \<in> set (users (db (pl_store p))). \<not> u_disabled row \<and> u = scanUser row"
  shows "has_admin (db (pl_store (snd (mux W S r p))))"
proof (cases "mux_redirect (rq_Method r) (rq_Path r)")
  case None
  have "has_admin (db (pl_store (snd (dispatch W S (route_of (rq_Method r) (segments (rq_Path r))) r p))))"
    by (rule dispatch_keeps_admin [OF assms(1-4) _ assms(6)]) (use assms(5) in \<open>auto simp: canonical_target_def\<close>)
  with None show ?thesis by (simp add: mux_def)
next
  case (Some t)
  with assms(4) show ?thesis by (simp add: mux_def)
qed

lemma Handler_keeps_admin:
  assumes "wd_Env W = E" "kube_ok (wd_Kube W) V" and inv: "db_inv E (db (pl_store p))" and "has_admin (db (pl_store p))"
    and "rq_User r = None" "canonical_target E r"
  shows "has_admin (db (pl_store (snd (Handler W S r p))))"
proof (rule Handler_phases [of W S r p])
  fix x p1 assume "use_store (Middleware (wd_Env W) (hs_Auth S) (wd_Now W) ret r) p = (Inr x, p1)"
    and snd: "snd (Handler W S r p) = snd (mux W S x p1)"
  then have mw: "use_store (Middleware E (hs_Auth S) (wd_Now W) ret r) p = (Inr x, p1)" using assms(1) by simp
  note m = Middleware_result [OF inv mw]
  have "has_admin (db (pl_store p1))" using m assms(4) by (simp add: has_admin_def enabled_admin_def)
  moreover have "canonical_target E x" using m assms(6) by (auto simp: canonical_target_def)
  moreover have "db_inv E (db (pl_store p1))" using m by blast
  moreover have "\<exists>row \<in> set (users (db (pl_store p1))). \<not> u_disabled row \<and> u = scanUser row" if "rq_User x = Some u" for u
    using m assms(5) that by auto
  ultimately show ?thesis unfolding snd by (intro mux_keeps_admin [OF assms(1,2)])
qed

section \<open>The administrator in every reachable state\<close>

lemma passes_keep:
  assumes "kube_ok K V"
  shows "preserves (on_plane (has_admin)) (use_ctl (Run E K C rnd now ticks))"
    "preserves (on_plane (\<lambda>d. uuid_ok E \<longrightarrow> db_inv E d)) (use_ctl (Run E K C rnd now ticks))"
proof -
  have "preserves (on_plane (enabled_admin b)) (use_ctl (Run E K C rnd now ticks))" for b
    by (rule plane_ctl) (rule state_invariant.loop_keeps(2) [OF admins.state [OF assms]])
  then show "preserves (on_plane has_admin) (use_ctl (Run E K C rnd now ticks))"
    unfolding preserves_def on_state_def has_admin_def by blast
  show "preserves (on_plane (\<lambda>d. uuid_ok E \<longrightarrow> db_inv E d)) (use_ctl (Run E K C rnd now ticks))"
    by (rule plane_ctl) (rule state_invariant.loop_keeps(2) [OF wellformed.state [OF assms]])
qed

lemma system_step_keeps:
  assumes ok: "uuid_ok E" "kube_ok K V" and step: "system_step E K P S ty p q"
    and inv: "db_inv E (db (pl_store p))" "has_admin (db (pl_store p))"
  shows "db_inv E (db (pl_store q)) \<and> has_admin (db (pl_store q))"
proof -
  have "db_inv E (db (pl_store q)) \<and> has_admin (db (pl_store q))"
    if q: "q = snd (Handler W S r p)" and W: "wd_Env W = E" "wd_Kube W = K" and r: "rq_User r = None" "canonical_target E r"
    for W :: "('a, 'p) world" and r
    using preserves_snd [OF served_inv(2) [OF ok(1) W(1), unfolded W(2), OF ok(2)], of p S r] W ok inv r
      Handler_keeps_admin [of W E V p r S] by (simp add: on_state_def q)
  moreover have "db_inv E (db (pl_store q)) \<and> has_admin (db (pl_store q))"
    if q: "q = snd (use_ctl (Run E K (hs_Controller S) rnd now ticks) p)" for rnd now ticks
    using preserves_snd [OF passes_keep(1) [OF ok(2)], of p] preserves_snd [OF passes_keep(2) [OF ok(2)], of E p] inv ok(1)
    by (simp add: on_state_def q)
  moreover have "db_inv E (db (pl_store q)) \<and> has_admin (db (pl_store q))"
    if "q = p\<lparr>pl_store := in_Store t\<rparr>" "cm_Env M = E" "run M input \<lparr>in_Versions = vs, in_Store = pl_store p\<rparr> = (res, t)"
    for M :: "'p command" and input vs res t
    using provision_run_keeps [OF _ _ that(3)] that(1,2) ok(1) inv by (simp add: content_def)
  ultimately show ?thesis by (cases rule: system_stepE [OF step]) blast+
qed


section \<open>The gateway's cache in every reachable state\<close>

lemma system_step_sound:
  assumes ok: "kube_ok K V" and step: "system_step E K P S ty p q" and cache: "cache_ok E P V (hs_Controller S) p"
  shows "sound_run E P V (hs_Controller S) p q"
proof -
  have "sound_run E P V (hs_Controller S) p (snd (Handler W S r p))"
    if "wd_Env W = E" "wd_Kube W = K" "wd_Parsers W = P" for W :: "('a, 'p) world" and r
    using served_sound(2) [of W V S p r] that ok cache by simp
  with step show ?thesis
    by (cases rule: system_stepE) (use loop_sound [OF ok cache] provision_sound in blast)+
qed

lemma cache_sound_in_every_state:
  assumes "kube_ok K V" "cache_ok E P V (hs_Controller S) p0" "system_reachable E K P S ty p0 p"
  shows "cache_ok E P V (hs_Controller S) p"
  by (rule system_invariant [OF assms(3), of "cache_ok E P V (hs_Controller S)"])
    (use assms(1,2) in \<open>auto dest: system_step_sound simp: sound_run_def\<close>)

section \<open>Demo\<close>

definition demo_demote :: request where
  "demo_demote = demo_post ''/platform/admin/users/A1'' [(''role'', ''user''), (''email'', ''root@x.io'')]"

definition demo_promote :: request where
  "demo_promote = demo_post ''/platform/admin/users/b2'' [(''role'', ''admin''), (''email'', ''ann@x.io'')]"

lemma demo_routes:
  "mux_redirect ''POST'' ''/platform/admin/users/A1'' = None" "route_of ''POST'' (segments ''/platform/admin/users/A1'') = UpdateUserOf ''A1''"
  "route_of ''POST'' (segments ''/platform/admin/users/b2'') = UpdateUserOf ''b2''"
  by (simp_all add: mux_redirect_def cleanPath_def segments_def route_of_def post_route_def admin_post_route_def)


section \<open>The exception: another spelling of one's own identifier\<close>

text \<open>PostgreSQL reads \<open>A1\<close> as the identifier it prints as \<open>a1\<close>; the guard of \<open>updateUser\<close> compares
  strings. So the only administrator can remove its own role.\<close>

theorem uppercase_id_demotes:
  "has_admin (db (pl_store demo_admin_plane))
   \<and> \<not> has_admin (db (pl_store (snd (Handler demo_world demo_server demo_demote demo_admin_plane))))"
proof
  show "has_admin (db (pl_store demo_admin_plane))"
    by (auto simp: has_admin_def enabled_admin_def demo_rows)
  let ?x = "(demo_post ''/platform/admin/users/A1'' [(''role'', ''user''), (''email'', ''root@x.io'')])\<lparr>rq_User := Some (scanUser demo_root)\<rparr>"
  have A1: "map ascii_lower ''A1'' = ''a1''" by (simp add: ascii_lower_def char_of_def bit_0)
  have a1: "uuid_arg demo_env ''A1'' = Inr ''a1''" "uuid_arg demo_env ''a1'' = Inr ''a1''"
    unfolding uuid_arg_def demo_env_simps A1 by (simp_all add: ascii_lower_def)
  have free: "\<not> email_taken demo_env (Some ''root@x.io'') [demo_ann]"
    by (simp add: email_taken_def matches_def demo_rows same_email_def ascii_lower_def)
  have "\<exists>t. UpdateUser demo_env 10 ''a1'' ''A1'' [] ''root@x.io'' ''user'' False [] ''10.0.0.1:4000'' demo_admin_store = (Inr (), t)"
    using a1 free by (simp add: UpdateUser_def audit_def run_defs sql_update_user_def demo_admin_store_def matches_def demo_rows
        nullif_def valid_role_def user_ref_def nullUUID_def update_where_def)
  then obtain t where t: "UpdateUser demo_env 10 ''a1'' ''A1'' [] ''root@x.io'' ''user'' False [] ''10.0.0.1:4000'' demo_admin_store = (Inr (), t)"
    by blast
  have u: "user_ID (scanUser demo_root) = ''a1''" "IsAdmin (scanUser demo_root)"
    by (simp_all add: scanUser_def demo_root_def IsAdmin_def)
  have mail: "TrimSpace ''root@x.io'' = ''root@x.io''"
    by (simp add: TrimSpace_def ascii_space_def wide_space2_def wide_space3_def)
  have form: "FormValue ?x ''role'' = ''user''" "FormValue ?x ''password'' = []" "FormValue ?x ''disabled'' = []"
    "FormValue ?x ''email'' = ''root@x.io''" "FormValue ?x ''display_name'' = []" "rq_RemoteAddr ?x = ''10.0.0.1:4000''"
    "rq_User ?x = Some (scanUser demo_root)"
    by (simp_all add: first_value_def)
  have "snd (updateUser demo_world demo_server ''A1'' ?x demo_admin_plane) = demo_admin_plane\<lparr>pl_store := t\<rparr>"
    unfolding updateUser_def requireAdmin_def requireUser_def UserFromContext_def form Let_def
    by (simp only: option.case u if_True if_False not_True_eq_False demo_post_csrf)
      (simp add: mail back_to_admin_def settled_def andThen_def attempt_apply use_store_run t u form)
  then have "snd (Handler demo_world demo_server demo_demote demo_admin_plane) = demo_admin_plane\<lparr>pl_store := t\<rparr>"
    unfolding demo_demote_def demo_post_handled [OF demo_routes(1,2)] by (simp add: dispatch_def)
  moreover have "\<not> has_admin (db t)"
    using UpdateUser_users [OF t] A1 by (auto simp: has_admin_def enabled_admin_def update_where_def demo_rows)
  ultimately show "\<not> has_admin (db (pl_store (snd (Handler demo_world demo_server demo_demote demo_admin_plane))))"
    by simp
qed

end
