(* ===== verification/GatewayPhases.thy ===== *)
theory GatewayPhases
  imports ProxyProps
begin

text \<open>
  The gateway, one step at a time. A proxied request may take hours (the server sets no write timeout),
  and other requests, the reconcile loop and the provisioning command run meanwhile. \<open>phase\<close> is where a
  request is in \<open>ServeHTTP\<close>; a step is what happens without letting go: one critical section under
  \<open>g.mu\<close>, one call of the store or the controller, or the round trip to the pod. Run without
  interruption the steps are \<open>ServeHTTP\<close>; each of them keeps what the request holds sound.
\<close>

section \<open>Phases\<close>

datatype phase =
    Asked request user
  | Waking request user
  | Starting request user
  | Seeking request user
  | Resolving request user
  | Resolved request user backend
  | Held request user backend
  | Touching request user backend
  | Sent request user backend
  | Failed request user
  | Answered response

definition recent :: "int \<Rightarrow> gateway \<Rightarrow> string \<Rightarrow> bool" where
  "recent now g userID \<longleftrightarrow> (case gw_lastTouch g userID of None \<Rightarrow> False | Some t \<Rightarrow> now - t < one_minute)"

fun phase_step :: "env \<Rightarrow> parsers \<Rightarrow> 'k kube_api \<Rightarrow> controller \<Rightarrow> (string \<Rightarrow> string option) \<Rightarrow> (outgoing \<Rightarrow> response option)
    \<Rightarrow> int \<Rightarrow> phase \<Rightarrow> ('k, phase) handler" where
  "phase_step E P K C rnd rt now (Asked r u) =
     andThen (attempt (use_store (Workspace E (user_ID u)))) (\<lambda>res. ret (case res of
       Inl _ \<Rightarrow> Answered (http_error ''workspace unavailable'' 503)
     | Inr w \<Rightarrow> if ws_DesiredState w \<noteq> ''running'' then Waking r u else Seeking r u))"
| "phase_step E P K C rnd rt now (Waking r u) = andThen (forgetBackend (user_ID u)) (\<lambda>_. ret (Starting r u))"
| "phase_step E P K C rnd rt now (Starting r u) =
     andThen (attempt (use_ctl (Start E K C rnd now (user_ID u)))) (\<lambda>res. ret (case res of
       Inl (Panic _) \<Rightarrow> Answered aborted
     | Inl _ \<Rightarrow> Answered (http_error ''failed to start workspace'' 503)
     | Inr _ \<Rightarrow> Seeking r u))"
| "phase_step E P K C rnd rt now (Seeking r u) =
     andThen get_gateway (\<lambda>g. ret (case gw_backends g (user_ID u) of Some cached \<Rightarrow> Held r u cached | None \<Rightarrow> Resolving r u))"
| "phase_step E P K C rnd rt now (Resolving r u) =
     andThen (attempt (use_ctl (Backend E K C (user_ID u)))) (\<lambda>res. ret (case res of
       Inl _ \<Rightarrow> Answered (starting r)
     | Inr (address, password) \<Rightarrow> (case url_Parse P address of
         None \<Rightarrow> Answered (starting r)
       | Some target \<Rightarrow> Resolved r u \<lparr>bk_Target = target, bk_Password = password\<rparr>)))"
| "phase_step E P K C rnd rt now (Resolved r u b) =
     andThen get_gateway (\<lambda>g.
     andThen (put_gateway (g\<lparr>gw_backends := (gw_backends g)(user_ID u \<mapsto> b)\<rparr>)) (\<lambda>_. ret (Held r u b)))"
| "phase_step E P K C rnd rt now (Held r u b) =
     andThen get_gateway (\<lambda>g. if recent now g (user_ID u) then ret (Sent r u b)
     else andThen (put_gateway (g\<lparr>gw_lastTouch := (gw_lastTouch g)(user_ID u \<mapsto> now)\<rparr>)) (\<lambda>_. ret (Touching r u b)))"
| "phase_step E P K C rnd rt now (Touching r u b) =
     andThen (use_store (TouchWorkspace E now (user_ID u))) (\<lambda>_. ret (Sent r u b))"
| "phase_step E P K C rnd rt now (Sent r u b) =
     ret (case rt (forward b (user_ID u) r) of Some answer \<Rightarrow> Answered answer | None \<Rightarrow> Failed r u)"
| "phase_step E P K C rnd rt now (Failed r u) =
     andThen (forgetBackend (user_ID u)) (\<lambda>_. ret (Answered (http_error ''workspace connection unavailable'' 502)))"
| "phase_step E P K C rnd rt now (Answered a) = ret (Answered a)"

fun settled_phase :: "phase \<Rightarrow> bool" where
  "settled_phase (Answered a) = True"
| "settled_phase _ = False"

text \<open>The number of steps that are left at most.\<close>

fun steps_left :: "phase \<Rightarrow> nat" where
  "steps_left (Asked r u) = 10"
| "steps_left (Waking r u) = 9"
| "steps_left (Starting r u) = 8"
| "steps_left (Seeking r u) = 7"
| "steps_left (Resolving r u) = 6"
| "steps_left (Resolved r u b) = 5"
| "steps_left (Held r u b) = 4"
| "steps_left (Touching r u b) = 3"
| "steps_left (Sent r u b) = 2"
| "steps_left (Failed r u) = 1"
| "steps_left (Answered a) = 0"

primrec advance :: "env \<Rightarrow> parsers \<Rightarrow> 'k kube_api \<Rightarrow> controller \<Rightarrow> (string \<Rightarrow> string option) \<Rightarrow> (outgoing \<Rightarrow> response option)
    \<Rightarrow> int \<Rightarrow> nat \<Rightarrow> phase \<Rightarrow> ('k, phase) handler" where
  "advance E P K C rnd rt now 0 ph = ret ph"
| "advance E P K C rnd rt now (Suc n) ph = andThen (phase_step E P K C rnd rt now ph) (advance E P K C rnd rt now n)"

section \<open>Without interruption\<close>

lemma andThen_assoc: "andThen (andThen m f) g = andThen m (\<lambda>x. andThen (f x) g)"
  by (auto simp: andThen_def fun_eq_iff split: prod.splits sum.splits)

lemma phase_step_left:
  assumes "phase_step E P K C rnd rt now ph p = (Inr ph', p')"
  shows "steps_left ph' < steps_left ph \<or> settled_phase ph \<and> ph' = ph"
  using assms
  by (cases ph) (auto simp: andThen_def attempt_apply forgetBackend_def use_store_run
      split: prod.splits sum.splits if_splits ctl_error.splits option.splits)

abbreviation answered :: "('k, response) handler \<Rightarrow> ('k, phase) handler" where
  "answered m \<equiv> andThen m (\<lambda>a. ret (Answered a))"

lemma advance_Answered [simp]: "advance E P K C rnd rt now n (Answered a) = ret (Answered a)"
  by (induction n) (simp_all add: fun_eq_iff)

lemma advance_step:
  "0 < m \<Longrightarrow> advance E P K C rnd rt now m ph = andThen (phase_step E P K C rnd rt now ph) (advance E P K C rnd rt now (m - 1))"
  by (cases m) simp_all

text \<open>The request at the pod, and what follows a backend.\<close>

definition at_pod :: "(outgoing \<Rightarrow> response option) \<Rightarrow> request \<Rightarrow> string \<Rightarrow> backend \<Rightarrow> ('k, response) handler" where
  "at_pod rt r i b = (case rt (forward b i r) of
     Some a \<Rightarrow> ret a
   | None \<Rightarrow> andThen (forgetBackend i) (\<lambda>_. ret (http_error ''workspace connection unavailable'' 502)))"

lemma proxied_at_pod: "proxied E P K C rt now r i = andThen (attempt (find_backend E P K C i)) (\<lambda>found. case found of
     Inl _ \<Rightarrow> ret (starting r) | Inr b \<Rightarrow> andThen (touch E now i) (\<lambda>_. at_pod rt r i b))"
  unfolding proxied_def at_pod_def by (rule refl)

lemma advance_Sent: "2 \<le> m \<Longrightarrow> advance E P K C rnd rt now m (Sent r u b) = answered (at_pod rt r (user_ID u) b)"
  by (simp add: advance_step at_pod_def andThen_assoc split: option.split)

lemma advance_Touching: "3 \<le> m \<Longrightarrow> advance E P K C rnd rt now m (Touching r u b)
    = answered (andThen (use_store (TouchWorkspace E now (user_ID u))) (\<lambda>_. at_pod rt r (user_ID u) b))"
  by (simp add: advance_step [of m] andThen_assoc advance_Sent)

lemma advance_Held:
  assumes "4 \<le> m"
  shows "advance E P K C rnd rt now m (Held r u b)
    = answered (andThen (touch E now (user_ID u)) (\<lambda>_. at_pod rt r (user_ID u) b))"
  using assms
  by (simp add: advance_step [of m] andThen_assoc touch_def fun_eq_iff)
    (simp add: andThen_def recent_def advance_Touching advance_Sent split: prod.split sum.split)

lemma advance_Resolved:
  assumes "5 \<le> m"
  shows "advance E P K C rnd rt now m (Resolved r u b) = answered (andThen (andThen get_gateway (\<lambda>g'.
       andThen (put_gateway (g'\<lparr>gw_backends := (gw_backends g')(user_ID u \<mapsto> b)\<rparr>)) (\<lambda>_. ret b)))
     (\<lambda>b. andThen (touch E now (user_ID u)) (\<lambda>_. at_pod rt r (user_ID u) b)))"
  using assms by (simp add: advance_step [of m] andThen_assoc advance_Held)

lemma advance_Seeking:
  fixes K :: "'k kube_api"
  assumes "7 \<le> m"
  shows "advance E P K C rnd rt now m (Seeking r u) = answered (proxied E P K C rt now r (user_ID u))"
proof
  fix p :: "'k plane"
  let ?i = "user_ID u"
  let ?go = "advance E P K C rnd rt now"
  from assms obtain n where m: "m = Suc n" "6 \<le> n" by (cases m) simp_all
  show "?go m (Seeking r u) p = answered (proxied E P K C rt now r ?i) p"
  proof (cases "gw_backends (pl_gateway p) ?i")
    case (Some b)
    then have "find_backend E P K C ?i p = (Inr b, p)" by (simp add: find_backend_def andThen_Inr)
    moreover have "?go m (Seeking r u) p = ?go n (Held r u b) p"
      using m Some by (simp add: andThen_Inr)
    ultimately show ?thesis
      using m by (simp add: proxied_at_pod andThen_assoc andThen_Inr attempt_apply advance_Held)
  next
    case None
    have st: "?go m (Seeking r u) p = ?go n (Resolving r u) p"
      using m None by (simp add: andThen_Inr)
    obtain res p1 where found: "use_ctl (Backend E K C ?i) p = (res, p1)" by (cases "use_ctl (Backend E K C ?i) p")
    show ?thesis
    proof (cases res)
      case (Inl e)
      with found None have "find_backend E P K C ?i p = (Inl e, p1)" by (simp add: find_backend_def andThen_def)
      moreover have "?go n (Resolving r u) p = (Inr (Answered (starting r)), p1)"
        using m found Inl by (simp add: advance_step [of n] andThen_Inr attempt_apply)
      ultimately show ?thesis by (simp add: st proxied_at_pod andThen_assoc andThen_Inr attempt_apply)
    next
      case (Inr x)
      obtain addr pw where x: "x = (addr, pw)" by (cases x)
      show ?thesis
      proof (cases "url_Parse P addr")
        case None
        with found Inr x \<open>gw_backends (pl_gateway p) ?i = None\<close> have "find_backend E P K C ?i p = (Inl NotReady, p1)"
          by (simp add: find_backend_def andThen_def)
        moreover have "?go n (Resolving r u) p = (Inr (Answered (starting r)), p1)"
          using m found Inr x None by (simp add: advance_step [of n] andThen_Inr attempt_apply)
        ultimately show ?thesis by (simp add: st proxied_at_pod andThen_assoc andThen_Inr attempt_apply)
      next
        case (Some t)
        let ?b = "\<lparr>bk_Target = t, bk_Password = pw\<rparr>"
        let ?put = "andThen get_gateway (\<lambda>g'. andThen (put_gateway (g'\<lparr>gw_backends := (gw_backends g')(?i \<mapsto> ?b)\<rparr>)) (\<lambda>_. ret ?b))"
        have "?put p1 = (Inr ?b, p1\<lparr>pl_gateway := (pl_gateway p1)\<lparr>gw_backends := (gw_backends (pl_gateway p1))(?i \<mapsto> ?b)\<rparr>\<rparr>)"
          by (simp add: andThen_Inr)
        moreover have "find_backend E P K C ?i p = ?put p1"
          using found Inr x Some \<open>gw_backends (pl_gateway p) ?i = None\<close> by (simp add: find_backend_def andThen_Inr Let_def)
        moreover have "?go n (Resolving r u) p = ?go (n - 1) (Resolved r u ?b) p1"
          using m found Inr x Some by (simp add: advance_step [of n] andThen_Inr attempt_apply)
        ultimately show ?thesis
          using m(2) by (simp add: st proxied_at_pod andThen_assoc andThen_Inr attempt_apply advance_Resolved)
      qed
    qed
  qed
qed

lemma advance_Asked:
  fixes K :: "'k kube_api"
  assumes "10 \<le> m"
  shows "advance E P K C rnd rt now m (Asked r u) = answered (ServeHTTP E P K C rnd rt now r u)"
proof
  fix p :: "'k plane"
  let ?go = "advance E P K C rnd rt now"
  from assms obtain n where m: "m = Suc n" "9 \<le> n" by (cases m) simp_all
  obtain res p1 where read: "use_store (Workspace E (user_ID u)) p = (res, p1)" by (cases "use_store (Workspace E (user_ID u)) p")
  show "?go m (Asked r u) p = answered (ServeHTTP E P K C rnd rt now r u) p"
  proof (cases res)
    case (Inl e)
    with m read show ?thesis by (simp add: ServeHTTP_def andThen_assoc andThen_Inr attempt_apply)
  next
    case (Inr w)
    show ?thesis
    proof (cases "ws_DesiredState w = ''running''")
      case True
      with m read Inr show ?thesis
        by (simp add: ServeHTTP_def wake_def andThen_assoc andThen_Inr attempt_apply advance_Seeking)
    next
      case False
      obtain p2 where forget: "forgetBackend (user_ID u) p1 = (Inr (), p2)" by (simp add: forgetBackend_def andThen_Inr)
      obtain res2 p3 where start: "use_ctl (Start E K C rnd now (user_ID u)) p2 = (res2, p3)"
        by (cases "use_ctl (Start E K C rnd now (user_ID u)) p2")
      have "?go m (Asked r u) p = ?go (n - 1) (Starting r u) p2"
        using m read Inr False forget by (simp add: advance_step [of n] andThen_Inr attempt_apply)
      also have "\<dots> = ?go (n - 2) (case res2 of Inl (Panic _) \<Rightarrow> Answered aborted
          | Inl _ \<Rightarrow> Answered (http_error ''failed to start workspace'' 503) | Inr _ \<Rightarrow> Seeking r u) p3"
        using m start by (simp add: advance_step [of "n - Suc 0"] andThen_Inr attempt_apply numeral_2_eq_2)
      finally show ?thesis
        using m read Inr False forget start
        by (cases res2; simp add: ServeHTTP_def wake_def andThen_assoc andThen_Inr attempt_apply advance_Seeking split: ctl_error.split)
    qed
  qed
qed


section \<open>With interruptions\<close>

text \<open>The backend that a request holds.\<close>

fun holds :: "phase \<Rightarrow> (request \<times> user \<times> backend) option" where
  "holds (Resolved r u b) = Some (r, u, b)"
| "holds (Held r u b) = Some (r, u, b)"
| "holds (Touching r u b) = Some (r, u, b)"
| "holds (Sent r u b) = Some (r, u, b)"
| "holds _ = None"

definition phase_ok :: "env \<Rightarrow> parsers \<Rightarrow> 'k views \<Rightarrow> controller \<Rightarrow> phase \<Rightarrow> db \<Rightarrow> 'k \<Rightarrow> bool" where
  "phase_ok E P V C ph d k \<longleftrightarrow> (\<forall>r u b. holds ph = Some (r, u, b) \<longrightarrow> backend_of E P V C (user_ID u) b d k)"

lemma phase_ok_grows: "phase_ok E P V C ph d k \<Longrightarrow> grows V d k d' k' \<Longrightarrow> phase_ok E P V C ph d' k'"
  by (auto simp: phase_ok_def intro: backend_of_grows)

lemma not_holding [simp]: "holds ph = None \<Longrightarrow> phase_ok E P V C ph d k"
  by (simp add: phase_ok_def)

lemma holding: "holds ph = Some (r, u, b) \<Longrightarrow> phase_ok E P V C ph d k = backend_of E P V C (user_ID u) b d k"
  by (simp add: phase_ok_def)

text \<open>A step from \<open>p\<close> to \<open>p'\<close> that is sound and leaves a phase that is.\<close>

definition sound_step :: "env \<Rightarrow> parsers \<Rightarrow> 'k views \<Rightarrow> controller \<Rightarrow> 'k plane \<Rightarrow> ctl_error + phase \<Rightarrow> 'k plane \<Rightarrow> bool" where
  [simp]: "sound_step E P V C p res p' \<longleftrightarrow> sound_run E P V C p p'
     \<and> (\<exists>ph'. res = Inr ph' \<and> phase_ok E P V C ph' (db (pl_store p')) (pl_cluster p'))"

lemma waiting_step_sound:
  assumes ok: "kube_ok K V" and cache: "cache_ok E P V C p" and ph: "holds ph = None"
    and run: "phase_step E P K C rnd rt now ph p = (res, p')"
  shows "sound_step E P V C p res p'"
proof (cases ph)
  case (Asked r u)
  obtain y p1 where w: "use_store (Workspace E (user_ID u)) p = (y, p1)" by (cases "use_store (Workspace E (user_ID u)) p")
  have "sound_run E P V C p p1" by (rule use_store_sound [OF _ w]) (rule Workspace_quiet)
  with run Asked w show ?thesis by (cases y) (auto simp: andThen_Inr attempt_apply)
next
  case (Waking r u)
  obtain p1 where f: "forgetBackend (user_ID u) p = (Inr (), p1)" by (simp add: forgetBackend_def andThen_Inr)
  with run Waking forgetBackend_sound [OF f] show ?thesis by (auto simp: andThen_Inr)
next
  case (Starting r u)
  obtain y p1 where st: "use_ctl (Start E K C rnd now (user_ID u)) p = (y, p1)" by (cases "use_ctl (Start E K C rnd now (user_ID u)) p")
  from use_ctl_sound(1) [OF steady_Start [OF ok] st] run Starting st show ?thesis
    by (auto simp: andThen_Inr attempt_apply split: sum.split ctl_error.split)
next
  case (Seeking r u)
  with run have p': "p' = p" by (simp add: andThen_Inr)
  show ?thesis
  proof (cases "gw_backends (pl_gateway p) (user_ID u)")
    case None
    with run Seeking p' show ?thesis by (auto simp: andThen_Inr)
  next
    case (Some b)
    with cache have "backend_of E P V C (user_ID u) b (db (pl_store p)) (pl_cluster p)" by (simp add: cache_ok_def)
    with run Seeking Some p' show ?thesis by (auto simp: andThen_Inr holding)
  qed
next
  case (Resolving r u)
  obtain y p1 where b: "use_ctl (Backend E K C (user_ID u)) p = (y, p1)" by (cases "use_ctl (Backend E K C (user_ID u)) p")
  with run Resolving have p': "p' = p1" by (simp add: andThen_Inr attempt_apply)
  note s1 = use_ctl_sound(1) [OF steady_Backend [OF ok] b]
  show ?thesis
  proof (cases "\<exists>addr pw t. y = Inr (addr, pw) \<and> url_Parse P addr = Some t")
    case True
    then obtain addr pw t where y: "y = Inr (addr, pw)" "url_Parse P addr = Some t" by blast
    with b have "backend_of E P V C (user_ID u) \<lparr>bk_Target = t, bk_Password = pw\<rparr> (db (pl_store p')) (pl_cluster p')"
      by (auto simp: p' intro: Backend_owned [OF ok])
    with run Resolving b y s1 p' show ?thesis by (auto simp: andThen_Inr attempt_apply holding)
  next
    case False
    with run Resolving b s1 p' show ?thesis
      by (auto simp: andThen_Inr attempt_apply split: sum.splits prod.splits option.splits)
  qed
next
  case (Failed r u)
  obtain p1 where f: "forgetBackend (user_ID u) p = (Inr (), p1)" by (simp add: forgetBackend_def andThen_Inr)
  with run Failed forgetBackend_sound [OF f] show ?thesis by (auto simp: andThen_Inr)
next
  case (Answered a)
  with run show ?thesis by auto
qed (use ph in simp_all)

lemma holding_step_sound:
  assumes ph: "holds ph = Some (r, u, b)" and own: "backend_of E P V C (user_ID u) b (db (pl_store p)) (pl_cluster p)"
    and run: "phase_step E P K C rnd rt now ph p = (res, p')"
  shows "sound_step E P V C p res p'"
proof -
  from ph consider (Resolved) "ph = Resolved r u b" | (Held) "ph = Held r u b" | (Touching) "ph = Touching r u b" | (Sent) "ph = Sent r u b"
    by (cases ph) auto
  then show ?thesis
  proof cases
    case Resolved
    with run have p': "p' = p\<lparr>pl_gateway := (pl_gateway p)\<lparr>gw_backends := (gw_backends (pl_gateway p))(user_ID u \<mapsto> b)\<rparr>\<rparr>"
      and res: "res = Inr (Held r u b)" by (simp_all add: andThen_Inr)
    have "sound_run E P V C p p'" by (rule soundI) (use own in \<open>auto simp: p' split: if_splits\<close>)
    with own res show ?thesis by (simp add: holding p')
  next
    case Held
    from run Held obtain ph' where "res = Inr ph'" "holds ph' = Some (r, u, b)" "db (pl_store p') = db (pl_store p)"
      "pl_cluster p' = pl_cluster p" "gw_backends (pl_gateway p') = gw_backends (pl_gateway p)"
      by (auto simp: andThen_Inr split: if_splits)
    with own show ?thesis by (auto simp: holding intro!: soundI)
  next
    case Touching
    obtain y p1 where t: "use_store (TouchWorkspace E now (user_ID u)) p = (y, p1)" by (cases "use_store (TouchWorkspace E now (user_ID u)) p")
    have "y = Inr ()" using t TouchWorkspace_total [of E now "user_ID u" "pl_store p"]
      by (cases "TouchWorkspace E now (user_ID u) (pl_store p)") (simp add: use_store_run)
    moreover have "sound_run E P V C p p1" by (rule use_store_sound [OF _ t]) (rule workspace_grows(2))
    ultimately show ?thesis using run Touching t own by (auto simp: andThen_Inr holding sound_run_def intro: backend_of_grows)
  next
    case Sent
    with run show ?thesis by (auto split: option.split)
  qed
qed

lemma phase_step_sound:
  assumes "kube_ok K V" "cache_ok E P V C p" "phase_ok E P V C ph (db (pl_store p)) (pl_cluster p)"
    "phase_step E P K C rnd rt now ph p = (res, p')"
  shows "sound_step E P V C p res p'"
proof (cases "holds ph")
  case None
  then show ?thesis by (rule waiting_step_sound [OF assms(1,2) _ assms(4)])
next
  case (Some x)
  obtain r u b where x: "x = (r, u, b)" by (rule prod_cases3)
  with Some assms(3) have "backend_of E P V C (user_ID u) b (db (pl_store p)) (pl_cluster p)" by (simp add: holding)
  with Some x show ?thesis by (intro holding_step_sound [OF _ _ assms(4)]) simp_all
qed

end
