(* ===== verification/Concurrent.thy ===== *)
theory Concurrent
  imports System GatewayPhases
begin

text \<open>
  Requests that overlap. The server runs every request in a goroutine of its own. A request first gets
  its user from the session (\<open>Middleware\<close>) and is answered later, under that user, by the handler of its
  route; a proxied request takes one phase after the other. Between these turns come turns of other
  requests, passes of the reconcile loop and runs of the provisioning command. The handlers other than
  the gateway take one turn: each of them makes its change in one transaction of the store or one call
  of the controller.
\<close>

section \<open>Turns\<close>

datatype flight = Admitted request | Proxying phase

type_synonym 'k running = "'k plane \<times> (nat \<rightharpoonup> flight)"

text \<open>\<open>G\<close> is a condition on admitted requests at the time they are answered. The program has none
  (\<open>anything\<close>).\<close>

definition anything :: "db \<Rightarrow> request \<Rightarrow> bool" where
  "anything d x = True"

inductive turn :: "(db \<Rightarrow> request \<Rightarrow> bool) \<Rightarrow> env \<Rightarrow> 'k kube_api \<Rightarrow> parsers \<Rightarrow> server \<Rightarrow> 'p itself \<Rightarrow> 'k running \<Rightarrow> 'k running \<Rightarrow> bool"
  for G E K P S ty where
  admit: "rq_User r = None \<Longrightarrow> use_store (Middleware E (hs_Auth S) now ret r) p = (Inr x, p') \<Longrightarrow> fs i = None \<Longrightarrow>
    turn G E K P S ty (p, fs) (p', fs(i \<mapsto> Admitted x))"
| answer: "fs i = Some (Admitted x) \<Longrightarrow> G (db (pl_store p)) x \<Longrightarrow>
    wd_Env W = E \<Longrightarrow> wd_Kube W = K \<Longrightarrow> wd_Parsers W = P \<Longrightarrow> ty = TYPE('p) \<Longrightarrow>
    turn G E K P S ty (p, fs) (snd (mux (W :: ('k, 'p) world) S x p), fs(i := None))"
| enter: "fs i = Some (Admitted x) \<Longrightarrow> mux_redirect (rq_Method x) (rq_Path x) = None \<Longrightarrow>
    route_of (rq_Method x) (segments (rq_Path x)) = Gateway \<Longrightarrow> UserFromContext x = Some u \<Longrightarrow>
    turn G E K P S ty (p, fs) (p, fs(i \<mapsto> Proxying (Asked x u)))"
| proxy: "fs i = Some (Proxying ph) \<Longrightarrow> phase_step E P K (hs_Controller S) rnd rt now ph p = (Inr ph', p') \<Longrightarrow>
    turn G E K P S ty (p, fs) (p', fs(i \<mapsto> Proxying ph'))"
| leave: "turn G E K P S ty (p, fs) (p, fs(i := None))"
| passes: "turn G E K P S ty (p, fs) (snd (use_ctl (Run E K (hs_Controller S) rnd now ticks) p), fs)"
| provisions: "cm_Env M = E \<Longrightarrow> run (M :: 'p command) input \<lparr>in_Versions = vs, in_Store = pl_store p\<rparr> = (res, t) \<Longrightarrow>
    turn G E K P S ty (p, fs) (p\<lparr>pl_store := in_Store t\<rparr>, fs)"

inductive_cases turnE: "turn G E K P S ty (p, fs) q"

abbreviation turns :: "(db \<Rightarrow> request \<Rightarrow> bool) \<Rightarrow> env \<Rightarrow> 'k kube_api \<Rightarrow> parsers \<Rightarrow> server \<Rightarrow> 'p itself \<Rightarrow> 'k running \<Rightarrow> 'k running \<Rightarrow> bool" where
  "turns G E K P S ty \<equiv> (turn G E K P S ty)\<^sup>*\<^sup>*"

lemma turns_invariant:
  assumes "turns G E K P S ty (p0, fs0) (p, fs)" "I p0 fs0" "\<And>p fs q gs. I p fs \<Longrightarrow> turn G E K P S ty (p, fs) (q, gs) \<Longrightarrow> I q gs"
  shows "I p fs"
  using assms(1) by (induction rule: rtranclp_induct2) (use assms(2,3) in blast)+

text \<open>Requests handled one after the other are a special case.\<close>

lemma serial_turns:
  assumes "system_step E K P S ty p q"
  shows "turns anything E K P S ty (p, Map.empty) (q, Map.empty)"
proof (cases rule: system_stepE [OF assms])
  case (1 W r)
  show ?thesis
  proof (rule Handler_phases [of W S r p])
    fix x p1 assume mw: "use_store (Middleware (wd_Env W) (hs_Auth S) (wd_Now W) ret r) p = (Inr x, p1)"
      and "snd (Handler W S r p) = snd (mux W S x p1)"
    with 1 have q: "q = snd (mux W S x p1)" by simp
    have "turn anything E K P S ty (p, Map.empty) (p1, [0 \<mapsto> Admitted x])"
      using turn.admit [of r E S "wd_Now W" p x p1 Map.empty 0] mw 1 by simp
    moreover have "turn anything E K P S ty (p1, [0 \<mapsto> Admitted x]) (q, Map.empty)"
      using turn.answer [of "[0 \<mapsto> Admitted x]" 0 x anything p1 W E K P ty S] 1 by (simp add: q anything_def)
    ultimately show ?thesis by (meson r_into_rtranclp rtranclp_trans)
  qed
qed (auto intro: turn.intros)

section \<open>What every interleaving keeps\<close>

text \<open>The database is well formed, the cache is sound, and so is what the proxied requests hold.\<close>

definition sound_flights :: "env \<Rightarrow> parsers \<Rightarrow> 'k views \<Rightarrow> controller \<Rightarrow> 'k plane \<Rightarrow> (nat \<rightharpoonup> flight) \<Rightarrow> bool" where
  "sound_flights E P V C p fs \<longleftrightarrow> cache_ok E P V C p
     \<and> (\<forall>i ph. fs i = Some (Proxying ph) \<longrightarrow> phase_ok E P V C ph (db (pl_store p)) (pl_cluster p))"

lemma sound_flights_same:
  "sound_flights E P V C p fs \<Longrightarrow> sound_run E P V C p q \<Longrightarrow> sound_flights E P V C q fs"
  unfolding sound_flights_def sound_run_def by (blast intro: phase_ok_grows)

lemma sound_flights_upd:
  "sound_flights E P V C q fs \<Longrightarrow> (\<And>ph. x = Some (Proxying ph) \<Longrightarrow> phase_ok E P V C ph (db (pl_store q)) (pl_cluster q)) \<Longrightarrow>
   sound_flights E P V C q (fs(i := x))"
  by (simp add: sound_flights_def)

lemma turn_keeps_sound:
  assumes ok: "kube_ok K V" and step: "turn G E K P S ty (p, fs) (q, gs)" and sound: "sound_flights E P V (hs_Controller S) p fs"
  shows "sound_flights E P V (hs_Controller S) q gs"
proof -
  from sound have cache: "cache_ok E P V (hs_Controller S) p" by (simp add: sound_flights_def)
  note same = sound_flights_same [OF sound]
  show ?thesis
  proof (cases rule: turnE [OF step])
    case (1 r now x p' i)
    with same [OF middleware_sound [OF 1(3)]] show ?thesis by (auto intro!: sound_flights_upd)
  next
    case (2 i x W)
    with served_sound(1) [of W V S p x] ok cache have "sound_run E P V (hs_Controller S) p (snd (mux W S x p))" by simp
    from same [OF this] 2 show ?thesis by (auto intro!: sound_flights_upd)
  next
    case (3 i x u)
    with sound show ?thesis by (auto intro!: sound_flights_upd)
  next
    case (4 i ph rnd rt now ph' p')
    with sound have "phase_ok E P V (hs_Controller S) ph (db (pl_store p)) (pl_cluster p)" by (simp add: sound_flights_def)
    from phase_step_sound [OF ok cache this 4(3)] same [of p'] 4 show ?thesis by (auto intro: sound_flights_upd)
  next
    case (5 i)
    with sound show ?thesis by (auto intro!: sound_flights_upd)
  next
    case (6 rnd now ticks)
    with same [OF loop_sound [OF ok cache]] show ?thesis by simp
  next
    case (7 M input vs res t)
    with same [OF provision_sound [OF 7(3)]] show ?thesis by simp
  qed
qed

context store_invariant
begin

lemma phase_keeps:
  assumes "kube_ok K V"
  shows "preserves (on_plane J) (phase_step E P K C rnd rt now ph)"
  by (cases ph)
    (auto intro!: act_rules plane_store plane_ctl plane_gateway others read_methods_inv gateway_calls [OF assms])

end

lemma turn_keeps_inv:
  assumes ok: "uuid_ok E" "kube_ok K V" and step: "turn G E K P S ty (p, fs) (q, gs)" and inv: "db_inv E (db (pl_store p))"
  shows "db_inv E (db (pl_store q))"
proof -
  have keep: "db_inv E (db (pl_store t))"
    if "preserves (on_plane (\<lambda>d. uuid_ok E \<longrightarrow> db_inv E d)) m" "m p = (r, t)" for m r t
    using preservesD [OF that(1) _ that(2)] inv ok(1) by (simp add: on_state_def)
  show ?thesis
  proof (cases rule: turnE [OF step])
    case (1 r now x p' i)
    with keep [OF plane_store [OF wellformed.request_reads(4)]] show ?thesis by simp
  next
    case (2 i x W)
    then have "preserves (on_plane (\<lambda>d. db_inv E d)) (mux W S x)" using served_inv(1) ok by blast
    with 2 inv show ?thesis by (simp add: preserves_def on_state_def)
  next
    case (4 i ph rnd rt now ph' p')
    with keep [OF wellformed.phase_keeps [OF ok(2)] 4(3)] show ?thesis by simp
  next
    case (6 rnd now ticks)
    with preserves_snd [OF passes_keep(2) [OF ok(2)], of E p] inv ok(1) show ?thesis by (simp add: on_state_def)
  next
    case (7 M input vs res t)
    with provision_run_keeps [OF _ _ 7(3)] inv ok(1) show ?thesis by (simp add: content_def)
  qed (use inv in simp_all)
qed

lemma running_sound:
  assumes "uuid_ok E" "kube_ok K V" "db_inv E (db (pl_store p0))" "cache_ok E P V (hs_Controller S) p0"
    and "turns G E K P S ty (p0, Map.empty) (p, fs)"
  shows "db_inv E (db (pl_store p)) \<and> sound_flights E P V (hs_Controller S) p fs"
  using assms(5)
proof (rule turns_invariant [where I = "\<lambda>p fs. db_inv E (db (pl_store p)) \<and> sound_flights E P V (hs_Controller S) p fs"])
  show "db_inv E (db (pl_store p0)) \<and> sound_flights E P V (hs_Controller S) p0 Map.empty"
    using assms(3,4) by (simp add: sound_flights_def)
qed (use turn_keeps_inv [OF assms(1,2)] turn_keeps_sound [OF assms(2)] in blast)

text \<open>Overlapping requests stay apart. However requests, their phases, the reconcile loop and the
  provisioning command interleave, the database stays well formed, the cache stays sound, and whatever
  backend a proxied request holds, however long ago it got it, is the one of its own user's workspace
  with that workspace's current password.\<close>

theorem interleaved_requests_stay_sound:
  assumes "uuid_ok E" "kube_ok K V" "db_inv E (db (pl_store p0))" "cache_ok E P V (hs_Controller S) p0"
    and "turns anything E K P S ty (p0, Map.empty) (p, fs)"
  shows "db_inv E (db (pl_store p)) \<and> cache_ok E P V (hs_Controller S) p
    \<and> (\<forall>i ph r u b. fs i = Some (Proxying ph) \<and> holds ph = Some (r, u, b) \<longrightarrow>
         backend_of E P V (hs_Controller S) (user_ID u) b (db (pl_store p)) (pl_cluster p))"
  using running_sound [OF assms] by (auto simp: sound_flights_def phase_ok_def)

text \<open>At the demo: \<open>ann\<close> visits her workspace, whose backend is cached.\<close>

definition demo_bk :: backend where
  "demo_bk = \<lparr>bk_Target = the (url_Parse demo_parsers ''http://ws-b2.ocw.svc:4096''), bk_Password = RawEncode url_alphabet ''pw''\<rparr>"

definition demo_cached_plane :: "cluster plane" where
  "demo_cached_plane = demo_running_plane\<lparr>pl_store := demo_signed_in,
     pl_gateway := \<lparr>gw_lastTouch = Map.empty, gw_backends = [''b2'' \<mapsto> demo_bk]\<rparr>\<rparr>"

definition demo_visit :: request where
  "demo_visit = (demo_request (cookie_text demo_env demo_manager demo_token))\<lparr>rq_Method := ''GET'', rq_Path := ''/'', rq_RequestURI := ''/''\<rparr>"

lemma demo_cached_sound: "cache_ok demo_env demo_parsers demo_views demo_controller demo_cached_plane"
proof -
  have "use_ctl (Backend demo_env demo_api demo_controller ''b2'') demo_running_plane
      = (Inr (''http://ws-b2.ocw.svc:4096'', RawEncode url_alphabet ''pw''), demo_running_plane)"
    by (simp add: use_ctl_run demo_running_plane_def demo_plane_def demo_backend)
  moreover have "url_Parse demo_parsers ''http://ws-b2.ocw.svc:4096'' = Some (bk_Target demo_bk)"
    by (simp add: demo_bk_def demo_parsers_def)
  ultimately have "backend_of demo_env demo_parsers demo_views demo_controller ''b2'' demo_bk
      (db (pl_store demo_running_plane)) (pl_cluster demo_running_plane)"
    using Backend_owned [OF demo_kube_ok] by (fastforce simp: demo_bk_def)
  then have "backend_of demo_env demo_parsers demo_views demo_controller ''b2'' demo_bk
      (db (pl_store demo_cached_plane)) (pl_cluster demo_cached_plane)"
    by (rule backend_of_grows) (simp add: demo_cached_plane_def demo_running_plane_def demo_plane_def demo_signed_in_def)
  then show ?thesis by (simp add: cache_ok_def demo_cached_plane_def)
qed

lemma demo_visit_turns:
  "turns anything demo_env demo_api demo_parsers demo_server TYPE(unit) (demo_cached_plane, Map.empty)
     (demo_cached_plane, [0 \<mapsto> Proxying (Held (demo_visit\<lparr>rq_User := Some (scanUser demo_ann)\<rparr>) (scanUser demo_ann) demo_bk)])"
proof -
  let ?x = "demo_visit\<lparr>rq_User := Some (scanUser demo_ann)\<rparr>" and ?u = "scanUser demo_ann"
  let ?turn = "turn anything demo_env demo_api demo_parsers demo_server TYPE(unit)"
  have u: "u_id demo_ann = ''b2''" by (simp add: demo_ann_def)
  have st: "pl_store demo_cached_plane = demo_signed_in" "demo_cached_plane\<lparr>pl_store := demo_signed_in\<rparr> = demo_cached_plane"
    by (simp_all add: demo_cached_plane_def)
  have cookie: "CookieOf demo_visit CookieName = Some (cookie_text demo_env demo_manager demo_token)"
    by (simp add: CookieOf_def demo_visit_def demo_request_def)
  have "use_store (Middleware demo_env (hs_Auth demo_server) 10 ret demo_visit) demo_cached_plane = (Inr ?x, demo_cached_plane)"
    by (simp add: Middleware_def User_def andThen_def use_store_run st demo_session_of [OF cookie])
  then have 1: "?turn (demo_cached_plane, Map.empty) (demo_cached_plane, [0 \<mapsto> Admitted ?x])"
    by (rule turn.admit [rotated]) (simp_all add: demo_visit_def demo_request_def)
  have 2: "?turn (demo_cached_plane, [0 \<mapsto> Admitted ?x]) (demo_cached_plane, [0 \<mapsto> Proxying (Asked ?x ?u)])"
    using turn.enter [of "[0 \<mapsto> Admitted ?x]" 0 ?x ?u anything demo_env demo_api demo_parsers demo_server "TYPE(unit)" demo_cached_plane]
    by (simp add: demo_visit_def mux_redirect_def cleanPath_def segments_def route_of_def get_route_def UserFromContext_def)
  have read: "Workspace demo_env ''b2'' demo_signed_in = (Inr demo_ws, demo_signed_in)"
    by (simp add: Workspace_def fetch_no_faults uuid_arg_def ascii_lower_def demo_ws_def demo_workspace_def demo_signed_in_def scanWorkspace_def config_revision_def)
  have step: "?turn (p, [0 \<mapsto> Proxying ph]) (q, [0 \<mapsto> Proxying ph'])"
    if "phase_step demo_env demo_parsers demo_api (hs_Controller demo_server) (\<lambda>_. None) (\<lambda>_. None) 10 ph p = (Inr ph', q)" for p q ph ph'
    using turn.proxy [OF _ that, of "[0 \<mapsto> Proxying ph]" 0] by simp
  have 3: "?turn (demo_cached_plane, [0 \<mapsto> Proxying (Asked ?x ?u)]) (demo_cached_plane, [0 \<mapsto> Proxying (Seeking ?x ?u)])"
    by (rule step) (simp add: andThen_Inr attempt_apply use_store_run st u read)
  have 4: "?turn (demo_cached_plane, [0 \<mapsto> Proxying (Seeking ?x ?u)]) (demo_cached_plane, [0 \<mapsto> Proxying (Held ?x ?u demo_bk)])"
    by (rule step) (simp add: andThen_Inr u demo_cached_plane_def)
  from 1 2 3 4 show ?thesis by (meson converse_rtranclp_into_rtranclp rtranclp.rtrancl_refl)
qed

theorem interleaved_requests_stay_sound_witness:
  "\<exists>p fs r b. turns anything demo_env demo_api demo_parsers demo_server TYPE(unit) (demo_cached_plane, Map.empty) (p, fs)
     \<and> fs 0 = Some (Proxying (Held r (scanUser demo_ann) b))
     \<and> backend_of demo_env demo_parsers demo_views demo_controller ''b2'' b (db (pl_store p)) (pl_cluster p)"
proof -
  have "hs_Controller demo_server = demo_controller" by (simp add: demo_server_def)
  with interleaved_requests_stay_sound [OF demo_uuid_ok demo_kube_ok _ _ demo_visit_turns] demo_cached_sound
  have "backend_of demo_env demo_parsers demo_views demo_controller (user_ID (scanUser demo_ann)) demo_bk
      (db (pl_store demo_cached_plane)) (pl_cluster demo_cached_plane)"
    by (fastforce simp: demo_cached_plane_def demo_signed_in_inv)
  then have "backend_of demo_env demo_parsers demo_views demo_controller ''b2'' demo_bk
      (db (pl_store demo_cached_plane)) (pl_cluster demo_cached_plane)"
    by (simp add: scanUser_def demo_ann_def)
  with demo_visit_turns show ?thesis by fastforce
qed

end
