(* ===== verification/Startup.thy ===== *)
theory Startup
  imports Concurrent
begin

text \<open>
  \<open>cmd/server/main.go\<close> up to the first request: configuration, store, migrations, the connection to the
  cluster (\<open>kube.New\<close>), and how the managers, the controller, the gateway and the server are put together.
  \<open>boot\<close> holds what the process meets: environment variables, whether \<open>pgxpool\<close> accepts the database
  URL, and the parts of \<open>client-go\<close> that \<open>kube.New\<close> calls: the two sources of a client configuration, the
  client made of it, and the UID of a ConfigMap read through it. Loggers, the signal handler and the
  shutdown of the HTTP server are left out.
\<close>

record ('c, 'k) boot =
  bt_Env :: env
  bt_Parsers :: parsers
  bt_Getenv :: "string \<Rightarrow> string"
  bt_PoolConfig :: "string \<Rightarrow> bool"
  bt_InClusterConfig :: "'c option"
  bt_FileConfig :: "'c option"
  bt_NewForConfig :: "'c \<Rightarrow> 'k kube_api option"
  bt_ConfigMapUID :: "'k kube_api \<Rightarrow> string \<Rightarrow> string \<Rightarrow> ('k, kube_error, string) act"

record 'k host =
  ho_Installation :: installation
  ho_Cluster :: 'k

datatype startup_error =
    InvalidConfiguration string
  | NoDatabase db_error
  | NotMigrated migrate_error
  | NoClusterConfig
  | NoClient
  | NoOwnerAnchor kube_error

type_synonym ('k, 'a) startup = "('k host, startup_error, 'a) act"

definition in_installation :: "(installation, startup_error, 'a) act \<Rightarrow> ('k, 'a) startup" where
  "in_installation m = within ho_Installation (\<lambda>s h. h\<lparr>ho_Installation := s\<rparr>) m"

definition in_cluster :: "('k, startup_error, 'a) act \<Rightarrow> ('k, 'a) startup" where
  "in_cluster m = within ho_Cluster (\<lambda>k h. h\<lparr>ho_Cluster := k\<rparr>) m"

section \<open>Constructors\<close>

text \<open>\<open>kube.New\<close>: the configuration inside a cluster, else the one in the home directory.\<close>

definition kube_New :: "('c, 'k) boot \<Rightarrow> config \<Rightarrow> ('k, startup_error, 'k kube_api \<times> controller) act" where
  "kube_New B cfg =
     (case (case bt_InClusterConfig B of None \<Rightarrow> bt_FileConfig B | Some c \<Rightarrow> Some c) of
        None \<Rightarrow> throw NoClusterConfig
      | Some c \<Rightarrow> (case bt_NewForConfig B c of
          None \<Rightarrow> throw NoClient
        | Some K \<Rightarrow> andThen (mapErr NoOwnerAnchor (bt_ConfigMapUID B K (cf_Namespace cfg) (cf_OwnerName cfg)))
            (\<lambda>uid. ret (K, \<lparr>co_Config = cfg, co_OwnerUID = uid\<rparr>))))"

definition auth_New :: "string \<Rightarrow> bool \<Rightarrow> manager" where
  "auth_New k secure = \<lparr>am_SigningKey = k, am_CookieSecure = secure\<rparr>"

definition new_limiter :: limiter where
  "new_limiter = Map.empty"

definition new_oidc_manager :: "config \<Rightarrow> oidc_manager" where
  "new_oidc_manager cfg = \<lparr>oi_PublicURL = cf_PublicURL cfg, oi_SigningKey = cf_SessionKey cfg, oi_CookieSecure = cf_CookieSecure cfg\<rparr>"

definition gateway_New :: gateway where
  "gateway_New = \<lparr>gw_lastTouch = Map.empty, gw_backends = Map.empty\<rparr>"

definition server_New :: "config \<Rightarrow> manager \<Rightarrow> oidc_manager \<Rightarrow> controller \<Rightarrow> server" where
  "server_New cfg A O1 C = \<lparr>hs_Config = cfg, hs_Auth = A, hs_OIDC = O1, hs_Controller = C\<rparr>"

section \<open>\<open>main\<close>\<close>

definition server_main :: "('c, 'k) boot \<Rightarrow> ('k, 'k kube_api \<times> server) startup" where
  "server_main B = (case Load (bt_Env B) (bt_Parsers B) (bt_Getenv B) of
       Inl e \<Rightarrow> throw (InvalidConfiguration e)
     | Inr cfg \<Rightarrow>
         andThen (in_installation (mapErr NoDatabase (Open (bt_PoolConfig B) (cf_DatabaseURL cfg) (cf_EncryptionKey cfg)))) (\<lambda>_.
         andThen (in_installation (mapErr NotMigrated (Migrate migration_files))) (\<lambda>_.
         let authManager = auth_New (cf_SessionKey cfg) (cf_CookieSecure cfg);
             oidcManager = new_oidc_manager cfg in
         andThen (in_cluster (kube_New B cfg)) (\<lambda>(K, controller).
         ret (K, server_New cfg authManager oidcManager controller)))))"

text \<open>The state that the first request and the first pass of the loop meet.\<close>

definition first_plane :: "'k host \<Rightarrow> 'k plane" where
  "first_plane h = \<lparr>pl_store = in_Store (ho_Installation h), pl_cluster = ho_Cluster h, pl_limiter = new_limiter,
     pl_gateway = gateway_New\<rparr>"

section \<open>What a start does\<close>

lemma in_installation_run:
  "in_installation m h = (case m (ho_Installation h) of (r, s) \<Rightarrow> (r, h\<lparr>ho_Installation := s\<rparr>))"
  by (simp add: in_installation_def within_def)

lemma in_cluster_run: "in_cluster m h = (case m (ho_Cluster h) of (r, k) \<Rightarrow> (r, h\<lparr>ho_Cluster := k\<rparr>))"
  by (simp add: in_cluster_def within_def)

lemma kube_New_result:
  "kube_New B cfg k = (Inr (K, C), k') \<Longrightarrow> co_Config C = cfg
     \<and> bt_ConfigMapUID B K (cf_Namespace cfg) (cf_OwnerName cfg) k = (Inr (co_OwnerUID C), k')"
  by (auto simp: kube_New_def andThen_def mapErr_def split: option.splits prod.splits sum.splits)

lemma server_main_cases:
  assumes "server_main B h = (r, h')"
  obtains (stopped) e where "r = Inl e" "content (ho_Installation h') = content (ho_Installation h)"
  | (started) cfg K C s where "r = Inr (K, server_New cfg (auth_New (cf_SessionKey cfg) (cf_CookieSecure cfg)) (new_oidc_manager cfg) C)"
      "Load (bt_Env B) (bt_Parsers B) (bt_Getenv B) = Inr cfg" "content (ho_Installation h') = content (ho_Installation h)"
      "Migrate migration_files s = (Inr (), ho_Installation h')"
      "kube_New B cfg (ho_Cluster h) = (Inr (K, C), ho_Cluster h')"
proof (cases "Load (bt_Env B) (bt_Parsers B) (bt_Getenv B)")
  case (Inl e)
  with assms show thesis by (intro stopped) (auto simp: server_main_def)
next
  case load: (Inr cfg)
  obtain r1 s1 where o1: "Open (bt_PoolConfig B) (cf_DatabaseURL cfg) (cf_EncryptionKey cfg) (ho_Installation h) = (r1, s1)"
    by (cases "Open (bt_PoolConfig B) (cf_DatabaseURL cfg) (cf_EncryptionKey cfg) (ho_Installation h)")
  obtain r2 s2 where m: "Migrate migration_files s1 = (r2, s2)" by (cases "Migrate migration_files s1")
  obtain r3 k3 where k: "kube_New B cfg (ho_Cluster h) = (r3, k3)" by (cases "kube_New B cfg (ho_Cluster h)")
  note same = Open_content [OF o1] Migrate_content [OF m]
  note run = assms load o1 m k
  show thesis
  proof (cases r1)
    case (Inl e)
    with run same show thesis
      by (intro stopped [of "NoDatabase e"]) (auto simp: server_main_def andThen_def mapErr_def in_installation_run)
  next
    case r1: (Inr u1)
    show thesis
    proof (cases r2)
      case (Inl e)
      with run same r1 show thesis
        by (intro stopped [of "NotMigrated e"]) (auto simp: server_main_def andThen_def mapErr_def in_installation_run)
    next
      case r2: (Inr u2)
      with run r1 have last_step: "(r, h') = (case r3 of Inl e \<Rightarrow> (Inl e, h\<lparr>ho_Installation := s2, ho_Cluster := k3\<rparr>)
         | Inr (K, C) \<Rightarrow> (Inr (K, server_New cfg (auth_New (cf_SessionKey cfg) (cf_CookieSecure cfg)) (new_oidc_manager cfg) C),
             h\<lparr>ho_Installation := s2, ho_Cluster := k3\<rparr>))"
        by (auto simp: server_main_def andThen_def mapErr_def in_installation_run in_cluster_run split: sum.splits)
      show thesis
      proof (cases r3)
        case (Inl e)
        with last_step same show thesis by (intro stopped [of e]) auto
      next
        case (Inr KC)
        with last_step same k m r2 load show thesis by (cases KC) (auto intro!: started [of _ cfg _ s1])
      qed
    qed
  qed
qed

lemma Migrate_done:
  assumes "Migrate migration_files s = (Inr (), t)"
  shows "pending (versions t) migration_files = []"
proof -
  have "distinct (map mi_Name migration_files)" by (simp add: migration_files_def)
  from Migrate_progress [OF assms this] have
    "versions t = versions s @ map mi_Name (pending (versions s) migration_files)" by (auto simp: progress_def)
  then show ?thesis by (force simp: pending_def filter_empty_conv)
qed

section \<open>A start that succeeds\<close>

text \<open>C37: The server starts consistently or not at all. Whether the start succeeds or stops anywhere, no
  row of the database is changed. If it succeeds, every migration is on record; sessions and OIDC
  flows are signed with the 32-byte session key and their cookies are secure exactly for an https
  public URL; the controller works under the loaded configuration for the owner whose UID the
  cluster reported; and the first request meets no cached backend, no recorded activity and no
  login attempts.\<close>

theorem server_starts_consistently:
  assumes "\<forall>s. length (sha256 (bt_Env B) s) = 32" and "server_main B h = (r, h')"
  shows "content (ho_Installation h') = content (ho_Installation h)
     \<and> (\<forall>K S. r = Inr (K, S) \<longrightarrow>
          Load (bt_Env B) (bt_Parsers B) (bt_Getenv B) = Inr (hs_Config S)
        \<and> pending (versions (ho_Installation h')) migration_files = []
        \<and> length (am_SigningKey (hs_Auth S)) = 32 \<and> oi_SigningKey (hs_OIDC S) = am_SigningKey (hs_Auth S)
        \<and> am_CookieSecure (hs_Auth S) = (url_Scheme (cf_PublicURL (hs_Config S)) = ''https'')
        \<and> oi_CookieSecure (hs_OIDC S) = am_CookieSecure (hs_Auth S)
        \<and> co_Config (hs_Controller S) = hs_Config S
        \<and> bt_ConfigMapUID B K (cf_Namespace (hs_Config S)) (cf_OwnerName (hs_Config S)) (ho_Cluster h)
            = (Inr (co_OwnerUID (hs_Controller S)), ho_Cluster h')
        \<and> pl_gateway (first_plane h') = \<lparr>gw_lastTouch = Map.empty, gw_backends = Map.empty\<rparr>
        \<and> pl_limiter (first_plane h') = Map.empty)"
  using assms(2)
proof (cases rule: server_main_cases)
  case (started cfg K C s)
  have "length (cf_SessionKey cfg) = 32" "cf_CookieSecure cfg = (url_Scheme (cf_PublicURL cfg) = ''https'')"
    using started(2) key_length [OF assms(1)] by (auto elim!: Load_result)
  with started(1-3) Migrate_done [OF started(4)] kube_New_result [OF started(5)] show ?thesis
    by (simp add: server_New_def auth_New_def new_oidc_manager_def first_plane_def gateway_New_def new_limiter_def)
qed simp

text \<open>From a started server on, requests that are handled one after the other keep an administrator.\<close>

lemma first_plane_facts:
  assumes "server_main B h = (Inr (K, S), h')"
  shows "db (pl_store (first_plane h')) = content (ho_Installation h)" "cache_ok E P V C (first_plane h')"
proof -
  have "content (ho_Installation h') = content (ho_Installation h)"
    using assms by (cases rule: server_main_cases) auto
  then show "db (pl_store (first_plane h')) = content (ho_Installation h)" "cache_ok E P V C (first_plane h')"
    by (simp_all add: first_plane_def content_def cache_ok_def gateway_New_def)
qed

lemma started_server_has_administrator:
  assumes "server_main B h = (Inr (K, S), h')" and "uuid_ok E" "kube_ok K V"
    and "db_inv E (content (ho_Installation h))" "has_admin (content (ho_Installation h))"
    and reach: "system_reachable E K P S ty (first_plane h') p"
  shows "has_admin (db (pl_store p))"
proof -
  have "db_inv E (db (pl_store (first_plane h')))" "has_admin (db (pl_store (first_plane h')))"
    using assms(4,5) by (simp_all add: first_plane_facts(1) [OF assms(1)])
  with system_invariant [OF reach, where I = "\<lambda>p. db_inv E (db (pl_store p)) \<and> has_admin (db (pl_store p))"]
    system_step_keeps [OF assms(2,3)] show ?thesis by blast
qed

text \<open>So do requests that overlap keep the database well formed and apart what they hold.\<close>

lemma started_server_stays_sound:
  assumes "server_main B h = (Inr (K, S), h')" and "uuid_ok E" "kube_ok K V" "db_inv E (content (ho_Installation h))"
    and "turns anything E K P S ty (first_plane h', Map.empty) (p, fs)"
  shows "db_inv E (db (pl_store p))
    \<and> (\<forall>i ph r u b. fs i = Some (Proxying ph) \<and> holds ph = Some (r, u, b) \<longrightarrow>
         backend_of E P V (hs_Controller S) (user_ID u) b (db (pl_store p)) (pl_cluster p))"
proof -
  have "db_inv E (db (pl_store (first_plane h')))" using first_plane_facts(1) [OF assms(1)] assms(4) by simp
  from running_sound [OF assms(2,3) this first_plane_facts(2) [OF assms(1)] assms(5)]
  show ?thesis by (auto simp: sound_flights_def phase_ok_def)
qed

section \<open>The demo start\<close>

definition demo_boot :: "(unit, cluster) boot" where
  "demo_boot = \<lparr>bt_Env = demo_env, bt_Parsers = demo_url_parsers, bt_Getenv = demo_getenv, bt_PoolConfig = cm_PoolConfig demo_command,
     bt_InClusterConfig = None, bt_FileConfig = Some (), bt_NewForConfig = (\<lambda>_. Some demo_api),
     bt_ConfigMapUID = (\<lambda>_ _ _ k. (Inr ''uid'', k))\<rparr>"

definition demo_host :: "cluster host" where
  "demo_host = \<lparr>ho_Installation = demo_installation, ho_Cluster = empty_cluster\<rparr>"

lemma demo_server_starts:
  obtains S h' where "server_main demo_boot demo_host = (Inr (demo_api, S), h')" "co_OwnerUID (hs_Controller S) = ''uid''"
proof -
  have "faults (in_Store demo_installation) = []" "content demo_installation = demo_db"
    by (simp_all add: demo_installation_def content_def)
  then obtain c ws where c: "Load demo_env demo_url_parsers demo_getenv = Inr c"
    "Open (cm_PoolConfig demo_command) (cf_DatabaseURL c) (cf_EncryptionKey c) demo_installation = (Inr (), demo_installation)"
    "Migrate migration_files demo_installation = (Inr (), demo_installation\<lparr>in_Versions := Some ws\<rparr>)" by (rule demo_started)
  then have "\<exists>S h'. server_main demo_boot demo_host = (Inr (demo_api, S), h') \<and> co_OwnerUID (hs_Controller S) = ''uid''"
    by (simp add: server_main_def demo_boot_def demo_host_def andThen_def mapErr_def in_installation_run in_cluster_run
        kube_New_def server_New_def Let_def)
  with that show thesis by blast
qed

theorem server_starts_consistently_witness:
  "\<exists>K S h'. server_main demo_boot demo_host = (Inr (K, S), h') \<and> content (ho_Installation h') = demo_db
     \<and> co_OwnerUID (hs_Controller S) = ''uid'' \<and> length (oi_SigningKey (hs_OIDC S)) = 32"
proof -
  obtain S h' where run: "server_main demo_boot demo_host = (Inr (demo_api, S), h')" "co_OwnerUID (hs_Controller S) = ''uid''"
    by (rule demo_server_starts)
  have hash: "\<forall>s. length (sha256 (bt_Env demo_boot) s) = 32" by (simp add: demo_boot_def)
  have "content (ho_Installation demo_host) = demo_db" by (simp add: demo_host_def demo_installation_def content_def)
  with server_starts_consistently [OF hash run(1)] run show ?thesis by auto
qed

end
