(* ===== verification/LoginFlow.thy ===== *)
theory LoginFlow
  imports HttpDemo
begin

text \<open>
  The form \<open>POST /platform/login\<close> from end to end: a right password signs in for seven days, every wrong
  one gets the same answer.
\<close>

text \<open>The account and password hash that a login form names.\<close>

definition named_account :: "env \<Rightarrow> request \<Rightarrow> store \<Rightarrow> (user \<times> string) option" where
  "named_account E r s = (case fst (AuthenticateLocal E (FormValue r ''username'') (s\<lparr>faults := []\<rparr>)) of
     Inl _ \<Rightarrow> None | Inr x \<Rightarrow> Some x)"

definition right_password :: "env \<Rightarrow> request \<Rightarrow> store \<Rightarrow> bool" where
  "right_password E r s = (case named_account E r s of None \<Rightarrow> False
     | Some (u, h) \<Rightarrow> VerifyPassword E h (FormValue r ''password'') \<and> \<not> user_Disabled u)"

definition granted :: "('k, 'p) world \<Rightarrow> request \<Rightarrow> 'k plane \<Rightarrow> bool" where
  "granted W r p = fst (LoginAllowed (wd_Now W) (login_key (wd_Env W) r) (pl_limiter p))"

lemma AuthenticateLocal_quiet:
  "faults s = [] \<Longrightarrow> AuthenticateLocal E n s = (fst (AuthenticateLocal E n s), s)"
  by (simp add: AuthenticateLocal_def fetch_no_faults)

lemma named_account_quiet:
  assumes "faults s = []"
  shows "named_account E r s = (case fst (AuthenticateLocal E (FormValue r ''username'') s) of Inl _ \<Rightarrow> None | Inr x \<Rightarrow> Some x)"
proof -
  have "s\<lparr>faults := []\<rparr> = s" using assms by simp
  then show ?thesis by (simp add: named_account_def)
qed

section \<open>Wrong passwords\<close>

definition refusal :: string where
  "refusal = ''invalid username or password''"

lemma limit_run: "limit f p = (Inr (fst (f (pl_limiter p))), p\<lparr>pl_limiter := snd (f (pl_limiter p))\<rparr>)"
  by (simp add: limit_def split: prod.split)

lemma refused_login:
  assumes "faults (pl_store p) = []" "granted W r p" "\<not> right_password (wd_Env W) r (pl_store p)"
  shows "\<exists>l. loginPost W S r p = renderError W r ''login'' refusal (p\<lparr>pl_limiter := l\<rparr>)"
proof -
  let ?l = "snd (LoginAllowed (wd_Now W) (login_key (wd_Env W) r) (pl_limiter p))"
  let ?a = "AuthenticateLocal (wd_Env W) (FormValue r ''username'') (pl_store p)"
  have a: "?a = (fst ?a, pl_store p)" by (rule AuthenticateLocal_quiet [OF assms(1)])
  have "p\<lparr>pl_limiter := ?l, pl_store := pl_store p\<rparr> = p\<lparr>pl_limiter := ?l\<rparr>" by simp
  then have "loginPost W S r p = renderError W r ''login'' refusal (p\<lparr>pl_limiter := ?l\<rparr>)"
    using assms(2,3) a
    by (cases "fst ?a") (auto simp: loginPost_def granted_def limit_run andThen_def attempt_apply use_store_run Let_def
        right_password_def named_account_quiet [OF assms(1)] refusal_def split: prod.splits)
  then show ?thesis by blast
qed

lemma use_store_limiter:
  "use_store m (p\<lparr>pl_limiter := l\<rparr>) = (fst (use_store m p), (snd (use_store m p))\<lparr>pl_limiter := l\<rparr>)"
  by (simp add: use_store_def within_def split: prod.splits)

lemma data_limiter: "data W r (p\<lparr>pl_limiter := l\<rparr>) = (fst (data W r p), (snd (data W r p))\<lparr>pl_limiter := l\<rparr>)"
  by (simp add: data_def branding_of_def andThen_def use_store_limiter Let_def split: prod.splits sum.splits)

lemma renderError_limiter: "fst (renderError W r n m (p\<lparr>pl_limiter := l\<rparr>)) = fst (renderError W r n m p)"
  by (simp add: renderError_def andThen_def data_limiter split: prod.splits sum.splits)

lemma data_request: "rq_User r1 = rq_User r2 \<Longrightarrow> rq_Cookies r1 = rq_Cookies r2 \<Longrightarrow> data W r1 = data W r2"
  by (simp add: data_def UserFromContext_def CookieOf_def)

lemma renderError_reads: "preserves (on_plane J) (renderError W r n m)"
  unfolding renderError_def data_def branding_of_def
  by (intro act_rules plane_store Setting_inv reads_session)


definition demo_form :: "string \<Rightarrow> string \<Rightarrow> request" where
  "demo_form n p = (demo_request [])\<lparr>rq_Path := ''/platform/login'', rq_Cookies := [],
     rq_Form := [(''username'', n), (''password'', p)]\<rparr>"

lemma demo_form_simps [simp]:
  "FormValue (demo_form n p) ''username'' = n" "FormValue (demo_form n p) ''password'' = p" "rq_User (demo_form n p) = None"
  "rq_Cookies (demo_form n p) = []"
  by (simp_all add: demo_form_def FormValue_def first_value_def demo_request_def)

lemma demo_granted: "pl_limiter p = Map.empty \<Longrightarrow> granted W r p"
  by (simp add: granted_def LoginAllowed_def allow_def Let_def recent_attempts_def compact_loop.simps)

lemma demo_plane_simps [simp]: "pl_store demo_plane = demo_store" "pl_limiter demo_plane = Map.empty"
  by (simp_all add: demo_plane_def)


section \<open>The right password\<close>

lemma first_in_set: "(case xs of [] \<Rightarrow> Inl e | x # _ \<Rightarrow> Inr x) = Inr y \<Longrightarrow> y \<in> set xs"
  by (cases xs) simp_all

lemma AuthenticateLocal_row:
  assumes "db_inv E (db s)" "faults s = []" "AuthenticateLocal E n s = (Inr (u, h), s)"
  obtains row where "row \<in> set (users (db s))" "u = scanUser row" "pg_uuid E (u_id row) = Some (u_id row)"
proof -
  let ?m = "List.maps (\<lambda>u. map (\<lambda>c. (scanUser u, c_password_hash c)) (filter (\<lambda>c. c_user_id c = u_id u) (credentials (db s))))
    (filter (same_username E n) (users (db s)))"
  have "(case ?m of [] \<Rightarrow> Inl ErrNotFound | x # _ \<Rightarrow> Inr x) = Inr (u, h)"
    using assms(2,3) by (simp add: AuthenticateLocal_def fetch_no_faults)
  then have "(u, h) \<in> set ?m" by (rule first_in_set)
  then obtain row where row: "row \<in> set (users (db s))" "u = scanUser row" by auto
  with users_ok_canonical [OF assms(1) row(1)] that show thesis by (simp add: uuid_canonical_def)
qed

lemma CreateSession_quiet:
  assumes "faults s = []" "session_view s h = None" "pg_uuid E i = Some u" "u \<in> ids (db s)"
  shows "\<exists>t. CreateSession E now h c i ua ra e s = (Inr (), t) \<and> faults t = []"
proof -
  have "\<not> matches (\<lambda>r. s_id_hash r = h) (sessions (db s))"
    using assms(2) by (simp add: session_view_def find_None_matches)
  moreover have "matches (\<lambda>r. u_id r = u) (users (db s))" using assms(4) by (simp add: matches_ids)
  ultimately show ?thesis using assms(1,3) by (simp add: CreateSession_def stmt_no_faults uuid_arg_def)
qed

lemma RecordLogin_quiet:
  assumes "faults s = []" "pg_uuid E i = Some i"
  shows "RecordLogin E now i s = (Inr (), s\<lparr>db := (db s)\<lparr>users := update_where (\<lambda>r. u_id r = i) (\<lambda>r. r\<lparr>u_last_login_at := Some now\<rparr>) (users (db s))\<rparr>\<rparr>)"
  using assms by (simp add: RecordLogin_def andThen_def attempt_apply stmt_no_faults uuid_arg_def)

text \<open>A new session of an enabled account speaks for it while it lasts.\<close>

lemma new_session_speaks:
  assumes inv: "db_inv E (db s)" and quiet: "faults s = []" and row: "row \<in> set (users (db s))" "\<not> u_disabled row" "pg_uuid E (u_id row) = Some (u_id row)"
    and fresh: "session_view s (Hash E (RawEncode url_alphabet b1)) = None" and "b2 \<noteq> []"
  shows "\<exists>session csrf_c t. NewSession E A now0 (Some b1) (Some b2) r (u_id row) s = (Inr (RawEncode url_alphabet b2, [session, csrf_c]), t)
     \<and> ck_Name session = CookieName
     \<and> (\<forall>r' now. CookieOf r' CookieName = Some (ck_Value session) \<longrightarrow> now < now0 + sessionLifetime \<longrightarrow>
          fst (User E A now r' t) = Inr (Some (scanUser row)))"
proof -
  have "u_id row \<in> ids (db s)" using row(1) by (rule user_in_ids)
  then obtain t where t: "CreateSession E now0 (Hash E (RawEncode url_alphabet b1)) (Hash E (RawEncode url_alphabet b2)) (u_id row)
      (HeaderGet r ''User-Agent'') (remoteAddr r) (now0 + sessionLifetime) s = (Inr (), t)" "faults t = []"
    using CreateSession_quiet [OF quiet fresh row(3)] by blast
  let ?session = "session_cookie A (RawEncode url_alphabet b1 @ ''.'' @ sign E A (RawEncode url_alphabet b1)) 604800"
  let ?cks = "[?session, csrf_cookie A (RawEncode url_alphabet b2) 604800]"
  have ns: "NewSession E A now0 (Some b1) (Some b2) r (u_id row) s = (Inr (RawEncode url_alphabet b2, ?cks), t)"
    using t by (simp add: NewSession_def randomToken_def andThen_def)
  have "fst (User E A now r' t) = Inr (Some (scanUser row))"
    if "CookieOf r' CookieName = Some (ck_Value ?session)" "now < now0 + sessionLifetime" for r' now
  proof -
    let ?r = "r'\<lparr>rq_Header := [(''X-Csrf-Token'', RawEncode url_alphabet b2)]\<rparr>"
    have "fst (User E A now ?r t) = Inr (Some (scanUser row))"
      using NewSession_good [OF inv ns t(2) assms(7) row(1), of ?r now] row(2,3) that
      by (simp add: CookieOf_def HeaderGet_def first_value_def)
    moreover have "User E A now ?r = User E A now r'"
      by (simp add: User_def request_session_def CookieOf_def)
    ultimately show ?thesis by simp
  qed
  moreover have "ck_Name ?session = CookieName" by (simp add: session_cookie_def)
  ultimately show ?thesis using ns by blast
qed

text \<open>C20: The right password signs in. If nothing fails, the limiter grants the attempt, the form names an enabled
  account by a password that verifies, and the random token is fresh, then \<open>POST /platform/login\<close>
  redirects to the home page with a session cookie, and for seven days every request with this cookie
  speaks for the account.\<close>

theorem right_password_signs_in:
  assumes quiet: "faults (pl_store p) = []" and inv: "db_inv (wd_Env W) (db (pl_store p))" and "granted W r p"
    and acc: "named_account (wd_Env W) r (pl_store p) = Some (u, h)" and "VerifyPassword (wd_Env W) h (FormValue r ''password'')"
    and "\<not> user_Disabled u" and rand: "wd_Rand W 1 = Some b1" "wd_Rand W 2 = Some b2" "b2 \<noteq> []"
    and fresh: "session_view (pl_store p) (Hash (wd_Env W) (RawEncode url_alphabet b1)) = None"
  shows "\<exists>session csrf_c q. loginPost W S r p = (Inr ((http_redirect ''/platform/'' 303)\<lparr>rs_Cookies := [session, csrf_c]\<rparr>), q)
     \<and> ck_Name session = CookieName
     \<and> (\<forall>r' now. CookieOf r' CookieName = Some (ck_Value session) \<longrightarrow> now < wd_Now W + sessionLifetime \<longrightarrow>
          (\<exists>v. fst (User (wd_Env W) (hs_Auth S) now r' (pl_store q)) = Inr (Some v) \<and> user_ID v = user_ID u))"
proof -
  let ?E = "wd_Env W" and ?A = "hs_Auth S" and ?s = "pl_store p"
  have a: "AuthenticateLocal ?E (FormValue r ''username'') ?s = (Inr (u, h), ?s)"
    using AuthenticateLocal_quiet [OF quiet, of ?E "FormValue r ''username''"] acc
    by (auto simp: named_account_quiet [OF quiet] split: sum.splits)
  obtain row where row: "row \<in> set (users (db ?s))" "u = scanUser row" "pg_uuid ?E (u_id row) = Some (u_id row)"
    by (rule AuthenticateLocal_row [OF inv quiet a])
  let ?s1 = "?s\<lparr>db := (db ?s)\<lparr>users := update_where (\<lambda>r. u_id r = u_id row) (\<lambda>r. r\<lparr>u_last_login_at := Some (wd_Now W)\<rparr>) (users (db ?s))\<rparr>\<rparr>"
  let ?row = "row\<lparr>u_last_login_at := Some (wd_Now W)\<rparr>"
  have rl: "RecordLogin ?E (wd_Now W) (user_ID u) ?s = (Inr (), ?s1)"
    using RecordLogin_quiet [OF quiet row(3)] row(2) by simp
  have "db_inv ?E (db ?s1)" using preservesD [OF RecordLogin_inv _ rl] inv by (simp only: on_db_def)
  moreover have "?row \<in> set (users (db ?s1))" using row(1) by (auto simp: set_update_where)
  moreover have "faults ?s1 = []" "session_view ?s1 (Hash ?E (RawEncode url_alphabet b1)) = None"
    "\<not> u_disabled ?row" "pg_uuid ?E (u_id ?row) = Some (u_id ?row)" "u_id ?row = user_ID u"
    using quiet fresh row assms(6) by (simp_all add: session_view_def)
  ultimately obtain session csrf_c t where
    ns: "NewSession ?E ?A (wd_Now W) (Some b1) (Some b2) r (user_ID u) ?s1 = (Inr (RawEncode url_alphabet b2, [session, csrf_c]), t)"
    and speaks: "ck_Name session = CookieName"
      "\<forall>r' now. CookieOf r' CookieName = Some (ck_Value session) \<longrightarrow> now < wd_Now W + sessionLifetime \<longrightarrow>
          fst (User ?E ?A now r' t) = Inr (Some (scanUser ?row))"
    using new_session_speaks [of ?E ?s1 ?row b1 b2 ?A "wd_Now W" r] rand(3) by metis
  obtain q where q: "loginPost W S r p = (Inr ((http_redirect ''/platform/'' 303)\<lparr>rs_Cookies := [session, csrf_c]\<rparr>), q)" "pl_store q = t"
    using assms(3,5,6) rand(1,2) a rl ns
    by (auto simp: loginPost_def granted_def limit_run andThen_def attempt_apply use_store_run Let_def signed_in_def)
  moreover have "user_ID (scanUser ?row) = user_ID u" using row(2) by simp
  ultimately show ?thesis using speaks by blast
qed

text \<open>\<open>ann\<close> has a password.\<close>

definition demo_hash :: string where
  "demo_hash = hash_prefix @ RawEncode std_alphabet ''salt'' @ ''$'' @ RawEncode std_alphabet (argon2_IDKey demo_env ''correct horse'' ''salt'')"

definition demo_credential :: credential_row where
  "demo_credential = \<lparr>c_user_id = ''b2'', c_password_hash = demo_hash, c_changed_at = 3\<rparr>"

definition demo_local_plane :: "cluster plane" where
  "demo_local_plane = demo_plane\<lparr>pl_store := demo_store\<lparr>db := demo_db\<lparr>credentials := [demo_credential]\<rparr>\<rparr>\<rparr>"

theorem right_password_signs_in_witness:
  "\<exists>session csrf_c q. loginPost demo_world demo_server (demo_form ''Ann'' ''correct horse'') demo_local_plane
       = (Inr ((http_redirect ''/platform/'' 303)\<lparr>rs_Cookies := [session, csrf_c]\<rparr>), q) \<and> ck_Name session = CookieName"
proof -
  let ?r = "demo_form ''Ann'' ''correct horse''" and ?s = "pl_store demo_local_plane"
  have s: "?s = demo_store\<lparr>db := demo_db\<lparr>credentials := [demo_credential]\<rparr>\<rparr>" by (simp add: demo_local_plane_def)
  have "credentials_ok (ids demo_db) [demo_credential]"
    by (simp add: credentials_ok_def demo_credential_def ids_def demo_rows)
  then have inv: "db_inv demo_env (db ?s)" unfolding s using db_inv_tables(1) [OF demo_db_inv] by simp
  have quiet: "faults ?s = []" by (simp add: s)
  have acc: "named_account demo_env ?r ?s = Some (scanUser demo_ann, demo_hash)"
    by (simp add: named_account_quiet s AuthenticateLocal_def fetch_no_faults same_username_def demo_rows demo_credential_def
        ascii_lower_def char_of_def bit_0)
  have "VerifyPassword demo_env demo_hash ''correct horse''"
    unfolding demo_hash_def VerifyPassword_own_hash [OF demo_crypto_ok] by (rule refl)
  then have ok: "VerifyPassword demo_env demo_hash (FormValue ?r ''password'')" by simp
  have enabled: "\<not> user_Disabled (scanUser demo_ann)" by (simp add: demo_ann_def)
  have fresh: "session_view ?s h = None" for h by (simp add: s session_view_def)
  have rand: "wd_Rand demo_world 1 = Some (CHR ''r'' # show_nat 1)" "wd_Rand demo_world 2 = Some (CHR ''r'' # show_nat 2)"
    by (simp_all add: demo_world_def)
  have "granted demo_world ?r demo_local_plane" by (rule demo_granted) (simp add: demo_local_plane_def)
  from right_password_signs_in [where W = demo_world and S = demo_server, unfolded demo_world_simps, OF quiet inv this acc ok
      enabled rand _ fresh] show ?thesis by blast
qed

section \<open>Two weaknesses\<close>

text \<open>\<open>RemoteAddr\<close> is address and port, so every new connection has its own budget of attempts.\<close>

theorem new_connection_new_budget:
  "\<exists>l. \<not> fst (LoginAllowed 10 (login_key demo_env (demo_form ''root'' ''guess'')) l)
     \<and> fst (LoginAllowed 10 (login_key demo_env ((demo_form ''root'' ''guess'')\<lparr>rq_RemoteAddr := ''10.0.0.1:4001''\<rparr>)) l)"
proof -
  let ?r = "demo_form ''root'' ''guess''" and ?r' = "(demo_form ''root'' ''guess'')\<lparr>rq_RemoteAddr := ''10.0.0.1:4001''\<rparr>"
  let ?l = "[login_key demo_env ?r \<mapsto> replicate 10 (10 :: int)]"
  have "login_key demo_env ?r' \<noteq> login_key demo_env ?r"
    by (simp add: login_key_def demo_form_def demo_request_def)
  then have "fst (LoginAllowed 10 (login_key demo_env ?r') ?l)"
    by (simp add: LoginAllowed_def allow_def Let_def recent_attempts_def compact_loop.simps)
  moreover have "\<not> fst (LoginAllowed 10 (login_key demo_env ?r) ?l)"
    by (simp add: LoginAllowed_def allow_def Let_def recent_attempts_def compact_loop.simps ten_minutes_def eval_nat_numeral)
  ultimately show ?thesis by blast
qed

text \<open>\<open>loginGet\<close> takes a failing count for an empty table.\<close>

theorem database_error_looks_like_first_start:
  "fst (loginGet demo_world (demo_form [] []) (demo_plane\<lparr>pl_store := demo_store\<lparr>faults := [True]\<rparr>\<rparr>))
   = Inr (http_redirect ''/platform/setup'' 303)"
  by (simp add: loginGet_def UserCount_def fetch_def stmt_def andThen_def attempt_apply use_store_run Let_def)

end
