(* ===== verification/Races.thy ===== *)
theory Races
  imports Concurrent LoginFlow
begin

text \<open>
  What overlapping requests break. The user of a request is read from the session when the request
  arrives and not again when it is answered: two administrators who demote each other at the same time
  leave nobody in charge, and a password change writes back a role that was taken away. Whoever is disabled meanwhile is stopped by the CSRF check, whoever is demoted
  is not. With the missing check there would always be an administrator.
\<close>

section \<open>Two administrators\<close>

definition demo_boss :: user_row where
  "demo_boss = demo_ann\<lparr>u_role := ''admin''\<rparr>"

definition demo_token2 :: string where
  "demo_token2 = RawEncode url_alphabet ''cccc''"

definition demo_boss_session :: session_row where
  "demo_boss_session = demo_session_row\<lparr>s_id_hash := Hash demo_env demo_token2\<rparr>"

definition demo_pair_db :: db where
  "demo_pair_db = demo_db\<lparr>users := [demo_root, demo_boss], sessions := [demo_admin_row, demo_boss_session]\<rparr>"

definition demo_pair_plane :: "cluster plane" where
  "demo_pair_plane = demo_plane\<lparr>pl_store := demo_store\<lparr>db := demo_pair_db\<rparr>\<rparr>"

text \<open>\<open>root\<close> demotes \<open>ann\<close>, \<open>ann\<close> demotes \<open>root\<close>.\<close>

definition demote_ann :: request where
  "demote_ann = demo_post ''/platform/admin/users/b2'' [(''role'', ''user''), (''email'', ''ann@x.io'')]"

definition demote_root :: request where
  "demote_root = (demo_post ''/platform/admin/users/a1'' [(''role'', ''user''), (''email'', ''root@x.io'')])
     \<lparr>rq_Cookies := [(CookieName, cookie_text demo_env demo_manager demo_token2)]\<rparr>"

lemma demo_tokens: "Hash demo_env demo_token \<noteq> Hash demo_env demo_token2"
  by code_simp

lemma demo_nodot: "CHR ''.'' \<notin> set demo_token" "CHR ''.'' \<notin> set demo_token2"
  unfolding demo_token_def demo_token2_def by (rule url_no_dot)+

lemma first_update:
  "\<exists>t. UpdateUser demo_env 10 ''a1'' ''b2'' [] ''ann@x.io'' ''user'' False [] ''10.0.0.1:4000'' (pl_store demo_pair_plane) = (Inr (), t)
     \<and> users (db t) = [demo_root, demo_boss\<lparr>u_role := ''user'', u_display_name := [], u_updated_at := 10\<rparr>]
     \<and> sessions (db t) = [demo_admin_row, demo_boss_session] \<and> faults t = []"
  by (simp add: UpdateUser_def audit_def run_defs sql_update_user_def demo_pair_plane_def demo_pair_db_def matches_def demo_rows
        demo_boss_def nullif_def valid_role_def user_ref_def nullUUID_def update_where_def email_taken_def same_email_def ascii_lower_def)

text \<open>Both sessions are live whatever the roles are.\<close>

lemma pair_sessions:
  assumes s: "sessions (db t) = [demo_admin_row, demo_boss_session]" "faults t = []"
    and u: "users (db t) = [demo_root, b]" "u_id b = ''b2''" "\<not> u_disabled b"
  shows "CookieOf r CookieName = Some (cookie_text demo_env demo_manager demo_token) \<Longrightarrow> request_session demo_env demo_manager 10 r t
      = (Inr (Some (scanUser demo_root, Hash demo_env (RawEncode url_alphabet ''bbbb''), 9 + sessionLifetime)), t)"
    and "CookieOf r CookieName = Some (cookie_text demo_env demo_manager demo_token2) \<Longrightarrow> request_session demo_env demo_manager 10 r t
      = (Inr (Some (scanUser b, Hash demo_env (RawEncode url_alphabet ''bbbb''), 9 + sessionLifetime)), t)"
proof -
  have fresh: "update_where (\<lambda>r. s_id_hash r = h \<and> s_last_seen_at r < 10 - five_minutes) (\<lambda>r. r\<lparr>s_last_seen_at := 10\<rparr>) (sessions (db t))
      = sessions (db t)" for h
    by (simp add: s update_where_def demo_admin_row_def demo_boss_session_def demo_session_row_def five_minutes_def)
  have run: "Session 10 h t = (case session_join 10 h (db t) of None \<Rightarrow> (Inl ErrNotFound, t)
     | Some (x, c, e) \<Rightarrow> (if user_Disabled x then Inl ErrNotFound else Inr (x, c, e), t))" for h
    unfolding Session_def
    by (auto simp: andThen_def fetch_no_faults attempt_apply stmt_no_faults s(2) fresh split: option.split)
  have "session_join 10 (Hash demo_env demo_token) (db t) = Some (scanUser demo_root, Hash demo_env (RawEncode url_alphabet ''bbbb''), 9 + sessionLifetime)"
    "session_join 10 (Hash demo_env demo_token2) (db t) = Some (scanUser b, Hash demo_env (RawEncode url_alphabet ''bbbb''), 9 + sessionLifetime)"
    using demo_tokens
    by (simp_all add: session_join_def s u demo_admin_row_def demo_boss_session_def demo_session_row_def sessionLifetime_def demo_rows)
  with run u have "Session 10 (Hash demo_env demo_token) t
      = (Inr (scanUser demo_root, Hash demo_env (RawEncode url_alphabet ''bbbb''), 9 + sessionLifetime), t)"
    "Session 10 (Hash demo_env demo_token2) t = (Inr (scanUser b, Hash demo_env (RawEncode url_alphabet ''bbbb''), 9 + sessionLifetime), t)"
    by (simp_all add: demo_rows)
  note Sessions = this
  show "request_session demo_env demo_manager 10 r t
      = (Inr (Some (scanUser demo_root, Hash demo_env (RawEncode url_alphabet ''bbbb''), 9 + sessionLifetime)), t)"
    if "CookieOf r CookieName = Some (cookie_text demo_env demo_manager demo_token)"
    unfolding request_session_cookie [OF that demo_nodot(1)] Sessions(1) by simp
  show "request_session demo_env demo_manager 10 r t
      = (Inr (Some (scanUser b, Hash demo_env (RawEncode url_alphabet ''bbbb''), 9 + sessionLifetime)), t)"
    if "CookieOf r CookieName = Some (cookie_text demo_env demo_manager demo_token2)"
    unfolding request_session_cookie [OF that demo_nodot(2)] Sessions(2) by simp
qed

text \<open>A demotion that is answered while the actor's session is live.\<close>

lemma demotion_run:
  assumes session: "request_session demo_env demo_manager 10 x (pl_store p)
      = (Inr (Some (v, Hash demo_env (RawEncode url_alphabet ''bbbb''), e)), pl_store p)"
    and form: "FormValue x ''csrf'' = RawEncode url_alphabet ''bbbb''" "HeaderGet x ''X-Csrf-Token'' = []" "rq_Method x = ''POST''"
      "FormValue x ''role'' = ''user''" "FormValue x ''password'' = []" "FormValue x ''disabled'' = []" "FormValue x ''display_name'' = []"
    and actor: "rq_User x = Some u" "IsAdmin u" "user_ID u \<noteq> i"
    and upd: "UpdateUser demo_env 10 (user_ID u) i [] (TrimSpace (FormValue x ''email'')) ''user'' False [] (rq_RemoteAddr x) (pl_store p) = (Inr (), t)"
  shows "snd (updateUser demo_world demo_server i x p) = p\<lparr>pl_store := t\<rparr>"
proof -
  have "csrf demo_world demo_server x k p = k p" for k
    using session form by (simp add: csrf_def CSRFValid_def andThen_def use_store_run Let_def)
  then show ?thesis
    unfolding updateUser_def requireAdmin_def requireUser_def UserFromContext_def actor(1) Let_def form(4-7)
    using actor upd
    by (simp add: back_to_admin_def settled_def andThen_def attempt_apply use_store_run TrimSpace_def)
qed

lemma second_update:
  assumes "users (db t) = [demo_root, b]" "u_id b = ''b2''" "u_email b = Some ''ann@x.io''" "faults t = []"
  shows "\<exists>t2. UpdateUser demo_env 10 ''b2'' ''a1'' [] ''root@x.io'' ''user'' False [] ''10.0.0.1:4000'' t = (Inr (), t2)"
  using assms
  by (simp add: UpdateUser_def audit_def run_defs sql_update_user_def matches_def demo_root_def
        nullif_def valid_role_def user_ref_def nullUUID_def update_where_def email_taken_def same_email_def ascii_lower_def)

lemma served_update:
  assumes "rq_Method x = ''POST''" "mux_redirect ''POST'' (rq_Path x) = None" "route_of ''POST'' (segments (rq_Path x)) = UpdateUserOf i"
    and "path_unescape i = i" "snd (updateUser demo_world demo_server i x p) = q"
  shows "snd (mux demo_world demo_server x p) = q"
  using assms by (simp add: mux_def dispatch_def)

lemma demo_middleware:
  assumes "request_session demo_env demo_manager 10 r (pl_store p) = (Inr (Some (v, c, e)), pl_store p)"
  shows "use_store (Middleware demo_env (hs_Auth demo_server) 10 ret r) p = (Inr (r\<lparr>rq_User := Some v\<rparr>), p)"
  by (simp add: Middleware_def User_def andThen_def use_store_run assms)

lemma demote_routes:
  "mux_redirect ''POST'' ''/platform/admin/users/b2'' = None" "mux_redirect ''POST'' ''/platform/admin/users/a1'' = None"
  "route_of ''POST'' (segments ''/platform/admin/users/a1'') = UpdateUserOf ''a1''"
  by (simp_all add: mux_redirect_def cleanPath_def segments_def route_of_def post_route_def admin_post_route_def)

lemma demote_requests [simp]:
  "rq_Method demote_ann = ''POST''" "rq_Method demote_root = ''POST''"
  "rq_Path demote_ann = ''/platform/admin/users/b2''" "rq_Path demote_root = ''/platform/admin/users/a1''"
  "rq_User demote_ann = None" "rq_User demote_root = None"
  by (simp_all add: demote_ann_def demote_root_def)

lemma demote_forms [simp]:
  "FormValue (demote_ann\<lparr>rq_User := u\<rparr>) k = first_value k [(''csrf'', RawEncode url_alphabet ''bbbb''), (''role'', ''user''), (''email'', ''ann@x.io'')]"
  "FormValue (demote_root\<lparr>rq_User := u\<rparr>) k = first_value k [(''csrf'', RawEncode url_alphabet ''bbbb''), (''role'', ''user''), (''email'', ''root@x.io'')]"
  "HeaderGet (demote_ann\<lparr>rq_User := u\<rparr>) h = []" "HeaderGet (demote_root\<lparr>rq_User := u\<rparr>) h = []"
  "rq_RemoteAddr demote_ann = ''10.0.0.1:4000''" "rq_RemoteAddr demote_root = ''10.0.0.1:4000''"
  by (simp_all add: demote_ann_def demote_root_def FormValue_def HeaderGet_def first_value_def demo_post_def demo_request_def)

lemma demote_cookies:
  "CookieOf (demote_ann\<lparr>rq_User := u\<rparr>) CookieName = Some (cookie_text demo_env demo_manager demo_token)"
  "CookieOf (demote_root\<lparr>rq_User := u\<rparr>) CookieName = Some (cookie_text demo_env demo_manager demo_token2)"
  "CookieOf demote_ann CookieName = Some (cookie_text demo_env demo_manager demo_token)"
  "CookieOf demote_root CookieName = Some (cookie_text demo_env demo_manager demo_token2)"
  by (simp_all add: CookieOf_def demote_ann_def demote_root_def demo_post_def demo_request_def)

lemma demote_mails: "TrimSpace ''root@x.io'' = ''root@x.io''" "TrimSpace ''ann@x.io'' = ''ann@x.io''"
  by (simp_all add: TrimSpace_def ascii_space_def wide_space2_def wide_space3_def)

lemma first_demotion:
  assumes "UpdateUser demo_env 10 ''a1'' ''b2'' [] ''ann@x.io'' ''user'' False [] ''10.0.0.1:4000'' (pl_store demo_pair_plane) = (Inr (), t)"
  shows "snd (mux demo_world demo_server (demote_ann\<lparr>rq_User := Some (scanUser demo_root)\<rparr>) demo_pair_plane) = demo_pair_plane\<lparr>pl_store := t\<rparr>"
proof (rule served_update [OF _ _ _ _ demotion_run [where u = "scanUser demo_root" and i = "''b2''"]])
  let ?s = "pl_store demo_pair_plane"
  have s: "sessions (db ?s) = [demo_admin_row, demo_boss_session]" "faults ?s = []" "users (db ?s) = [demo_root, demo_boss]"
    "u_id demo_boss = ''b2''" "\<not> u_disabled demo_boss"
    by (simp_all add: demo_pair_plane_def demo_pair_db_def demo_boss_def demo_ann_def)
  show "request_session demo_env demo_manager 10 (demote_ann\<lparr>rq_User := Some (scanUser demo_root)\<rparr>) ?s
      = (Inr (Some (scanUser demo_root, Hash demo_env (RawEncode url_alphabet ''bbbb''), 9 + sessionLifetime)), ?s)"
    by (rule pair_sessions(1) [OF s]) (rule demote_cookies)
qed (use assms demote_routes demo_routes(3) in \<open>simp_all add: first_value_def demote_mails demo_root_def IsAdmin_def scanUser_def\<close>)

lemma second_demotion:
  assumes "UpdateUser demo_env 10 ''b2'' ''a1'' [] ''root@x.io'' ''user'' False [] ''10.0.0.1:4000'' t = (Inr (), t2)"
    and s: "sessions (db t) = [demo_admin_row, demo_boss_session]" "faults t = []" "users (db t) = [demo_root, b]"
    and b: "u_id b = ''b2''" "\<not> u_disabled b"
  shows "snd (mux demo_world demo_server (demote_root\<lparr>rq_User := Some (scanUser demo_boss)\<rparr>) (demo_pair_plane\<lparr>pl_store := t\<rparr>))
    = demo_pair_plane\<lparr>pl_store := t2\<rparr>"
proof (rule served_update [OF _ _ _ _ trans [OF demotion_run [where u = "scanUser demo_boss" and i = "''a1''"]]])
  show "request_session demo_env demo_manager 10 (demote_root\<lparr>rq_User := Some (scanUser demo_boss)\<rparr>) (pl_store (demo_pair_plane\<lparr>pl_store := t\<rparr>))
      = (Inr (Some (scanUser b, Hash demo_env (RawEncode url_alphabet ''bbbb''), 9 + sessionLifetime)), pl_store (demo_pair_plane\<lparr>pl_store := t\<rparr>))"
    using pair_sessions(2) [OF s b demote_cookies(2)] by simp
qed (use assms(1) demote_routes in \<open>simp_all add: first_value_def demote_mails demo_boss_def demo_ann_def IsAdmin_def scanUser_def\<close>)


section \<open>A stale account is written back\<close>

lemma changePassword_303:
  assumes run: "changePassword W S r p = (Inr a, q)" and ok: "rs_Status a = 303"
  obtains u h s where "rq_User r = Some u"
    "UpdateUser (wd_Env W) (wd_Now W) (user_ID u) (user_ID u) (user_DisplayName u) (user_Email u) (user_Role u) (user_Disabled u) h
       (rq_RemoteAddr r) s = (Inr (), pl_store q)"
proof -
  from run ok obtain u where u: "rq_User r = Some u"
    by (auto simp: changePassword_def requireUser_def UserFromContext_def http_redirect_def split: option.splits)
  from run ok have "\<exists>h s. UpdateUser (wd_Env W) (wd_Now W) (user_ID u) (user_ID u) (user_DisplayName u) (user_Email u) (user_Role u) (user_Disabled u) h
       (rq_RemoteAddr r) s = (Inr (), pl_store q)"
    unfolding changePassword_def requireUser_def UserFromContext_def u option.case csrf_def
    by (auto simp: andThen_def attempt_apply use_store_run settled_def http_error_def aborted_def fail_def
        split: prod.splits sum.splits option.splits if_splits ctl_error.splits) blast
  with u that show thesis by blast
qed


text \<open>C39: A password change undoes what happened to the account meanwhile. \<open>changePassword\<close> writes back
  the role, the email and the display name that the middleware read when the request arrived: whenever
  it reports success, the account has these again, whatever an administrator has set in between. (The
  witness: an administrator who is demoted while such a request is on its way is one again.)\<close>

theorem password_change_restores_role:
  assumes "changePassword W S r p = (Inr a, q)" "rs_Status a = 303" "rq_User r = Some u"
    and "pg_uuid (wd_Env W) (user_ID u) = Some (user_ID u)"
  shows "\<forall>row \<in> set (users (db (pl_store q))). u_id row = user_ID u \<longrightarrow>
      u_role row = user_Role u \<and> u_email row = nullif (user_Email u) \<and> u_display_name row = user_DisplayName u"
proof (rule changePassword_303 [OF assms(1,2)])
  fix v h s assume v: "rq_User r = Some v" and upd: "UpdateUser (wd_Env W) (wd_Now W) (user_ID v) (user_ID v) (user_DisplayName v)
      (user_Email v) (user_Role v) (user_Disabled v) h (rq_RemoteAddr r) s = (Inr (), pl_store q)"
  from v assms(3) have "v = u" by simp
  with UpdateUser_users [OF upd] assms(4) have "users (db (pl_store q)) = update_where (\<lambda>x. u_id x = user_ID u)
      (\<lambda>x. x\<lparr>u_display_name := user_DisplayName u, u_email := nullif (user_Email u), u_role := user_Role u,
         u_disabled := user_Disabled u, u_updated_at := wd_Now W\<rparr>) (users (db s))" by auto
  then show ?thesis by (auto simp: update_where_def)
qed

text \<open>\<open>ann\<close> was an administrator when she sent the form and is none any more when it is answered.\<close>

definition demo_demoted_plane :: "cluster plane" where
  "demo_demoted_plane = demo_plane\<lparr>pl_store := demo_store\<lparr>db := demo_db\<lparr>sessions := [demo_session_row], credentials := [demo_credential]\<rparr>\<rparr>\<rparr>"

definition demo_new_password :: request where
  "demo_new_password = (demo_post ''/platform/account/password'' [(''current_password'', ''correct horse''), (''new_password'', ''a new password'')])
     \<lparr>rq_User := Some (scanUser demo_boss)\<rparr>"

theorem password_change_restores_role_witness:
  "\<exists>a q. changePassword demo_world demo_server demo_new_password demo_demoted_plane = (Inr a, q) \<and> rs_Status a = 303
     \<and> \<not> enabled_admin ''b2'' (db (pl_store demo_demoted_plane)) \<and> (\<forall>row \<in> set (users (db (pl_store q))). u_id row = ''b2'' \<longrightarrow> u_role row = ''admin'')"
proof -
  let ?r = demo_new_password and ?p = demo_demoted_plane
  have s: "pl_store ?p = demo_store\<lparr>db := demo_db\<lparr>sessions := [demo_session_row], credentials := [demo_credential]\<rparr>\<rparr>"
    by (simp add: demo_demoted_plane_def)
  have nodot: "CHR ''.'' \<notin> set demo_token" unfolding demo_token_def by (rule url_no_dot)
  have cookie: "CookieOf ?r CookieName = Some (cookie_text demo_env demo_manager demo_token)"
    unfolding demo_new_password_def by (rule demo_post_cookie)
  have "Session 10 (Hash demo_env demo_token) (pl_store ?p)
     = (Inr (scanUser demo_ann, Hash demo_env (RawEncode url_alphabet ''bbbb''), 9 + sessionLifetime), pl_store ?p)"
    by (simp add: s Session_def andThen_def fetch_no_faults attempt_apply stmt_no_faults session_join_def
        demo_session_row_def demo_rows sessionLifetime_def scanUser_def update_where_def five_minutes_def)
  then have session: "request_session demo_env demo_manager 10 ?r (pl_store ?p)
      = (Inr (Some (scanUser demo_ann, Hash demo_env (RawEncode url_alphabet ''bbbb''), 9 + sessionLifetime)), pl_store ?p)"
    unfolding request_session_cookie [OF cookie nodot] by simp
  have form: "FormValue ?r ''csrf'' = RawEncode url_alphabet ''bbbb''" "FormValue ?r ''current_password'' = ''correct horse''"
    "FormValue ?r ''new_password'' = ''a new password''" "HeaderGet ?r ''X-Csrf-Token'' = []" "rq_Method ?r = ''POST''"
    "rq_User ?r = Some (scanUser demo_boss)" "rq_RemoteAddr ?r = ''10.0.0.1:4000''"
    by (simp_all add: demo_new_password_def first_value_def)
  have csrf: "csrf demo_world demo_server ?r k ?p = k ?p" for k
    using session form by (simp add: csrf_def CSRFValid_def andThen_def use_store_run Let_def)
  have auth: "AuthenticateLocal demo_env ''ann'' (pl_store ?p) = (Inr (scanUser demo_ann, demo_hash), pl_store ?p)"
    by (simp add: s AuthenticateLocal_def fetch_no_faults same_username_def demo_rows demo_credential_def ascii_lower_def)
  have verify: "VerifyPassword demo_env demo_hash ''correct horse''"
    unfolding demo_hash_def VerifyPassword_own_hash [OF demo_crypto_ok] by (rule refl)
  obtain h where hash: "HashPassword demo_env (wd_Rand demo_world 0) ''a new password'' = Inr h" "h \<noteq> []"
    by (simp add: HashPassword_def ValidatePassword_def demo_world_def hash_prefix_def)
  have "\<exists>t. UpdateUser demo_env 10 ''b2'' ''b2'' ''Ann'' ''ann@x.io'' ''admin'' False h ''10.0.0.1:4000'' (pl_store ?p) = (Inr (), t)"
    using hash(2)
    by (simp add: s UpdateUser_def audit_def run_defs sql_update_user_def sql_upsert_credential_def upsert_def matches_def demo_rows
        nullif_def valid_role_def user_ref_def nullUUID_def update_where_def email_taken_def same_email_def ascii_lower_def)
  then obtain t where upd: "UpdateUser demo_env 10 ''b2'' ''b2'' ''Ann'' ''ann@x.io'' ''admin'' False h ''10.0.0.1:4000'' (pl_store ?p) = (Inr (), t)"
    by blast
  have boss: "u_id demo_boss = ''b2''" "u_username demo_boss = ''ann''" "u_display_name demo_boss = ''Ann''"
    "u_email demo_boss = Some ''ann@x.io''" "u_role demo_boss = ''admin''" "\<not> u_disabled demo_boss" "u_id demo_ann = ''b2''"
    by (simp_all add: demo_boss_def demo_ann_def)
  have run: "changePassword demo_world demo_server ?r ?p = (Inr (http_redirect ''/platform/'' 303), ?p\<lparr>pl_store := t\<rparr>)"
    unfolding changePassword_def requireUser_def UserFromContext_def form(6) option.case csrf
    using upd verify hash(1) by (simp add: andThen_def attempt_apply use_store_run boss auth form settled_def)
  from password_change_restores_role [OF run _ form(6)] run show ?thesis
    by (force simp: http_redirect_def boss ascii_lower_def s enabled_admin_def demo_rows)
qed

section \<open>With the missing check\<close>

text \<open>The check: a request is answered only if its user still is what the database says.\<close>

definition current :: "env \<Rightarrow> db \<Rightarrow> request \<Rightarrow> bool" where
  "current E d x \<longleftrightarrow> canonical_target E x
     \<and> (\<forall>u. rq_User x = Some u \<longrightarrow> (\<exists>row \<in> set (users d). \<not> u_disabled row \<and> u = scanUser row))"

lemma turn_keeps_admin:
  assumes ok: "uuid_ok E" "kube_ok K V" and step: "turn (current E) E K P S ty (p, fs) (q, gs)"
    and inv: "db_inv E (db (pl_store p))" and adm: "has_admin (db (pl_store p))"
  shows "has_admin (db (pl_store q))"
proof (cases rule: turnE [OF step])
  case (1 r now x p' i)
  with Middleware_result [OF inv 1(3)] adm show ?thesis by (simp add: has_admin_def enabled_admin_def)
next
  case (2 i x W)
  then have "has_admin (db (pl_store (snd (mux W S x p))))"
    by (intro mux_keeps_admin [of W E V p x S]) (use inv adm ok in \<open>auto simp: current_def\<close>)
  with 2 show ?thesis by simp
next
  case (4 i ph rnd rt now ph' p')
  from adm obtain b where b: "enabled_admin b (db (pl_store p))" by (auto simp: has_admin_def)
  from preservesD [OF admins.phase_keeps [OF ok(2)] _ 4(3)] b have "enabled_admin b (db (pl_store p'))"
    by (simp add: on_state_def)
  with 4 show ?thesis by (auto simp: has_admin_def)
next
  case (6 rnd now ticks)
  with preserves_snd [OF passes_keep(1) [OF ok(2)], of p] adm show ?thesis by (simp add: on_state_def)
next
  case (7 M input vs res t)
  with provision_run_keeps [OF _ _ 7(3)] inv adm ok(1) show ?thesis by (simp add: content_def)
qed (use adm in simp_all)

text \<open>Reading the account again is all that is missing. If every request is answered only while its
  user is an enabled account exactly as the database has it, then no interleaving, however long,
  leaves the platform without an administrator.\<close>

theorem rechecked_requests_keep_administrator:
  assumes "uuid_ok E" "kube_ok K V" "db_inv E (db (pl_store p0))" "has_admin (db (pl_store p0))"
    and "turns (current E) E K P S ty (p0, Map.empty) (p, fs)"
  shows "has_admin (db (pl_store p))"
proof -
  have "db_inv E (db (pl_store p)) \<and> has_admin (db (pl_store p))"
    using assms(5)
  proof (rule turns_invariant [where I = "\<lambda>p fs. db_inv E (db (pl_store p)) \<and> has_admin (db (pl_store p))"])
    show "db_inv E (db (pl_store p0)) \<and> has_admin (db (pl_store p0))" using assms(3,4) by simp
  qed (use turn_keeps_inv [OF assms(1,2)] turn_keeps_admin [OF assms(1,2)] in blast)
  then show ?thesis by simp
qed

text \<open>At the demo: the first demotion alone is answered while its user is current.\<close>

lemma demo_pair_inv: "db_inv demo_env (db (pl_store demo_pair_plane))"
  by (simp add: demo_pair_plane_def demo_pair_db_def db_inv_def db_ok_def table_ok_defs complete_def ids_def demo_rows mail_key_def
        valid_role_def valid_state_def uuid_canonical_def bigint_max_def ascii_lower_def demo_boss_def)
    (use demo_tokens in \<open>simp add: demo_admin_row_def demo_boss_session_def demo_session_row_def\<close>)

theorem rechecked_requests_keep_administrator_witness:
  "\<exists>p. turns (current demo_env) demo_env demo_api demo_parsers demo_server TYPE(unit) (demo_pair_plane, Map.empty) (p, Map.empty)
     \<and> has_admin (db (pl_store p)) \<and> users (db (pl_store p)) \<noteq> users (db (pl_store demo_pair_plane))"
proof -
  let ?s = "pl_store demo_pair_plane"
  let ?x1 = "demote_ann\<lparr>rq_User := Some (scanUser demo_root)\<rparr>"
  let ?turn = "turn (current demo_env) demo_env demo_api demo_parsers demo_server TYPE(unit)"
  have s: "sessions (db ?s) = [demo_admin_row, demo_boss_session]" "faults ?s = []" "users (db ?s) = [demo_root, demo_boss]"
    "u_id demo_boss = ''b2''" "\<not> u_disabled demo_boss"
    by (simp_all add: demo_pair_plane_def demo_pair_db_def demo_boss_def demo_ann_def)
  from first_update obtain t where t: "UpdateUser demo_env 10 ''a1'' ''b2'' [] ''ann@x.io'' ''user'' False [] ''10.0.0.1:4000'' ?s = (Inr (), t)"
    and us: "users (db t) = [demo_root, demo_boss\<lparr>u_role := ''user'', u_display_name := [], u_updated_at := 10\<rparr>]" by blast
  have 1: "?turn (demo_pair_plane, Map.empty) (demo_pair_plane, [0 \<mapsto> Admitted ?x1])"
    by (rule turn.admit [OF _ demo_middleware [OF pair_sessions(1) [OF s demote_cookies(3)]]]) simp_all
  have "current demo_env (db ?s) ?x1"
    by (simp add: current_def canonical_target_def demo_routes(3) ascii_lower_def s)
      (simp add: demo_root_def)
  then have "?turn (demo_pair_plane, [0 \<mapsto> Admitted ?x1]) (snd (mux demo_world demo_server ?x1 demo_pair_plane), [0 \<mapsto> Admitted ?x1](0 := None))"
    by (intro turn.answer) (simp_all add: demo_world_def)
  with first_demotion [OF t] have 2: "?turn (demo_pair_plane, [0 \<mapsto> Admitted ?x1]) (demo_pair_plane\<lparr>pl_store := t\<rparr>, Map.empty)" by simp
  have all: "turns (current demo_env) demo_env demo_api demo_parsers demo_server TYPE(unit) (demo_pair_plane, Map.empty) (demo_pair_plane\<lparr>pl_store := t\<rparr>, Map.empty)"
    using 1 2 by (meson converse_rtranclp_into_rtranclp rtranclp.rtrancl_refl)
  have adm: "has_admin (db ?s)" by (auto simp: has_admin_def enabled_admin_def s(3) demo_root_def)
  have "has_admin (db (pl_store (demo_pair_plane\<lparr>pl_store := t\<rparr>)))"
    by (rule rechecked_requests_keep_administrator [OF demo_uuid_ok demo_kube_ok demo_pair_inv adm all])
  moreover have "users (db t) \<noteq> users (db ?s)" by (simp add: us s(3) demo_boss_def demo_ann_def)
  ultimately show ?thesis using all by force
qed

end
