(* ===== verification/Commands.thy ===== *)
theory Commands
  imports Startup Races
begin

text \<open>
  The two programs as processes: \<open>cmd/provision/main.go\<close> with its output and exit code, and
  \<open>cmd/server/main.go\<close> from the start to the exit, with the signal that ends it. The text of the line on
  standard error is left out.
\<close>

section \<open>The provisioning command\<close>

record exit_status =
  ex_Code :: nat
  ex_Stdout :: string

text \<open>The report of a run, one line of JSON.\<close>

definition report :: "env \<Rightarrow> nat \<Rightarrow> bool \<Rightarrow> string" where
  "report E n oidc = json_text E (JObj [(''oidcConfigured'', JBool oidc), (''provisionedUsers'', JNum (int n))])
     @ [CHR 0x0A]"

text \<open>\<open>writable\<close>: standard output takes the report.\<close>

definition provision_main :: "'p command \<Rightarrow> bool \<Rightarrow> string \<Rightarrow> installation \<Rightarrow> exit_status \<times> installation" where
  "provision_main M writable input s = (case run M input s of
       (Inl e, t) \<Rightarrow> (\<lparr>ex_Code = 1, ex_Stdout = []\<rparr>, t)
     | (Inr (n, oidc), t) \<Rightarrow>
         (if writable then \<lparr>ex_Code = 0, ex_Stdout = report (cm_Env M) n oidc\<rparr> else \<lparr>ex_Code = 1, ex_Stdout = []\<rparr>, t))"

section \<open>The HTTP server\<close>

definition seconds :: "int \<Rightarrow> int" where
  "seconds n = n * 1000000000"

record http_server =
  sv_Addr :: string
  sv_ReadHeaderTimeout :: int
  sv_ReadTimeout :: int
  sv_WriteTimeout :: int
  sv_IdleTimeout :: int

definition new_http_server :: "config \<Rightarrow> http_server" where
  "new_http_server cfg = \<lparr>sv_Addr = cf_Address cfg, sv_ReadHeaderTimeout = seconds 10, sv_ReadTimeout = seconds 30,
     sv_WriteTimeout = 0, sv_IdleTimeout = seconds 90\<rparr>"

section \<open>The server process\<close>

text \<open>After the start the process listens. A signal cancels the context; then \<open>Shutdown\<close> closes the listener,
  which makes \<open>ListenAndServe\<close> return \<open>ErrServerClosed\<close> at once (so the documentation of \<open>net/http\<close>), and
  \<open>main\<close> returns. If \<open>ListenAndServe\<close> returns any other error the process exits with 1.\<close>

record 'k process =
  pc_Running :: "'k running"
  pc_Cancelled :: bool
  pc_Listening :: bool
  pc_Exit :: "nat option"

definition launched :: "'k host \<Rightarrow> 'k process" where
  "launched h = \<lparr>pc_Running = (first_plane h, Map.empty), pc_Cancelled = False, pc_Listening = True, pc_Exit = None\<rparr>"

inductive process_step :: "env \<Rightarrow> 'k kube_api \<Rightarrow> parsers \<Rightarrow> server \<Rightarrow> 'p itself \<Rightarrow> 'k process \<Rightarrow> 'k process \<Rightarrow> bool" for E K P S ty where
  working: "pc_Exit x = None \<Longrightarrow> turn anything E K P S ty (pc_Running x) r \<Longrightarrow>
    pc_Listening x \<or> dom (snd r) \<subseteq> dom (snd (pc_Running x)) \<Longrightarrow> process_step E K P S ty x (x\<lparr>pc_Running := r\<rparr>)"
| signalled: "pc_Exit x = None \<Longrightarrow> process_step E K P S ty x (x\<lparr>pc_Cancelled := True\<rparr>)"
| closed: "pc_Exit x = None \<Longrightarrow> pc_Cancelled x \<Longrightarrow> process_step E K P S ty x (x\<lparr>pc_Listening := False\<rparr>)"
| returns: "pc_Exit x = None \<Longrightarrow> \<not> pc_Listening x \<Longrightarrow> process_step E K P S ty x (x\<lparr>pc_Exit := Some 0\<rparr>)"
| broken: "pc_Exit x = None \<Longrightarrow> pc_Listening x \<Longrightarrow> process_step E K P S ty x (x\<lparr>pc_Exit := Some 1\<rparr>)"

text \<open>\<open>main\<close> as a whole: a start that fails exits with 1.\<close>

definition server_process :: "('c, 'k) boot \<Rightarrow> 'k host \<Rightarrow> nat + ('k kube_api \<times> server \<times> 'k process)" where
  "server_process B h = (case server_main B h of
       (Inl e, h') \<Rightarrow> Inl 1
     | (Inr (K, S), h') \<Rightarrow> Inr (K, S, launched h'))"

inductive_cases process_stepE: "process_step E K P S ty x y"

section \<open>From the start to the exit\<close>

text \<open>What holds of a process at any time: its work is reachable by turns, and it exits as it should.\<close>

definition process_ok :: "env \<Rightarrow> 'k kube_api \<Rightarrow> parsers \<Rightarrow> server \<Rightarrow> 'p itself \<Rightarrow> 'k plane \<Rightarrow> 'k process \<Rightarrow> bool" where
  "process_ok E K P S ty p0 x \<longleftrightarrow> turns anything E K P S ty (p0, Map.empty) (pc_Running x)
     \<and> (\<not> pc_Listening x \<longrightarrow> pc_Cancelled x)
     \<and> (case pc_Exit x of None \<Rightarrow> True | Some c \<Rightarrow> c = (if pc_Listening x then 1 else 0))"

lemma process_step_ok: "process_step E K P S ty x y \<Longrightarrow> process_ok E K P S ty p0 x \<Longrightarrow> process_ok E K P S ty p0 y"
  by (cases rule: process_step.cases) (auto simp: process_ok_def)

lemma process_steps_ok:
  assumes "(process_step E K P S ty)\<^sup>*\<^sup>* x y" "process_ok E K P S ty p0 x"
  shows "process_ok E K P S ty p0 y"
  using assms by (induction rule: rtranclp_induct) (auto intro: process_step_ok)

lemma server_process_started:
  assumes "server_process B h = Inr (K, S, x)"
  obtains h' where "server_main B h = (Inr (K, S), h')" "x = launched h'"
  using assms by (auto simp: server_process_def split: prod.splits sum.splits)


lemma exit_zero_reached:
  assumes "pc_Exit x = None"
  shows "\<exists>y. (process_step E K P S ty)\<^sup>*\<^sup>* x y \<and> pc_Exit y = Some 0 \<and> pc_Running y = pc_Running x"
proof -
  let ?a = "x\<lparr>pc_Cancelled := True\<rparr>"
  let ?b = "?a\<lparr>pc_Listening := False\<rparr>"
  have "process_step E K P S ty x ?a" using assms by (rule process_step.signalled)
  moreover have "process_step E K P S ty ?a ?b" by (rule process_step.closed) (simp_all add: assms)
  moreover have "process_step E K P S ty ?b (?b\<lparr>pc_Exit := Some 0\<rparr>)" by (rule process_step.returns) (simp_all add: assms)
  ultimately have "(process_step E K P S ty)\<^sup>*\<^sup>* x (?b\<lparr>pc_Exit := Some 0\<rparr>)"
    by (meson converse_rtranclp_into_rtranclp rtranclp.rtrancl_refl)
  then show ?thesis by (rule exI [of _ "?b\<lparr>pc_Exit := Some 0\<rparr>", OF conjI]) simp
qed


text \<open>The exit code of the provisioning command. It is 0 exactly when the run succeeded and its report
  was written; the report then says how many entries of the manifest were carried out.\<close>

theorem provision_exit_code:
  "(case provision_main M writable input s of (x, t) \<Rightarrow> t = snd (run M input s)
     \<and> (ex_Code x = 0 \<longleftrightarrow> writable \<and> (\<exists>n oidc. fst (run M input s) = Inr (n, oidc) \<and> ex_Stdout x = report (cm_Env M) n oidc))
     \<and> (ex_Code x \<noteq> 0 \<longrightarrow> ex_Code x = 1 \<and> ex_Stdout x = []))"
  by (auto simp: provision_main_def split: prod.splits sum.splits)

section \<open>Demos\<close>



end
