(* ===== verification/Loop.thy ===== *)
theory Loop
  imports KubeActions
begin

text \<open>
  The reconcile loop when the world answers: if the API server serves every valid call and the database
  answers, every operation on a workspace succeeds, and one pass brings every workspace in line,
  whatever the cluster held before.
\<close>

section \<open>An API server that answers\<close>

text \<open>A call that is valid in the current state is served: a \<open>Get\<close> finds what there is, a \<open>Create\<close> of an absent
  object and an \<open>Update\<close> with the stored resource version succeed.\<close>

definition answering :: "('k, 'o) client \<Rightarrow> ('k \<Rightarrow> 'o objects) \<Rightarrow> ('o \<Rightarrow> object_meta) \<Rightarrow> bool" where
  "answering cl view meta_of \<longleftrightarrow>
     (\<forall>n x k. view k (n, x) = None \<longrightarrow> fst (cl_Get cl n x k) = Inl KNotFound)
   \<and> (\<forall>n x k q. view k (n, x) = Some q \<and> om_Name (meta_of q) = x \<longrightarrow> fst (cl_Get cl n x k) = Inr q)
   \<and> (\<forall>n ob k. view k (n, om_Name (meta_of ob)) = None \<longrightarrow> fst (cl_Create cl n ob k) = Inr ())
   \<and> (\<forall>n ob k q. view k (n, om_Name (meta_of ob)) = Some q \<and> om_ResourceVersion (meta_of ob) = om_ResourceVersion (meta_of q)
        \<longrightarrow> fst (cl_Update cl n ob k) = Inr ())"

definition api_answers :: "'k kube_api \<Rightarrow> 'k views \<Rightarrow> bool" where
  "api_answers K V \<longleftrightarrow> answering (ka_PVCs K) (vw_PVCs V) pvc_Meta \<and> answering (ka_Secrets K) (vw_Secrets V) sc_Meta
     \<and> answering (ka_Services K) (vw_Services V) sv_Meta \<and> answering (ka_Deployments K) (vw_Deployments V) dp_Meta"

text \<open>Objects are stored under their names.\<close>

definition well_named :: "('o \<Rightarrow> object_meta) \<Rightarrow> 'o objects \<Rightarrow> bool" where
  "well_named meta_of v \<longleftrightarrow> (\<forall>n x q. v (n, x) = Some q \<longrightarrow> om_Name (meta_of q) = x)"

definition tidy :: "'k views \<Rightarrow> 'k \<Rightarrow> bool" where
  "tidy V k \<longleftrightarrow> well_named pvc_Meta (vw_PVCs V k) \<and> well_named sc_Meta (vw_Secrets V k)
     \<and> well_named sv_Meta (vw_Services V k) \<and> well_named dp_Meta (vw_Deployments V k)"

text \<open>A move stores its object under the object's own name.\<close>

lemma well_named_moves:
  assumes "well_named meta_of v" "v' = v \<or> (\<exists>ob. stores agrees v (n, x) ob v' \<and> om_Name (meta_of ob) = x)"
    and "\<And>ob q. agrees ob q \<Longrightarrow> om_Name (meta_of q) = om_Name (meta_of ob)"
  shows "well_named meta_of v'"
  using assms by (auto simp: well_named_def stores_def split: if_splits)

lemma agrees_names:
  "pvc_agrees a b \<Longrightarrow> om_Name (pvc_Meta b) = om_Name (pvc_Meta a)" "secret_agrees c d \<Longrightarrow> om_Name (sc_Meta d) = om_Name (sc_Meta c)"
  "service_agrees e f \<Longrightarrow> om_Name (sv_Meta f) = om_Name (sv_Meta e)" "deployment_agrees g h \<Longrightarrow> om_Name (dp_Meta h) = om_Name (dp_Meta g)"
  by (simp_all add: pvc_agrees_def secret_agrees_def service_agrees_def deployment_agrees_def meta_agrees_def)

lemma all_moves_tidy:
  assumes "all_moves E V C w d k k'" "tidy V k"
  shows "tidy V k'"
proof -
  from assms have k: "well_named pvc_Meta (vw_PVCs V k)" "well_named sc_Meta (vw_Secrets V k)"
    "well_named sv_Meta (vw_Services V k)" "well_named dp_Meta (vw_Deployments V k)"
    and moves: "pvc_moves C w d (vw_PVCs V k) (vw_PVCs V k')" "secret_moves E C w d (vw_Secrets V k) (vw_Secrets V k')"
    "service_moves C w d (vw_Services V k) (vw_Services V k')" "deployment_moves C w d (vw_Deployments V k) (vw_Deployments V k')"
    by (simp_all add: tidy_def all_moves_def)
  have "well_named pvc_Meta (vw_PVCs V k')" using moves(1) unfolding pvc_moves_def
    by (intro well_named_moves [where agrees = pvc_agrees and n = "namespace C" and x = "ws_ResourceName w", OF k(1) _ agrees_names(1)])
      (use names in blast)+
  moreover have "om_Name (sc_Meta cur) = auth_name w" if "vw_Secrets V k (namespace C, auth_name w) = Some cur" for cur
    using k(2) that by (auto simp: well_named_def)
  then have "well_named sc_Meta (vw_Secrets V k')" using moves(2) unfolding secret_moves_def
    by (intro well_named_moves [where agrees = secret_agrees and n = "namespace C" and x = "auth_name w", OF k(2) _ agrees_names(2)])
      (metis names(2,5))+
  moreover have "well_named sv_Meta (vw_Services V k')" using moves(3) unfolding service_moves_def
    by (intro well_named_moves [where agrees = service_agrees and n = "namespace C" and x = "ws_ResourceName w", OF k(3) _ agrees_names(3)])
      (use names in blast)+
  moreover have "well_named dp_Meta (vw_Deployments V k')" using moves(4) unfolding deployment_moves_def
    by (intro well_named_moves [where agrees = deployment_agrees and n = "namespace C" and x = "ws_ResourceName w", OF k(4) _ agrees_names(4)])
      (use names in blast)+
  ultimately show ?thesis by (simp add: tidy_def)
qed

section \<open>Every operation succeeds\<close>

lemma get_answers:
  assumes "client_ok cl view (\<lambda>q. om_Name (meta_of q)) agrees others" "answering cl view meta_of" "well_named meta_of (view k)"
  obtains k1 where "cl_Get cl n x k = (case view k (n, x) of None \<Rightarrow> Inl KNotFound | Some q \<Rightarrow> Inr q, k1)" "view k1 = view k"
proof -
  obtain r k1 where g: "cl_Get cl n x k = (r, k1)" by (cases "cl_Get cl n x k")
  have "view k1 = view k" using client_okD(1) [OF assms(1) g] by (simp add: get_ok_def)
  moreover have "r = (case view k (n, x) of None \<Rightarrow> Inl KNotFound | Some q \<Rightarrow> Inr q)"
  proof (cases "view k (n, x)")
    case None
    with assms(2) have "fst (cl_Get cl n x k) = Inl KNotFound" by (simp add: answering_def)
    with g None show ?thesis by simp
  next
    case (Some q)
    with assms(3) have "om_Name (meta_of q) = x" by (auto simp: well_named_def)
    with Some assms(2) have "fst (cl_Get cl n x k) = Inr q" unfolding answering_def by blast
    with g Some show ?thesis by simp
  qed
  ultimately show thesis using g that by simp
qed

lemma create_answers:
  "answering cl view meta_of \<Longrightarrow> view k (n, om_Name (meta_of ob)) = None \<Longrightarrow> \<exists>k'. cl_Create cl n ob k = (Inr (), k')"
  unfolding answering_def by (metis prod.collapse)

lemma update_answers:
  "answering cl view meta_of \<Longrightarrow> view k (n, om_Name (meta_of ob)) = Some q \<Longrightarrow>
   om_ResourceVersion (meta_of ob) = om_ResourceVersion (meta_of q) \<Longrightarrow> \<exists>k'. cl_Update cl n ob k = (Inr (), k')"
  unfolding answering_def by (metis prod.collapse)

lemma ensurePVC_succeeds:
  assumes "kube_ok K V" "api_answers K V" "well_named pvc_Meta (vw_PVCs V k)" "ka_QuantityOk K (wk_StorageSize (wkcfg C))"
  shows "\<exists>k'. ensurePVC K C w (s, k) = (Inr (), (s, k'))"
proof -
  have a: "answering (ka_PVCs K) (vw_PVCs V) pvc_Meta" "well_named pvc_Meta (vw_PVCs V k)"
    using assms by (simp_all add: api_answers_def)
  obtain k1 where g: "cl_Get (ka_PVCs K) (namespace C) (ws_ResourceName w) k
      = (case vw_PVCs V k (namespace C, ws_ResourceName w) of None \<Rightarrow> Inl KNotFound | Some q \<Rightarrow> Inr q, k1)" "vw_PVCs V k1 = vw_PVCs V k"
    by (rule get_answers [OF kube_okD(1) [OF assms(1)] a])
  show ?thesis
  proof (cases "vw_PVCs V k (namespace C, ws_ResourceName w)")
    case None
    with g create_answers [OF a(1), of k1 "namespace C" "new_pvc C w"] assms(4) show ?thesis
      by (auto simp: ensurePVC_def andThen_def attempt_apply on_kube_run)
  next
    case (Some q)
    with g show ?thesis by (auto simp: ensurePVC_def andThen_def attempt_apply on_kube_run)
  qed
qed

lemma ensureService_succeeds:
  assumes "kube_ok K V" "api_answers K V" "well_named sv_Meta (vw_Services V k)"
  shows "\<exists>k'. ensureService K C w (s, k) = (Inr (), (s, k'))"
proof -
  have a: "answering (ka_Services K) (vw_Services V) sv_Meta" "well_named sv_Meta (vw_Services V k)"
    using assms by (simp_all add: api_answers_def)
  obtain k1 where g: "cl_Get (ka_Services K) (namespace C) (ws_ResourceName w) k
      = (case vw_Services V k (namespace C, ws_ResourceName w) of None \<Rightarrow> Inl KNotFound | Some q \<Rightarrow> Inr q, k1)" "vw_Services V k1 = vw_Services V k"
    by (rule get_answers [OF kube_okD(3) [OF assms(1)] a])
  show ?thesis
  proof (cases "vw_Services V k (namespace C, ws_ResourceName w)")
    case None
    with g create_answers [OF a(1), of k1 "namespace C" "new_service C w"] show ?thesis
      by (auto simp: ensureService_def andThen_def attempt_apply on_kube_run)
  next
    case (Some q)
    with g show ?thesis by (auto simp: ensureService_def andThen_def attempt_apply on_kube_run)
  qed
qed

lemma ensureDeployment_succeeds:
  assumes "kube_ok K V" "api_answers K V" "well_named dp_Meta (vw_Deployments V k)" "list_all (ka_QuantityOk K) (quantities C)"
  shows "\<exists>k'. ensureDeployment K C w (s, k) = (Inr (), (s, k'))"
proof -
  have a: "answering (ka_Deployments K) (vw_Deployments V) dp_Meta" "well_named dp_Meta (vw_Deployments V k)"
    using assms by (simp_all add: api_answers_def)
  obtain k1 where g: "cl_Get (ka_Deployments K) (namespace C) (ws_ResourceName w) k
      = (case vw_Deployments V k (namespace C, ws_ResourceName w) of None \<Rightarrow> Inl KNotFound | Some q \<Rightarrow> Inr q, k1)"
    "vw_Deployments V k1 = vw_Deployments V k"
    by (rule get_answers [OF kube_okD(4) [OF assms(1)] a])
  show ?thesis
  proof (cases "vw_Deployments V k (namespace C, ws_ResourceName w)")
    case None
    with g create_answers [OF a(1), of k1 "namespace C" "new_deployment C w"] assms(4) show ?thesis
      by (auto simp: ensureDeployment_def andThen_def attempt_apply on_kube_run Let_def)
  next
    case (Some q)
    let ?d = "(new_deployment C w)\<lparr>dp_Meta := (dp_Meta (new_deployment C w))\<lparr>om_ResourceVersion := om_ResourceVersion (dp_Meta q)\<rparr>\<rparr>"
    from Some g(2) update_answers [OF a(1), of k1 "namespace C" ?d q] obtain k2
      where "cl_Update (ka_Deployments K) (namespace C) ?d k1 = (Inr (), k2)" by auto
    with Some g assms(4) show ?thesis by (auto simp: ensureDeployment_def andThen_def attempt_apply on_kube_run Let_def)
  qed
qed

text \<open>A configuration that can be read: there is none, or it is sealed with the key at hand.\<close>

definition readable :: "env \<Rightarrow> db \<Rightarrow> string \<Rightarrow> bool" where
  "readable E d i \<longleftrightarrow> (case fst (WorkspaceConfiguration E i (quiet_store d)) of Inr _ \<Rightarrow> True | Inl e \<Rightarrow> e = ErrNotFound)"

lemma read_configuration_answers:
  assumes "faults s = []" "readable E (db s) (ws_UserID w)"
  shows "read_configuration E w (s, k) = (Inr (configuration_in E (db s) (ws_UserID w)), (s, k))"
  using assms WorkspaceConfiguration_quiet [OF assms(1), of E "ws_UserID w"]
  by (auto simp: read_configuration_def andThen_def attempt_apply on_store_run readable_def configuration_in_def split: sum.splits)

lemma ensureSecret_succeeds:
  assumes "kube_ok K V" "api_answers K V" "well_named sc_Meta (vw_Secrets V k)" "rnd (ws_ResourceName w) \<noteq> None"
    and "faults s = []" "readable E (db s) (ws_UserID w)"
  shows "\<exists>k'. ensureSecret E K C rnd w (s, k) = (Inr (), (s, k'))"
proof -
  have a: "answering (ka_Secrets K) (vw_Secrets V) sc_Meta" "well_named sc_Meta (vw_Secrets V k)"
    using assms by (simp_all add: api_answers_def)
  obtain k1 where g: "cl_Get (ka_Secrets K) (namespace C) (auth_name w) k
      = (case vw_Secrets V k (namespace C, auth_name w) of None \<Rightarrow> Inl KNotFound | Some q \<Rightarrow> Inr q, k1)"
    "vw_Secrets V k1 = vw_Secrets V k"
    by (rule get_answers [OF kube_okD(2) [OF assms(1)] a])
  let ?cfg = "configuration_in E (db s) (ws_UserID w)"
  note read = read_configuration_answers [OF assms(5,6), of k]
  show ?thesis
  proof (cases "vw_Secrets V k (namespace C, auth_name w)")
    case None
    from assms(4) obtain pw where pw: "rnd (ws_ResourceName w) = Some pw" by blast
    from None g(2) create_answers [OF a(1), of k1 "namespace C" "new_secret C w ?cfg pw"] obtain k2
      where "cl_Create (ka_Secrets K) (namespace C) (new_secret C w ?cfg pw) k1 = (Inr (), k2)" by auto
    with None g(1) read pw show ?thesis by (simp add: ensureSecret_def andThen_def attempt_apply on_kube_run)
  next
    case (Some q)
    with a(2) have name: "om_Name (sc_Meta (updated_secret ?cfg q)) = auth_name w" by (auto simp: well_named_def)
    have "om_ResourceVersion (sc_Meta (updated_secret ?cfg q)) = om_ResourceVersion (sc_Meta q)" by (simp add: updated_secret_def)
    from Some g(2) name update_answers [OF a(1) _ this, of k1 "namespace C"] obtain k2
      where "cl_Update (ka_Secrets K) (namespace C) (updated_secret ?cfg q) k1 = (Inr (), k2)" by auto
    with Some g(1) read show ?thesis by (simp add: ensureSecret_def andThen_def attempt_apply on_kube_run)
  qed
qed

text \<open>What the API server and the configuration have to offer for any workspace.\<close>

definition well_equipped :: "'k kube_api \<Rightarrow> 'k views \<Rightarrow> controller \<Rightarrow> bool" where
  "well_equipped K V C \<longleftrightarrow> kube_ok K V \<and> api_answers K V
     \<and> list_all (ka_QuantityOk K) (wk_StorageSize (wkcfg C) # quantities C)"

lemma Reconcile_succeeds:
  assumes eq: "well_equipped K V C" and t: "tidy V k" and rnd: "rnd (ws_ResourceName w) \<noteq> None"
    and s: "faults s = []" "readable E (db s) (ws_UserID w)"
  obtains k' where "Reconcile E K C rnd w (s, k) = (Inr (), (s, k'))" "all_moves E V C w (db s) k k'"
    "all_goals E V C w (db s) k'" "tidy V k'"
proof -
  from eq have ok: "kube_ok K V" "api_answers K V" and q: "ka_QuantityOk K (wk_StorageSize (wkcfg C))" "list_all (ka_QuantityOk K) (quantities C)"
    by (simp_all add: well_equipped_def)
  note named = t [unfolded tidy_def]
  obtain k1 where 1: "ensurePVC K C w (s, k) = (Inr (), (s, k1))"
    using ensurePVC_succeeds [OF ok _ q(1)] named by blast
  note f1 = pvc_step.frame [OF ok(1) 1]
  with named obtain k2 where 2: "ensureSecret E K C rnd w (s, k1) = (Inr (), (s, k2))"
    using ensureSecret_succeeds [where w = w and rnd = rnd and k = k1, OF ok _ rnd s] by auto
  note f2 = secret_step.frame [OF ok(1) 2]
  with f1 named obtain k3 where 3: "ensureService K C w (s, k2) = (Inr (), (s, k3))"
    using ensureService_succeeds [where w = w and k = k2, OF ok] by auto
  note f3 = service_step.frame [OF ok(1) 3]
  with f1 f2 named obtain k4 where 4: "ensureDeployment K C w (s, k3) = (Inr (), (s, k4))"
    using ensureDeployment_succeeds [where w = w and k = k3, OF ok _ q(2)] by auto
  have run: "Reconcile E K C rnd w (s, k) = (Inr (), (s, k4))"
    by (simp add: Reconcile_def andThen_def 1 2 3 4)
  with Reconcile_run [OF ok(1) run] all_moves_tidy [OF _ t] that show thesis by blast
qed

section \<open>One pass\<close>

text \<open>The moves for one workspace do not touch the objects of another.\<close>

lemma moves_keep_goals:
  assumes moves: "all_moves E V C w d k k'" and other: "ws_ResourceName w' \<noteq> ws_ResourceName w" and goals: "all_goals E V C w' d k"
  shows "all_goals E V C w' d k'"
proof -
  from other have "auth_name w' \<noteq> auth_name w" by (simp add: auth_name_def)
  with moves have "vw_PVCs V k' (namespace C, ws_ResourceName w') = vw_PVCs V k (namespace C, ws_ResourceName w')"
    "vw_Secrets V k' (namespace C, auth_name w') = vw_Secrets V k (namespace C, auth_name w')"
    "vw_Services V k' (namespace C, ws_ResourceName w') = vw_Services V k (namespace C, ws_ResourceName w')"
    "vw_Deployments V k' (namespace C, ws_ResourceName w') = vw_Deployments V k (namespace C, ws_ResourceName w')"
    using other by (auto simp: all_moves_def pvc_moves_def secret_moves_def service_moves_def deployment_moves_def stores_def)
  with goals show ?thesis
    by (simp add: all_goals_def pvc_goal_def secret_goal_def service_goal_def deployment_goal_def)
qed

text \<open>What the loop needs of a workspace row: a source of passwords and a readable configuration.\<close>

definition servable :: "env \<Rightarrow> (string \<Rightarrow> string option) \<Rightarrow> db \<Rightarrow> workspace_row \<Rightarrow> bool" where
  "servable E rnd d r \<longleftrightarrow> rnd (w_resource_name r) \<noteq> None \<and> readable E d (w_user_id r)"

lemma reconcile_each_succeeds:
  assumes eq: "well_equipped K V C" and s: "faults s = []"
    and "tidy V k" "distinct (map ws_ResourceName ws)"
    and "\<forall>w \<in> set ws. rnd (ws_ResourceName w) \<noteq> None \<and> readable E (db s) (ws_UserID w)"
    and "\<forall>w \<in> ds. all_goals E V C w (db s) k \<and> ws_ResourceName w \<notin> ws_ResourceName ` set ws"
  shows "\<exists>k'. reconcile_each E K C rnd ws (s, k) = (Inr (), (s, k')) \<and> tidy V k'
    \<and> (\<forall>w \<in> ds \<union> set ws. all_goals E V C w (db s) k')"
  using assms(3-)
proof (induction ws arbitrary: k ds)
  case Nil
  then show ?case by auto
next
  case (Cons w ws)
  from Cons.prems obtain k1 where run: "Reconcile E K C rnd w (s, k) = (Inr (), (s, k1))" and moves: "all_moves E V C w (db s) k k1"
    and goals: "all_goals E V C w (db s) k1" and t: "tidy V k1"
    using Reconcile_succeeds [OF eq, of k rnd w s E] s by auto
  have "all_goals E V C w' (db s) k1 \<and> ws_ResourceName w' \<notin> ws_ResourceName ` set ws" if "w' \<in> insert w ds" for w'
    using that Cons.prems goals moves_keep_goals [OF moves] by auto
  with Cons.IH [OF t, of "insert w ds"] Cons.prems obtain k' where
    "reconcile_each E K C rnd ws (s, k1) = (Inr (), (s, k'))" "tidy V k'" "\<forall>w \<in> insert w ds \<union> set ws. all_goals E V C w (db s) k'"
    by auto
  with run show ?case by (auto simp: andThen_def attempt_apply)
qed

text \<open>The database after the idle sweep.\<close>

definition swept :: "controller \<Rightarrow> int \<Rightarrow> db \<Rightarrow> db" where
  "swept C now d = (if wk_IdleTimeout (wkcfg C) > 0 then d\<lparr>workspaces := update_where (idle_row (now - wk_IdleTimeout (wkcfg C)))
     (\<lambda>r. r\<lparr>w_desired_state := ''stopped'', w_updated_at := now\<rparr>) (workspaces d)\<rparr> else d)"

lemma swept_keeps [simp]:
  "configurations (swept C now d) = configurations d" "users (swept C now d) = users d"
  "map w_resource_name (workspaces (swept C now d)) = map w_resource_name (workspaces d)"
  "map w_user_id (workspaces (swept C now d)) = map w_user_id (workspaces d)"
  by (simp_all add: swept_def update_where_def)

lemma servable_swept:
  assumes "\<forall>r \<in> set (workspaces d). servable E rnd d r"
  shows "\<forall>r \<in> set (workspaces (swept C now d)). servable E rnd (swept C now d) r"
proof
  have same: "readable E (swept C now d) i = readable E d i" for i
    by (simp add: readable_def WorkspaceConfiguration_cong [of "swept C now d" d])
  fix r assume "r \<in> set (workspaces (swept C now d))"
  then obtain r0 where "r0 \<in> set (workspaces d)" "w_resource_name r = w_resource_name r0" "w_user_id r = w_user_id r0"
    by (auto simp: swept_def set_update_where split: if_splits)
  with assms show "servable E rnd (swept C now d) r" by (simp add: servable_def same)
qed

lemma reconcileAll_succeeds:
  assumes eq: "well_equipped K V C" and s: "faults s = []" and t: "tidy V k"
    and names: "distinct (map w_resource_name (workspaces (db s)))"
    and rows: "\<forall>r \<in> set (workspaces (db s)). servable E rnd (db s) r"
  shows "\<exists>k'. reconcileAll E K C rnd now (s, k) = (Inr (), (s\<lparr>db := swept C now (db s)\<rparr>, k')) \<and> tidy V k'
    \<and> (\<forall>r \<in> set (workspaces (swept C now (db s))). all_goals E V C (scanWorkspace (swept C now (db s)) r) (swept C now (db s)) k')"
proof -
  let ?d = "swept C now (db s)"
  let ?s = "s\<lparr>db := ?d\<rparr>"
  let ?ws = "map (scanWorkspace ?d) (sort_key w_created_at (workspaces ?d))"
  have fields: "ws_ResourceName (scanWorkspace d r) = w_resource_name r" "ws_UserID (scanWorkspace d r) = w_user_id r" for d r
    by (simp_all add: scanWorkspace_def)
  have "distinct (map w_resource_name (workspaces ?d))" using names by (simp only: swept_keeps)
  then have "distinct (map ws_ResourceName ?ws)"
    by (simp only: map_map comp_def fields) (simp add: distinct_map del: swept_keeps)
  moreover have "\<forall>w \<in> set ?ws. rnd (ws_ResourceName w) \<noteq> None \<and> readable E (db ?s) (ws_UserID w)"
    using servable_swept [OF rows, of C now] by (simp add: servable_def fields)
  ultimately obtain k' where each: "reconcile_each E K C rnd ?ws (?s, k) = (Inr (), (?s, k'))" and "tidy V k'"
    "\<forall>w \<in> set ?ws. all_goals E V C w ?d k'"
    using reconcile_each_succeeds [OF eq, of ?s k ?ws rnd E "{}"] s t by auto
  moreover have "reconcileAll E K C rnd now (s, k) = reconcile_each E K C rnd ?ws (?s, k)"
    using s by (simp add: reconcileAll_def andThen_def attempt_apply on_store_run IdleWorkspaces_def ListWorkspaces_def
        stmt_no_faults fetch_no_faults swept_def)
  ultimately show ?thesis by auto
qed

section \<open>The loop\<close>

lemma swept_not_idle:
  "wk_IdleTimeout (wkcfg C) > 0 \<Longrightarrow> r \<in> set (workspaces (swept C now d)) \<Longrightarrow> \<not> idle_row (now - wk_IdleTimeout (wkcfg C)) r"
  by (auto simp: swept_def set_update_where idle_row_def)

lemma Run_succeeds:
  assumes eq: "well_equipped K V C" and "faults s = []" "tidy V k" "distinct (map w_resource_name (workspaces (db s)))"
    and "\<forall>r \<in> set (workspaces (db s)). servable E rnd (db s) r"
  shows "\<exists>s' k' d. Run E K C rnd now ticks (s, k) = (Inr (), (s', k')) \<and> db s' = fold (swept C) (now # ticks) (db s)
    \<and> db s' = swept C (last (now # ticks)) d \<and> (\<forall>r \<in> set (workspaces (db s')). all_goals E V C (scanWorkspace (db s') r) (db s') k')"
  using assms(2-)
proof (induction ticks arbitrary: now s k)
  case Nil
  from reconcileAll_succeeds [OF eq Nil.prems, of now] show ?case by auto
next
  case (Cons t ticks)
  from reconcileAll_succeeds [OF eq Cons.prems, of now] obtain k1 where
    run: "reconcileAll E K C rnd now (s, k) = (Inr (), (s\<lparr>db := swept C now (db s)\<rparr>, k1))" and tidy: "tidy V k1" by blast
  let ?s = "s\<lparr>db := swept C now (db s)\<rparr>"
  have "faults ?s = []" "distinct (map w_resource_name (workspaces (db ?s)))"
    "\<forall>r \<in> set (workspaces (db ?s)). servable E rnd (db ?s) r"
    using Cons.prems servable_swept [OF Cons.prems(4)] by (simp_all del: map_eq_conv)
  from Cons.IH [OF this(1) tidy this(2,3), of t] run show ?case by (simp add: andThen_def)
qed

text \<open>C12: Where the cluster and the database answer, the reconcile loop never fails and keeps every
  workspace in line. Whatever \<open>Run\<close> finds in the cluster at its start, and for every sequence of
  ticks, it runs to the end of its last pass without an error; the database is changed by the idle
  sweeps alone; no workspace whose last activity is older than the idle timeout at the last tick is still
  meant to run; and the claim, the service, the secret (with the revision of the current configuration)
  and the deployment (with one replica exactly if the workspace is meant to run, and its restart nonce)
  of every workspace are in the cluster.\<close>

theorem healthy_loop_converges:
  assumes eq: "well_equipped K V C" and tidy: "tidy V k"
    and inv: "db_inv E (db s)" and quiet: "faults s = []"
    and rows: "\<forall>r \<in> set (workspaces (db s)). servable E rnd (db s) r"
  shows "\<exists>s' k'. Run E K C rnd now ticks (s, k) = (Inr (), (s', k'))
    \<and> db s' = fold (swept C) (now # ticks) (db s)
    \<and> (\<forall>r \<in> set (workspaces (db s')).
         (wk_IdleTimeout (wkcfg C) > 0 \<longrightarrow> \<not> idle_row (last (now # ticks) - wk_IdleTimeout (wkcfg C)) r)
       \<and> vw_PVCs V k' (namespace C, w_resource_name r) \<noteq> None
       \<and> vw_Services V k' (namespace C, w_resource_name r) \<noteq> None
       \<and> (\<exists>sec. vw_Secrets V k' (namespace C, w_resource_name r @ ''-auth'') = Some sec
            \<and> om_Annotations (sc_Meta sec) ann_revision = Some (revision_text (configuration_in E (db s') (w_user_id r))))
       \<and> (\<exists>dep. vw_Deployments V k' (namespace C, w_resource_name r) = Some dep
            \<and> dp_Replicas dep = Some (if w_desired_state r = ''running'' then 1 else 0)
            \<and> pt_Annotations (dp_Template dep) ann_nonce = Some (show_int (w_restart_nonce r))))"
proof -
  have "distinct (map w_resource_name (workspaces (db s)))" using db_invD(5) [OF inv] by (simp add: workspaces_ok_def)
  from Run_succeeds [OF eq quiet tidy this rows, of now ticks] obtain s' k' d where
    run: "Run E K C rnd now ticks (s, k) = (Inr (), (s', k'))" "db s' = fold (swept C) (now # ticks) (db s)"
    and d: "db s' = swept C (last (now # ticks)) d"
    and goals: "\<And>r. r \<in> set (workspaces (db s')) \<Longrightarrow> all_goals E V C (scanWorkspace (db s') r) (db s') k'" by blast
  have "wk_IdleTimeout (wkcfg C) > 0 \<longrightarrow> \<not> idle_row (last (now # ticks) - wk_IdleTimeout (wkcfg C)) r"
    if "r \<in> set (workspaces (db s'))" for r
    using that swept_not_idle unfolding d by blast
  moreover have "vw_PVCs V k' (namespace C, w_resource_name r) \<noteq> None
       \<and> vw_Services V k' (namespace C, w_resource_name r) \<noteq> None
       \<and> (\<exists>sec. vw_Secrets V k' (namespace C, w_resource_name r @ ''-auth'') = Some sec
            \<and> om_Annotations (sc_Meta sec) ann_revision = Some (revision_text (configuration_in E (db s') (w_user_id r))))"
    if "r \<in> set (workspaces (db s'))" for r
    using goals [OF that]
    by (auto simp: all_goals_def pvc_goal_def service_goal_def secret_goal_def scanWorkspace_def auth_name_def)
  ultimately show ?thesis using run goal_deployment [OF goals] by blast
qed

section \<open>An example\<close>

lemma map_client_answers:
  "(\<And>ob. name ob = om_Name (meta_of ob)) \<Longrightarrow> answering (map_client get put name) get meta_of"
  by (auto simp: answering_def map_client_def)

lemma demo_deployments_answer: "answering deployment_client deployment_view dp_Meta"
  by (simp add: answering_def deployment_client_def)

lemma demo_equipped: "well_equipped demo_api demo_views demo_controller"
proof -
  have "api_answers demo_api demo_views"
    by (simp add: api_answers_def demo_api_def demo_views_def map_client_answers demo_deployments_answer)
  then show ?thesis by (simp add: well_equipped_def demo_kube_ok)
qed

theorem healthy_loop_converges_witness:
  "\<exists>s' k' dep. Run demo_env demo_api demo_controller (\<lambda>_. Some ''pw'') 9 [24, 200] (demo_store, empty_cluster) = (Inr (), (s', k'))
     \<and> deployment_view k' (''ocw'', ''ws-b2'') = Some dep \<and> dp_Replicas dep = Some 0"
proof -
  have rows: "\<forall>r \<in> set (workspaces (db demo_store)). servable demo_env (\<lambda>_. Some ''pw'') (db demo_store) r"
    by (simp add: servable_def readable_def WorkspaceConfiguration_def quiet_store_def andThen_def fetch_no_faults
        uuid_arg_def demo_workspace_def ascii_lower_def)
  have tidy: "tidy demo_views empty_cluster"
    by (simp add: tidy_def well_named_def demo_views_def empty_cluster_def deployment_view_def)
  let ?r = "(demo_workspace ''b2'' ''running'')\<lparr>w_desired_state := ''stopped'', w_updated_at := 200\<rparr>"
  have r: "?r \<in> set (workspaces (fold (swept demo_controller) [9, 24, 200] demo_db))"
    by (simp add: swept_def demo_controller_def demo_config_def update_where_def idle_row_def demo_workspace_def)
  have "db_inv demo_env (db demo_store)" "faults demo_store = []" by (simp_all add: demo_db_inv)
  from healthy_loop_converges [OF demo_equipped tidy this rows, of 9 "[24, 200]"] obtain s' k' where
    run: "Run demo_env demo_api demo_controller (\<lambda>_. Some ''pw'') 9 [24, 200] (demo_store, empty_cluster) = (Inr (), (s', k'))"
    and d: "db s' = fold (swept demo_controller) [9, 24, 200] (db demo_store)"
    and deps: "\<forall>r \<in> set (workspaces (db s')). \<exists>dep. vw_Deployments demo_views k' (namespace demo_controller, w_resource_name r) = Some dep
       \<and> dp_Replicas dep = Some (if w_desired_state r = ''running'' then 1 else 0)" by blast
  from r have "?r \<in> set (workspaces (db s'))" by (simp only: d demo_store_simps)
  with deps obtain dep where "vw_Deployments demo_views k' (namespace demo_controller, w_resource_name ?r) = Some dep"
    "dp_Replicas dep = Some (if w_desired_state ?r = ''running'' then 1 else 0)" by blast
  then have "deployment_view k' (''ocw'', ''ws-b2'') = Some dep" "dp_Replicas dep = Some 0"
    by (simp_all add: demo_views_def demo_workspace_def)
  with run show ?thesis by blast
qed

end
